(* ===== verification/Prelude.thy ===== *)
theory Prelude
  imports
    Main
    "HOL-Library.Word"
    "HOL-Library.Char_ord"
    "HOL-Library.List_Lexorder"
    "HOL-Library.Sublist"
begin

text \<open>
  Shared ground of the development: the functions of Go's \<open>strings\<close>, \<open>strconv\<close>,
  \<open>encoding/hex\<close> and \<open>unicode/utf8\<close> packages that the operator calls, and the list and
  string lemmas the component theories use.

  A Go string is a sequence of bytes, and so is a \<open>string\<close> here (a \<open>char\<close> is a byte).
  \<open>ToLower\<close>, \<open>ToUpper\<close>, \<open>EqualFold\<close> and \<open>TrimSpace\<close> are Go's on ASCII text, the only
  text the operator gives them (host names, protocol lists, flag values and credential
  fields); bytes above 127 are left alone. Iterating over a string by rune is modelled on
  all byte sequences, ill-formed UTF-8 included.

  Times are nanoseconds since the Unix epoch and durations are nanoseconds, both \<open>int\<close>.
\<close>

named_theorems str_simps \<open>unfoldings of the string functions\<close>

type_synonym bytes = string
type_synonym time = int
type_synonym duration = int

abbreviation second :: duration where "second \<equiv> 1000000000"
abbreviation minute :: duration where "minute \<equiv> 60 * second"
abbreviation hour :: duration where "hour \<equiv> 60 * minute"

section \<open>Package strings\<close>

definition HasPrefix :: "string \<Rightarrow> string \<Rightarrow> bool" where
  "HasPrefix s p \<longleftrightarrow> take (length p) s = p"

definition HasSuffix :: "string \<Rightarrow> string \<Rightarrow> bool" where
  "HasSuffix s p \<longleftrightarrow> length p \<le> length s \<and> drop (length s - length p) s = p"

definition TrimSuffix :: "string \<Rightarrow> string \<Rightarrow> string" where
  "TrimSuffix s p = (if HasSuffix s p then take (length s - length p) s else s)"

primrec Contains :: "string \<Rightarrow> string \<Rightarrow> bool" where
  "Contains [] p \<longleftrightarrow> p = []"
| "Contains (c # s) p \<longleftrightarrow> HasPrefix (c # s) p \<or> Contains s p"

text \<open>\<open>Split\<close> with a separator of one byte, the only separators the operator uses.\<close>

fun Split :: "string \<Rightarrow> char \<Rightarrow> string list" where
  "Split [] d = [[]]"
| "Split (c # s) d =
     (if c = d then [] # Split s d
      else case Split s d of [] \<Rightarrow> [[c]] | w # ws \<Rightarrow> (c # w) # ws)"

fun Join :: "string list \<Rightarrow> string \<Rightarrow> string" where
  "Join [] sep = []"
| "Join [w] sep = w"
| "Join (w # ws) sep = w @ sep @ Join ws sep"

definition lower_char :: "char \<Rightarrow> char" where
  "lower_char c = (if CHR ''A'' \<le> c \<and> c \<le> CHR ''Z'' then char_of ((of_char c :: nat) + 32) else c)"

definition upper_char :: "char \<Rightarrow> char" where
  "upper_char c = (if CHR ''a'' \<le> c \<and> c \<le> CHR ''z'' then char_of ((of_char c :: nat) - 32) else c)"

definition ToLower :: "string \<Rightarrow> string" where
  "ToLower s = map lower_char s"

definition ToUpper :: "string \<Rightarrow> string" where
  "ToUpper s = map upper_char s"

definition EqualFold :: "string \<Rightarrow> string \<Rightarrow> bool" where
  "EqualFold s t \<longleftrightarrow> ToLower s = ToLower t"

definition is_space :: "char \<Rightarrow> bool" where
  "is_space c \<longleftrightarrow> c \<in> {CHR 0x09, CHR 0x0A, CHR 0x0B, CHR 0x0C, CHR 0x0D, CHR '' ''}"

definition TrimSpace :: "string \<Rightarrow> string" where
  "TrimSpace s = rev (dropWhile is_space (rev (dropWhile is_space s)))"

text \<open>\<open>TrimRight\<close> with a cutset of one byte.\<close>

definition TrimRight :: "string \<Rightarrow> char \<Rightarrow> string" where
  "TrimRight s c = rev (dropWhile (\<lambda>x. x = c) (rev s))"

text \<open>\<open>ReplaceAll s c \<close>''''\<open>\<close> for a pattern of one byte: every occurrence is removed.\<close>

definition RemoveAll :: "string \<Rightarrow> char \<Rightarrow> string" where
  "RemoveAll s c = filter (\<lambda>x. x \<noteq> c) s"

text \<open>The slice expression \<open>s[:n]\<close> guarded by \<open>len(s) > n\<close>, as the operator always writes it.\<close>

definition slice_to :: "nat \<Rightarrow> string \<Rightarrow> string" where
  "slice_to n s = (if length s > n then take n s else s)"

section \<open>Numbers as text\<close>

definition digit_char :: "nat \<Rightarrow> char" where
  "digit_char d = (if d < 10 then char_of (48 + d) else char_of (87 + d))"

fun FormatNat :: "nat \<Rightarrow> string" where
  "FormatNat n = (if n < 10 then [digit_char n] else FormatNat (n div 10) @ [digit_char (n mod 10)])"

declare FormatNat.simps [simp del]

text \<open>\<open>strconv.FormatInt(i, 10)\<close>.\<close>

definition FormatInt :: "int \<Rightarrow> string" where
  "FormatInt i = (if i < 0 then CHR ''-'' # FormatNat (nat (- i)) else FormatNat (nat i))"

text \<open>\<open>fmt.Sprintf("%08x", w)\<close> for an unsigned 32-bit \<open>w\<close>: always eight digits.\<close>

definition hex8 :: "32 word \<Rightarrow> string" where
  "hex8 w = map (\<lambda>i. digit_char ((unat w div 16 ^ (7 - i)) mod 16)) [0..<8]"

text \<open>\<open>hex.EncodeToString\<close>.\<close>

definition hex_encode :: "bytes \<Rightarrow> string" where
  "hex_encode b = concat (map (\<lambda>c. let n = (of_char c :: nat) in [digit_char (n div 16), digit_char (n mod 16)]) b)"

section \<open>Iteration over runes\<close>

definition byte_in :: "nat \<Rightarrow> nat \<Rightarrow> char \<Rightarrow> bool" where
  "byte_in lo hi c \<longleftrightarrow> lo \<le> (of_char c :: nat) \<and> (of_char c :: nat) \<le> hi"

definition cont_at :: "string \<Rightarrow> nat \<Rightarrow> bool" where
  "cont_at s i \<longleftrightarrow> i < length s \<and> byte_in 0x80 0xBF (s ! i)"

definition second_in :: "nat \<Rightarrow> nat \<Rightarrow> string \<Rightarrow> bool" where
  "second_in lo hi s \<longleftrightarrow> 1 < length s \<and> byte_in lo hi (s ! 1)"

text \<open>The width \<open>utf8.DecodeRuneInString\<close> reports; an ill-formed sequence has width one.\<close>

definition rune_width :: "string \<Rightarrow> nat" where
  "rune_width s = (case s of [] \<Rightarrow> 0 | c # _ \<Rightarrow>
     if byte_in 0x00 0x7F c then 1
     else if byte_in 0xC2 0xDF c then (if cont_at s 1 then 2 else 1)
     else if byte_in 0xE0 0xE0 c then (if second_in 0xA0 0xBF s \<and> cont_at s 2 then 3 else 1)
     else if byte_in 0xED 0xED c then (if second_in 0x80 0x9F s \<and> cont_at s 2 then 3 else 1)
     else if byte_in 0xE1 0xEF c then (if cont_at s 1 \<and> cont_at s 2 then 3 else 1)
     else if byte_in 0xF0 0xF0 c then
       (if second_in 0x90 0xBF s \<and> cont_at s 2 \<and> cont_at s 3 then 4 else 1)
     else if byte_in 0xF4 0xF4 c then
       (if second_in 0x80 0x8F s \<and> cont_at s 2 \<and> cont_at s 3 then 4 else 1)
     else if byte_in 0xF1 0xF3 c then (if cont_at s 1 \<and> cont_at s 2 \<and> cont_at s 3 then 4 else 1)
     else 1)"

lemma rune_width_pos: "s \<noteq> [] \<Longrightarrow> 0 < rune_width s"
  by (auto simp: rune_width_def split: list.splits)

text \<open>The encodings of the runes of a string, in order: what \<open>for _, r := range s\<close> visits.\<close>

function runes :: "string \<Rightarrow> string list" where
  "runes s = (if s = [] then [] else take (rune_width s) s # runes (drop (rune_width s) s))"
  by pat_completeness auto
termination
  by (relation "measure length") (auto simp: rune_width_pos)

declare runes.simps [simp del]

lemma runes_Nil [simp]: "runes [] = []"
  by (simp add: runes.simps)

section \<open>Lemmas\<close>

lemma length_slice_to [simp]: "length (slice_to n s) = min n (length s)"
  by (simp add: slice_to_def)

lemma slice_to_take: "slice_to n s = take n s"
  by (simp add: slice_to_def)

lemma set_slice_to: "set (slice_to n s) \<subseteq> set s"
  by (simp add: slice_to_take set_take_subset)

lemma eq_map_sum_iff [simp]:
  "Inr y = map_sum f g a \<longleftrightarrow> (\<exists>z. a = Inr z \<and> y = g z)"
  "Inl x = map_sum f g a \<longleftrightarrow> (\<exists>z. a = Inl z \<and> x = f z)"
  "map_sum f g a = Inr y \<longleftrightarrow> (\<exists>z. a = Inr z \<and> y = g z)"
  "map_sum f g a = Inl x \<longleftrightarrow> (\<exists>z. a = Inl z \<and> x = f z)"
  by (cases a; auto)+

lemma find_Some_mem: "List.find P xs = Some x \<Longrightarrow> P x \<and> x \<in> set xs"
  by (induction xs) (auto split: if_splits)

lemma HasPrefix_append [simp]: "HasPrefix (p @ s) p"
  by (simp add: HasPrefix_def)

lemma HasPrefix_iff: "HasPrefix s p \<longleftrightarrow> (\<exists>t. s = p @ t)"
  unfolding HasPrefix_def by (metis append_eq_conv_conj append_take_drop_id)

lemma HasPrefix_Nil [simp]: "HasPrefix s []"
  by (simp add: HasPrefix_def)

lemma Split_not_Nil [simp]: "Split s d \<noteq> []"
  by (induction s) (auto split: list.splits)

lemma Join_Cons: "ws \<noteq> [] \<Longrightarrow> Join (w # ws) sep = w @ sep @ Join ws sep"
  by (cases ws) auto

lemma Join_Split: "Join (Split s d) [d] = s"
proof (induction s)
  case (Cons c s)
  obtain w ws where ws: "Split s d = w # ws"
    by (cases "Split s d") auto
  with Cons show ?case by (cases ws) auto
qed simp

lemma Split_no_sep: "w \<in> set (Split s d) \<Longrightarrow> d \<notin> set w"
proof (induction s arbitrary: w)
  case (Cons c s)
  obtain u us where "Split s d = u # us"
    by (cases "Split s d") auto
  with Cons show ?case by (auto split: if_splits)
qed simp

lemma Split_single: "d \<notin> set w \<Longrightarrow> Split w d = [w]"
  by (induction w) auto

lemma Split_append: "d \<notin> set w \<Longrightarrow> Split (w @ d # s) d = w # Split s d"
  by (induction w) auto

lemma Split_Join:
  "ws \<noteq> [] \<Longrightarrow> \<forall>w \<in> set ws. d \<notin> set w \<Longrightarrow> Split (Join ws [d]) d = ws"
proof (induction ws)
  case (Cons w ws)
  then show ?case by (cases ws) (auto simp: Split_single Split_append)
qed simp

text \<open>Text joined by a separator that occurs in no part determines the parts.\<close>

lemma Join_inject:
  assumes "Join us [d] = Join ws [d]" and "us \<noteq> []" and "ws \<noteq> []"
    and "\<forall>w \<in> set us \<union> set ws. d \<notin> set w"
  shows "us = ws"
proof -
  have "Split (Join us [d]) d = us" and "Split (Join ws [d]) d = ws"
    using assms(2-4) by (simp_all add: Split_Join)
  with assms(1) show ?thesis by metis
qed

lemma length_TrimRight: "length (TrimRight s c) \<le> length s"
  by (simp add: TrimRight_def) (metis length_dropWhile_le length_rev)

lemma set_TrimRight: "set (TrimRight s c) \<subseteq> set s"
  by (simp add: TrimRight_def) (metis set_dropWhileD set_rev subsetI)

lemma ToLower_idem [simp]: "ToLower (ToLower s) = ToLower s"
proof -
  have "lower_char (lower_char c) = lower_char c" for c
  proof (cases "CHR ''A'' \<le> c \<and> c \<le> CHR ''Z''")
    case True
    then have "65 \<le> (of_char c :: nat)" "(of_char c :: nat) \<le> 90"
      by (auto simp: less_eq_char_def)
    then have "97 \<le> (of_char (lower_char c) :: nat)"
      using True by (simp add: lower_char_def)
    then have "\<not> lower_char c \<le> CHR ''Z''"
      by (simp add: less_eq_char_def)
    then show ?thesis by (simp add: lower_char_def [of "lower_char c"])
  next
    case False
    then have "lower_char c = c" unfolding lower_char_def by (rule if_not_P)
    then show ?thesis by simp
  qed
  then show ?thesis by (simp add: ToLower_def)
qed

lemma length_ToLower [simp]: "length (ToLower s) = length s"
  by (simp add: ToLower_def)

lemma digit_char_hex: "d < 16 \<Longrightarrow> digit_char d \<in> set ''0123456789abcdef''"
proof -
  have "\<forall>k \<in> set [0..<16]. digit_char k \<in> set ''0123456789abcdef''"
    by code_simp
  then show "d < 16 \<Longrightarrow> digit_char d \<in> set ''0123456789abcdef''" by simp
qed

text \<open>Evaluation on integers instead of unary naturals.\<close>

lemma hex8_code [code]: "hex8 w = map (\<lambda>i. digit_char (nat ((uint w div 16 ^ (7 - i)) mod 16))) [0..<8]"
proof -
  have "(unat w div 16 ^ k) mod 16 = nat ((uint w div 16 ^ k) mod 16)" for k
  proof -
    have "int ((unat w div 16 ^ k) mod 16) = (uint w div 16 ^ k) mod 16"
      by (simp only: of_nat_mod of_nat_div of_nat_power of_nat_numeral unat_eq_nat_uint) simp
    then show ?thesis by (metis nat_int)
  qed
  then show ?thesis by (simp add: hex8_def)
qed

lemma length_hex8 [simp]: "length (hex8 w) = 8"
  by (simp add: hex8_def)

lemma hex8_chars: "set (hex8 w) \<subseteq> set ''0123456789abcdef''"
proof
  fix c assume "c \<in> set (hex8 w)"
  then obtain i where "c = digit_char ((unat w div 16 ^ (7 - i)) mod 16)"
    unfolding hex8_def by auto
  then show "c \<in> set ''0123456789abcdef''" by (simp only: digit_char_hex mod_less_divisor zero_less_numeral)
qed

lemma length_hex_encode [simp]: "length (hex_encode b) = 2 * length b"
  by (induction b) (auto simp: hex_encode_def Let_def)

lemma hex_encode_chars: "set (hex_encode b) \<subseteq> set ''0123456789abcdef''"
proof
  fix c assume "c \<in> set (hex_encode b)"
  then obtain x where x: "c = digit_char ((of_char x :: nat) div 16) \<or> c = digit_char ((of_char x :: nat) mod 16)"
    unfolding hex_encode_def by (auto simp: Let_def)
  have "(of_char x :: nat) < 256" by (rule nat_of_char_less_256)
  then have "(of_char x :: nat) div 16 < 16" and "(of_char x :: nat) mod 16 < 16"
    by (auto intro: less_mult_imp_div_less)
  with x show "c \<in> set ''0123456789abcdef''" by (auto intro: digit_char_hex simp del: set_simps)
qed

end
