(* ===== verification/Errors.thy ===== *)
theory Errors
  imports Prelude
begin

text \<open>
  Go errors and the operator's two classifications of them: package \<open>aliyun\<close>
  (\<open>pkg/aliyun/errors.go\<close>), the provider errors (\<open>pkg/provider/errors.go\<close>) and the
  translation between the two (\<open>pkg/provider/internal/aliyunerr/errors.go\<close>).

  A Go error is a chain of values linked by \<open>Unwrap\<close>. \<open>gerror\<close> has one constructor per
  concrete error type the operator tells apart; \<open>errors.As\<close> and \<open>errors.Is\<close> walk the
  chain from the outside. A nil error is \<open>None\<close>. Errors of the Kubernetes client, of the
  network stack and of the Alibaba SDKs are leaves: their own text is a field, since it is
  chosen outside this program.
\<close>

section \<open>Definitions\<close>

datatype ErrClass = ClassPermanent | ClassRetryable | ClassAuth | ClassNotFound

fun ErrClass_String :: "ErrClass \<Rightarrow> string" where
  "ErrClass_String ClassRetryable = ''Retryable''"
| "ErrClass_String ClassAuth = ''Auth''"
| "ErrClass_String ClassNotFound = ''NotFound''"
| "ErrClass_String ClassPermanent = ''Permanent''"

datatype gerror =
    Plain string
  | Wrapf string gerror string
  | AliyunError ErrClass string string gerror
  | ProviderError string bool string gerror
  | CredentialsError string gerror
  | ApiNotFound string
  | ApiConflict string
  | ApiOther string
  | DeadlineExceeded
  | NetError bool string
  | DaraSDKError "string option" "int option" string
  | TeaSDKError "string option" "int option" string
  | OssServiceError string int string

text \<open>\<open>(*aliyun.Error).Error\<close>.\<close>

definition aliyun_error_text :: "ErrClass \<Rightarrow> string \<Rightarrow> string \<Rightarrow> string \<Rightarrow> string" where
  "aliyun_error_text c op code inner =
     ''aliyun '' @ op @ '': '' @ code @ '' ('' @ ErrClass_String c @ ''): '' @ inner"

text \<open>\<open>(*provider.ProviderError).Error\<close>: the wrapped error is not printed.\<close>

definition provider_error_text :: "string \<Rightarrow> bool \<Rightarrow> string \<Rightarrow> string" where
  "provider_error_text code retry reason =
     ''provider error '' @ code @ '' (retryable='' @ (if retry then ''true'' else ''false'') @
     '', reason='' @ reason @ '')''"

text \<open>The text an error prints.\<close>

primrec error_text :: "gerror \<Rightarrow> string" where
  "error_text (Plain t) = t"
| "error_text (Wrapf pre e post) = pre @ error_text e @ post"
| "error_text (AliyunError c op code e) = aliyun_error_text c op code (error_text e)"
| "error_text (ProviderError code retry reason e) = provider_error_text code retry reason"
| "error_text (CredentialsError reason e) = error_text e"
| "error_text (ApiNotFound t) = t"
| "error_text (ApiConflict t) = t"
| "error_text (ApiOther t) = t"
| "error_text DeadlineExceeded = ''context deadline exceeded''"
| "error_text (NetError timeout t) = t"
| "error_text (DaraSDKError code status t) = t"
| "error_text (TeaSDKError code status t) = t"
| "error_text (OssServiceError code status t) = t"

fun Unwrap :: "gerror \<Rightarrow> gerror option" where
  "Unwrap (Wrapf pre e post) = Some e"
| "Unwrap (AliyunError c op code e) = Some e"
| "Unwrap (ProviderError code retry reason e) = Some e"
| "Unwrap (CredentialsError reason e) = Some e"
| "Unwrap e = None"

text \<open>\<open>errors.As\<close> at each target type: the first value of the chain that has it.\<close>

fun as_aliyun :: "gerror \<Rightarrow> (ErrClass \<times> string) option" where
  "as_aliyun (AliyunError c op code e) = Some (c, code)"
| "as_aliyun (Wrapf pre e post) = as_aliyun e"
| "as_aliyun (ProviderError code retry reason e) = as_aliyun e"
| "as_aliyun (CredentialsError reason e) = as_aliyun e"
| "as_aliyun e = None"

fun ErrorOf :: "gerror \<Rightarrow> (string \<times> bool \<times> string) option" where
  "ErrorOf (ProviderError code retry reason e) = Some (code, retry, reason)"
| "ErrorOf (Wrapf pre e post) = ErrorOf e"
| "ErrorOf (AliyunError c op code e) = ErrorOf e"
| "ErrorOf (CredentialsError reason e) = ErrorOf e"
| "ErrorOf e = None"

text \<open>For a \<open>credentialsError\<close> the reason and the text, both of which the controllers read.\<close>

fun as_credentials :: "gerror \<Rightarrow> (string \<times> string) option" where
  "as_credentials (CredentialsError reason e) = Some (reason, error_text e)"
| "as_credentials (Wrapf pre e post) = as_credentials e"
| "as_credentials (AliyunError c op code e) = as_credentials e"
| "as_credentials (ProviderError code retry reason e) = as_credentials e"
| "as_credentials e = None"

fun is_deadline :: "gerror \<Rightarrow> bool" where
  "is_deadline DeadlineExceeded = True"
| "is_deadline (Wrapf pre e post) = is_deadline e"
| "is_deadline (AliyunError c op code e) = is_deadline e"
| "is_deadline (ProviderError code retry reason e) = is_deadline e"
| "is_deadline (CredentialsError reason e) = is_deadline e"
| "is_deadline e = False"

fun as_net :: "gerror \<Rightarrow> bool option" where
  "as_net (NetError timeout t) = Some timeout"
| "as_net DeadlineExceeded = Some True"
| "as_net (Wrapf pre e post) = as_net e"
| "as_net (AliyunError c op code e) = as_net e"
| "as_net (ProviderError code retry reason e) = as_net e"
| "as_net (CredentialsError reason e) = as_net e"
| "as_net e = None"

fun as_dara :: "gerror \<Rightarrow> (string option \<times> int option) option" where
  "as_dara (DaraSDKError code status t) = Some (code, status)"
| "as_dara (Wrapf pre e post) = as_dara e"
| "as_dara (AliyunError c op code e) = as_dara e"
| "as_dara (ProviderError code retry reason e) = as_dara e"
| "as_dara (CredentialsError reason e) = as_dara e"
| "as_dara e = None"

fun as_tea :: "gerror \<Rightarrow> (string option \<times> int option) option" where
  "as_tea (TeaSDKError code status t) = Some (code, status)"
| "as_tea (Wrapf pre e post) = as_tea e"
| "as_tea (AliyunError c op code e) = as_tea e"
| "as_tea (ProviderError code retry reason e) = as_tea e"
| "as_tea (CredentialsError reason e) = as_tea e"
| "as_tea e = None"

fun as_oss :: "gerror \<Rightarrow> (string \<times> int) option" where
  "as_oss (OssServiceError code status t) = Some (code, status)"
| "as_oss (Wrapf pre e post) = as_oss e"
| "as_oss (AliyunError c op code e) = as_oss e"
| "as_oss (ProviderError code retry reason e) = as_oss e"
| "as_oss (CredentialsError reason e) = as_oss e"
| "as_oss e = None"

fun IsNotFound :: "gerror \<Rightarrow> bool" where
  "IsNotFound (ApiNotFound t) = True"
| "IsNotFound (Wrapf pre e post) = IsNotFound e"
| "IsNotFound (AliyunError c op code e) = IsNotFound e"
| "IsNotFound (ProviderError code retry reason e) = IsNotFound e"
| "IsNotFound (CredentialsError reason e) = IsNotFound e"
| "IsNotFound e = False"

definition IgnoreNotFound :: "gerror option \<Rightarrow> gerror option" where
  "IgnoreNotFound err = (case err of None \<Rightarrow> None | Some e \<Rightarrow> if IsNotFound e then None else Some e)"

subsection \<open>Package aliyun\<close>

abbreviation CodeEmptyResponse :: string where "CodeEmptyResponse \<equiv> ''EmptyResponse''"

definition ClassOf :: "gerror \<Rightarrow> ErrClass" where
  "ClassOf err = (case as_aliyun err of Some (c, code) \<Rightarrow> c | None \<Rightarrow> ClassPermanent)"

definition classifyCode :: "string \<Rightarrow> int \<Rightarrow> ErrClass" where
  "classifyCode code status =
     (if HasPrefix code ''Throttling''
         \<or> code = ''ServiceUnavailable''
         \<or> code = ''InternalError''
         \<or> HasPrefix code ''ServiceUnavailable''
         \<or> status = 429
         \<or> 500 \<le> status then ClassRetryable
      else if HasPrefix code ''InvalidAccessKeyId''
         \<or> code = ''SignatureDoesNotMatch''
         \<or> HasPrefix code ''Forbidden''
         \<or> HasPrefix code ''NoPermission''
         \<or> code = ''InvalidSecurityToken.Expired''
         \<or> status = 401 \<or> status = 403 then ClassAuth
      else if Contains code ''NotExist''
         \<or> Contains code ''NotFound''
         \<or> status = 404 then ClassNotFound
      else ClassPermanent)"

text \<open>The text kept of an SDK error: its code and its status.\<close>

definition safe_sdk_text :: "string \<Rightarrow> int \<Rightarrow> string" where
  "safe_sdk_text code status = ''sdk error code='' @ code @ '' status='' @ FormatInt status"

definition fromSDKError :: "string \<Rightarrow> string option \<Rightarrow> int option \<Rightarrow> gerror" where
  "fromSDKError op codePtr statusPtr =
     (let code = (case codePtr of Some c \<Rightarrow> c | None \<Rightarrow> []);
          status = (case statusPtr of Some n \<Rightarrow> n | None \<Rightarrow> 0);
          safe = Plain (safe_sdk_text code status)
      in AliyunError (classifyCode code status) op code safe)"

definition Classify :: "string \<Rightarrow> gerror option \<Rightarrow> gerror option" where
  "Classify op err = (case err of None \<Rightarrow> None | Some e \<Rightarrow> Some (
     if as_aliyun e \<noteq> None then e
     else if is_deadline e then AliyunError ClassRetryable op ''Timeout'' e
     else case as_net e of
       Some timeout \<Rightarrow>
         if timeout then AliyunError ClassRetryable op ''NetTimeout'' e
         else AliyunError ClassRetryable op ''NetError'' e
     | None \<Rightarrow>
         case as_dara e of
           Some (code, status) \<Rightarrow> fromSDKError op code status
         | None \<Rightarrow>
             case as_tea e of
               Some (code, status) \<Rightarrow> fromSDKError op code status
             | None \<Rightarrow> AliyunError ClassPermanent op ''Unknown'' e))"

text \<open>\<open>callCode\<close> of \<open>cas_sdk.go\<close>: the bounded label of a call's result.\<close>

definition callCode :: "gerror option \<Rightarrow> string" where
  "callCode err = (case err of None \<Rightarrow> ''OK'' | Some e \<Rightarrow>
     (case as_aliyun e of
        Some (c, code) \<Rightarrow> if code \<noteq> [] then code else ''Unknown''
      | None \<Rightarrow> ''Unknown''))"

subsection \<open>Package provider\<close>

abbreviation CodeTargetNotFound :: string where "CodeTargetNotFound \<equiv> ''TargetNotFound''"
abbreviation CodeAuth :: string where "CodeAuth \<equiv> ''Auth''"
abbreviation CodeThrottled :: string where "CodeThrottled \<equiv> ''Throttled''"
abbreviation CodeRetryable :: string where "CodeRetryable \<equiv> ''Retryable''"
abbreviation CodePermanent :: string where "CodePermanent \<equiv> ''Permanent''"
abbreviation CodeInvalidClient :: string where "CodeInvalidClient \<equiv> ''InvalidClient''"
abbreviation CodeInvalidTarget :: string where "CodeInvalidTarget \<equiv> ''InvalidTarget''"

definition Errorf :: "string \<Rightarrow> bool \<Rightarrow> string \<Rightarrow> gerror \<Rightarrow> gerror" where
  "Errorf code retryable reason err = ProviderError code retryable reason err"

definition isThrottling :: "string \<Rightarrow> bool" where
  "isThrottling code \<longleftrightarrow> HasPrefix code ''Throttling''"

text \<open>The reasons \<open>TargetNotFound\<close>, \<open>CredentialsInvalid\<close> and \<open>Throttled\<close> are the
  constants of \<open>api/v1alpha1/conditions.go\<close>.\<close>

definition ToProviderError :: "string \<Rightarrow> gerror option \<Rightarrow> string \<Rightarrow> gerror option" where
  "ToProviderError op err failReason = (case err of None \<Rightarrow> None | Some e \<Rightarrow>
     let ae = as_aliyun e;
         withOp = (\<lambda>x. case ae of
             Some (c, code) \<Rightarrow> Wrapf (op @ ''['' @ code @ '']: '') x []
           | None \<Rightarrow> Wrapf (op @ '': '') x [])
     in Some (case ClassOf e of
          ClassNotFound \<Rightarrow> withOp (Errorf CodeTargetNotFound False ''TargetNotFound'' e)
        | ClassAuth \<Rightarrow> withOp (Errorf CodeAuth False ''CredentialsInvalid'' e)
        | ClassRetryable \<Rightarrow>
            (if (case ae of Some (c, code) \<Rightarrow> isThrottling code | None \<Rightarrow> False)
             then withOp (Errorf CodeThrottled True ''Throttled'' e)
             else withOp (Errorf CodeRetryable True failReason e))
        | ClassPermanent \<Rightarrow> withOp (Errorf CodePermanent False failReason e)))"

definition SwallowNotFound :: "gerror option \<Rightarrow> gerror option" where
  "SwallowNotFound err = (case err of None \<Rightarrow> None | Some e \<Rightarrow>
     (case ErrorOf e of
        Some (code, retry, reason) \<Rightarrow> if code = CodeTargetNotFound then None else Some e
      | None \<Rightarrow> Some e))"

section \<open>Lemmas\<close>

lemma as_aliyun_fromSDKError [simp]:
  "as_aliyun (fromSDKError op c s) =
     Some (classifyCode (case c of Some c \<Rightarrow> c | None \<Rightarrow> []) (case s of Some n \<Rightarrow> n | None \<Rightarrow> 0),
       case c of Some c \<Rightarrow> c | None \<Rightarrow> [])"
  by (simp add: fromSDKError_def Let_def)

lemma Classify_None [simp]: "Classify op None = None"
  by (simp add: Classify_def)

lemma Classify_eq_None [simp]: "Classify op err = None \<longleftrightarrow> err = None"
  by (simp add: Classify_def split: option.splits)

lemma Classify_as_aliyun:
  assumes "Classify op (Some e) = Some e'"
  shows "as_aliyun e' \<noteq> None"
  using assms by (auto simp: Classify_def split: if_splits option.splits prod.splits)

lemma ToProviderError_None [simp]: "ToProviderError op None r = None"
  by (simp add: ToProviderError_def)

lemma ErrorOf_ToProviderError:
  assumes "ToProviderError op (Some e) r = Some e'"
  shows "ErrorOf e' = Some
    (case ClassOf e of
       ClassNotFound \<Rightarrow> (CodeTargetNotFound, False, ''TargetNotFound'')
     | ClassAuth \<Rightarrow> (CodeAuth, False, ''CredentialsInvalid'')
     | ClassRetryable \<Rightarrow>
         (if (\<exists>c code. as_aliyun e = Some (c, code) \<and> isThrottling code)
          then (CodeThrottled, True, ''Throttled'') else (CodeRetryable, True, r))
     | ClassPermanent \<Rightarrow> (CodePermanent, False, r))"
  using assms
  by (auto simp: ToProviderError_def Let_def Errorf_def
      split: ErrClass.splits option.splits prod.splits if_splits)

lemma ToProviderError_Some: "\<exists>e'. ToProviderError op (Some e) r = Some e'"
  by (simp add: ToProviderError_def Let_def)

lemma ToProviderError_form:
  "\<exists>c b rs. ToProviderError op (Some e) r =
     Some (Wrapf (case as_aliyun e of Some (k, cd) \<Rightarrow> op @ ''['' @ cd @ '']: '' | None \<Rightarrow> op @ '': '')
       (ProviderError c b rs e) [])"
  unfolding ToProviderError_def Let_def Errorf_def
  by (cases "as_aliyun e"; cases "ClassOf e") auto

text \<open>
  Unbinding treats a vanished target as done: translating a cloud error and then
  swallowing NotFound yields success exactly when the error's class is NotFound.
\<close>

lemma SwallowNotFound_iff:
  "SwallowNotFound (ToProviderError op (Some e) r) = None \<longleftrightarrow> ClassOf e = ClassNotFound"
proof -
  obtain e' where e': "ToProviderError op (Some e) r = Some e'"
    using ToProviderError_Some by blast
  from ErrorOf_ToProviderError [OF e'] show ?thesis
    unfolding e' by (cases "ClassOf e") (auto simp: SwallowNotFound_def split: if_splits)
qed

section \<open>Properties\<close>

text \<open>
  Classification is idempotent: an error that has already been classified passes
  through a second \<open>Classify\<close> unchanged, whatever the operation name, so a layer can
  classify without knowing whether a lower one did.
\<close>

lemma Classify_idem: "Classify op2 (Classify op1 err) = Classify op1 err"
proof (cases err)
  case (Some e)
  obtain e' where e': "Classify op1 (Some e) = Some e'"
    by (cases "Classify op1 (Some e)") simp_all
  then have "as_aliyun e' \<noteq> None" by (rule Classify_as_aliyun)
  with e' Some show ?thesis by (simp add: Classify_def [of op2])
qed simp

text \<open>
  C40. Nothing of an SDK error but its code and its status survives classification: an
  error whose chain holds an SDK error (and no classified or network error) becomes a
  classified error whose whole text is made of the operation, the code, the class and the
  status. The SDK's message, which may echo the request body with the private key, is gone.
\<close>

theorem Classify_redacts_sdk:
  assumes "as_aliyun e = None" and "\<not> is_deadline e" and "as_net e = None"
    and "as_dara e = Some (codePtr, statusPtr) \<or> (as_dara e = None \<and> as_tea e = Some (codePtr, statusPtr))"
    and "code = (case codePtr of Some c \<Rightarrow> c | None \<Rightarrow> [])"
    and "status = (case statusPtr of Some n \<Rightarrow> n | None \<Rightarrow> 0)"
  shows "\<exists>e'. Classify op (Some e) = Some e' \<and> Unwrap e' = Some (Plain (safe_sdk_text code status)) \<and>
    error_text e' = aliyun_error_text (classifyCode code status) op code (safe_sdk_text code status)"
proof -
  have "Classify op (Some e) = Some (fromSDKError op codePtr statusPtr)"
    using assms(1-4) by (auto simp: Classify_def)
  then show ?thesis
    using assms(5,6) by (simp add: fromSDKError_def Let_def)
qed

theorem Classify_redacts_sdk_witness:
  "\<exists>e'. Classify ''Upload'' (Some (Wrapf ''call: '' (TeaSDKError (Some ''NameRepeat'') (Some 400) ''key=MIIEow'') []))
      = Some e' \<and> Unwrap e' = Some (Plain (safe_sdk_text ''NameRepeat'' 400)) \<and>
    error_text e' = aliyun_error_text (classifyCode ''NameRepeat'' 400) ''Upload'' ''NameRepeat''
      (safe_sdk_text ''NameRepeat'' 400)"
  by (rule Classify_redacts_sdk [where codePtr = "Some ''NameRepeat''" and statusPtr = "Some 400"]) simp_all

text \<open>
  C39. The class of a cloud error decides what the controllers see: a missing target for NotFound,
  an authentication failure for Auth, throttling for a Retryable error whose cloud code begins
  with Throttling and a plain retryable failure for the others, a permanent failure for the
  rest; code, retryability and reason are those of the table, where only the last two use the
  reason of the caller. An unbind takes exactly NotFound for success. The text shows only the
  operation, the cloud's code and these three fields: the text of the error it wraps does not
  occur in it.
\<close>

theorem ToProviderError_contract:
  "\<exists>e' code retry reason.
     ToProviderError op (Some e) failReason = Some e' \<and> ErrorOf e' = Some (code, retry, reason) \<and>
     (code, retry, reason) = (case ClassOf e of
         ClassNotFound \<Rightarrow> (CodeTargetNotFound, False, ''TargetNotFound'')
       | ClassAuth \<Rightarrow> (CodeAuth, False, ''CredentialsInvalid'')
       | ClassRetryable \<Rightarrow>
           if \<exists>c cd. as_aliyun e = Some (c, cd) \<and> HasPrefix cd ''Throttling'' then (CodeThrottled, True, ''Throttled'')
           else (CodeRetryable, True, failReason)
       | ClassPermanent \<Rightarrow> (CodePermanent, False, failReason)) \<and>
     (SwallowNotFound (Some e') = None \<longleftrightarrow> ClassOf e = ClassNotFound) \<and>
     error_text e' = (case as_aliyun e of Some (c, cd) \<Rightarrow> op @ ''['' @ cd @ '']: '' | None \<Rightarrow> op @ '': '') @
       provider_error_text code retry reason"
proof -
  obtain e' where e': "ToProviderError op (Some e) failReason = Some e'"
    using ToProviderError_Some by blast
  obtain t where t: "ErrorOf e' = Some t"
    using ErrorOf_ToProviderError [OF e'] by (rule that)
  obtain code retry reason where "t = (code, retry, reason)" by (cases t)
  with t have er: "ErrorOf e' = Some (code, retry, reason)" by simp
  have "error_text e' = (case as_aliyun e of Some (c, cd) \<Rightarrow> op @ ''['' @ cd @ '']: '' | None \<Rightarrow> op @ '': '') @
       provider_error_text code retry reason"
    using ToProviderError_form [of op e failReason] er unfolding e' by auto
  moreover have "SwallowNotFound (Some e') = None \<longleftrightarrow> ClassOf e = ClassNotFound"
    using SwallowNotFound_iff [of op e failReason] unfolding e' .
  moreover note ErrorOf_ToProviderError [OF e', unfolded er isThrottling_def option.inject]
  ultimately show ?thesis
    by (intro exI [of _ e'] exI [of _ code] exI [of _ retry] exI [of _ reason] conjI e' er)
qed

end
