(* ===== verification/Api_Types.thy ===== *)
theory Api_Types
  imports Errors
begin

text \<open>
  The API types of \<open>api/v1alpha1\<close> (\<open>AliyunCertificate\<close>, \<open>AliyunCertificateBinding\<close> and
  their parts) with their accessors, and the fields the operator reads of the objects of
  other groups: \<open>corev1.Secret\<close> and cert-manager's \<open>Certificate\<close>.

  An optional pointer field is an \<open>option\<close>. Go maps that are only looked up or extended
  (labels, annotations, Secret data) are association lists. Third-party structs that are
  only copied are values of \<open>opaque\<close>. The text of a condition message is not ASCII; a
  message is the tag of the text with its arguments, so that two messages are equal exactly
  when the code builds the same text from the same arguments.
\<close>

section \<open>Constants of conditions.go\<close>

abbreviation ConditionReady :: string where "ConditionReady \<equiv> ''Ready''"
abbreviation ConditionIssued :: string where "ConditionIssued \<equiv> ''Issued''"
abbreviation ConditionUploaded :: string where "ConditionUploaded \<equiv> ''Uploaded''"
abbreviation ConditionIssuerDefaultDiverged :: string where "ConditionIssuerDefaultDiverged \<equiv> ''IssuerDefaultDiverged''"
abbreviation ConditionApplied :: string where "ConditionApplied \<equiv> ''Applied''"
abbreviation ConditionConflict :: string where "ConditionConflict \<equiv> ''Conflict''"

abbreviation ReasonNoIssuer :: string where "ReasonNoIssuer \<equiv> ''NoIssuer''"
abbreviation ReasonIssuerDefaultDiverged :: string where "ReasonIssuerDefaultDiverged \<equiv> ''IssuerDefaultDiverged''"
abbreviation ReasonSecretNameConflict :: string where "ReasonSecretNameConflict \<equiv> ''SecretNameConflict''"
abbreviation ReasonCertificateNotReady :: string where "ReasonCertificateNotReady \<equiv> ''CertificateNotReady''"
abbreviation ReasonIssuanceStalled :: string where "ReasonIssuanceStalled \<equiv> ''IssuanceStalled''"
abbreviation ReasonSecretNotFound :: string where "ReasonSecretNotFound \<equiv> ''SecretNotFound''"
abbreviation ReasonSecretInvalid :: string where "ReasonSecretInvalid \<equiv> ''SecretInvalid''"
abbreviation ReasonSelfSignedDuringIssuance :: string where "ReasonSelfSignedDuringIssuance \<equiv> ''SelfSignedDuringIssuance''"
abbreviation ReasonSANsMismatch :: string where "ReasonSANsMismatch \<equiv> ''SANsMismatch''"
abbreviation ReasonCredentialsNotFound :: string where "ReasonCredentialsNotFound \<equiv> ''CredentialsSecretNotFound''"
abbreviation ReasonCredentialsInvalid :: string where "ReasonCredentialsInvalid \<equiv> ''CredentialsInvalid''"
abbreviation ReasonUploadFailed :: string where "ReasonUploadFailed \<equiv> ''UploadFailed''"
abbreviation ReasonThrottled :: string where "ReasonThrottled \<equiv> ''Throttled''"
abbreviation ReasonDeletionBlocked :: string where "ReasonDeletionBlocked \<equiv> ''DeletionBlockedByBindings''"
abbreviation ReasonCleanupFailed :: string where "ReasonCleanupFailed \<equiv> ''CleanupFailed''"
abbreviation ReasonCleanupAbandoned :: string where "ReasonCleanupAbandoned \<equiv> ''CleanupAbandoned''"
abbreviation ReasonUploadDisabled :: string where "ReasonUploadDisabled \<equiv> ''UploadDisabled''"
abbreviation ReasonReady :: string where "ReasonReady \<equiv> ''Ready''"

abbreviation ReasonCertificateNotFound :: string where "ReasonCertificateNotFound \<equiv> ''CertificateNotFound''"
abbreviation ReasonTargetNotFound :: string where "ReasonTargetNotFound \<equiv> ''TargetNotFound''"
abbreviation ReasonDomainNotCovered :: string where "ReasonDomainNotCovered \<equiv> ''DomainNotCovered''"
abbreviation ReasonCASUploadRequired :: string where "ReasonCASUploadRequired \<equiv> ''CASUploadRequired''"
abbreviation ReasonConflictingBinding :: string where "ReasonConflictingBinding \<equiv> ''ConflictingBinding''"
abbreviation ReasonNoConflict :: string where "ReasonNoConflict \<equiv> ''NoConflict''"
abbreviation ReasonAccountMismatch :: string where "ReasonAccountMismatch \<equiv> ''AccountMismatch''"
abbreviation ReasonApplyFailed :: string where "ReasonApplyFailed \<equiv> ''ApplyFailed''"
abbreviation ReasonObserveFailed :: string where "ReasonObserveFailed \<equiv> ''ObserveFailed''"
abbreviation ReasonDriftCorrected :: string where "ReasonDriftCorrected \<equiv> ''DriftCorrected''"
abbreviation ReasonApplied :: string where "ReasonApplied \<equiv> ''Applied''"

abbreviation FinalizerName :: string where "FinalizerName \<equiv> ''certs.bestheme.ac.cn/finalizer''"
abbreviation LabelManaged :: string where "LabelManaged \<equiv> ''certs.bestheme.ac.cn/managed''"

section \<open>Objects of other groups\<close>

datatype opaque = Opaque string

datatype message = NoMsg | Msg string "string list" | MsgErr string string

datatype ConditionStatus = ConditionTrue | ConditionFalse | ConditionUnknown

record condition =
  c_Type :: string
  c_Status :: ConditionStatus
  c_Reason :: string
  c_Message :: message
  c_ObservedGeneration :: int
  c_LastTransitionTime :: "time option"

record secret =
  s_Namespace :: string
  s_Name :: string
  s_ResourceVersion :: string
  s_Annotations :: "(string \<times> string) list"
  s_Data :: "(string \<times> bytes) list"

text \<open>An index expression on a Go map of strings: the zero value for a missing key.\<close>

definition map_index :: "(string \<times> string) list \<Rightarrow> string \<Rightarrow> string" where
  "map_index m k = (case map_of m k of Some v \<Rightarrow> v | None \<Rightarrow> [])"

record IssuerReference =
  ir_Name :: string
  ir_Kind :: string
  ir_Group :: string

record CertificatePrivateKey =
  pk_Encoding :: string
  pk_Rest :: opaque

record CertificateSecretTemplate =
  st_Labels :: "(string \<times> string) list"
  st_Annotations :: "(string \<times> string) list"

record CertificateSpec =
  cs_SecretName :: string
  cs_IssuerRef :: IssuerReference
  cs_CommonName :: string
  cs_DNSNames :: "string list"
  cs_IPAddresses :: "string list"
  cs_Duration :: "duration option"
  cs_RenewBefore :: "duration option"
  cs_Subject :: "opaque option"
  cs_Usages :: "string list"
  cs_PrivateKey :: "CertificatePrivateKey option"
  cs_SecretTemplate :: "CertificateSecretTemplate option"

record CertificateCondition =
  cc_Type :: string
  cc_Status :: ConditionStatus
  cc_LastTransitionTime :: "time option"

record certificate =
  cm_Namespace :: string
  cm_Name :: string
  cm_Labels :: "(string \<times> string) list"
  cm_DeletionTimestamp :: "time option"
  cm_OwnerUID :: "string option"
  cm_Spec :: CertificateSpec
  cm_Conditions :: "CertificateCondition list"
  cm_Revision :: "int option"
  cm_RenewalTime :: "time option"
  cm_FailedIssuanceAttempts :: "int option"
  cm_LastFailureTime :: "time option"

section \<open>AliyunCertificate\<close>

record CertificateTemplate =
  t_IssuerRef :: "IssuerReference option"
  t_CommonName :: string
  t_DNSNames :: "string list"
  t_IPAddresses :: "string list"
  t_Duration :: "duration option"
  t_RenewBefore :: "duration option"
  t_Subject :: "opaque option"
  t_Usages :: "string list"
  t_PrivateKey :: "CertificatePrivateKey option"
  t_SecretTemplate :: "CertificateSecretTemplate option"

record AliyunSpec =
  a_CredentialsRef :: string
  a_Region :: string
  a_CASRegion :: string
  a_EndpointOverride :: string
  a_ResourceGroupID :: string
  a_UploadToCAS :: "bool option"

record RetentionSpec =
  r_KeepLast :: int
  r_MinAge :: "duration option"

record AliyunCertificateSpec =
  sp_SecretName :: string
  sp_CertificateTemplate :: CertificateTemplate
  sp_Aliyun :: AliyunSpec
  sp_Retention :: RetentionSpec

record CertificateGeneration =
  g_Fingerprint :: string
  g_CertID :: "int option"
  g_CASName :: string
  g_NotBefore :: time
  g_NotAfter :: time
  g_UploadedAt :: time

record PendingUpload =
  p_Fingerprint :: string
  p_CASName :: string
  p_ClientToken :: string
  p_StartedAt :: time
  p_DomainHint :: string

record IssuanceStatus =
  i_Revision :: "int option"
  i_RenewalTime :: "time option"
  i_FailedIssuanceAttempts :: "int option"
  i_LastFailureTime :: "time option"

record AliyunCertificateStatus =
  x_ObservedGeneration :: int
  x_EffectiveIssuerRef :: "IssuerReference option"
  x_SecretName :: string
  x_CertManagerCertificateName :: string
  x_Issuance :: "IssuanceStatus option"
  x_Current :: "CertificateGeneration option"
  x_History :: "CertificateGeneration list"
  x_PendingUpload :: "PendingUpload option"
  x_CASProbedAt :: "time option"
  x_CleanupStartedAt :: "time option"
  x_Conditions :: "condition list"

record AliyunCertificate =
  ac_Namespace :: string
  ac_Name :: string
  ac_UID :: string
  ac_Generation :: int
  ac_DeletionTimestamp :: "time option"
  ac_Finalizers :: "string list"
  ac_Spec :: AliyunCertificateSpec
  ac_Status :: AliyunCertificateStatus

definition UploadEnabled :: "AliyunSpec \<Rightarrow> bool" where
  "UploadEnabled a \<longleftrightarrow> a_UploadToCAS a = None \<or> a_UploadToCAS a = Some True"

definition EffectiveCASRegion :: "AliyunSpec \<Rightarrow> string" where
  "EffectiveCASRegion a = (if a_CASRegion a \<noteq> [] then a_CASRegion a else a_Region a)"

abbreviation defaultMinAge :: duration where "defaultMinAge \<equiv> 24 * hour"

definition MinAgeOrDefault :: "RetentionSpec \<Rightarrow> duration" where
  "MinAgeOrDefault r = (case r_MinAge r of None \<Rightarrow> defaultMinAge | Some d \<Rightarrow> d)"

definition KeepLastOrDefault :: "RetentionSpec \<Rightarrow> int" where
  "KeepLastOrDefault r = (if r_KeepLast r < 1 then 2 else r_KeepLast r)"

section \<open>AliyunCertificateBinding\<close>

abbreviation DeletionPolicyOrphan :: string where "DeletionPolicyOrphan \<equiv> ''Orphan''"
abbreviation DeletionPolicyUnbind :: string where "DeletionPolicyUnbind \<equiv> ''Unbind''"
abbreviation TargetTypeFC3CustomDomain :: string where "TargetTypeFC3CustomDomain \<equiv> ''FC3CustomDomain''"
abbreviation TargetTypeOSSCustomDomain :: string where "TargetTypeOSSCustomDomain \<equiv> ''OSSCustomDomain''"

record FC3CustomDomainTarget =
  fc_Region :: string
  fc_DomainName :: string
  fc_EnsureHTTPSProtocol :: bool

record OSSCustomDomainTarget =
  oss_Region :: string
  oss_Bucket :: string
  oss_DomainName :: string

record BindingTarget =
  bt_Type :: string
  bt_FC3CustomDomain :: "FC3CustomDomainTarget option"
  bt_OSSCustomDomain :: "OSSCustomDomainTarget option"

record AliyunCertificateBindingSpec =
  bs_CertificateRef :: string
  bs_Target :: BindingTarget
  bs_CredentialsRef :: "string option"
  bs_DeletionPolicy :: string

record AliyunCertificateBindingStatus =
  bx_ObservedGeneration :: int
  bx_AppliedFingerprint :: string
  bx_DriftedFingerprint :: string
  bx_AppliedCertRef :: string
  bx_DriftedCertRef :: string
  bx_LastAppliedTime :: "time option"
  bx_LastObservedTime :: "time option"
  bx_BoundAccountID :: string
  bx_CleanupStartedAt :: "time option"
  bx_Conditions :: "condition list"

record AliyunCertificateBinding =
  b_Namespace :: string
  b_Name :: string
  b_UID :: string
  b_Generation :: int
  b_CreationTimestamp :: time
  b_DeletionTimestamp :: "time option"
  b_Finalizers :: "string list"
  b_Spec :: AliyunCertificateBindingSpec
  b_Status :: AliyunCertificateBindingStatus

definition TargetKey :: "AliyunCertificateBinding \<Rightarrow> string" where
  "TargetKey b = (let t = bs_Target (b_Spec b) in
     if bt_Type t = TargetTypeFC3CustomDomain then
       (case bt_FC3CustomDomain t of None \<Rightarrow> []
        | Some fc \<Rightarrow> bt_Type t @ ''/'' @ fc_Region fc @ ''/'' @ fc_DomainName fc)
     else if bt_Type t = TargetTypeOSSCustomDomain then
       (case bt_OSSCustomDomain t of None \<Rightarrow> []
        | Some o' \<Rightarrow> bt_Type t @ ''/'' @ oss_Region o' @ ''/'' @ oss_Bucket o' @ ''/'' @ oss_DomainName o')
     else [])"

text \<open>What a target names in the cloud: the resource two Bindings would fight over.\<close>

datatype cloud_target = FC3Domain string string | OSSCname string string string

definition cloud_target_of :: "BindingTarget \<Rightarrow> cloud_target option" where
  "cloud_target_of t =
     (if bt_Type t = TargetTypeFC3CustomDomain then
        map_option (\<lambda>fc. FC3Domain (fc_Region fc) (fc_DomainName fc)) (bt_FC3CustomDomain t)
      else if bt_Type t = TargetTypeOSSCustomDomain then
        map_option (\<lambda>o'. OSSCname (oss_Region o') (oss_Bucket o') (oss_DomainName o')) (bt_OSSCustomDomain t)
      else None)"

fun no_slash :: "cloud_target \<Rightarrow> bool" where
  "no_slash (FC3Domain r d) \<longleftrightarrow> CHR ''/'' \<notin> set r \<and> CHR ''/'' \<notin> set d"
| "no_slash (OSSCname r b d) \<longleftrightarrow> CHR ''/'' \<notin> set r \<and> CHR ''/'' \<notin> set b \<and> CHR ''/'' \<notin> set d"

section \<open>Lemmas\<close>

fun target_parts :: "cloud_target \<Rightarrow> string list" where
  "target_parts (FC3Domain r d) = [TargetTypeFC3CustomDomain, r, d]"
| "target_parts (OSSCname r b d) = [TargetTypeOSSCustomDomain, r, b, d]"

lemma target_parts_inject: "target_parts x = target_parts y \<longleftrightarrow> x = y"
  by (cases x; cases y) auto

lemma TargetKey_parts:
  "TargetKey b = (case cloud_target_of (bs_Target (b_Spec b)) of
     None \<Rightarrow> [] | Some x \<Rightarrow> Join (target_parts x) ''/'')"
  by (auto simp: TargetKey_def cloud_target_of_def Let_def split: option.splits)

lemma target_parts_no_slash: "no_slash x \<Longrightarrow> w \<in> set (target_parts x) \<Longrightarrow> CHR ''/'' \<notin> set w"
  by (cases x) auto

lemma Join_target_parts_not_Nil: "Join (target_parts x) ''/'' \<noteq> []"
  by (cases x) auto

lemma TargetKey_eq_Nil: "TargetKey b = [] \<longleftrightarrow> cloud_target_of (bs_Target (b_Spec b)) = None"
  by (auto simp: TargetKey_parts Join_target_parts_not_Nil split: option.splits)

section \<open>Properties\<close>

text \<open>
  The index key of a Binding names its cloud resource and nothing else: for regions,
  buckets and domains without a slash, two Bindings have the same non-empty key exactly
  when they point at the same resource, so arbitration neither merges unrelated targets nor
  misses a conflict; a Binding whose target block is missing has the empty key, which the
  index skips.
\<close>

lemma TargetKey_faithful:
  assumes "cloud_target_of (bs_Target (b_Spec a)) = Some x"
    and "\<forall>y \<in> {x} \<union> set_option (cloud_target_of (bs_Target (b_Spec b))). no_slash y"
  shows "TargetKey a \<noteq> [] \<and>
    (TargetKey a = TargetKey b \<longleftrightarrow> cloud_target_of (bs_Target (b_Spec b)) = Some x)"
proof (cases "cloud_target_of (bs_Target (b_Spec b))")
  case None
  with assms(1) show ?thesis by (simp add: TargetKey_parts Join_target_parts_not_Nil)
next
  case (Some y)
  have "Join (target_parts x) ''/'' = Join (target_parts y) ''/'' \<longleftrightarrow> target_parts x = target_parts y"
  proof
    assume "Join (target_parts x) ''/'' = Join (target_parts y) ''/''"
    moreover have "target_parts x \<noteq> []" and "target_parts y \<noteq> []" by (cases x; simp) (cases y; simp)
    moreover have "\<forall>w \<in> set (target_parts x) \<union> set (target_parts y). CHR ''/'' \<notin> set w"
      using assms(2) Some target_parts_no_slash by auto
    ultimately show "target_parts x = target_parts y" by (rule Join_inject)
  qed simp
  with assms(1) Some show ?thesis
    by (auto simp: TargetKey_parts Join_target_parts_not_Nil target_parts_inject)
qed

text \<open>A Binding for examples: an FC3 domain in Hangzhou.\<close>

definition sample_fc3_target :: "string \<Rightarrow> BindingTarget" where
  "sample_fc3_target d = \<lparr> bt_Type = TargetTypeFC3CustomDomain,
     bt_FC3CustomDomain = Some \<lparr> fc_Region = ''cn-hangzhou'', fc_DomainName = d, fc_EnsureHTTPSProtocol = False \<rparr>,
     bt_OSSCustomDomain = None \<rparr>"

definition sample_binding :: "string \<Rightarrow> string \<Rightarrow> AliyunCertificateBinding" where
  "sample_binding n d = \<lparr> b_Namespace = ''ns'', b_Name = n, b_UID = n, b_Generation = 1,
     b_CreationTimestamp = 0, b_DeletionTimestamp = None, b_Finalizers = [FinalizerName],
     b_Spec = \<lparr> bs_CertificateRef = ''web'', bs_Target = sample_fc3_target d,
       bs_CredentialsRef = None, bs_DeletionPolicy = DeletionPolicyOrphan \<rparr>,
     b_Status = \<lparr> bx_ObservedGeneration = 1, bx_AppliedFingerprint = [], bx_DriftedFingerprint = [],
       bx_AppliedCertRef = [], bx_DriftedCertRef = [], bx_LastAppliedTime = None, bx_LastObservedTime = None,
       bx_BoundAccountID = [], bx_CleanupStartedAt = None, bx_Conditions = [] \<rparr> \<rparr>"

lemma TargetKey_faithful_example:
  "TargetKey (sample_binding ''one'' ''a.example.com'') \<noteq> [] \<and>
   TargetKey (sample_binding ''one'' ''a.example.com'') = TargetKey (sample_binding ''two'' ''a.example.com'') \<and>
   TargetKey (sample_binding ''one'' ''a.example.com'') \<noteq> TargetKey (sample_binding ''two'' ''b.example.com'')"
  using TargetKey_faithful [of "sample_binding ''one'' ''a.example.com''" "FC3Domain ''cn-hangzhou'' ''a.example.com''"
      "sample_binding ''two'' ''a.example.com''"]
    TargetKey_faithful [of "sample_binding ''one'' ''a.example.com''" "FC3Domain ''cn-hangzhou'' ''a.example.com''"
      "sample_binding ''two'' ''b.example.com''"]
  by (simp add: sample_binding_def sample_fc3_target_def cloud_target_of_def)

end
