(* ===== verification/Provider_Types.thy ===== *)
theory Provider_Types
  imports Api_Types "HOL-Library.State_Monad"
begin

text \<open>
  The cloud interfaces of the operator, as records of operations: the narrow CAS, FC3 and
  OSS clients (\<open>pkg/aliyun/cas.go\<close>, \<open>fc3.go\<close>, \<open>oss.go\<close>) and the provider
  interface with its registry (\<open>pkg/provider/provider.go\<close>, \<open>registry.go\<close>).

  An operation is a computation of the state monad over the state \<open>'w\<close> of the outside
  world; a Go result \<open>(T, error)\<close> is a sum with the error on the left.
\<close>

abbreviation ret :: "'a \<Rightarrow> ('s, 'a) state" where "ret \<equiv> State_Monad.return"

section \<open>Cloud clients\<close>

record CertSummary =
  sm_CertID :: int
  sm_Name :: string
  sm_SANs :: "string list"
  sm_EndDate :: string

record 'w CASClient =
  cas_Upload :: "string \<Rightarrow> bytes \<Rightarrow> bytes \<Rightarrow> string \<Rightarrow> ('w, gerror + int) state"
  cas_Delete :: "int \<Rightarrow> string \<Rightarrow> ('w, gerror option) state"
  cas_FindUploaded :: "string \<Rightarrow> ('w, gerror + CertSummary list) state"

text \<open>The SDK's \<open>UpdateCustomDomainInput\<close>: the body of an update, and what the echo of a
  domain holds. A nil pointer is \<open>None\<close>.\<close>

record sdk_cert_config =
  sk_CertName :: "string option"
  sk_Certificate :: "string option"
  sk_PrivateKey :: "string option"

record sdk_update_body =
  up_AuthConfig :: "opaque option"
  up_CorsConfig :: "opaque option"
  up_RouteConfig :: "opaque option"
  up_TlsConfig :: "opaque option"
  up_WafConfig :: "opaque option"
  up_Protocol :: "string option"
  up_CertConfig :: "sdk_cert_config option"

text \<open>\<open>DomainEcho.Payload\<close> is of type \<open>any\<close>: nil, what the real client puts there, or
  something else.\<close>

datatype DomainEcho = EchoNil | EchoSDK sdk_update_body | EchoOther string

record CertConfig =
  cc_CertName :: string
  cc_CertPEM :: bytes
  cc_KeyPEM :: bytes

record CustomDomain =
  cd_AccountID :: string
  cd_DomainName :: string
  cd_Protocol :: string
  cd_CertName :: string
  cd_CertificatePEM :: bytes
  cd_Echo :: DomainEcho

record UpdateCustomDomainInput =
  ui_Protocol :: string
  ui_CertConfig :: "CertConfig option"
  ui_ClearCert :: bool
  ui_Echo :: DomainEcho

record 'w FC3Client =
  fc3_GetCustomDomain :: "string \<Rightarrow> ('w, gerror + CustomDomain) state"
  fc3_UpdateCustomDomain :: "string \<Rightarrow> UpdateCustomDomainInput \<Rightarrow> ('w, gerror option) state"

record Cname =
  cn_Domain :: string
  cn_Status :: string
  cn_CertRef :: string
  cn_CertType :: string
  cn_AccountID :: string

record 'w OSSClient =
  oss_GetCname :: "string \<Rightarrow> string \<Rightarrow> ('w, gerror + Cname) state"
  oss_PutCnameCert :: "string \<Rightarrow> string \<Rightarrow> string \<Rightarrow> ('w, gerror option) state"
  oss_DeleteCnameCert :: "string \<Rightarrow> string \<Rightarrow> ('w, gerror option) state"

abbreviation ActionGetCustomDomain :: string where "ActionGetCustomDomain \<equiv> ''GetCustomDomain''"
abbreviation ActionUpdateCustomDomain :: string where "ActionUpdateCustomDomain \<equiv> ''UpdateCustomDomain''"
abbreviation ActionListCname :: string where "ActionListCname \<equiv> ''ListCname''"
abbreviation ActionPutCname :: string where "ActionPutCname \<equiv> ''PutCname''"

subsection \<open>Redacted output\<close>

definition CertConfig_String :: "CertConfig \<Rightarrow> string" where
  "CertConfig_String c = ''aliyun.CertConfig{certName='' @ cc_CertName c @ '', certBytes='' @
     FormatNat (length (cc_CertPEM c)) @ '', key=<redacted>}''"

record redacted_cert =
  rc_certName :: string
  rc_certBytes :: nat
  rc_key :: string

definition CertConfig_redacted :: "CertConfig \<Rightarrow> redacted_cert" where
  "CertConfig_redacted c = \<lparr> rc_certName = cc_CertName c, rc_certBytes = length (cc_CertPEM c), rc_key = ''<redacted>'' \<rparr>"

definition UpdateCustomDomainInput_String :: "UpdateCustomDomainInput \<Rightarrow> string" where
  "UpdateCustomDomainInput_String i =
     (let cert = (case ui_CertConfig i of Some c \<Rightarrow> CertConfig_String c | None \<Rightarrow> ''<none>'') in
      ''aliyun.UpdateCustomDomainInput{protocol='' @ ui_Protocol i @ '', clearCert='' @
      (if ui_ClearCert i then ''true'' else ''false'') @ '', certConfig='' @ cert @ ''}'')"

record redacted_input =
  ri_protocol :: string
  ri_certConfig :: "redacted_cert option"
  ri_clearCert :: bool

definition UpdateCustomDomainInput_redacted :: "UpdateCustomDomainInput \<Rightarrow> redacted_input" where
  "UpdateCustomDomainInput_redacted i = \<lparr> ri_protocol = ui_Protocol i,
     ri_certConfig = map_option CertConfig_redacted (ui_CertConfig i), ri_clearCert = ui_ClearCert i \<rparr>"

definition DomainEcho_String :: "DomainEcho \<Rightarrow> string" where
  "DomainEcho_String e = ''aliyun.DomainEcho{<opaque>}''"

section \<open>Package provider\<close>

datatype target_spec = SpecFC3 FC3CustomDomainTarget | SpecOSS OSSCustomDomainTarget

record Target =
  tg_Type :: string
  tg_Region :: string
  tg_Identifier :: string
  tg_Spec :: target_spec

record CertMaterial =
  m_Fingerprint :: string
  m_CertPEM :: bytes
  m_KeyPEM :: bytes
  m_CertID :: "int option"
  m_CASName :: string
  m_NotAfter :: time
  m_DNSNames :: "string list"
  m_CASRegion :: string

definition CASCertRef :: "CertMaterial \<Rightarrow> string" where
  "CASCertRef m = (case m_CertID m of
     None \<Rightarrow> []
   | Some i \<Rightarrow> if m_CASRegion m = [] then [] else FormatInt i @ ''-'' @ m_CASRegion m)"

record ObservedState =
  o_CurrentFingerprint :: string
  o_CurrentCertRef :: string
  o_Protocol :: string
  o_AccountID :: string

record Capabilities =
  ReferencesCertByID :: bool
  SupportsProtocolSwitch :: bool
  RequiresCASUpload :: bool

record ApplyOptions =
  ao_EnsureHTTPSProtocol :: bool
  ao_PreviousFingerprint :: string

text \<open>\<open>provider.Client\<close> is of type \<open>any\<close>; the operator only ever puts one of its clients
  there.\<close>

datatype 'w Client = FC3Cl "'w FC3Client" | OSSCl "'w OSSClient"

record 'w Provider =
  pv_Name :: string
  pv_Capabilities :: Capabilities
  pv_Observe :: "Target \<Rightarrow> 'w Client \<Rightarrow> ('w, gerror + ObservedState) state"
  pv_Apply :: "Target \<Rightarrow> 'w Client \<Rightarrow> CertMaterial \<Rightarrow> ApplyOptions \<Rightarrow> ('w, gerror option) state"
  pv_Cleanup :: "Target \<Rightarrow> 'w Client \<Rightarrow> string \<Rightarrow> ('w, gerror option) state"

subsection \<open>Registry\<close>

text \<open>The registry as the list of registrations; a second registration of a name panics
  (\<open>None\<close>).\<close>

type_synonym 'w registry = "(string \<times> 'w Provider) list"

definition Register :: "'w registry \<Rightarrow> 'w Provider \<Rightarrow> 'w registry option" where
  "Register reg p = (if map_of reg (pv_Name p) \<noteq> None then None else Some ((pv_Name p, p) # reg))"

definition registry_Get :: "'w registry \<Rightarrow> string \<Rightarrow> 'w Provider option" where
  "registry_Get reg n = map_of reg n"

definition registry_Names :: "'w registry \<Rightarrow> string list" where
  "registry_Names reg = sort (map fst reg)"

section \<open>Lemmas\<close>

lemma FormatNat_digits: "set (FormatNat n) \<subseteq> set ''0123456789''"
proof (induction n rule: FormatNat.induct)
  case (1 n)
  have d: "digit_char k \<in> set ''0123456789''" if "k < 10" for k
  proof -
    have "\<forall>k \<in> set [0..<10]. digit_char k \<in> set ''0123456789''" by code_simp
    with that show ?thesis by simp
  qed
  show ?case
  proof (cases "n < 10")
    case True
    have "FormatNat n = [digit_char n]" using True by (subst FormatNat.simps) simp
    then show ?thesis using d [OF True] by simp
  next
    case False
    have "FormatNat n = FormatNat (n div 10) @ [digit_char (n mod 10)]" using False by (subst FormatNat.simps) simp
    then have "set (FormatNat n) = insert (digit_char (n mod 10)) (set (FormatNat (n div 10)))" by simp
    then show ?thesis using 1 [OF False] d [of "n mod 10"] by auto
  qed
qed

fun ParseNat :: "string \<Rightarrow> nat" where
  "ParseNat s = foldl (\<lambda>a c. a * 10 + (of_char c - 48)) 0 s"

lemma ParseNat_snoc: "ParseNat (s @ [c]) = ParseNat s * 10 + (of_char c - 48)"
  by simp

lemma of_digit_char: "d < 10 \<Longrightarrow> (of_char (digit_char d) :: nat) - 48 = d"
  by (simp add: digit_char_def)

lemma ParseNat_FormatNat: "ParseNat (FormatNat n) = n"
proof (induction n rule: FormatNat.induct)
  case (1 n)
  show ?case
  proof (cases "n < 10")
    case True
    then show ?thesis by (subst FormatNat.simps) (simp add: of_digit_char)
  next
    case False
    then have "FormatNat n = FormatNat (n div 10) @ [digit_char (n mod 10)]" by (subst FormatNat.simps) simp
    then show ?thesis using 1 [OF False] of_digit_char [of "n mod 10"]
      by (simp only: ParseNat_snoc) simp
  qed
qed

lemma FormatNat_inject: "FormatNat m = FormatNat n \<longleftrightarrow> m = n"
  by (metis ParseNat_FormatNat)

lemma FormatNat_not_Nil: "FormatNat n \<noteq> []"
  by (subst FormatNat.simps) simp

lemma hyphen_FormatNat: "CHR ''-'' \<notin> set (FormatNat n)"
proof
  assume "CHR ''-'' \<in> set (FormatNat n)"
  then have "CHR ''-'' \<in> set ''0123456789''" using FormatNat_digits by blast
  then show False by simp
qed

section \<open>Properties\<close>

text \<open>
  A certificate reference names one certificate: for the non-negative identifiers the
  service hands out, two materials with a reference have the same one exactly when both the
  identifier and the region are the same, and there is no reference as long as the
  identifier or the region is missing.
\<close>

lemma CASCertRef_faithful:
  assumes "\<forall>i \<in> set_option (m_CertID a) \<union> set_option (m_CertID b). 0 \<le> i"
    and "CASCertRef a \<noteq> []"
  shows "(CASCertRef a = CASCertRef b \<longleftrightarrow> m_CertID a = m_CertID b \<and> m_CASRegion a = m_CASRegion b)
    \<and> m_CertID a \<noteq> None \<and> m_CASRegion a \<noteq> []"
proof -
  obtain i where i: "m_CertID a = Some i" "m_CASRegion a \<noteq> []"
    using assms(2) by (auto simp: CASCertRef_def split: option.splits if_splits)
  then have ref: "CASCertRef a = FormatNat (nat i) @ CHR ''-'' # m_CASRegion a" "0 \<le> i"
    using assms(1) by (auto simp: CASCertRef_def FormatInt_def)
  have "CASCertRef a = CASCertRef b \<longleftrightarrow> m_CertID a = m_CertID b \<and> m_CASRegion a = m_CASRegion b"
  proof (cases "m_CertID b = None \<or> m_CASRegion b = []")
    case True
    then have "CASCertRef b = []" by (auto simp: CASCertRef_def split: option.splits)
    with True i assms(2) show ?thesis by auto
  next
    case False
    then obtain j where j: "m_CertID b = Some j" by auto
    with False assms(1) have rb: "CASCertRef b = FormatNat (nat j) @ CHR ''-'' # m_CASRegion b" "0 \<le> j"
      by (auto simp: CASCertRef_def FormatInt_def)
    have "FormatNat (nat i) @ CHR ''-'' # m_CASRegion a = FormatNat (nat j) @ CHR ''-'' # m_CASRegion b \<longleftrightarrow>
        FormatNat (nat i) = FormatNat (nat j) \<and> m_CASRegion a = m_CASRegion b" (is "?l = ?r \<longleftrightarrow> _")
    proof
      assume eq: "?l = ?r"
      then have "takeWhile (\<lambda>c. c \<noteq> CHR ''-'') ?l = takeWhile (\<lambda>c. c \<noteq> CHR ''-'') ?r" by simp
      then have "FormatNat (nat i) = FormatNat (nat j)"
        using hyphen_FormatNat [of "nat i"] hyphen_FormatNat [of "nat j"]
        by (subst (asm) (1 2) takeWhile_append2) auto
      with eq show "FormatNat (nat i) = FormatNat (nat j) \<and> m_CASRegion a = m_CASRegion b" by simp
    qed simp
    then show ?thesis using ref rb i j by (simp add: FormatNat_inject nat_eq_iff)
  qed
  with i show ?thesis by simp
qed

text \<open>
  A private key never reaches text on its way to FC3: the printed forms and the JSON
  forms of a certificate configuration and of an update do not depend on the key.
\<close>

lemma UpdateCustomDomainInput_redacted_key:
  "CertConfig_String (c\<lparr>cc_KeyPEM := k\<rparr>) = CertConfig_String c
   \<and> CertConfig_redacted (c\<lparr>cc_KeyPEM := k\<rparr>) = CertConfig_redacted c
   \<and> UpdateCustomDomainInput_String (i\<lparr>ui_CertConfig := Some (c\<lparr>cc_KeyPEM := k\<rparr>)\<rparr>) =
       UpdateCustomDomainInput_String (i\<lparr>ui_CertConfig := Some c\<rparr>)
   \<and> UpdateCustomDomainInput_redacted (i\<lparr>ui_CertConfig := Some (c\<lparr>cc_KeyPEM := k\<rparr>)\<rparr>) =
       UpdateCustomDomainInput_redacted (i\<lparr>ui_CertConfig := Some c\<rparr>)"
  by (simp add: CertConfig_String_def CertConfig_redacted_def UpdateCustomDomainInput_String_def
      UpdateCustomDomainInput_redacted_def Let_def)

definition sample_material :: "int option \<Rightarrow> string \<Rightarrow> CertMaterial" where
  "sample_material i fp = \<lparr> m_Fingerprint = fp, m_CertPEM = ''cert'', m_KeyPEM = ''key'', m_CertID = i,
     m_CASName = ''web'', m_NotAfter = 0, m_DNSNames = [''a.example.com''], m_CASRegion = ''cn-hangzhou'' \<rparr>"

lemma CASCertRef_faithful_example:
  "CASCertRef (sample_material (Some 7) []) = ''7-cn-hangzhou'' \<and>
   CASCertRef (sample_material (Some 7) []) \<noteq> CASCertRef (sample_material (Some 8) [])"
proof
  let ?a = "sample_material (Some 7) []" and ?b = "sample_material (Some 8) []"
  show r: "CASCertRef ?a = ''7-cn-hangzhou''" by code_simp
  show "CASCertRef ?a \<noteq> CASCertRef ?b"
  proof
    assume eq: "CASCertRef ?a = CASCertRef ?b"
    have ids: "m_CertID (sample_material i fp) = i" for i fp by (simp add: sample_material_def)
    have pos: "\<forall>i \<in> set_option (m_CertID ?a) \<union> set_option (m_CertID ?b). 0 \<le> i" by (simp add: ids)
    have ne: "CASCertRef ?a \<noteq> []" by (simp add: r)
    have "m_CertID ?a = m_CertID ?b" using CASCertRef_faithful [OF pos ne] eq by blast
    then show False by (simp add: ids)
  qed
qed

end
