(* ===== verification/Runtime.thy ===== *)
theory Runtime
  imports Provider_Types
begin

text \<open>
  The world the controllers run in.

  A reconcile is a computation over a system: the state \<open>'w\<close> of everything outside the
  process (API server, clock, clouds) and the trace of what crossed the boundary so far.
  Every call that leaves the process is a \<open>perform\<close>: it runs the parameter that stands for
  the other side on the world and appends one \<open>effect\<close>, the request together with the
  answer. Events and metrics are \<open>emit\<close>ted. Logging is left out.

  Since the answers are part of the trace, a property of a controller is a predicate on the
  effects it appends and its result, for every behaviour of the outside: \<open>emits C m\<close>. The
  rules below are a weakest-precondition calculus for it.
\<close>

section \<open>Effects\<close>

datatype metric =
    CounterInc string "string list"
  | GaugeSet string "string list" int
  | GaugeDelete string "string list"

datatype event_type = EventTypeNormal | EventTypeWarning

datatype op_result = OperationResultNone | OperationResultCreated | OperationResultUpdated

datatype effect =
    GetAC bool string string "gerror + AliyunCertificate"
  | UpdateAC AliyunCertificate "gerror + AliyunCertificate"
  | PatchACStatus AliyunCertificate AliyunCertificate "gerror + AliyunCertificate"
  | GetCert string string "gerror + certificate"
  | SyncCert certificate "gerror + op_result \<times> certificate"
  | DeleteCert certificate "gerror option"
  | GetSecret string string "gerror + secret"
  | DeleteSecret secret "gerror option"
  | ListBindings string "gerror + AliyunCertificateBinding list"
  | ListByTarget string "gerror + AliyunCertificateBinding list"
  | GetBinding string string "gerror + AliyunCertificateBinding"
  | UpdateBinding AliyunCertificateBinding "gerror + AliyunCertificateBinding"
  | PatchBindingStatus AliyunCertificateBinding AliyunCertificateBinding "gerror + AliyunCertificateBinding"
  | BuildCAS "gerror option"
  | CASUpload string bytes bytes string "gerror + int"
  | CASDelete int string "gerror option"
  | CASFind string "gerror + CertSummary list"
  | BuildProvider "gerror option"
  | TargetObserve Target "gerror + ObservedState"
  | TargetApply Target CertMaterial ApplyOptions "gerror option"
  | TargetCleanup Target string "gerror option"
  | ReadClock time
  | Event event_type string message
  | Metric metric

section \<open>Computations\<close>

record 'w sys =
  world :: 'w
  trace :: "effect list"

type_synonym ('w, 'a) io = "('w sys, 'a) state"

definition perform :: "('r \<Rightarrow> effect) \<Rightarrow> ('w, 'r) state \<Rightarrow> ('w, 'r) io" where
  "perform ev op = State (\<lambda>s. case run_state op (world s) of
     (r, w') \<Rightarrow> (r, \<lparr> world = w', trace = trace s @ [ev r] \<rparr>))"

definition emit :: "effect \<Rightarrow> ('w, unit) io" where
  "emit e = State (\<lambda>s. ((), s\<lparr> trace := trace s @ [e] \<rparr>))"

text \<open>A run from a world with nothing on the trace.\<close>

definition start :: "'w \<Rightarrow> 'w sys" where
  "start w = \<lparr> world = w, trace = [] \<rparr>"

definition effects_of :: "('w, 'a) io \<Rightarrow> 'w \<Rightarrow> effect list" where
  "effects_of m w = trace (snd (run_state m (start w)))"

definition result_of :: "('w, 'a) io \<Rightarrow> 'w \<Rightarrow> 'a" where
  "result_of m w = fst (run_state m (start w))"

section \<open>The calculus\<close>

definition emits :: "(effect list \<Rightarrow> 'a \<Rightarrow> bool) \<Rightarrow> ('w, 'a) io \<Rightarrow> bool" where
  "emits C m \<longleftrightarrow> (\<forall>s. \<exists>es. trace (snd (run_state m s)) = trace s @ es \<and> C es (fst (run_state m s)))"

named_theorems emits_intro \<open>rules of the calculus, applied backwards\<close>

lemma emits_return [simp]: "emits C (ret x) \<longleftrightarrow> C [] x"
  by (auto simp: emits_def)

lemma emits_emit [simp]: "emits C (emit e) \<longleftrightarrow> C [e] ()"
  by (auto simp: emits_def emit_def)

lemma emits_perform [emits_intro]: "(\<And>r. C [ev r] r) \<Longrightarrow> emits C (perform ev op)"
  by (auto simp: emits_def perform_def split: prod.splits)

lemma emits_bind [emits_intro]:
  assumes "emits (\<lambda>es x. emits (\<lambda>es' y. C (es @ es') y) (f x)) m"
  shows "emits C (State_Monad.bind m f)"
  unfolding emits_def
proof
  fix s
  obtain x s1 where m: "run_state m s = (x, s1)" by (cases "run_state m s")
  from assms m obtain es where es: "trace s1 = trace s @ es" "emits (\<lambda>es' y. C (es @ es') y) (f x)"
    unfolding emits_def by (metis fst_conv snd_conv)
  then obtain es' where "trace (snd (run_state (f x) s1)) = trace s1 @ es'"
      "C (es @ es') (fst (run_state (f x) s1))"
    unfolding emits_def by blast
  with m es(1) show "\<exists>es. trace (snd (run_state (State_Monad.bind m f) s)) = trace s @ es \<and>
      C es (fst (run_state (State_Monad.bind m f) s))"
    by (intro exI [of _ "es @ es'"]) simp
qed

lemma emits_mono: "emits A m \<Longrightarrow> (\<And>es x. A es x \<Longrightarrow> C es x) \<Longrightarrow> emits C m"
  unfolding emits_def by blast

lemma emits_bind_mono:
  assumes "emits A m" "\<And>es x. A es x \<Longrightarrow> emits (\<lambda>es' y. C (es @ es') y) (f x)"
  shows "emits C (State_Monad.bind m f)"
  by (rule emits_bind, rule emits_mono [OF assms(1)]) (rule assms(2))

lemma emits_bind_emit [emits_intro]:
  "emits (\<lambda>es y. C (e # es) y) (f ()) \<Longrightarrow> emits C (State_Monad.bind (emit e) f)"
  by (rule emits_bind) simp

lemma emits_conj: "emits A m \<Longrightarrow> emits B m \<Longrightarrow> emits (\<lambda>es x. A es x \<and> B es x) m"
  unfolding emits_def by (metis same_append_eq)

lemma emits_run: "emits C m \<Longrightarrow> C (effects_of m w) (result_of m w)"
proof -
  assume "emits C m"
  then obtain es where "trace (snd (run_state m (start w))) = trace (start w) @ es"
      "C es (fst (run_state m (start w)))"
    unfolding emits_def by blast
  then show ?thesis by (simp add: effects_of_def result_of_def start_def)
qed

lemma emits_if [emits_intro]:
  "(b \<Longrightarrow> emits C m) \<Longrightarrow> (\<not> b \<Longrightarrow> emits C n) \<Longrightarrow> emits C (if b then m else n)"
  by simp

lemma emits_case_option [emits_intro]:
  "(x = None \<Longrightarrow> emits C m) \<Longrightarrow> (\<And>y. x = Some y \<Longrightarrow> emits C (f y)) \<Longrightarrow>
   emits C (case x of None \<Rightarrow> m | Some y \<Rightarrow> f y)"
  by (cases x) auto

lemma emits_case_sum [emits_intro]:
  "(\<And>e. x = Inl e \<Longrightarrow> emits C (f e)) \<Longrightarrow> (\<And>y. x = Inr y \<Longrightarrow> emits C (g y)) \<Longrightarrow>
   emits C (case x of Inl e \<Rightarrow> f e | Inr y \<Rightarrow> g y)"
  by (cases x) auto

lemma emits_case_bool [emits_intro]:
  "(b \<Longrightarrow> emits C m) \<Longrightarrow> (\<not> b \<Longrightarrow> emits C n) \<Longrightarrow> emits C (case b of True \<Rightarrow> m | False \<Rightarrow> n)"
  by (cases b) auto

lemma emits_case_prod [emits_intro]:
  "(\<And>a b. x = (a, b) \<Longrightarrow> emits C (f a b)) \<Longrightarrow> emits C (case x of (a, b) \<Rightarrow> f a b)"
  by (cases x) auto

lemma emits_Let [emits_intro]: "emits C (f x) \<Longrightarrow> emits C (Let x f)"
  by (simp add: Let_def)

lemma emits_returnI [emits_intro]: "C [] x \<Longrightarrow> emits C (ret x)"
  by simp

lemma emits_emitI [emits_intro]: "C [e] () \<Longrightarrow> emits C (emit e)"
  by simp

text \<open>Computations all of whose effects satisfy a predicate.\<close>

definition only :: "(effect \<Rightarrow> bool) \<Rightarrow> ('w, 'a) io \<Rightarrow> bool" where
  "only P m \<longleftrightarrow> emits (\<lambda>es x. \<forall>e \<in> set es. P e) m"

named_theorems only_intro \<open>rules for computations with a restricted alphabet\<close>

lemma only_return [only_intro]: "only P (ret x)"
  by (simp add: only_def)

lemma only_emit [only_intro]: "P e \<Longrightarrow> only P (emit e)"
  by (simp add: only_def)

lemma only_perform [only_intro]: "(\<And>r. P (ev r)) \<Longrightarrow> only P (perform ev op)"
  unfolding only_def by (rule emits_perform) simp

lemma only_bind [only_intro]: "only P m \<Longrightarrow> (\<And>x. only P (f x)) \<Longrightarrow> only P (State_Monad.bind m f)"
  unfolding only_def
proof -
  assume "emits (\<lambda>es x. \<forall>e \<in> set es. P e) m" and f: "\<And>x. emits (\<lambda>es x. \<forall>e \<in> set es. P e) (f x)"
  then show "emits (\<lambda>es x. \<forall>e \<in> set es. P e) (State_Monad.bind m f)"
    by (elim emits_bind_mono) (rule emits_mono [OF f], auto)
qed

lemma only_if [only_intro]: "(b \<Longrightarrow> only P m) \<Longrightarrow> (\<not> b \<Longrightarrow> only P n) \<Longrightarrow> only P (if b then m else n)"
  by simp

lemma only_case_option [only_intro]:
  "(x = None \<Longrightarrow> only P m) \<Longrightarrow> (\<And>y. x = Some y \<Longrightarrow> only P (f y)) \<Longrightarrow>
   only P (case x of None \<Rightarrow> m | Some y \<Rightarrow> f y)"
  by (cases x) auto

lemma only_case_sum [only_intro]:
  "(\<And>e. x = Inl e \<Longrightarrow> only P (f e)) \<Longrightarrow> (\<And>y. x = Inr y \<Longrightarrow> only P (g y)) \<Longrightarrow>
   only P (case x of Inl e \<Rightarrow> f e | Inr y \<Rightarrow> g y)"
  by (cases x) auto

lemma only_case_bool [only_intro]:
  "(b \<Longrightarrow> only P m) \<Longrightarrow> (\<not> b \<Longrightarrow> only P n) \<Longrightarrow> only P (case b of True \<Rightarrow> m | False \<Rightarrow> n)"
  by (cases b) auto

lemma only_case_prod [only_intro]:
  "(\<And>a b. x = (a, b) \<Longrightarrow> only P (f a b)) \<Longrightarrow> only P (case x of (a, b) \<Rightarrow> f a b)"
  by (cases x) auto

lemma only_Let [only_intro]: "only P (f x) \<Longrightarrow> only P (Let x f)"
  by (simp add: Let_def)

lemma only_mono: "only P m \<Longrightarrow> (\<And>e. P e \<Longrightarrow> Q e) \<Longrightarrow> only Q m"
  unfolding only_def by (erule emits_mono) blast

lemma onlyD: "only P m \<Longrightarrow> emits (\<lambda>es x. \<forall>e \<in> set es. P e) m"
  by (simp add: only_def)

section \<open>Ordering on traces\<close>

text \<open>A guard says which effect may happen given the effects before it; a trace is guarded
  when every effect of it is allowed where it stands.\<close>

fun guarded :: "(effect list \<Rightarrow> effect \<Rightarrow> bool) \<Rightarrow> effect list \<Rightarrow> effect list \<Rightarrow> bool" where
  "guarded P pre [] \<longleftrightarrow> True"
| "guarded P pre (e # es) \<longleftrightarrow> P pre e \<and> guarded P (pre @ [e]) es"

lemma guarded_append [simp]:
  "guarded P pre (es @ es') \<longleftrightarrow> guarded P pre es \<and> guarded P (pre @ es) es'"
  by (induction es arbitrary: pre) auto

lemma guarded_all: "(\<And>pre' e. e \<in> set es \<Longrightarrow> P (pre @ pre') e) \<Longrightarrow> guarded P pre es"
proof (induction es arbitrary: pre)
  case (Cons e es)
  from Cons.prems [of e "[]"] have "P pre e" by simp
  moreover have "guarded P (pre @ [e]) es"
    using Cons.prems by (intro Cons.IH) (metis append.assoc list.set_intros(2))
  ultimately show ?case by simp
qed simp

lemma guarded_nth: "guarded P pre es \<Longrightarrow> i < length es \<Longrightarrow> P (pre @ take i es) (es ! i)"
proof (induction es arbitrary: pre i)
  case (Cons e es)
  then show ?case using Cons.IH [of "pre @ [e]" "i - 1"] by (cases i) auto
qed simp

lemma guarded_split: "guarded P [] (pre @ e # post) \<Longrightarrow> P pre e"
  by simp

text \<open>Every effect with \<open>Q\<close> comes after one with \<open>P\<close>.\<close>

definition preceded :: "(effect \<Rightarrow> bool) \<Rightarrow> (effect \<Rightarrow> bool) \<Rightarrow> effect list \<Rightarrow> bool" where
  "preceded P Q es \<longleftrightarrow> (\<forall>i < length es. Q (es ! i) \<longrightarrow> (\<exists>j < i. P (es ! j)))"

lemma preceded_none: "\<forall>e \<in> set es. \<not> Q e \<Longrightarrow> preceded P Q es"
  by (auto simp: preceded_def)

lemma preceded_append:
  assumes "preceded P Q es" "\<exists>e \<in> set es. P e"
  shows "preceded P Q (es @ es')"
  unfolding preceded_def
proof (intro allI impI)
  fix i assume i: "i < length (es @ es')" "Q ((es @ es') ! i)"
  obtain j where j: "j < length es" "P (es ! j)" using assms(2) by (auto simp: in_set_conv_nth)
  show "\<exists>k < i. P ((es @ es') ! k)"
  proof (cases "i < length es")
    case True
    then have "Q (es ! i)" using i(2) by (simp add: nth_append)
    then obtain k where "k < i" "P (es ! k)" using assms(1) True by (auto simp: preceded_def)
    then show ?thesis using True by (auto simp: nth_append intro!: exI [of _ k])
  next
    case False
    then show ?thesis using j by (auto simp: nth_append intro!: exI [of _ j])
  qed
qed

lemma preceded_append_none:
  assumes "preceded P Q es" "\<forall>e \<in> set es'. \<not> Q e"
  shows "preceded P Q (es @ es')"
  unfolding preceded_def
proof (intro allI impI)
  fix i assume i: "i < length (es @ es')" "Q ((es @ es') ! i)"
  have lt: "i < length es"
  proof (rule ccontr)
    assume "\<not> i < length es"
    then have "(es @ es') ! i \<in> set es'" using i(1) by (simp add: nth_append)
    then show False using assms(2) i(2) by blast
  qed
  then have "Q (es ! i)" using i(2) by (simp add: nth_append)
  then obtain k where "k < i" "P (es ! k)" using assms(1) lt by (auto simp: preceded_def)
  then show "\<exists>k < i. P ((es @ es') ! k)" using lt by (auto simp: nth_append intro!: exI [of _ k])
qed

end
