(* ===== verification/Naming.thy ===== *)
theory Naming
  imports Prelude
begin

text \<open>
  Package \<open>naming\<close> (\<open>pkg/naming/naming.go\<close>): the names certificates get in CAS and the
  idempotency tokens of uploads. \<open>sanitize\<close> walks the name by rune; \<open>runes\<close> gives the
  encodings of the runes, so an ASCII rune is a string of one byte.
\<close>

section \<open>Definitions\<close>

abbreviation maxCASNameLen :: nat where "maxCASNameLen \<equiv> 63"
abbreviation prefixBudget :: nat where "prefixBudget \<equiv> 50"
abbreviation fpSuffixLen :: nat where "fpSuffixLen \<equiv> 12"
abbreviation tokenUIDLen :: nat where "tokenUIDLen \<equiv> 16"
abbreviation tokenFPLen :: nat where "tokenFPLen \<equiv> 32"

definition cas_char :: "char \<Rightarrow> bool" where
  "cas_char c \<longleftrightarrow> (CHR ''a'' \<le> c \<and> c \<le> CHR ''z'') \<or> (CHR ''A'' \<le> c \<and> c \<le> CHR ''Z'')
     \<or> (CHR ''0'' \<le> c \<and> c \<le> CHR ''9'') \<or> c = CHR ''_''"

text \<open>One turn of the loop: what is written for a rune.\<close>

definition sanitize_rune :: "string \<Rightarrow> char" where
  "sanitize_rune r = (case r of [c] \<Rightarrow> if cas_char c then c else CHR ''_'' | _ \<Rightarrow> CHR ''_'')"

definition sanitize :: "string \<Rightarrow> string" where
  "sanitize s = map sanitize_rune (runes s)"

definition CASName :: "string \<Rightarrow> string \<Rightarrow> string" where
  "CASName crName fingerprint =
     (let p1 = slice_to prefixBudget (sanitize crName);
          p2 = TrimRight p1 (CHR ''_'');
          prefix = (if p2 = [] then ''cert'' else p2);
          suffix = slice_to fpSuffixLen fingerprint;
          name = prefix @ ''_'' @ suffix
      in slice_to maxCASNameLen name)"

definition ClientToken :: "string \<Rightarrow> string \<Rightarrow> string" where
  "ClientToken uid fingerprint =
     (let u = slice_to tokenUIDLen (RemoveAll uid (CHR ''-''));
          f = slice_to tokenFPLen fingerprint
      in u @ f)"

section \<open>Lemmas\<close>

lemma cas_char_underscore [simp]: "cas_char (CHR ''_'')"
  by (simp add: cas_char_def)

lemma cas_char_hex: "c \<in> set ''0123456789abcdef'' \<Longrightarrow> cas_char c"
proof -
  have "\<forall>c \<in> set ''0123456789abcdef''. cas_char c" by code_simp
  then show "c \<in> set ''0123456789abcdef'' \<Longrightarrow> cas_char c" by blast
qed

lemma cas_char_sanitize_rune: "cas_char (sanitize_rune r)"
  by (auto simp: sanitize_rune_def split: list.splits)

lemma cas_char_sanitize: "c \<in> set (sanitize s) \<Longrightarrow> cas_char c"
  by (auto simp: sanitize_def cas_char_sanitize_rune)

lemma length_runes: "length (runes s) \<le> length s"
proof (induction s rule: runes.induct)
  case (1 s)
  show ?case
  proof (cases "s = []")
    case False
    have "length (runes s) = Suc (length (runes (drop (rune_width s) s)))"
      using False by (subst runes.simps) simp
    also have "\<dots> \<le> Suc (length s - rune_width s)" using 1 False by simp
    also have "\<dots> \<le> length s" using rune_width_pos [OF False] False by (cases s) auto
    finally show ?thesis .
  qed simp
qed

lemma length_sanitize: "length (sanitize s) \<le> length s"
  by (simp add: sanitize_def length_runes)

text \<open>The prefix: at most fifty bytes, never empty, only letters, digits and underscores.\<close>

definition cas_prefix :: "string \<Rightarrow> string" where
  "cas_prefix n = (let p = TrimRight (slice_to prefixBudget (sanitize n)) (CHR ''_'') in if p = [] then ''cert'' else p)"

lemma CASName_alt: "CASName n fp = cas_prefix n @ ''_'' @ slice_to fpSuffixLen fp"
proof -
  have "length (TrimRight (slice_to prefixBudget (sanitize n)) (CHR ''_'')) \<le> prefixBudget"
    by (rule order_trans [OF length_TrimRight]) simp
  then have "length (cas_prefix n) \<le> prefixBudget"
    by (simp add: cas_prefix_def Let_def)
  then have "length (cas_prefix n @ ''_'' @ slice_to fpSuffixLen fp) \<le> maxCASNameLen" by simp
  then show ?thesis
    unfolding CASName_def Let_def cas_prefix_def slice_to_take by (simp add: slice_to_take)
qed

lemma cas_prefix_bounds: "cas_prefix n \<noteq> [] \<and> length (cas_prefix n) \<le> prefixBudget"
proof -
  have "length (TrimRight (slice_to prefixBudget (sanitize n)) (CHR ''_'')) \<le> prefixBudget"
    by (rule order_trans [OF length_TrimRight]) simp
  then show ?thesis by (simp add: cas_prefix_def Let_def)
qed

lemma cas_prefix_chars: "c \<in> set (cas_prefix n) \<Longrightarrow> cas_char c"
proof -
  assume c: "c \<in> set (cas_prefix n)"
  have "\<forall>c \<in> set ''cert''. cas_char c" by code_simp
  moreover have "set (TrimRight (slice_to prefixBudget (sanitize n)) (CHR ''_'')) \<subseteq> set (sanitize n)"
    using set_TrimRight set_slice_to by blast
  ultimately show "cas_char c"
    using c cas_char_sanitize by (auto simp: cas_prefix_def Let_def simp del: set_simps split: if_splits)
qed

section \<open>Properties\<close>

text \<open>
  C38. A CAS name is what the service accepts and what claiming relies on: between two and
  63 bytes of letters, digits and underscores whatever the resource is called (for a
  hexadecimal fingerprint), and it ends with the first twelve digits of the fingerprint, so
  that two generations of one resource whose fingerprints differ there have different names
  while a retry of the same generation has the same one. The final truncation of the code
  never cuts anything off.
\<close>

theorem CASName_valid:
  assumes "set fp \<subseteq> set ''0123456789abcdef''"
  shows "2 \<le> length (CASName n fp) \<and> length (CASName n fp) \<le> maxCASNameLen
    \<and> (\<forall>c \<in> set (CASName n fp). cas_char c)
    \<and> HasSuffix (CASName n fp) (CHR ''_'' # take 12 fp)
    \<and> (\<forall>fp'. CASName n fp = CASName n fp' \<longleftrightarrow> take 12 fp = take 12 fp')"
proof (intro conjI)
  have b: "cas_prefix n \<noteq> []" "length (cas_prefix n) \<le> prefixBudget"
    using cas_prefix_bounds by auto
  then have "0 < length (cas_prefix n)" by simp
  with b show "2 \<le> length (CASName n fp)" "length (CASName n fp) \<le> maxCASNameLen"
    unfolding CASName_alt by (simp_all add: Suc_le_eq)
  show "\<forall>c \<in> set (CASName n fp). cas_char c"
  proof -
    have "\<forall>c \<in> set (slice_to 12 fp). cas_char c"
      using assms cas_char_hex set_slice_to [of 12 fp] by blast
    then show ?thesis using cas_prefix_chars unfolding CASName_alt by auto
  qed
  show "HasSuffix (CASName n fp) (CHR ''_'' # take 12 fp)"
    by (simp add: CASName_alt HasSuffix_def slice_to_take)
  show "\<forall>fp'. CASName n fp = CASName n fp' \<longleftrightarrow> take 12 fp = take 12 fp'"
    by (simp add: CASName_alt slice_to_take)
qed

text \<open>
  The upload token of a generation: with a UUID (32 digits without its hyphens) and a
  fingerprint of 64 digits it is exactly 48 bytes, and it determines
  the first sixteen digits of the UUID and the first 32 of the fingerprint, so that two
  tokens are equal only for the same generation of the same resource up to those digits.
\<close>

lemma ClientToken_determines:
  assumes "length (RemoveAll u (CHR ''-'')) \<ge> tokenUIDLen" "length (RemoveAll u' (CHR ''-'')) \<ge> tokenUIDLen"
    and "length fp \<ge> tokenFPLen" "length fp' \<ge> tokenFPLen"
  shows "length (ClientToken u fp) = 48 \<and>
    (ClientToken u fp = ClientToken u' fp' \<longleftrightarrow>
       take tokenUIDLen (RemoveAll u (CHR ''-'')) = take tokenUIDLen (RemoveAll u' (CHR ''-''))
       \<and> take tokenFPLen fp = take tokenFPLen fp')"
  using assms by (simp add: ClientToken_def Let_def slice_to_take)

theorem CASName_valid_witness:
  "HasSuffix (CASName ''web-cert.example'' ''0123456789abcdef'') ''_0123456789ab''
   \<and> CASName ''web-cert.example'' ''0123456789abcdef'' = ''web_cert_example_0123456789ab''"
proof
  show "HasSuffix (CASName ''web-cert.example'' ''0123456789abcdef'') ''_0123456789ab''"
    using CASName_valid [of "''0123456789abcdef''" "''web-cert.example''"] by simp
  show "CASName ''web-cert.example'' ''0123456789abcdef'' = ''web_cert_example_0123456789ab''"
    by code_simp
qed

definition sample_uid :: string where
  "sample_uid = ''0a1b2c3d-0000-4000-8000-0123456789ab''"

definition sample_fp :: string where
  "sample_fp = replicate 64 (CHR ''a'')"

lemma ClientToken_determines_example:
  "length (ClientToken sample_uid sample_fp) = 48
   \<and> ClientToken sample_uid sample_fp \<noteq> ClientToken sample_uid (replicate 64 (CHR ''b''))"
proof -
  have u: "length (RemoveAll sample_uid (CHR ''-'')) \<ge> tokenUIDLen" by code_simp
  have f: "length sample_fp \<ge> tokenFPLen" and g: "length (replicate 64 (CHR ''b'')) \<ge> tokenFPLen"
    by (simp_all add: sample_fp_def)
  have "take tokenFPLen sample_fp \<noteq> take tokenFPLen (replicate 64 (CHR ''b''))" by code_simp
  then show ?thesis using ClientToken_determines [OF u u f g] by blast
qed

end
