(* ===== verification/Sans.thy ===== *)
theory Sans
  imports Prelude
begin

text \<open>
  Host name coverage (\<open>pkg/pki/sans.go\<close>): \<open>Covers\<close> decides whether a name of a
  certificate covers a host, \<open>Missing\<close> lists the required hosts no name covers.
\<close>

section \<open>Definitions\<close>

definition norm_name :: "string \<Rightarrow> string" where
  "norm_name s = ToLower (TrimSuffix s ''.'')"

text \<open>The loop over the labels after the first; the lists have the same length.\<close>

fun labels_match :: "string list \<Rightarrow> string list \<Rightarrow> bool" where
  "labels_match (p # ps) (h # hs) =
     (if p = [] \<or> Contains p ''*'' \<or> p \<noteq> h then False else labels_match ps hs)"
| "labels_match ps hs = True"

definition Covers :: "string \<Rightarrow> string \<Rightarrow> bool" where
  "Covers pattern host =
     (let p = norm_name pattern; h = norm_name host in
      if p = [] \<or> h = [] then False
      else if p = h then True
      else if \<not> HasPrefix p ''*.'' then False
      else let pl = Split p (CHR ''.''); hl = Split h (CHR ''.'') in
        if length pl < 3 \<or> length pl \<noteq> length hl then False
        else if \<not> labels_match (tl pl) (tl hl) then False
        else hd hl \<noteq> [])"

fun missing_loop :: "string list \<Rightarrow> string list \<Rightarrow> string list \<Rightarrow> string list \<Rightarrow> string list" where
  "missing_loop dnsNames seen out [] = out"
| "missing_loop dnsNames seen out (r # required) =
     (let key = norm_name r in
      if key \<in> set seen then missing_loop dnsNames seen out required
      else if (\<exists>n \<in> set dnsNames. Covers n r)
        then missing_loop dnsNames (key # seen) out required
        else missing_loop dnsNames (key # seen) (out @ [r]) required)"

definition Missing :: "string list \<Rightarrow> string list \<Rightarrow> string list" where
  "Missing dnsNames required = sort (missing_loop dnsNames [] [] required)"

text \<open>The rule the code comments state (RFC 6125, section 6.4.3), on the labels of a name: a
  wildcard is a whole leftmost label, stands for exactly one non-empty label, and has at
  least two literal labels after it.\<close>

definition rfc6125_match :: "string list \<Rightarrow> string list \<Rightarrow> bool" where
  "rfc6125_match pl hl \<longleftrightarrow> pl = hl \<or>
     (\<exists>rest l. pl = ''*'' # rest \<and> hl = l # rest \<and> l \<noteq> [] \<and> 2 \<le> length rest
        \<and> (\<forall>w \<in> set rest. w \<noteq> [] \<and> CHR ''*'' \<notin> set w))"

section \<open>Lemmas\<close>

lemma Contains_star: "Contains p ''*'' \<longleftrightarrow> CHR ''*'' \<in> set p"
  by (induction p) (auto simp: HasPrefix_def)

lemma labels_match_iff:
  "length ps = length hs \<Longrightarrow>
     labels_match ps hs \<longleftrightarrow> ps = hs \<and> (\<forall>w \<in> set ps. w \<noteq> [] \<and> CHR ''*'' \<notin> set w)"
  by (induction ps hs rule: labels_match.induct) (auto simp: Contains_star)

lemma Split_eq_iff: "Split s d = Split t d \<longleftrightarrow> s = t"
  by (metis Join_Split)

lemma Split_star: "HasPrefix p ''*.'' \<longleftrightarrow> (\<exists>rest. Split p (CHR ''.'') = ''*'' # rest \<and> rest \<noteq> [])"
proof
  assume "HasPrefix p ''*.''"
  then obtain t where "p = ''*.'' @ t" by (auto simp: HasPrefix_iff)
  then show "\<exists>rest. Split p (CHR ''.'') = ''*'' # rest \<and> rest \<noteq> []" by simp
next
  assume "\<exists>rest. Split p (CHR ''.'') = ''*'' # rest \<and> rest \<noteq> []"
  then obtain rest where r: "Split p (CHR ''.'') = ''*'' # rest" "rest \<noteq> []" by blast
  then have "p = ''*.'' @ Join rest ''.''"
    using Join_Split [of p "CHR ''.''"] by (simp add: Join_Cons)
  then show "HasPrefix p ''*.''" by (simp add: HasPrefix_def)
qed

lemma Covers_norm: "norm_name r = norm_name s \<Longrightarrow> Covers n r = Covers n s"
  by (simp add: Covers_def)

lemma missing_loop_mem:
  "x \<in> set (missing_loop ns seen out req) \<longleftrightarrow>
     x \<in> set out \<or> x \<in> set (missing_loop ns seen [] req)"
proof (induction req arbitrary: seen out)
  case (Cons r req)
  show ?case
    unfolding missing_loop.simps Let_def
    using Cons [of "norm_name r # seen" "out @ [r]"] Cons [of "norm_name r # seen" "[r]"]
      Cons [of seen out] Cons [of "norm_name r # seen" out]
    by auto
qed simp

lemma missing_loop_sound:
  "x \<in> set (missing_loop ns seen [] req) \<Longrightarrow>
     x \<in> set req \<and> norm_name x \<notin> set seen \<and> \<not> (\<exists>n \<in> set ns. Covers n x)"
proof (induction req arbitrary: seen)
  case (Cons r req)
  then show ?case
    using missing_loop_mem [of x ns "norm_name r # seen" "[r]" req]
    by (fastforce simp: Let_def split: if_splits)
qed simp

lemma missing_loop_complete:
  "r \<in> set req \<Longrightarrow> norm_name r \<notin> set seen \<Longrightarrow> \<not> (\<exists>n \<in> set ns. Covers n r) \<Longrightarrow>
     \<exists>x \<in> set (missing_loop ns seen [] req). norm_name x = norm_name r"
proof (induction req arbitrary: seen)
  case (Cons q req)
  show ?case
  proof (cases "norm_name q = norm_name r")
    case True
    then have "\<not> (\<exists>n \<in> set ns. Covers n q)" using Cons.prems(3) Covers_norm by blast
    then have "q \<in> set (missing_loop ns seen [] (q # req))"
      using True Cons.prems(2) missing_loop_mem [of q ns "norm_name q # seen" "[q]" req]
      by (simp add: Let_def)
    then show ?thesis using True by blast
  next
    case False
    then have r: "r \<in> set req" using Cons.prems(1) by auto
    note ih1 = Cons.IH [OF r, of seen, OF Cons.prems(2,3)]
    note ih2 = Cons.IH [OF r, of "norm_name q # seen"]
    show ?thesis
      using ih1 ih2 False Cons.prems missing_loop_mem [of _ ns "norm_name q # seen" "[q]" req]
      by (auto simp: Let_def)
  qed
qed simp

lemma missing_loop_distinct:
  "distinct (map norm_name out) \<Longrightarrow> norm_name ` set out \<subseteq> set seen \<Longrightarrow>
     distinct (map norm_name (missing_loop ns seen out req))"
proof (induction req arbitrary: seen out)
  case (Cons r req)
  then show ?case
    by (auto simp: Let_def image_subset_iff subset_iff intro!: Cons.IH)
qed simp

lemma Missing_nil_iff: "Missing ns req = [] \<longleftrightarrow> (\<forall>r \<in> set req. \<exists>n \<in> set ns. Covers n r)"
proof
  assume m: "Missing ns req = []"
  then have "missing_loop ns [] [] req = []"
    by (metis Missing_def set_empty set_sort)
  then show "\<forall>r \<in> set req. \<exists>n \<in> set ns. Covers n r"
    using missing_loop_complete [of _ req "[]" ns] by fastforce
next
  assume c: "\<forall>r \<in> set req. \<exists>n \<in> set ns. Covers n r"
  have "x \<notin> set (missing_loop ns [] [] req)" for x
    using missing_loop_sound [of x ns "[]" req] c by blast
  then have "missing_loop ns [] [] req = []" by (cases "missing_loop ns [] [] req") auto
  then show "Missing ns req = []" by (simp add: Missing_def)
qed

section \<open>Properties\<close>

text \<open>
  C37. \<open>Covers\<close> implements the RFC 6125 rule of its comment: after dropping one trailing dot
  and case, both names are non-empty and either equal, or the pattern is \<open>*\<close> followed by at
  least two literal labels and the host is one non-empty label followed by exactly those.
  In particular \<open>*.com\<close>, partial wildcards and wildcards further right match nothing else.
\<close>

theorem Covers_rfc6125:
  "Covers pattern host \<longleftrightarrow>
     norm_name pattern \<noteq> [] \<and> norm_name host \<noteq> [] \<and>
     rfc6125_match (Split (norm_name pattern) (CHR ''.'')) (Split (norm_name host) (CHR ''.''))"
proof -
  define p h where "p = norm_name pattern" and "h = norm_name host"
  define pl hl where "pl = Split p (CHR ''.'')" and "hl = Split h (CHR ''.'')"
  have eq: "p = h \<longleftrightarrow> pl = hl" by (simp add: pl_def hl_def Split_eq_iff)
  have star: "HasPrefix p ''*.'' \<longleftrightarrow> (\<exists>rest. pl = ''*'' # rest \<and> rest \<noteq> [])"
    by (simp add: pl_def Split_star)
  have hl: "hl \<noteq> []" by (simp add: hl_def)
  have cov: "Covers pattern host \<longleftrightarrow> p \<noteq> [] \<and> h \<noteq> [] \<and> (p = h \<or> HasPrefix p ''*.'' \<and>
      \<not> length pl < 3 \<and> length pl = length hl \<and> labels_match (tl pl) (tl hl) \<and> hd hl \<noteq> [])"
    by (auto simp: Covers_def Let_def p_def h_def pl_def hl_def)
  have match: "rfc6125_match pl hl \<longleftrightarrow> p = h \<or> HasPrefix p ''*.'' \<and>
      \<not> length pl < 3 \<and> length pl = length hl \<and> labels_match (tl pl) (tl hl) \<and> hd hl \<noteq> []"
    using hl by (cases pl; cases hl) (auto simp: rfc6125_match_def eq star labels_match_iff)
  show ?thesis unfolding cov p_def [symmetric] h_def [symmetric] pl_def [symmetric] hl_def [symmetric] match
    by blast
qed

text \<open>
  \<open>Missing\<close> is empty exactly when every required host is covered, so it can gate an
  apply; what it returns is sorted, is part of what was asked for, is covered by no name,
  and lists every uncovered host once up to case and a trailing dot.
\<close>

lemma Missing_spec:
  "(Missing names required = [] \<longleftrightarrow> (\<forall>r \<in> set required. \<exists>n \<in> set names. Covers n r))
   \<and> sorted (Missing names required)
   \<and> distinct (map norm_name (Missing names required))
   \<and> set (Missing names required) \<subseteq> {r \<in> set required. \<not> (\<exists>n \<in> set names. Covers n r)}
   \<and> norm_name ` set (Missing names required) =
       norm_name ` {r \<in> set required. \<not> (\<exists>n \<in> set names. Covers n r)}"
proof -
  have sub: "set (Missing names required) \<subseteq> {r \<in> set required. \<not> (\<exists>n \<in> set names. Covers n r)}"
    using missing_loop_sound by (fastforce simp: Missing_def)
  have img: "norm_name ` set (Missing names required) =
       norm_name ` {r \<in> set required. \<not> (\<exists>n \<in> set names. Covers n r)}"
  proof
    show "norm_name ` {r \<in> set required. \<not> (\<exists>n \<in> set names. Covers n r)}
        \<subseteq> norm_name ` set (Missing names required)"
    proof
      fix k assume "k \<in> norm_name ` {r \<in> set required. \<not> (\<exists>n \<in> set names. Covers n r)}"
      then obtain r where r: "k = norm_name r" "r \<in> set required" "\<not> (\<exists>n \<in> set names. Covers n r)" by blast
      show "k \<in> norm_name ` set (Missing names required)"
        using missing_loop_complete [OF r(2) _ r(3), of "[]"] r(1)
        by (simp add: Missing_def) (metis imageI)
    qed
  qed (use sub in blast)
  have dist: "distinct (map norm_name (Missing names required))"
  proof -
    have "distinct (map norm_name (missing_loop names [] [] required))"
      by (rule missing_loop_distinct) auto
    then show ?thesis by (simp add: Missing_def distinct_map)
  qed
  have "Missing names required = [] \<longleftrightarrow> norm_name ` set (Missing names required) = {}" by simp
  then have "Missing names required = [] \<longleftrightarrow> (\<forall>r \<in> set required. \<exists>n \<in> set names. Covers n r)"
    unfolding img by auto
  then show ?thesis using sub img dist by (simp add: Missing_def)
qed

lemma Missing_spec_example:
  "Missing [''*.example.com''] [''a.example.com'', ''a.b.example.com'', ''A.b.example.com.''] = [''a.b.example.com'']
   \<and> sorted (Missing [''*.example.com''] [''a.example.com'', ''a.b.example.com'', ''A.b.example.com.''])"
proof
  show "Missing [''*.example.com''] [''a.example.com'', ''a.b.example.com'', ''A.b.example.com.''] = [''a.b.example.com'']"
    by code_simp
qed (use Missing_spec [of "[''*.example.com'']" "[''a.example.com'', ''a.b.example.com'', ''A.b.example.com.'']"] in blast)

end
