(* ===== verification/Pki.thy ===== *)
theory Pki
  imports Errors Sans
begin

text \<open>
  Certificate material (\<open>pkg/pki/bundle.go\<close>): parsing and checking \<open>tls.crt\<close> and
  \<open>tls.key\<close>, the fingerprint, the normalised PEM output and the redaction of the key.

  The codecs and the cryptography the code calls (\<open>encoding/pem\<close>, \<open>crypto/x509\<close>,
  \<open>crypto/sha256\<close>) are the fields of \<open>crypto_env\<close>; \<open>crypto_laws\<close> collects the
  documented facts about them a theorem needs, and \<open>sample_env\<close> is an instance of them.
  The texts of the errors are English glosses of the Chinese originals.
\<close>

section \<open>Definitions\<close>

record pem_block =
  blk_Type :: string
  blk_Headers :: "(string \<times> string) list"
  blk_Bytes :: bytes

text \<open>A public key either has an \<open>Equal\<close> method (RSA, ECDSA, Ed25519) or not (DSA).\<close>

datatype public_key = PubKey bytes | PubNoEqual bytes

datatype private_key = RSAKey bytes | ECDSAKey bytes | OtherKey bytes

record x509_cert =
  xc_Raw :: bytes
  xc_RawIssuer :: bytes
  xc_RawSubject :: bytes
  xc_CommonName :: string
  xc_DNSNames :: "string list"
  xc_PublicKey :: public_key
  xc_NotBefore :: time
  xc_NotAfter :: time

record crypto_env =
  pem_Decode :: "bytes \<Rightarrow> pem_block option \<times> bytes"
  pem_EncodeToMemory :: "pem_block \<Rightarrow> bytes"
  x509_ParseCertificate :: "bytes \<Rightarrow> gerror + x509_cert"
  x509_ParsePKCS1PrivateKey :: "bytes \<Rightarrow> gerror + bytes"
  x509_ParseECPrivateKey :: "bytes \<Rightarrow> gerror + bytes"
  x509_ParsePKCS8PrivateKey :: "bytes \<Rightarrow> gerror + private_key"
  x509_MarshalPKCS1PrivateKey :: "bytes \<Rightarrow> bytes"
  x509_MarshalECPrivateKey :: "bytes \<Rightarrow> gerror + bytes"
  x509_CheckSignatureFrom :: "x509_cert \<Rightarrow> x509_cert \<Rightarrow> gerror option"
  x509_CheckSignature :: "x509_cert \<Rightarrow> gerror option"
  signer_Public :: "private_key \<Rightarrow> bytes"
  sha256_Sum256 :: "bytes \<Rightarrow> bytes"

record Bundle =
  bn_Leaf :: x509_cert
  bn_Intermediates :: "x509_cert list"
  bn_Signer :: private_key
  bn_Fingerprint :: string

abbreviation ErrNoCertificate :: gerror where "ErrNoCertificate \<equiv> Plain ''pki: no CERTIFICATE PEM block''"
abbreviation ErrNoPrivateKey :: gerror where "ErrNoPrivateKey \<equiv> Plain ''pki: no private key PEM block''"
abbreviation ErrEncryptedKey :: gerror where "ErrEncryptedKey \<equiv> Plain ''pki: private key is encrypted''"
abbreviation ErrUnsupportedKey :: gerror where "ErrUnsupportedKey \<equiv> Plain ''pki: unsupported private key type''"
abbreviation ErrKeyMismatch :: gerror where "ErrKeyMismatch \<equiv> Plain ''pki: private key does not match the leaf''"
abbreviation ErrBrokenChain :: gerror where "ErrBrokenChain \<equiv> Plain ''pki: broken certificate chain''"

abbreviation pemTypeCertificate :: string where "pemTypeCertificate \<equiv> ''CERTIFICATE''"
abbreviation pemTypeRSA :: string where "pemTypeRSA \<equiv> ''RSA PRIVATE KEY''"
abbreviation pemTypeEC :: string where "pemTypeEC \<equiv> ''EC PRIVATE KEY''"

definition fingerprintOf :: "crypto_env \<Rightarrow> x509_cert \<Rightarrow> string" where
  "fingerprintOf env c = hex_encode (sha256_Sum256 env (xc_Raw c))"

text \<open>The loop of \<open>parseCertificates\<close>. The test on the lengths makes the recursion end for
  every parameter; \<open>pem.Decode\<close> consumes what it decodes (\<open>pem_consumes\<close>), and then the
  loop is the one of the source (\<open>parse_certs_loop_step\<close>).\<close>

function parse_certs_loop :: "crypto_env \<Rightarrow> bytes \<Rightarrow> x509_cert list \<Rightarrow> gerror + x509_cert list" where
  "parse_certs_loop env rest out = (case pem_Decode env rest of
     (None, rest') \<Rightarrow> Inr out
   | (Some blk, rest') \<Rightarrow>
       if length rest \<le> length rest' then Inr out
       else if blk_Type blk \<noteq> pemTypeCertificate then parse_certs_loop env rest' out
       else (case x509_ParseCertificate env (blk_Bytes blk) of
           Inl err \<Rightarrow> Inl (Wrapf ''pki: parse certificate: '' err [])
         | Inr c \<Rightarrow> parse_certs_loop env rest' (out @ [c])))"
  by pat_completeness auto
termination
  by (relation "measure (\<lambda>(env, rest, out). length rest)") auto

declare parse_certs_loop.simps [simp del]

definition parseCertificates :: "crypto_env \<Rightarrow> bytes \<Rightarrow> gerror + x509_cert list" where
  "parseCertificates env certPEM = (case parse_certs_loop env certPEM [] of
     Inl err \<Rightarrow> Inl err
   | Inr out \<Rightarrow> if length out = 0 then Inl ErrNoCertificate else Inr out)"

text \<open>The second switch of \<open>parsePrivateKey\<close>.\<close>

definition signer_of_key :: "private_key \<Rightarrow> gerror + private_key" where
  "signer_of_key key = (case key of
     RSAKey k \<Rightarrow> Inr key | ECDSAKey k \<Rightarrow> Inr key | OtherKey k \<Rightarrow> Inl ErrUnsupportedKey)"

definition finish_key :: "gerror + private_key \<Rightarrow> gerror + private_key" where
  "finish_key r = (case r of
     Inl err \<Rightarrow> Inl (Wrapf ''pki: parse private key: '' err [])
   | Inr key \<Rightarrow> signer_of_key key)"

definition parsePrivateKey :: "crypto_env \<Rightarrow> bytes \<Rightarrow> gerror + private_key" where
  "parsePrivateKey env keyPEM = (case fst (pem_Decode env keyPEM) of
     None \<Rightarrow> Inl ErrNoPrivateKey
   | Some blk \<Rightarrow>
       if (case map_of (blk_Headers blk) ''Proc-Type'' of
             Some procType \<Rightarrow> Contains procType ''ENCRYPTED'' | None \<Rightarrow> False)
       then Inl ErrEncryptedKey
       else if blk_Type blk = pemTypeRSA then
         finish_key (map_sum id RSAKey (x509_ParsePKCS1PrivateKey env (blk_Bytes blk)))
       else if blk_Type blk = pemTypeEC then
         finish_key (map_sum id ECDSAKey (x509_ParseECPrivateKey env (blk_Bytes blk)))
       else if blk_Type blk = ''PRIVATE KEY'' then
         finish_key (x509_ParsePKCS8PrivateKey env (blk_Bytes blk))
       else if blk_Type blk = ''ENCRYPTED PRIVATE KEY'' then Inl ErrEncryptedKey
       else Inl (Wrapf [] ErrUnsupportedKey ('': PEM type '' @ blk_Type blk)))"

text \<open>The chain loop of \<open>ParseBundle\<close>: the first position whose certificate the next one did
  not sign, with the error.\<close>

fun check_chain :: "crypto_env \<Rightarrow> nat \<Rightarrow> x509_cert list \<Rightarrow> gerror option" where
  "check_chain env i (c # d # cs) = (case x509_CheckSignatureFrom env c d of
     Some err \<Rightarrow> Some (Wrapf [] ErrBrokenChain
       ('': certificate '' @ FormatNat i @ '' is not signed by '' @ FormatNat (i + 1) @ '': '' @ error_text err))
   | None \<Rightarrow> check_chain env (i + 1) (d # cs))"
| "check_chain env i cs = None"

definition ParseBundle :: "crypto_env \<Rightarrow> bytes \<Rightarrow> bytes \<Rightarrow> gerror + Bundle" where
  "ParseBundle env certPEM keyPEM = (case parseCertificates env certPEM of
     Inl err \<Rightarrow> Inl err
   | Inr certs \<Rightarrow> (case parsePrivateKey env keyPEM of
       Inl err \<Rightarrow> Inl err
     | Inr signer \<Rightarrow> (case check_chain env 0 certs of
         Some err \<Rightarrow> Inl err
       | None \<Rightarrow>
           if xc_PublicKey (hd certs) \<noteq> PubKey (signer_Public env signer) then Inl ErrKeyMismatch
           else Inr \<lparr> bn_Leaf = hd certs, bn_Intermediates = tl certs, bn_Signer = signer,
                      bn_Fingerprint = fingerprintOf env (hd certs) \<rparr>)))"

definition LeafFingerprint :: "crypto_env \<Rightarrow> bytes \<Rightarrow> gerror + string" where
  "LeafFingerprint env certPEM = (case parseCertificates env certPEM of
     Inl err \<Rightarrow> Inl err
   | Inr certs \<Rightarrow> Inr (fingerprintOf env (hd certs)))"

definition DNSNames :: "Bundle \<Rightarrow> string list" where
  "DNSNames b = (let names = xc_DNSNames (bn_Leaf b); cn = xc_CommonName (bn_Leaf b) in
     if cn = [] then names else if cn \<in> set names then names else names @ [cn])"

definition IsSelfSigned :: "crypto_env \<Rightarrow> Bundle \<Rightarrow> bool" where
  "IsSelfSigned env b =
     (if xc_RawIssuer (bn_Leaf b) \<noteq> xc_RawSubject (bn_Leaf b) then False
      else x509_CheckSignature env (bn_Leaf b) = None)"

definition cert_block :: "x509_cert \<Rightarrow> pem_block" where
  "cert_block c = \<lparr> blk_Type = pemTypeCertificate, blk_Headers = [], blk_Bytes = xc_Raw c \<rparr>"

definition CertPEM :: "crypto_env \<Rightarrow> Bundle \<Rightarrow> bytes" where
  "CertPEM env b = pem_EncodeToMemory env (cert_block (bn_Leaf b)) @
     concat (map (\<lambda>c. pem_EncodeToMemory env (cert_block c)) (bn_Intermediates b))"

definition KeyPEM :: "crypto_env \<Rightarrow> Bundle \<Rightarrow> gerror + bytes" where
  "KeyPEM env b = (case bn_Signer b of
     RSAKey k \<Rightarrow> Inr (pem_EncodeToMemory env
       \<lparr> blk_Type = pemTypeRSA, blk_Headers = [], blk_Bytes = x509_MarshalPKCS1PrivateKey env k \<rparr>)
   | ECDSAKey k \<Rightarrow> (case x509_MarshalECPrivateKey env k of
       Inl err \<Rightarrow> Inl (Wrapf ''pki: encode EC key: '' err [])
     | Inr der \<Rightarrow> Inr (pem_EncodeToMemory env
         \<lparr> blk_Type = pemTypeEC, blk_Headers = [], blk_Bytes = der \<rparr>))
   | OtherKey k \<Rightarrow> Inl ErrUnsupportedKey)"

subsection \<open>Redacted output\<close>

abbreviation redactedKey :: string where "redactedKey \<equiv> ''<redacted>''"

definition redactedFields :: "Bundle \<Rightarrow> string \<times> string list \<times> nat" where
  "redactedFields b = (bn_Fingerprint b, DNSNames b, length (bn_Intermediates b))"

definition bundle_String :: "Bundle \<Rightarrow> string" where
  "bundle_String b = (case redactedFields b of (fp, names, n) \<Rightarrow>
     ''pki.Bundle{fingerprint='' @ slice_to 8 fp @ '', dnsNames=['' @ Join names '' '' @
     ''], intermediates='' @ FormatNat n @ '', key='' @ redactedKey @ ''}'')"

text \<open>The structure \<open>MarshalJSON\<close> hands to the JSON encoder.\<close>

record redacted_json =
  j_fingerprint :: string
  j_dnsNames :: "string list"
  j_intermediates :: nat
  j_key :: string

definition MarshalJSON :: "Bundle \<Rightarrow> redacted_json" where
  "MarshalJSON b = (case redactedFields b of (fp, names, n) \<Rightarrow>
     \<lparr> j_fingerprint = fp, j_dnsNames = names, j_intermediates = n, j_key = redactedKey \<rparr>)"

section \<open>What the codecs promise\<close>

definition pem_consumes :: "crypto_env \<Rightarrow> bool" where
  "pem_consumes env \<longleftrightarrow> (\<forall>s b r. pem_Decode env s = (Some b, r) \<longrightarrow> length r < length s)"

definition pem_round_trip :: "crypto_env \<Rightarrow> bool" where
  "pem_round_trip env \<longleftrightarrow> pem_Decode env [] = (None, []) \<and>
     (\<forall>b s. blk_Headers b = [] \<longrightarrow> pem_Decode env (pem_EncodeToMemory env b @ s) = (Some b, s))"

text \<open>\<open>Certificate.Raw\<close> is the complete DER the certificate was parsed from, and the key
  encoders are undone by the parsers of the same encoding.\<close>

definition x509_round_trip :: "crypto_env \<Rightarrow> bool" where
  "x509_round_trip env \<longleftrightarrow>
     (\<forall>d c. x509_ParseCertificate env d = Inr c \<longrightarrow> xc_Raw c = d) \<and>
     (\<forall>k. x509_ParsePKCS1PrivateKey env (x509_MarshalPKCS1PrivateKey env k) = Inr k) \<and>
     (\<forall>k d. x509_MarshalECPrivateKey env k = Inr d \<longrightarrow> x509_ParseECPrivateKey env d = Inr k)"

definition crypto_laws :: "crypto_env \<Rightarrow> bool" where
  "crypto_laws env \<longleftrightarrow> pem_consumes env \<and> pem_round_trip env \<and> x509_round_trip env"


section \<open>Lemmas\<close>

lemma parse_certs_loop_step:
  assumes "pem_consumes env"
  shows "parse_certs_loop env rest out = (case pem_Decode env rest of
     (None, rest') \<Rightarrow> Inr out
   | (Some blk, rest') \<Rightarrow>
       if blk_Type blk \<noteq> pemTypeCertificate then parse_certs_loop env rest' out
       else (case x509_ParseCertificate env (blk_Bytes blk) of
           Inl err \<Rightarrow> Inl (Wrapf ''pki: parse certificate: '' err [])
         | Inr c \<Rightarrow> parse_certs_loop env rest' (out @ [c])))"
  using assms unfolding pem_consumes_def
  by (subst parse_certs_loop.simps) (fastforce split: option.splits prod.splits)

lemma parse_certs_loop_raw:
  "x509_round_trip env \<Longrightarrow> parse_certs_loop env rest out = Inr cs \<Longrightarrow>
    \<forall>c \<in> set out. x509_ParseCertificate env (xc_Raw c) = Inr c \<Longrightarrow>
    \<forall>c \<in> set cs. x509_ParseCertificate env (xc_Raw c) = Inr c"
proof (induction env rest out rule: parse_certs_loop.induct)
  case (1 env rest out)
  note unf = 1(4) [unfolded parse_certs_loop.simps [of env rest out]]
  show ?case
  proof (cases "pem_Decode env rest")
    case dec: (Pair b rest')
    show ?thesis
    proof (cases b)
      case None
      with unf dec 1(5) show ?thesis by simp
    next
      case (Some blk)
      consider "length rest \<le> length rest'" | "\<not> length rest \<le> length rest'" "blk_Type blk \<noteq> pemTypeCertificate"
        | c where "\<not> length rest \<le> length rest'" "blk_Type blk = pemTypeCertificate"
            "x509_ParseCertificate env (blk_Bytes blk) = Inr c"
        using unf dec Some by (auto split: if_splits sum.splits)
      then show ?thesis
      proof cases
        case 1
        with unf dec Some \<open>\<forall>c \<in> set out. _ c\<close> show ?thesis by simp
      next
        case 2
        with unf dec Some "1.IH"(1) [OF dec [symmetric] Some 2] \<open>x509_round_trip env\<close> "1.prems"(3)
        show ?thesis by simp
      next
        case 3
        then have "xc_Raw c = blk_Bytes blk"
          using \<open>x509_round_trip env\<close> by (simp add: x509_round_trip_def)
        then show ?thesis
          using "1.IH"(2) [OF dec [symmetric] Some 3(1) _ 3(3)] 3 unf dec Some "1.prems" by simp
      qed
    qed
  qed
qed

lemma parse_certs_loop_encoded:
  assumes "pem_consumes env" "pem_round_trip env"
    and "\<forall>c \<in> set cs. x509_ParseCertificate env (xc_Raw c) = Inr c"
  shows "parse_certs_loop env (concat (map (\<lambda>c. pem_EncodeToMemory env (cert_block c)) cs)) out = Inr (out @ cs)"
  using assms(3)
proof (induction cs arbitrary: out)
  case Nil
  show ?case using assms(2) by (subst parse_certs_loop_step [OF assms(1)]) (simp add: pem_round_trip_def)
next
  case (Cons c cs)
  have "pem_Decode env (pem_EncodeToMemory env (cert_block c) @ s) = (Some (cert_block c), s)" for s
    using assms(2) by (simp add: pem_round_trip_def cert_block_def)
  with Cons show ?case
    by (subst parse_certs_loop_step [OF assms(1)]) (simp add: cert_block_def)
qed

lemma ParseBundle_InrD:
  assumes "ParseBundle env certPEM keyPEM = Inr b"
  shows "parseCertificates env certPEM = Inr (bn_Leaf b # bn_Intermediates b)"
    and "parsePrivateKey env keyPEM = Inr (bn_Signer b)"
    and "check_chain env 0 (bn_Leaf b # bn_Intermediates b) = None"
    and "xc_PublicKey (bn_Leaf b) = PubKey (signer_Public env (bn_Signer b))"
    and "bn_Fingerprint b = fingerprintOf env (bn_Leaf b)"
proof -
  obtain certs where c: "parseCertificates env certPEM = Inr certs"
    using assms by (auto simp: ParseBundle_def split: sum.splits)
  then have "certs \<noteq> []" by (auto simp: parseCertificates_def split: sum.splits if_splits)
  then have hd: "hd certs # tl certs = certs" by simp
  show "parseCertificates env certPEM = Inr (bn_Leaf b # bn_Intermediates b)"
    "parsePrivateKey env keyPEM = Inr (bn_Signer b)"
    "check_chain env 0 (bn_Leaf b # bn_Intermediates b) = None"
    "xc_PublicKey (bn_Leaf b) = PubKey (signer_Public env (bn_Signer b))"
    "bn_Fingerprint b = fingerprintOf env (bn_Leaf b)"
    using assms c hd by (auto simp: ParseBundle_def split: sum.splits option.splits if_splits)
qed

lemma signer_not_other:
  assumes "parsePrivateKey env keyPEM = Inr k"
  shows "\<exists>m. k = RSAKey m \<or> k = ECDSAKey m"
proof -
  have "finish_key r = Inr k \<Longrightarrow> \<exists>m. k = RSAKey m \<or> k = ECDSAKey m" for r
    by (auto simp: finish_key_def signer_of_key_def split: sum.splits private_key.splits)
  then show ?thesis
    using assms unfolding parsePrivateKey_def by (auto split: option.splits if_splits)
qed

lemma check_chain_iff:
  "check_chain env i cs = None \<longleftrightarrow>
     (\<forall>j. Suc j < length cs \<longrightarrow> x509_CheckSignatureFrom env (cs ! j) (cs ! Suc j) = None)"
proof (induction env i cs rule: check_chain.induct)
  case (1 env i c d cs)
  show ?case
  proof (cases "x509_CheckSignatureFrom env c d")
    case None
    have "(\<forall>j. Suc j < length (c # d # cs) \<longrightarrow>
         x509_CheckSignatureFrom env ((c # d # cs) ! j) ((c # d # cs) ! Suc j) = None) \<longleftrightarrow>
       (\<forall>j. Suc j < length (d # cs) \<longrightarrow>
         x509_CheckSignatureFrom env ((d # cs) ! j) ((d # cs) ! Suc j) = None)"
      using None by (auto simp: nth_Cons split: nat.splits)
    with None 1 show ?thesis by simp
  next
    case (Some e)
    then show ?thesis by (auto intro!: exI [of _ 0])
  qed
qed auto

section \<open>Properties\<close>

text \<open>
  C29. Material that parses is consistent, and nothing else is accepted: \<open>ParseBundle\<close>
  succeeds exactly when the certificates and the key parse, every certificate is signed by
  the next one and the key is the leaf's; the key is then RSA or ECDSA and the fingerprint
  is the one \<open>LeafFingerprint\<close> computes from the public certificate alone, so the cloud
  side and the Secret side name the same generation.
\<close>

theorem ParseBundle_spec:
  "((\<exists>b. ParseBundle env certPEM keyPEM = Inr b) \<longleftrightarrow>
     (\<exists>certs k. parseCertificates env certPEM = Inr certs \<and> parsePrivateKey env keyPEM = Inr k
        \<and> (\<forall>j. Suc j < length certs \<longrightarrow> x509_CheckSignatureFrom env (certs ! j) (certs ! Suc j) = None)
        \<and> xc_PublicKey (hd certs) = PubKey (signer_Public env k)))
   \<and> (\<forall>b. ParseBundle env certPEM keyPEM = Inr b \<longrightarrow>
        LeafFingerprint env certPEM = Inr (bn_Fingerprint b)
        \<and> (\<exists>m. bn_Signer b = RSAKey m \<or> bn_Signer b = ECDSAKey m))"
proof (intro conjI allI impI iffI)
  assume "\<exists>b. ParseBundle env certPEM keyPEM = Inr b"
  then obtain b where "ParseBundle env certPEM keyPEM = Inr b" by blast
  from ParseBundle_InrD [OF this]
  show "\<exists>certs k. parseCertificates env certPEM = Inr certs \<and> parsePrivateKey env keyPEM = Inr k
        \<and> (\<forall>j. Suc j < length certs \<longrightarrow> x509_CheckSignatureFrom env (certs ! j) (certs ! Suc j) = None)
        \<and> xc_PublicKey (hd certs) = PubKey (signer_Public env k)"
    unfolding check_chain_iff by auto
next
  assume "\<exists>certs k. parseCertificates env certPEM = Inr certs \<and> parsePrivateKey env keyPEM = Inr k
        \<and> (\<forall>j. Suc j < length certs \<longrightarrow> x509_CheckSignatureFrom env (certs ! j) (certs ! Suc j) = None)
        \<and> xc_PublicKey (hd certs) = PubKey (signer_Public env k)"
  then show "\<exists>b. ParseBundle env certPEM keyPEM = Inr b"
    unfolding check_chain_iff [of env 0, symmetric] by (auto simp: ParseBundle_def)
next
  fix b assume b: "ParseBundle env certPEM keyPEM = Inr b"
  show "LeafFingerprint env certPEM = Inr (bn_Fingerprint b)"
    by (simp add: LeafFingerprint_def ParseBundle_InrD [OF b])
  show "\<exists>m. bn_Signer b = RSAKey m \<or> bn_Signer b = ECDSAKey m"
    using ParseBundle_InrD(2) [OF b] by (rule signer_not_other)
qed

lemma Bundle_reparses:
  assumes "crypto_laws env"
    and "ParseBundle env certPEM keyPEM = Inr b" and "KeyPEM env b = Inr key"
  shows "ParseBundle env (CertPEM env b) key = Inr b
    \<and> LeafFingerprint env (CertPEM env b) = Inr (bn_Fingerprint b)"
proof -
  note laws = assms(1) [unfolded crypto_laws_def]
  let ?cs = "bn_Leaf b # bn_Intermediates b"
  note D = ParseBundle_InrD [OF assms(2)]
  have "parse_certs_loop env certPEM [] = Inr ?cs"
    using D(1) by (auto simp: parseCertificates_def split: sum.splits if_splits)
  then have "\<forall>c \<in> set ?cs. x509_ParseCertificate env (xc_Raw c) = Inr c"
    using parse_certs_loop_raw laws by (metis empty_iff list.set(1))
  then have "parse_certs_loop env (CertPEM env b) [] = Inr ?cs"
    using parse_certs_loop_encoded [of env ?cs "[]"] laws by (simp add: CertPEM_def)
  then have certs: "parseCertificates env (CertPEM env b) = Inr ?cs"
    by (simp add: parseCertificates_def)
  have "parsePrivateKey env key = Inr (bn_Signer b)"
  proof -
    have dec: "blk_Headers blk = [] \<Longrightarrow> pem_Decode env (pem_EncodeToMemory env blk) = (Some blk, [])" for blk
      using laws unfolding pem_round_trip_def by (metis append_Nil2)
    from signer_not_other [OF D(2)] show ?thesis
      using assms(3) laws dec
      by (auto simp: KeyPEM_def parsePrivateKey_def finish_key_def signer_of_key_def x509_round_trip_def
          split: sum.splits)
  qed
  with certs D(3-5) show ?thesis
    by (simp add: ParseBundle_def LeafFingerprint_def)
qed

text \<open>
  C30. Normalisation loses nothing: what \<open>CertPEM\<close> and \<open>KeyPEM\<close> write for a bundle that
  was parsed parses again to the same bundle, with the same fingerprint, so that the
  material written to a target is recognised when it is read back.
\<close>

theorem Bundle_round_trip:
  assumes "crypto_laws env"
    and "ParseBundle env certPEM keyPEM = Inr b" and "KeyPEM env b = Inr key"
  shows "ParseBundle env (CertPEM env b) key = Inr b
    \<and> LeafFingerprint env (CertPEM env b) = Inr (bn_Fingerprint b)"
  by (rule Bundle_reparses [OF assms])

text \<open>
  C31. The private key never reaches text: the printed form and the JSON form of a bundle are
  the same whatever its key is, and the JSON form carries the placeholder in its place.
\<close>

theorem Bundle_redacted:
  "bundle_String (b\<lparr>bn_Signer := k\<rparr>) = bundle_String b
   \<and> MarshalJSON (b\<lparr>bn_Signer := k\<rparr>) = MarshalJSON b
   \<and> j_key (MarshalJSON b) = redactedKey"
proof -
  have "redactedFields (b\<lparr>bn_Signer := k\<rparr>) = redactedFields b"
    by (simp add: redactedFields_def DNSNames_def)
  then show ?thesis
    by (simp add: bundle_String_def MarshalJSON_def split: prod.splits)
qed

section \<open>Witnesses\<close>

text \<open>An instance of the parameters that satisfies the laws: a self-delimiting encoding of
  blocks, certificates whose only name is their DER, one key pair, and a digest of four bytes that
  keeps evaluation short.\<close>

definition enc_str :: "bytes \<Rightarrow> bytes" where
  "enc_str s = concat (map (\<lambda>c. [CHR ''+'', c]) s) @ ''.''"

fun dec_str :: "bytes \<Rightarrow> (bytes \<times> bytes) option" where
  "dec_str (x # xs) = (if x = CHR ''.'' then Some ([], xs) else case xs of
     [] \<Rightarrow> None | c # ys \<Rightarrow> map_option (\<lambda>(s, r). (c # s, r)) (dec_str ys))"
| "dec_str [] = None"

definition sample_decode :: "bytes \<Rightarrow> pem_block option \<times> bytes" where
  "sample_decode s = (case dec_str s of None \<Rightarrow> (None, s) | Some (t, r) \<Rightarrow> (case dec_str r of
     None \<Rightarrow> (None, s)
   | Some (b, r') \<Rightarrow> (Some \<lparr> blk_Type = t, blk_Headers = [], blk_Bytes = b \<rparr>, r')))"

definition sample_encode :: "pem_block \<Rightarrow> bytes" where
  "sample_encode b = enc_str (blk_Type b) @ enc_str (blk_Bytes b)"

definition sample_cert :: "bytes \<Rightarrow> x509_cert" where
  "sample_cert d = \<lparr> xc_Raw = d, xc_RawIssuer = ''issuer'', xc_RawSubject = ''subject'', xc_CommonName = d,
     xc_DNSNames = [d], xc_PublicKey = PubKey ''key'', xc_NotBefore = 0, xc_NotAfter = 90 * 24 * hour \<rparr>"

definition sample_env :: crypto_env where
  "sample_env = \<lparr> pem_Decode = sample_decode, pem_EncodeToMemory = sample_encode,
     x509_ParseCertificate = (\<lambda>d. Inr (sample_cert d)),
     x509_ParsePKCS1PrivateKey = Inr, x509_ParseECPrivateKey = Inr,
     x509_ParsePKCS8PrivateKey = (\<lambda>d. Inr (OtherKey d)),
     x509_MarshalPKCS1PrivateKey = id, x509_MarshalECPrivateKey = Inr,
     x509_CheckSignatureFrom = (\<lambda>_ _. None), x509_CheckSignature = (\<lambda>_. None),
     signer_Public = (\<lambda>k. case k of RSAKey d \<Rightarrow> d | ECDSAKey d \<Rightarrow> d | OtherKey d \<Rightarrow> d),
     sha256_Sum256 = (\<lambda>d. take 4 (d @ replicate 4 (CHR ''.''))) \<rparr>"

definition sample_certPEM :: "bytes \<Rightarrow> bytes" where
  "sample_certPEM d = sample_encode (cert_block (sample_cert d))"

definition sample_keyPEM :: bytes where
  "sample_keyPEM = sample_encode \<lparr> blk_Type = pemTypeRSA, blk_Headers = [], blk_Bytes = ''key'' \<rparr>"

definition sample_bundle :: "bytes \<Rightarrow> Bundle" where
  "sample_bundle d = \<lparr> bn_Leaf = sample_cert d, bn_Intermediates = [], bn_Signer = RSAKey ''key'',
     bn_Fingerprint = fingerprintOf sample_env (sample_cert d) \<rparr>"

lemma dec_enc_str: "dec_str (enc_str s @ r) = Some (s, r)"
  by (induction s) (auto simp: enc_str_def)

lemma dec_str_shorter: "dec_str s = Some (t, r) \<Longrightarrow> length r < length s"
proof (induction s arbitrary: t r rule: dec_str.induct)
  case (1 x xs)
  then show ?case by (fastforce split: if_splits list.splits)
qed simp

lemma sample_env_laws: "crypto_laws sample_env"
proof -
  have "pem_consumes sample_env"
    unfolding pem_consumes_def
  proof (intro allI impI)
    fix s b r assume "pem_Decode sample_env s = (Some b, r)"
    then obtain t u v where "dec_str s = Some (t, u)" "dec_str u = Some (v, r)"
      by (auto simp: sample_env_def sample_decode_def split: option.splits)
    from dec_str_shorter [OF this(1)] dec_str_shorter [OF this(2)] show "length r < length s" by simp
  qed
  moreover have "pem_round_trip sample_env"
    by (simp add: pem_round_trip_def sample_env_def sample_decode_def sample_encode_def dec_enc_str)
  moreover have "x509_round_trip sample_env"
    by (simp add: x509_round_trip_def sample_env_def sample_cert_def)
  ultimately show ?thesis by (simp add: crypto_laws_def)
qed

lemma sample_ParseBundle: "ParseBundle sample_env (sample_certPEM ''a.b.c'') sample_keyPEM = Inr (sample_bundle ''a.b.c'')"
  by code_simp

theorem ParseBundle_spec_witness:
  "LeafFingerprint sample_env (sample_certPEM ''a.b.c'') = Inr (bn_Fingerprint (sample_bundle ''a.b.c''))"
  using ParseBundle_spec [of sample_env "sample_certPEM ''a.b.c''" sample_keyPEM] sample_ParseBundle by blast

theorem Bundle_round_trip_witness:
  "ParseBundle sample_env (CertPEM sample_env (sample_bundle ''a.b.c'')) sample_keyPEM = Inr (sample_bundle ''a.b.c'')"
proof -
  have "KeyPEM sample_env (sample_bundle ''a.b.c'') = Inr sample_keyPEM" by code_simp
  then show ?thesis using Bundle_round_trip [OF sample_env_laws sample_ParseBundle] by blast
qed

end
