(* ===== verification/Aliyun_Client.thy ===== *)
theory Aliyun_Client
  imports Api_Types
begin

text \<open>
  What every Alibaba Cloud client is built from: the credentials of a Secret
  (\<open>pkg/aliyun/credentials.go\<close>), the client cache (\<open>pkg/aliyun/cache.go\<close>) and the rate
  limiters (\<open>pkg/aliyun/ratelimit.go\<close>).

  The mutexes of the cache and of the limiters make each operation atomic, so an operation
  is a function on the map it guards. \<open>credential.NewCredential\<close> and \<open>rate.Limiter\<close> are
  libraries: the first takes the configuration \<open>Build\<close> returns here, the second is the
  pair of its rate and burst.
\<close>

section \<open>Credentials\<close>

abbreviation KeyAccessKeyID :: string where "KeyAccessKeyID \<equiv> ''accessKeyId''"
abbreviation KeyAccessKeySecret :: string where "KeyAccessKeySecret \<equiv> ''accessKeySecret''"
abbreviation KeySecurityToken :: string where "KeySecurityToken \<equiv> ''securityToken''"
abbreviation KeyRoleARN :: string where "KeyRoleARN \<equiv> ''roleArn''"
abbreviation KeyOIDCProviderARN :: string where "KeyOIDCProviderARN \<equiv> ''oidcProviderArn''"
abbreviation KeyOIDCTokenFilePath :: string where "KeyOIDCTokenFilePath \<equiv> ''oidcTokenFilePath''"

record Credentials =
  cr_AccessKeyID :: string
  cr_AccessKeySecret :: string
  cr_SecurityToken :: string
  cr_RoleARN :: string
  cr_OIDCProviderARN :: string
  cr_OIDCTokenFilePath :: string

definition isOIDC :: "Credentials \<Rightarrow> bool" where
  "isOIDC c \<longleftrightarrow> cr_RoleARN c \<noteq> [] \<and> cr_OIDCProviderARN c \<noteq> [] \<and> cr_OIDCTokenFilePath c \<noteq> []"

definition CredentialsFromSecret :: "secret \<Rightarrow> gerror + Credentials" where
  "CredentialsFromSecret s =
     (let get = (\<lambda>k. TrimSpace (map_index (s_Data s) k));
          c = \<lparr> cr_AccessKeyID = get KeyAccessKeyID, cr_AccessKeySecret = get KeyAccessKeySecret,
                cr_SecurityToken = get KeySecurityToken, cr_RoleARN = get KeyRoleARN,
                cr_OIDCProviderARN = get KeyOIDCProviderARN, cr_OIDCTokenFilePath = get KeyOIDCTokenFilePath \<rparr>
      in if isOIDC c then Inr c
         else if cr_AccessKeyID c \<noteq> [] \<and> cr_AccessKeySecret c \<noteq> [] then Inr c
         else if cr_AccessKeyID c \<noteq> [] \<or> cr_AccessKeySecret c \<noteq> []
           then Inl (Plain ''credentials Secret must contain both accessKeyId and accessKeySecret'')
         else Inl (Plain ''credentials Secret is empty''))"

definition LimiterKey :: "Credentials \<Rightarrow> string" where
  "LimiterKey c = (if isOIDC c then cr_RoleARN c else cr_AccessKeyID c)"

text \<open>The configuration \<open>Build\<close> hands to \<open>credential.NewCredential\<close>, by its type.\<close>

datatype credential_config =
    OidcRoleArn string string string
  | Sts string string string
  | AccessKey string string

definition Build :: "Credentials \<Rightarrow> credential_config" where
  "Build c =
     (if isOIDC c then OidcRoleArn (cr_RoleARN c) (cr_OIDCProviderARN c) (cr_OIDCTokenFilePath c)
      else if cr_SecurityToken c \<noteq> [] then
        Sts (cr_AccessKeyID c) (cr_AccessKeySecret c) (cr_SecurityToken c)
      else AccessKey (cr_AccessKeyID c) (cr_AccessKeySecret c))"

section \<open>Client cache\<close>

record ClientKey =
  k_Namespace :: string
  k_Name :: string
  k_ResourceVersion :: string
  k_Region :: string
  k_Endpoint :: string
  k_ResourceGroupID :: string
  k_Type :: string

definition identity :: "ClientKey \<Rightarrow> string" where
  "identity k = k_Namespace k @ ''/'' @ k_Name k @ ''/'' @ k_Region k @ ''/'' @ k_Endpoint k @ ''/'' @
     k_ResourceGroupID k @ ''/'' @ k_Type k"

record 'c entry =
  e_rv :: string
  e_client :: 'c

type_synonym 'c ClientCache = "string \<rightharpoonup> 'c entry"

definition NewClientCache :: "'c ClientCache" where
  "NewClientCache = (\<lambda>_. None)"

definition GetOrBuild :: "'c ClientCache \<Rightarrow> ClientKey \<Rightarrow> (unit \<Rightarrow> gerror + 'c) \<Rightarrow> (gerror + 'c) \<times> 'c ClientCache" where
  "GetOrBuild c key build =
     (let id = identity key in
      if (case c id of Some e \<Rightarrow> e_rv e = k_ResourceVersion key | None \<Rightarrow> False)
      then (Inr (e_client (the (c id))), c)
      else case build () of
        Inl err \<Rightarrow> (Inl err, c)
      | Inr cl \<Rightarrow> (Inr cl, c(id \<mapsto> \<lparr> e_rv = k_ResourceVersion key, e_client = cl \<rparr>)))"

text \<open>What a key finds in the cache.\<close>

definition cache_slot :: "'c ClientCache \<Rightarrow> ClientKey \<Rightarrow> 'c option" where
  "cache_slot c key = (case c (identity key) of
     Some e \<Rightarrow> if e_rv e = k_ResourceVersion key then Some (e_client e) else None
   | None \<Rightarrow> None)"

text \<open>The parts of an identity; a key is well formed when none of them has a slash.\<close>

definition identity_parts :: "ClientKey \<Rightarrow> string list" where
  "identity_parts k = [k_Namespace k, k_Name k, k_Region k, k_Endpoint k, k_ResourceGroupID k, k_Type k]"

definition key_wf :: "ClientKey \<Rightarrow> bool" where
  "key_wf k \<longleftrightarrow> (\<forall>w \<in> set (identity_parts k). CHR ''/'' \<notin> set w)"

section \<open>Rate limiters\<close>

datatype LimitKind = LimitCASList | LimitCASWrite | LimitFC3 | LimitOSS

type_synonym limiter = "nat \<times> nat"

fun newLimiter :: "LimitKind \<Rightarrow> limiter" where
  "newLimiter LimitCASList = (8, 1)"
| "newLimiter LimitFC3 = (5, 1)"
| "newLimiter LimitOSS = (5, 1)"
| "newLimiter LimitCASWrite = (50, 10)"

fun kindName :: "LimitKind \<Rightarrow> string" where
  "kindName LimitCASList = ''cas-list''"
| "kindName LimitFC3 = ''fc3''"
| "kindName LimitOSS = ''oss''"
| "kindName LimitCASWrite = ''cas-write''"

type_synonym Limiters = "string \<rightharpoonup> limiter"

definition limiter_id :: "string \<Rightarrow> LimitKind \<Rightarrow> string" where
  "limiter_id key kind = key @ ''/'' @ kindName kind"

text \<open>The part of \<open>Wait\<close> under the mutex: the limiter the call then waits on.\<close>

definition Limiters_Wait :: "Limiters \<Rightarrow> string \<Rightarrow> LimitKind \<Rightarrow> limiter \<times> Limiters" where
  "Limiters_Wait l key kind =
     (let id = limiter_id key kind in
      case l id of
        Some lim \<Rightarrow> (lim, l)
      | None \<Rightarrow> let lim = newLimiter kind in (lim, l(id \<mapsto> lim)))"

fun waits :: "Limiters \<Rightarrow> (string \<times> LimitKind) list \<Rightarrow> Limiters" where
  "waits l [] = l"
| "waits l ((key, kind) # ws) = waits (snd (Limiters_Wait l key kind)) ws"

section \<open>The contract of a keyed cache\<close>

text \<open>
  What the client factories rely on: a well-formed key finds only what was built for it, a
  failed build leaves the cache alone, and filling a slot can only evict others.
\<close>

locale keyed_cache =
  fixes get :: "'m \<Rightarrow> 'k \<Rightarrow> (unit \<Rightarrow> 'e + 'v) \<Rightarrow> ('e + 'v) \<times> 'm"
    and slot :: "'m \<Rightarrow> 'k \<Rightarrow> 'v option"
    and wf :: "'k \<Rightarrow> bool"
    and new :: "'m"
  assumes new: "slot new k = None"
    and hit: "slot m k = Some v \<Longrightarrow> get m k b = (Inr v, m)"
    and miss_err: "slot m k = None \<Longrightarrow> b () = Inl e \<Longrightarrow> get m k b = (Inl e, m)"
    and miss_ok: "slot m k = None \<Longrightarrow> b () = Inr v \<Longrightarrow>
      \<exists>m'. get m k b = (Inr v, m') \<and> slot m' k = Some v \<and>
        (\<forall>k'. wf k \<longrightarrow> wf k' \<longrightarrow> k' \<noteq> k \<longrightarrow> slot m' k' = slot m k' \<or> slot m' k' = None)"
begin

fun run :: "'m \<Rightarrow> ('k \<times> (unit \<Rightarrow> 'e + 'v)) list \<Rightarrow> ('e + 'v) list \<times> 'm" where
  "run m [] = ([], m)"
| "run m ((k, b) # rs) = (let (r, m') = get m k b; (out, m'') = run m' rs in (r # out, m''))"

definition sound :: "('k \<Rightarrow> 'v \<Rightarrow> bool) \<Rightarrow> 'm \<Rightarrow> bool" where
  "sound P m \<longleftrightarrow> (\<forall>k v. wf k \<longrightarrow> slot m k = Some v \<longrightarrow> P k v)"

lemma sound_new: "sound P new"
  by (simp add: sound_def new)

lemma get_sound:
  assumes "sound P m" "wf k" "\<And>v. b () = Inr v \<Longrightarrow> P k v" "get m k b = (r, m')"
  shows "sound P m' \<and> (\<forall>v. r = Inr v \<longrightarrow> P k v)"
proof (cases "slot m k")
  case (Some v)
  with hit [of m k v b] assms show ?thesis by (auto simp: sound_def)
next
  case None
  show ?thesis
  proof (cases "b ()")
    case (Inl e)
    with miss_err [of m k b e] None assms show ?thesis by auto
  next
    case (Inr v)
    from miss_ok [of m k b v, OF None Inr] assms(4)
    have m': "r = Inr v" "slot m' k = Some v"
      "\<forall>k'. wf k \<longrightarrow> wf k' \<longrightarrow> k' \<noteq> k \<longrightarrow> slot m' k' = slot m k' \<or> slot m' k' = None" by auto
    have "P k' v'" if "wf k'" "slot m' k' = Some v'" for k' v'
    proof (cases "k' = k")
      case True
      with that m'(2) Inr assms(3) show ?thesis by simp
    next
      case False
      with that m'(3) assms(2) have "slot m k' = Some v'" by force
      with that(1) assms(1) show ?thesis by (simp add: sound_def)
    qed
    with m'(1) Inr assms(3) show ?thesis by (auto simp: sound_def)
  qed
qed

lemma run_sound:
  assumes "sound P m" "\<forall>(k, b) \<in> set rs. wf k \<and> (\<forall>v. b () = Inr v \<longrightarrow> P k v)" "run m rs = (out, m')"
  shows "list_all2 (\<lambda>(k, b) r. \<forall>v. r = Inr v \<longrightarrow> P k v) rs out"
  using assms
proof (induction rs arbitrary: m out m')
  case (Cons kb rs)
  obtain k b where kb: "kb = (k, b)" by (cases kb)
  obtain r m1 where g: "get m k b = (r, m1)" by (cases "get m k b")
  obtain out1 m2 where rr: "run m1 rs = (out1, m2)" by (cases "run m1 rs")
  have s: "sound P m1 \<and> (\<forall>v. r = Inr v \<longrightarrow> P k v)"
    using get_sound [OF Cons.prems(1) _ _ g] Cons.prems(2) kb by auto
  then have "list_all2 (\<lambda>(k, b) r. \<forall>v. r = Inr v \<longrightarrow> P k v) rs out1"
    using Cons.IH [OF _ _ rr] Cons.prems(2) by auto
  with s g rr kb Cons.prems(3) show ?case by auto
qed simp

end

section \<open>Lemmas\<close>

lemma identity_Join: "identity k = Join (identity_parts k) ''/''"
  by (simp add: identity_def identity_parts_def)

lemma identity_inject:
  assumes "key_wf k" "key_wf k'" "identity k = identity k'"
  shows "identity_parts k = identity_parts k'"
proof (rule Join_inject [of _ "CHR ''/''"])
  show "Join (identity_parts k) [CHR ''/''] = Join (identity_parts k') [CHR ''/'']"
    using assms(3) by (simp only: identity_Join)
  show "identity_parts k \<noteq> []" "identity_parts k' \<noteq> []" by (simp_all add: identity_parts_def)
  show "\<forall>w \<in> set (identity_parts k) \<union> set (identity_parts k'). CHR ''/'' \<notin> set w"
    using assms(1,2) by (auto simp only: key_wf_def Un_iff)
qed

lemma key_eqI:
  "identity_parts k = identity_parts k' \<Longrightarrow> k_ResourceVersion k = k_ResourceVersion k' \<Longrightarrow> k = k'"
  by (simp add: identity_parts_def ClientKey.equality)

interpretation cc: keyed_cache GetOrBuild cache_slot key_wf NewClientCache
proof unfold_locales
  fix k :: ClientKey
  show "cache_slot NewClientCache k = None" by (simp add: cache_slot_def NewClientCache_def)
next
  fix m :: "'c ClientCache" and k v and b :: "unit \<Rightarrow> gerror + 'c"
  assume "cache_slot m k = Some v"
  then show "GetOrBuild m k b = (Inr v, m)"
    by (auto simp: cache_slot_def GetOrBuild_def Let_def split: option.splits if_splits)
next
  fix m :: "'c ClientCache" and k e and b :: "unit \<Rightarrow> gerror + 'c"
  assume "cache_slot m k = None" "b () = Inl e"
  then show "GetOrBuild m k b = (Inl e, m)"
    by (auto simp: cache_slot_def GetOrBuild_def Let_def split: option.splits if_splits)
next
  fix m :: "'c ClientCache" and k v and b :: "unit \<Rightarrow> gerror + 'c"
  assume a: "cache_slot m k = None" "b () = Inr v"
  let ?m = "m(identity k \<mapsto> \<lparr> e_rv = k_ResourceVersion k, e_client = v \<rparr>)"
  have "GetOrBuild m k b = (Inr v, ?m)"
    using a by (auto simp: cache_slot_def GetOrBuild_def Let_def split: option.splits if_splits)
  moreover have "cache_slot ?m k = Some v" by (simp add: cache_slot_def)
  moreover have "cache_slot ?m k' = cache_slot m k' \<or> cache_slot ?m k' = None"
    if "key_wf k" "key_wf k'" "k' \<noteq> k" for k'
  proof (cases "identity k' = identity k")
    case True
    with that have "k_ResourceVersion k \<noteq> k_ResourceVersion k'"
      using identity_inject key_eqI by metis
    with True show ?thesis by (simp add: cache_slot_def)
  qed (simp add: cache_slot_def)
  ultimately show "\<exists>m'. GetOrBuild m k b = (Inr v, m') \<and> cache_slot m' k = Some v \<and>
      (\<forall>k'. key_wf k \<longrightarrow> key_wf k' \<longrightarrow> k' \<noteq> k \<longrightarrow> cache_slot m' k' = cache_slot m k' \<or> cache_slot m' k' = None)"
    by blast
qed

lemma kindName_no_slash: "CHR ''/'' \<notin> set (kindName k)"
  by (cases k) simp_all

lemma kindName_inject: "kindName k = kindName k' \<longleftrightarrow> k = k'"
  by (cases k; cases k') simp_all

lemma rsplit_inject:
  assumes "a @ x # b = c @ x # d" "x \<notin> set b" "x \<notin> set d"
  shows "a = c \<and> b = d"
proof -
  have "rev b @ x # rev a = rev d @ x # rev c" using arg_cong [OF assms(1), of rev] by simp
  moreover have "takeWhile (\<lambda>y. y \<noteq> x) (rev b @ x # rev a) = rev b"
    and "takeWhile (\<lambda>y. y \<noteq> x) (rev d @ x # rev c) = rev d"
    using assms(2,3) by (auto simp: takeWhile_tail)
  ultimately have "rev b = rev d" by simp
  then show ?thesis using assms(1) by simp
qed

lemma limiter_id_inject: "limiter_id k a = limiter_id k' a' \<longleftrightarrow> k = k' \<and> a = a'"
  unfolding limiter_id_def
  using rsplit_inject [of k "CHR ''/''" "kindName a" k' "kindName a'"] kindName_no_slash kindName_inject
  by auto

lemma waits_ids:
  assumes "\<forall>i lim. l i = Some lim \<longrightarrow> (\<exists>key kind. i = limiter_id key kind \<and> lim = newLimiter kind)"
    and "waits l ws i = Some lim"
  shows "\<exists>key kind. i = limiter_id key kind \<and> lim = newLimiter kind"
  using assms
proof (induction l ws rule: waits.induct)
  case (2 l key kind ws)
  have "\<forall>i lim. snd (Limiters_Wait l key kind) i = Some lim \<longrightarrow>
      (\<exists>key kind. i = limiter_id key kind \<and> lim = newLimiter kind)"
  proof (cases "l (limiter_id key kind)")
    case None
    then have "snd (Limiters_Wait l key kind) = l(limiter_id key kind \<mapsto> newLimiter kind)"
      by (simp add: Limiters_Wait_def Let_def)
    then show ?thesis using 2(2) by (metis fun_upd_other fun_upd_same option.inject)
  next
    case (Some lim)
    then show ?thesis using 2(2) by (simp add: Limiters_Wait_def Let_def)
  qed
  then show ?case using 2(1,3) by simp
next
  case (1 l)
  then show ?case unfolding waits.simps by blast
qed

section \<open>Properties\<close>

text \<open>
  A client is only ever reused for the key it was built for: in any sequence of cache
  lookups with well-formed keys, if a predicate holds of every client a key's own build
  function returns, it holds of every client the cache hands out for that key. Two keys
  that differ in namespace, name, region, endpoint, resource group, client type or in the
  resource version of the Secret never share a client.
\<close>

lemma GetOrBuild_own_client:
  assumes "\<forall>(k, b) \<in> set requests. key_wf k \<and> (\<forall>v. b () = Inr v \<longrightarrow> P k v)"
    and "cc.run NewClientCache requests = (results, cache)"
  shows "list_all2 (\<lambda>(k, b) r. \<forall>v. r = Inr v \<longrightarrow> P k v) requests results"
  using cc.run_sound [OF cc.sound_new assms] .

definition sample_key :: "string \<Rightarrow> string \<Rightarrow> ClientKey" where
  "sample_key rg rv = \<lparr> k_Namespace = ''ns'', k_Name = ''creds'', k_ResourceVersion = rv,
     k_Region = ''cn-hangzhou'', k_Endpoint = [], k_ResourceGroupID = rg, k_Type = [] \<rparr>"

text \<open>
  Every channel keeps its own quota: after any sequence of waits on fresh limiters, the
  limiter found for an account and a kind is the one of that kind (8/1 for CAS listing,
  50/10 for CAS writes, 5/1 for FC3 and for OSS); no other account or kind shares its slot.
\<close>

lemma Limiters_own_quota:
  "fst (Limiters_Wait (waits (\<lambda>_. None) ws) key kind) = newLimiter kind \<and>
   (limiter_id key kind = limiter_id key' kind' \<longleftrightarrow> key = key' \<and> kind = kind')"
proof -
  have "waits (\<lambda>_. None) ws (limiter_id key kind) = Some lim \<Longrightarrow> lim = newLimiter kind" for lim
    using waits_ids [of "\<lambda>_. None" ws "limiter_id key kind" lim] by (auto simp: limiter_id_inject)
  then have "fst (Limiters_Wait (waits (\<lambda>_. None) ws) key kind) = newLimiter kind"
    by (auto simp: Limiters_Wait_def Let_def split: option.splits)
  then show ?thesis by (simp add: limiter_id_inject)
qed

text \<open>
  The credentials accepted from a Secret are exactly those that can authenticate: a
  complete OIDC triple, or both halves of an access key; the configuration built from them
  carries no empty required field, and the limiter bucket is never empty.
\<close>

lemma CredentialsFromSecret_complete:
  assumes "CredentialsFromSecret s = Inr c"
  shows "LimiterKey c \<noteq> [] \<and> (case Build c of
      OidcRoleArn r p f \<Rightarrow> r \<noteq> [] \<and> p \<noteq> [] \<and> f \<noteq> []
    | Sts i k t \<Rightarrow> i \<noteq> [] \<and> k \<noteq> [] \<and> t \<noteq> []
    | AccessKey i k \<Rightarrow> i \<noteq> [] \<and> k \<noteq> [])"
proof -
  have "isOIDC c \<or> cr_AccessKeyID c \<noteq> [] \<and> cr_AccessKeySecret c \<noteq> []"
    using assms unfolding CredentialsFromSecret_def Let_def by (auto split: if_splits)
  then show ?thesis by (auto simp: Build_def LimiterKey_def isOIDC_def)
qed

section \<open>Witnesses\<close>

definition sample_requests :: "(ClientKey \<times> (unit \<Rightarrow> gerror + string)) list" where
  "sample_requests = [(sample_key [] ''1'', \<lambda>_. Inr ''1''), (sample_key [] ''2'', \<lambda>_. Inr ''2'')]"

lemma GetOrBuild_own_client_example:
  "list_all2 (\<lambda>(k, b) r. \<forall>v. r = Inr v \<longrightarrow> v = k_ResourceVersion k) sample_requests
     [Inr ''1'' :: gerror + string, Inr ''2'']"
proof -
  have ok: "\<forall>(k, b) \<in> set sample_requests. key_wf k \<and> (\<forall>v. b () = Inr v \<longrightarrow> v = k_ResourceVersion k)"
    by (simp add: sample_requests_def sample_key_def key_wf_def identity_parts_def)
  have "\<exists>c. cc.run NewClientCache sample_requests = ([Inr ''1'', Inr ''2''], c)"
  proof -
    have "identity (sample_key [] ''1'') = identity (sample_key [] ''2'')"
      and "k_ResourceVersion (sample_key [] ''1'') = ''1''" "k_ResourceVersion (sample_key [] ''2'') = ''2''"
      by (simp_all add: identity_def sample_key_def)
    then show ?thesis by (simp add: sample_requests_def GetOrBuild_def NewClientCache_def Let_def)
  qed
  then obtain c where "cc.run NewClientCache sample_requests = ([Inr ''1'', Inr ''2''], c)" ..
  with ok show ?thesis by (rule GetOrBuild_own_client [where P = "\<lambda>k v. v = k_ResourceVersion k"])
qed

definition sample_credentials_secret :: secret where
  "sample_credentials_secret = \<lparr> s_Namespace = ''ns'', s_Name = ''creds'', s_ResourceVersion = ''7'',
     s_Annotations = [], s_Data = [(KeyAccessKeyID, '' AK ''), (KeyAccessKeySecret, ''SK'')] \<rparr>"

definition sample_credentials :: Credentials where
  "sample_credentials = \<lparr> cr_AccessKeyID = ''AK'', cr_AccessKeySecret = ''SK'', cr_SecurityToken = [],
     cr_RoleARN = [], cr_OIDCProviderARN = [], cr_OIDCTokenFilePath = [] \<rparr>"

lemma sample_credentials_ok: "CredentialsFromSecret sample_credentials_secret = Inr sample_credentials"
  by code_simp

lemma CredentialsFromSecret_complete_example:
  "LimiterKey sample_credentials \<noteq> [] \<and> Build sample_credentials = AccessKey ''AK'' ''SK''"
proof
  show "LimiterKey sample_credentials \<noteq> []"
    using CredentialsFromSecret_complete [OF sample_credentials_ok] by blast
qed code_simp

end
