(* ===== verification/Cert_Model.thy ===== *)
theory Cert_Model
  imports Runtime Naming Pki Aliyun_Client
begin

text \<open>
  What both controllers are made of: the parameters that stand for the cluster, and the pure
  parts of the certificate controller: issuer resolution (\<open>internal/controller/issuer.go\<close>),
  the desired state of the cert-manager Certificate (\<open>desired.go\<close>), conditions and status
  (\<open>status.go\<close>), certificate material (\<open>material.go\<close>) and metrics (\<open>metrics.go\<close>).

  \<open>meta_api\<close> stands for the functions of apimachinery and controller-runtime on conditions
  and finalizers, \<open>kube\<close> for the API server seen through the manager's client and the
  uncached reader; \<open>meta_laws\<close> is what their documentation promises. A patch or update
  that succeeds answers with the object the server now has, which the client decodes into
  the object it was given. Condition messages are kept as a tag and its arguments.
\<close>

section \<open>Parameters\<close>

record meta_api =
  SetStatusCondition :: "condition list \<Rightarrow> condition \<Rightarrow> condition list"
  FindStatusCondition :: "condition list \<Rightarrow> string \<Rightarrow> condition option"
  IsStatusConditionTrue :: "condition list \<Rightarrow> string \<Rightarrow> bool"
  ContainsFinalizer :: "string list \<Rightarrow> string \<Rightarrow> bool"
  AddFinalizer :: "string list \<Rightarrow> string \<Rightarrow> string list"
  RemoveFinalizer :: "string list \<Rightarrow> string \<Rightarrow> string list"
  SetControllerReference :: "AliyunCertificate \<Rightarrow> certificate \<Rightarrow> gerror + certificate"

record 'w kube =
  k_GetAC :: "string \<Rightarrow> string \<Rightarrow> ('w, gerror + AliyunCertificate) state"
  k_UpdateAC :: "AliyunCertificate \<Rightarrow> ('w, gerror + AliyunCertificate) state"
  k_PatchACStatus :: "AliyunCertificate \<Rightarrow> AliyunCertificate \<Rightarrow> ('w, gerror + AliyunCertificate) state"
  k_GetCert :: "string \<Rightarrow> string \<Rightarrow> ('w, gerror + certificate) state"
  k_CreateOrUpdateCert :: "certificate \<Rightarrow> (certificate \<Rightarrow> gerror + certificate) \<Rightarrow>
     ('w, gerror + op_result \<times> certificate) state"
  k_DeleteCert :: "certificate \<Rightarrow> ('w, gerror option) state"
  k_GetSecret :: "string \<Rightarrow> string \<Rightarrow> ('w, gerror + secret) state"
  k_DeleteSecret :: "secret \<Rightarrow> ('w, gerror option) state"
  k_ListByTarget :: "string \<Rightarrow> ('w, gerror + AliyunCertificateBinding list) state"
  k_UpdateBinding :: "AliyunCertificateBinding \<Rightarrow> ('w, gerror + AliyunCertificateBinding) state"
  k_PatchBindingStatus :: "AliyunCertificateBinding \<Rightarrow> AliyunCertificateBinding \<Rightarrow>
     ('w, gerror + AliyunCertificateBinding) state"
  live_GetAC :: "(string \<Rightarrow> string \<Rightarrow> ('w, gerror + AliyunCertificate) state) option"
  live_ListBindings :: "string \<Rightarrow> ('w, gerror + AliyunCertificateBinding list) state"
  live_GetBinding :: "string \<Rightarrow> string \<Rightarrow> ('w, gerror + AliyunCertificateBinding) state"
  k_now :: "('w, time) state"

definition meta_laws :: "meta_api \<Rightarrow> bool" where
  "meta_laws mt \<longleftrightarrow>
     (\<forall>cs c. \<exists>c'. FindStatusCondition mt (SetStatusCondition mt cs c) (c_Type c) = Some c' \<and>
        c_Status c' = c_Status c \<and> c_Reason c' = c_Reason c \<and> c_Message c' = c_Message c
        \<and> c_ObservedGeneration c' = c_ObservedGeneration c) \<and>
     (\<forall>cs c t. t \<noteq> c_Type c \<longrightarrow>
        FindStatusCondition mt (SetStatusCondition mt cs c) t = FindStatusCondition mt cs t) \<and>
     (\<forall>cs t. IsStatusConditionTrue mt cs t \<longleftrightarrow>
        (\<exists>c. FindStatusCondition mt cs t = Some c \<and> c_Status c = ConditionTrue)) \<and>
     (\<forall>fs f. ContainsFinalizer mt fs f \<longleftrightarrow> f \<in> set fs) \<and>
     (\<forall>fs f. set (AddFinalizer mt fs f) = insert f (set fs)) \<and>
     (\<forall>fs f. set (RemoveFinalizer mt fs f) = set fs - {f})"

section \<open>Issuer resolution\<close>

abbreviation defaultIssuerKind :: string where "defaultIssuerKind \<equiv> ''Issuer''"
abbreviation defaultIssuerGroup :: string where "defaultIssuerGroup \<equiv> ''cert-manager.io''"

record IssuerDefaults =
  d_Name :: string
  d_Kind :: string
  d_Group :: string

datatype IssuerSource = IssuerSourceSpec | IssuerSourceStatus | IssuerSourceExisting | IssuerSourceDefault

definition NormalizeIssuerRef :: "IssuerReference \<Rightarrow> IssuerReference" where
  "NormalizeIssuerRef r =
     (let r1 = (if ir_Kind r = [] then r\<lparr>ir_Kind := defaultIssuerKind\<rparr> else r) in
      if ir_Group r1 = [] then r1\<lparr>ir_Group := defaultIssuerGroup\<rparr> else r1)"

definition IssuerDefaults_Ref :: "IssuerDefaults \<Rightarrow> IssuerReference option" where
  "IssuerDefaults_Ref d =
     (if d_Name d = [] then None
      else Some (NormalizeIssuerRef \<lparr> ir_Name = d_Name d, ir_Kind = d_Kind d, ir_Group = d_Group d \<rparr>))"

definition IssuerRefEqual :: "IssuerReference \<Rightarrow> IssuerReference \<Rightarrow> bool" where
  "IssuerRefEqual a b =
     (let a = NormalizeIssuerRef a; b = NormalizeIssuerRef b
      in ir_Name a = ir_Name b \<and> ir_Kind a = ir_Kind b \<and> ir_Group a = ir_Group b)"

text \<open>The result carries the source; \<open>None\<close> is \<open>ok = false\<close>.\<close>

definition ResolveIssuerRef ::
  "CertificateTemplate \<Rightarrow> AliyunCertificateStatus \<Rightarrow> certificate option \<Rightarrow> IssuerDefaults \<Rightarrow>
     (IssuerReference \<times> IssuerSource) option" where
  "ResolveIssuerRef tpl status existing defaults =
     (if (case t_IssuerRef tpl of Some i \<Rightarrow> ir_Name i \<noteq> [] | None \<Rightarrow> False)
      then Some (NormalizeIssuerRef (the (t_IssuerRef tpl)), IssuerSourceSpec)
      else if (case x_EffectiveIssuerRef status of Some i \<Rightarrow> ir_Name i \<noteq> [] | None \<Rightarrow> False)
      then Some (NormalizeIssuerRef (the (x_EffectiveIssuerRef status)), IssuerSourceStatus)
      else if (case existing of Some c \<Rightarrow> ir_Name (cs_IssuerRef (cm_Spec c)) \<noteq> [] | None \<Rightarrow> False)
      then Some (NormalizeIssuerRef (cs_IssuerRef (cm_Spec (the existing))), IssuerSourceExisting)
      else case IssuerDefaults_Ref defaults of
        Some d \<Rightarrow> Some (d, IssuerSourceDefault)
      | None \<Rightarrow> None)"

section \<open>Desired state\<close>

abbreviation certManagerCertificateNameAnnotation :: string where
  "certManagerCertificateNameAnnotation \<equiv> ''cert-manager.io/certificate-name''"

definition secretNameFor :: "AliyunCertificate \<Rightarrow> string" where
  "secretNameFor ac = (if sp_SecretName (ac_Spec ac) \<noteq> [] then sp_SecretName (ac_Spec ac) else ac_Name ac @ ''-tls'')"

definition certManagerNameFor :: "AliyunCertificate \<Rightarrow> string" where
  "certManagerNameFor ac = ac_Name ac"

definition servingSecretName :: "AliyunCertificate \<Rightarrow> string \<Rightarrow> string" where
  "servingSecretName ac effective = (if effective \<noteq> [] then effective else secretNameFor ac)"

definition secretNameConflictMessage :: "AliyunCertificate \<Rightarrow> message" where
  "secretNameConflictMessage ac = Msg ''secret exists and is not ours'' [secretNameFor ac]"

definition secretNameGuardHolding :: "AliyunCertificate \<Rightarrow> bool" where
  "secretNameGuardHolding ac \<longleftrightarrow>
     x_SecretName (ac_Status ac) \<noteq> [] \<and> x_SecretName (ac_Status ac) \<noteq> secretNameFor ac"

definition secretOwnedByUs :: "secret \<Rightarrow> AliyunCertificate \<Rightarrow> bool" where
  "secretOwnedByUs s ac \<longleftrightarrow> map_index (s_Annotations s) certManagerCertificateNameAnnotation = certManagerNameFor ac"

text \<open>An assignment to a Go map.\<close>

definition map_assign :: "(string \<times> string) list \<Rightarrow> string \<Rightarrow> string \<Rightarrow> (string \<times> string) list" where
  "map_assign m k v = (k, v) # filter (\<lambda>(k', _). k' \<noteq> k) m"

definition desiredCertificateSpec :: "AliyunCertificate \<Rightarrow> IssuerReference \<Rightarrow> CertificateSpec" where
  "desiredCertificateSpec ac issuer =
     (let t = sp_CertificateTemplate (ac_Spec ac);
          pk0 = (case t_PrivateKey t of Some k \<Rightarrow> k | None \<Rightarrow> \<lparr> pk_Encoding = [], pk_Rest = Opaque [] \<rparr>);
          pk = (if pk_Encoding pk0 = [] then pk0\<lparr>pk_Encoding := ''PKCS1''\<rparr> else pk0);
          st0 = (case t_SecretTemplate t of Some s \<Rightarrow> s | None \<Rightarrow> \<lparr> st_Labels = [], st_Annotations = [] \<rparr>);
          st = st0\<lparr>st_Labels := map_assign (st_Labels st0) LabelManaged ''true''\<rparr>
      in \<lparr> cs_SecretName = secretNameFor ac, cs_IssuerRef = NormalizeIssuerRef issuer,
           cs_CommonName = t_CommonName t, cs_DNSNames = t_DNSNames t, cs_IPAddresses = t_IPAddresses t,
           cs_Duration = t_Duration t, cs_RenewBefore = t_RenewBefore t, cs_Subject = t_Subject t,
           cs_Usages = t_Usages t, cs_PrivateKey = Some pk, cs_SecretTemplate = Some st \<rparr>)"

section \<open>Conditions and status\<close>

abbreviation upd_status :: "(AliyunCertificateStatus \<Rightarrow> AliyunCertificateStatus) \<Rightarrow> AliyunCertificate \<Rightarrow> AliyunCertificate" where
  "upd_status f ac \<equiv> ac\<lparr>ac_Status := f (ac_Status ac)\<rparr>"

definition setCondition ::
  "meta_api \<Rightarrow> AliyunCertificate \<Rightarrow> string \<Rightarrow> ConditionStatus \<Rightarrow> string \<Rightarrow> message \<Rightarrow> AliyunCertificate" where
  "setCondition mt ac condType status reason msg =
     upd_status (\<lambda>x. x\<lparr>x_Conditions := SetStatusCondition mt (x_Conditions x)
       \<lparr> c_Type = condType, c_Status = status, c_Reason = reason, c_Message = msg,
         c_ObservedGeneration = ac_Generation ac, c_LastTransitionTime = None \<rparr>\<rparr>) ac"

definition condTrue :: "meta_api \<Rightarrow> AliyunCertificate \<Rightarrow> string \<Rightarrow> bool" where
  "condTrue mt ac condType = IsStatusConditionTrue mt (x_Conditions (ac_Status ac)) condType"

definition mirrorIssuance :: "AliyunCertificate \<Rightarrow> certificate \<Rightarrow> AliyunCertificate" where
  "mirrorIssuance ac cert = upd_status (\<lambda>x. x\<lparr>x_Issuance := Some
     \<lparr> i_Revision = cm_Revision cert, i_RenewalTime = cm_RenewalTime cert,
       i_FailedIssuanceAttempts = cm_FailedIssuanceAttempts cert, i_LastFailureTime = cm_LastFailureTime cert \<rparr>\<rparr>) ac"

definition certCondition :: "certificate \<Rightarrow> string \<Rightarrow> CertificateCondition option" where
  "certCondition cert t = List.find (\<lambda>c. cc_Type c = t) (cm_Conditions cert)"

definition certReady :: "certificate \<Rightarrow> bool" where
  "certReady cert = (case certCondition cert ''Ready'' of
     None \<Rightarrow> False | Some c \<Rightarrow> cc_Status c = ConditionTrue)"

text \<open>The start is \<open>None\<close> for a zero time.\<close>

definition certIssuingSince :: "certificate \<Rightarrow> bool \<times> time option" where
  "certIssuingSince cert = (case certCondition cert ''Issuing'' of
     None \<Rightarrow> (False, None)
   | Some c \<Rightarrow> if cc_Status c \<noteq> ConditionTrue then (False, None)
       else (True, cc_LastTransitionTime c))"

section \<open>Metrics\<close>

abbreviation resultSuccess :: string where "resultSuccess \<equiv> ''success''"
abbreviation resultThrottled :: string where "resultThrottled \<equiv> ''throttled''"
abbreviation resultError :: string where "resultError \<equiv> ''error''"

definition b2f :: "bool \<Rightarrow> int" where
  "b2f v = (if v then 1 else 0)"

definition condReasonIs :: "AliyunCertificate \<Rightarrow> string \<Rightarrow> string \<Rightarrow> bool" where
  "condReasonIs ac condType reason =
     (case List.find (\<lambda>c. c_Type c = condType) (x_Conditions (ac_Status ac)) of
        Some c \<Rightarrow> c_Reason c = reason | None \<Rightarrow> False)"

definition casResult :: "gerror option \<Rightarrow> string" where
  "casResult err = (case err of None \<Rightarrow> resultSuccess | Some e \<Rightarrow>
     (case as_aliyun e of
        Some (c, code) \<Rightarrow> if HasPrefix code ''Throttling'' then resultThrottled else resultError
      | None \<Rightarrow> resultError))"

definition recordCASDelete :: "gerror option \<Rightarrow> ('w, unit) io" where
  "recordCASDelete err = emit (Metric (CounterInc ''aliyuncert_cas_delete_total''
     [if (case err of Some e \<Rightarrow> ClassOf e = ClassNotFound | None \<Rightarrow> False) then resultSuccess else casResult err]))"

definition recordCertMetrics :: "meta_api \<Rightarrow> AliyunCertificate \<Rightarrow> ('w, unit) io" where
  "recordCertMetrics mt ac = do {
     let ls = [ac_Namespace ac, ac_Name ac];
     (case x_Current (ac_Status ac) of
        Some c \<Rightarrow> emit (Metric (GaugeSet ''aliyuncert_certificate_not_after_timestamp_seconds'' ls (g_NotAfter c div second)))
      | None \<Rightarrow> ret ());
     emit (Metric (GaugeSet ''aliyuncert_certificate_ready'' ls (b2f (condTrue mt ac ConditionReady))));
     emit (Metric (GaugeSet ''aliyuncert_certificate_issuance_stalled'' ls
       (b2f (condReasonIs ac ConditionIssued ReasonIssuanceStalled))));
     emit (Metric (GaugeSet ''aliyuncert_issuer_default_diverged'' ls
       (b2f (condTrue mt ac ConditionIssuerDefaultDiverged))))
   }"

definition clearCertMetrics :: "string \<Rightarrow> string \<Rightarrow> ('w, unit) io" where
  "clearCertMetrics namespace name = do {
     emit (Metric (GaugeDelete ''aliyuncert_certificate_not_after_timestamp_seconds'' [namespace, name]));
     emit (Metric (GaugeDelete ''aliyuncert_certificate_ready'' [namespace, name]));
     emit (Metric (GaugeDelete ''aliyuncert_certificate_issuance_stalled'' [namespace, name]));
     emit (Metric (GaugeDelete ''aliyuncert_issuer_default_diverged'' [namespace, name]))
   }"

section \<open>Material\<close>

record materialError =
  me_Reason :: string
  me_Message :: message

definition loadBundle :: "crypto_env \<Rightarrow> 'w kube \<Rightarrow> string \<Rightarrow> string \<Rightarrow> ('w, materialError + Bundle) io" where
  "loadBundle env kb namespace name = do {
     s \<leftarrow> perform (GetSecret namespace name) (k_GetSecret kb namespace name);
     (case s of
        Inl err \<Rightarrow>
          if IsNotFound err
          then ret (Inl \<lparr> me_Reason = ReasonSecretNotFound, me_Message = Msg ''secret does not exist'' [name] \<rparr>)
          else ret (Inl \<lparr> me_Reason = ReasonSecretInvalid, me_Message = MsgErr ''reading the secret failed: '' (error_text err) \<rparr>)
      | Inr s \<Rightarrow>
          (case ParseBundle env (map_index (s_Data s) ''tls.crt'') (map_index (s_Data s) ''tls.key'') of
             Inl err \<Rightarrow> ret (Inl \<lparr> me_Reason = ReasonSecretInvalid, me_Message = MsgErr [] (error_text err) \<rparr>)
           | Inr b \<Rightarrow> ret (Inr b)))
   }"

definition validateMaterial :: "crypto_env \<Rightarrow> Bundle \<Rightarrow> AliyunCertificate \<Rightarrow> certificate \<Rightarrow> materialError option" where
  "validateMaterial env b ac cert =
     (if fst (certIssuingSince cert) \<and> IsSelfSigned env b
      then Some \<lparr> me_Reason = ReasonSelfSignedDuringIssuance, me_Message = Msg ''temporary self-signed certificate'' [] \<rparr>
      else let t = sp_CertificateTemplate (ac_Spec ac);
               required = t_DNSNames t @ (if t_CommonName t \<noteq> [] then [t_CommonName t] else []);
               missing = Missing (DNSNames b) required
           in if length missing > 0
              then Some \<lparr> me_Reason = ReasonSANsMismatch, me_Message = Msg ''not covered'' missing \<rparr>
              else None)"

definition loadMaterial :: "crypto_env \<Rightarrow> 'w kube \<Rightarrow> AliyunCertificate \<Rightarrow> certificate \<Rightarrow> ('w, materialError + Bundle) io" where
  "loadMaterial env kb ac cert = do {
     r \<leftarrow> loadBundle env kb (ac_Namespace ac) (servingSecretName ac (cs_SecretName (cm_Spec cert)));
     (case r of
        Inl me \<Rightarrow> ret (Inl me)
      | Inr b \<Rightarrow> (case validateMaterial env b ac cert of
          Some me \<Rightarrow> ret (Inl me)
        | None \<Rightarrow> ret (Inr b)))
   }"

section \<open>Lemmas\<close>

named_theorems meta_simps \<open>consequences of the condition laws\<close>

lemma find_set_same:
  "meta_laws mt \<Longrightarrow> \<exists>c'. FindStatusCondition mt (SetStatusCondition mt cs c) (c_Type c) = Some c' \<and>
     c_Status c' = c_Status c \<and> c_Reason c' = c_Reason c \<and> c_Message c' = c_Message c
     \<and> c_ObservedGeneration c' = c_ObservedGeneration c"
  by (simp add: meta_laws_def)

lemma find_set_other:
  "meta_laws mt \<Longrightarrow> t \<noteq> c_Type c \<Longrightarrow>
     FindStatusCondition mt (SetStatusCondition mt cs c) t = FindStatusCondition mt cs t"
  by (simp add: meta_laws_def)

lemma isTrue_iff:
  "meta_laws mt \<Longrightarrow> IsStatusConditionTrue mt cs t \<longleftrightarrow>
     (\<exists>c. FindStatusCondition mt cs t = Some c \<and> c_Status c = ConditionTrue)"
  by (simp add: meta_laws_def)

lemma finalizer_laws:
  assumes "meta_laws mt"
  shows "ContainsFinalizer mt fs f \<longleftrightarrow> f \<in> set fs"
    and "set (AddFinalizer mt fs f) = insert f (set fs)"
    and "set (RemoveFinalizer mt fs f) = set fs - {f}"
  using assms by (simp_all add: meta_laws_def)

lemma condTrue_setCondition_same [meta_simps]:
  "meta_laws mt \<Longrightarrow> condTrue mt (setCondition mt ac t st r m) t \<longleftrightarrow> st = ConditionTrue"
  using find_set_same [of mt "x_Conditions (ac_Status ac)"
      "\<lparr> c_Type = t, c_Status = st, c_Reason = r, c_Message = m,
         c_ObservedGeneration = ac_Generation ac, c_LastTransitionTime = None \<rparr>"]
  by (auto simp: condTrue_def setCondition_def isTrue_iff)

lemma condTrue_setCondition_other [meta_simps]:
  "meta_laws mt \<Longrightarrow> t' \<noteq> t \<Longrightarrow> condTrue mt (setCondition mt ac t st r m) t' = condTrue mt ac t'"
  by (simp add: condTrue_def setCondition_def isTrue_iff find_set_other)

text \<open>\<open>setCondition\<close> touches nothing but the conditions.\<close>

lemma setCondition_frame [simp]:
  "ac_Namespace (setCondition mt ac t st r m) = ac_Namespace ac"
  "ac_Name (setCondition mt ac t st r m) = ac_Name ac"
  "ac_UID (setCondition mt ac t st r m) = ac_UID ac"
  "ac_Generation (setCondition mt ac t st r m) = ac_Generation ac"
  "ac_Spec (setCondition mt ac t st r m) = ac_Spec ac"
  "ac_Finalizers (setCondition mt ac t st r m) = ac_Finalizers ac"
  "x_Current (ac_Status (setCondition mt ac t st r m)) = x_Current (ac_Status ac)"
  "x_History (ac_Status (setCondition mt ac t st r m)) = x_History (ac_Status ac)"
  "x_PendingUpload (ac_Status (setCondition mt ac t st r m)) = x_PendingUpload (ac_Status ac)"
  "x_SecretName (ac_Status (setCondition mt ac t st r m)) = x_SecretName (ac_Status ac)"
  "x_EffectiveIssuerRef (ac_Status (setCondition mt ac t st r m)) = x_EffectiveIssuerRef (ac_Status ac)"
  by (simp_all add: setCondition_def)

lemma secretNameFor_frame [simp]:
  "secretNameFor (setCondition mt ac t st r m) = secretNameFor ac"
  "secretNameGuardHolding (setCondition mt ac t st r m) = secretNameGuardHolding ac"
  by (simp_all add: secretNameFor_def secretNameGuardHolding_def)

lemma NormalizeIssuerRef_Name [simp]: "ir_Name (NormalizeIssuerRef r) = ir_Name r"
  by (simp add: NormalizeIssuerRef_def Let_def)

lemma NormalizeIssuerRef_idem [simp]: "NormalizeIssuerRef (NormalizeIssuerRef r) = NormalizeIssuerRef r"
  by (simp add: NormalizeIssuerRef_def Let_def)

lemma IssuerRefEqual_iff: "IssuerRefEqual a b \<longleftrightarrow> NormalizeIssuerRef a = NormalizeIssuerRef b"
  by (auto simp: IssuerRefEqual_def Let_def dest: arg_cong [where f = ir_Name])

lemma ResolveIssuerRef_normal:
  assumes "ResolveIssuerRef tpl st ex d = Some (i, src)"
  shows "NormalizeIssuerRef i = i \<and> ir_Name i \<noteq> []"
proof (cases "IssuerDefaults_Ref d")
  case None
  with assms show ?thesis
    unfolding ResolveIssuerRef_def by (auto split: if_splits option.splits)
next
  case (Some di)
  then have "NormalizeIssuerRef di = di \<and> ir_Name di \<noteq> []"
    unfolding IssuerDefaults_Ref_def by (auto split: if_splits)
  with Some assms show ?thesis
    unfolding ResolveIssuerRef_def by (auto split: if_splits option.splits)
qed

lemma validateMaterial_None_iff:
  "validateMaterial env b ac cert = None \<longleftrightarrow>
     \<not> (fst (certIssuingSince cert) \<and> IsSelfSigned env b) \<and>
     Missing (DNSNames b) (t_DNSNames (sp_CertificateTemplate (ac_Spec ac)) @
       (if t_CommonName (sp_CertificateTemplate (ac_Spec ac)) \<noteq> []
        then [t_CommonName (sp_CertificateTemplate (ac_Spec ac))] else [])) = []"
  by (simp add: validateMaterial_def Let_def)

text \<open>The leaf covers every name of the template.\<close>

definition template_covered :: "AliyunCertificate \<Rightarrow> Bundle \<Rightarrow> bool" where
  "template_covered ac b \<longleftrightarrow> (let t = sp_CertificateTemplate (ac_Spec ac) in
     \<forall>d \<in> set (t_DNSNames t) \<union> ({t_CommonName t} - {[]}). \<exists>n \<in> set (DNSNames b). Covers n d)"

lemma validateMaterial_ok_iff:
  "validateMaterial env b ac cert = None \<longleftrightarrow>
     \<not> (fst (certIssuingSince cert) \<and> IsSelfSigned env b) \<and> template_covered ac b"
  unfolding validateMaterial_None_iff Missing_nil_iff template_covered_def Let_def by auto

lemma only_recordCertMetrics [only_intro]: "(\<And>m. P (Metric m)) \<Longrightarrow> only P (recordCertMetrics mt ac)"
  unfolding recordCertMetrics_def by (intro only_intro) auto

lemma only_clearCertMetrics [only_intro]: "(\<And>m. P (Metric m)) \<Longrightarrow> only P (clearCertMetrics ns n)"
  unfolding clearCertMetrics_def by (intro only_intro) auto

lemma only_recordCASDelete [only_intro]: "(\<And>m. P (Metric m)) \<Longrightarrow> only P (recordCASDelete e)"
  unfolding recordCASDelete_def by (intro only_intro) auto

lemma loadBundle_spec:
  "emits (\<lambda>es r. \<exists>a. es = [GetSecret ns n a] \<and>
     (\<forall>b. r = Inr b \<longleftrightarrow> (\<exists>s. a = Inr s \<and>
        ParseBundle env (map_index (s_Data s) ''tls.crt'') (map_index (s_Data s) ''tls.key'') = Inr b)) \<and>
     (\<forall>me. r = Inl me \<longrightarrow> me_Reason me \<in> {ReasonSecretNotFound, ReasonSecretInvalid}))
   (loadBundle env kb ns n)"
  unfolding loadBundle_def by (intro emits_intro) (auto split: sum.splits)

lemma loadMaterial_spec:
  "emits (\<lambda>es r. \<exists>a. es = [GetSecret (ac_Namespace ac) (servingSecretName ac (cs_SecretName (cm_Spec cert))) a] \<and>
     (\<forall>b. r = Inr b \<longleftrightarrow> (\<exists>s. a = Inr s \<and>
        ParseBundle env (map_index (s_Data s) ''tls.crt'') (map_index (s_Data s) ''tls.key'') = Inr b \<and>
        \<not> (fst (certIssuingSince cert) \<and> IsSelfSigned env b) \<and>
        template_covered ac b)))
   (loadMaterial env kb ac cert)"
proof -
  let ?n = "servingSecretName ac (cs_SecretName (cm_Spec cert))"
  show ?thesis
    unfolding loadMaterial_def
  proof (rule emits_bind_mono [OF loadBundle_spec], goal_cases)
    case (1 es r)
    then obtain a where a: "es = [GetSecret (ac_Namespace ac) ?n a]"
      "\<forall>b. r = Inr b \<longleftrightarrow> (\<exists>s. a = Inr s \<and>
        ParseBundle env (map_index (s_Data s) ''tls.crt'') (map_index (s_Data s) ''tls.key'') = Inr b)"
      by blast
    show ?case
    proof (cases r)
      case (Inl me)
      with a show ?thesis by auto
    next
      case (Inr b)
      with a(2) have a': "\<exists>s. a = Inr s \<and>
        ParseBundle env (map_index (s_Data s) ''tls.crt'') (map_index (s_Data s) ''tls.key'') = Inr b" by blast
      with a(1) Inr show ?thesis
        using validateMaterial_ok_iff [of env b ac cert]
        by (cases "validateMaterial env b ac cert") auto
    qed
  qed
qed

section \<open>Properties\<close>

text \<open>
  C32. Issuers are pinned: once a resolution has been recorded in the status, then without an
  issuer in the spec every later resolution gives the same issuer, from the status, whatever
  the flags and the existing Certificate say by then; and an issuer in the spec always wins.
  A change of the default flags therefore never re-issues a certificate.
\<close>

theorem ResolveIssuerRef_pinned:
  assumes "ResolveIssuerRef tpl st ex d = Some (i, src)"
  shows "(\<forall>tpl' ex' d'. t_IssuerRef tpl' = None \<longrightarrow>
      ResolveIssuerRef tpl' (st\<lparr>x_EffectiveIssuerRef := Some i\<rparr>) ex' d' = Some (i, IssuerSourceStatus))
    \<and> (\<forall>tpl' st' ex' d' j. t_IssuerRef tpl' = Some j \<longrightarrow> ir_Name j \<noteq> [] \<longrightarrow>
      ResolveIssuerRef tpl' st' ex' d' = Some (NormalizeIssuerRef j, IssuerSourceSpec))"
  using ResolveIssuerRef_normal [OF assms] by (simp add: ResolveIssuerRef_def)

text \<open>
  C28. The material handed on is exactly the validated content of the one Secret that is in
  service: \<open>loadMaterial\<close> reads a single Secret, the one the Certificate names (or the one
  of the spec before there is any), and succeeds precisely when it parses as a consistent
  bundle that is no temporary self-signed certificate of a running issuance and that covers
  every name of the template.
\<close>

theorem loadMaterial_validated:
  "emits (\<lambda>es r. \<exists>a. es = [GetSecret (ac_Namespace ac) (servingSecretName ac (cs_SecretName (cm_Spec cert))) a] \<and>
     (\<forall>b. r = Inr b \<longleftrightarrow> (\<exists>s. a = Inr s \<and>
        ParseBundle env (map_index (s_Data s) ''tls.crt'') (map_index (s_Data s) ''tls.key'') = Inr b \<and>
        \<not> (fst (certIssuingSince cert) \<and> IsSelfSigned env b) \<and>
        template_covered ac b)))
   (loadMaterial env kb ac cert)"
  by (rule loadMaterial_spec)

end
