(* ===== verification/Fakes.thy ===== *)
theory Fakes
  imports Provider_Types
begin

text \<open>
  The in-memory clouds of \<open>pkg/aliyun/fake\<close>: a CAS, an FC3 and an OSS that the operator's
  own tests run against, with error injection and lost responses. They are the reference
  implementations of the client interfaces here: the contracts the controllers rely on
  (\<open>cas_service\<close>, and the target contracts of the providers) are interpreted on them.

  A Go map is a list in insertion order without repeated keys; iterating a Go map has no
  order, and nothing below depends on it. The call counters are test bookkeeping that no
  result depends on; the ones of CAS are kept, those per domain are left out.
\<close>

section \<open>CAS\<close>

record fake_cert =
  f_ID :: int
  f_Name :: string
  f_CertPEM :: bytes
  f_KeyPEM :: bytes
  f_Token :: string

record CAS =
  nextID :: int
  certs :: "fake_cert list"
  byToken :: "(string \<times> int) list"
  uploadErrs :: "gerror list"
  deleteErrs :: "gerror list"
  findErrs :: "gerror list"
  failAfterCommit :: "gerror option"
  uploadCalls :: nat
  deleteCalls :: nat
  findCalls :: nat

definition NewCAS :: CAS where
  "NewCAS = \<lparr> nextID = 1000, certs = [], byToken = [], uploadErrs = [], deleteErrs = [], findErrs = [],
     failAfterCommit = None, uploadCalls = 0, deleteCalls = 0, findCalls = 0 \<rparr>"

definition ErrDuplicateName :: gerror where
  "ErrDuplicateName = AliyunError ClassPermanent ''Upload'' ''CertNameDuplicated'' (Plain ''name already exists'')"

definition ErrCertNotExist :: gerror where
  "ErrCertNotExist = AliyunError ClassNotFound ''Delete'' ''CertNotExist'' (Plain ''not found'')"

definition QueueUploadErr :: "gerror \<Rightarrow> CAS \<Rightarrow> CAS" where
  "QueueUploadErr err f = f\<lparr>uploadErrs := uploadErrs f @ [err]\<rparr>"

definition QueueDeleteErr :: "gerror \<Rightarrow> CAS \<Rightarrow> CAS" where
  "QueueDeleteErr err f = f\<lparr>deleteErrs := deleteErrs f @ [err]\<rparr>"

definition QueueFindErr :: "gerror \<Rightarrow> CAS \<Rightarrow> CAS" where
  "QueueFindErr err f = f\<lparr>findErrs := findErrs f @ [err]\<rparr>"

definition FailNextUploadAfterCommit :: "gerror \<Rightarrow> CAS \<Rightarrow> CAS" where
  "FailNextUploadAfterCommit err f = f\<lparr>failAfterCommit := Some err\<rparr>"

fun pop :: "gerror list \<Rightarrow> gerror option \<times> gerror list" where
  "pop [] = (None, [])"
| "pop (e # q) = (Some e, q)"

definition Has :: "int \<Rightarrow> CAS \<Rightarrow> bool" where
  "Has i f \<longleftrightarrow> i \<in> f_ID ` set (certs f)"

definition fake_Upload :: "string \<Rightarrow> bytes \<Rightarrow> bytes \<Rightarrow> string \<Rightarrow> (CAS, gerror + int) state" where
  "fake_Upload name certPEM keyPEM token = State (\<lambda>f0.
     let f1 = f0\<lparr>uploadCalls := uploadCalls f0 + 1\<rparr> in
     case pop (uploadErrs f1) of
       (Some err, q) \<Rightarrow> (Inl err, f1\<lparr>uploadErrs := q\<rparr>)
     | (None, q) \<Rightarrow>
         if map_of (byToken f1) token \<noteq> None \<and> token \<noteq> []
         then (Inr (the (map_of (byToken f1) token)), f1)
         else if (\<exists>c \<in> set (certs f1). f_Name c = name) then (Inl ErrDuplicateName, f1)
         else
           let i = nextID f1 + 1;
               f2 = f1\<lparr>nextID := i, certs := certs f1 @
                 [\<lparr> f_ID = i, f_Name = name, f_CertPEM = certPEM, f_KeyPEM = keyPEM, f_Token = token \<rparr>]\<rparr>;
               f3 = (if token \<noteq> [] then f2\<lparr>byToken := (token, i) # byToken f2\<rparr> else f2)
           in (case failAfterCommit f3 of
                 Some err \<Rightarrow> (Inl err, f3\<lparr>failAfterCommit := None\<rparr>)
               | None \<Rightarrow> (Inr i, f3)))"

definition fake_Delete :: "int \<Rightarrow> string \<Rightarrow> (CAS, gerror option) state" where
  "fake_Delete certID token = State (\<lambda>f0.
     let f1 = f0\<lparr>deleteCalls := deleteCalls f0 + 1\<rparr> in
     case pop (deleteErrs f1) of
       (Some err, q) \<Rightarrow> (Some err, f1\<lparr>deleteErrs := q\<rparr>)
     | (None, q) \<Rightarrow>
         if \<not> (\<exists>c \<in> set (certs f1). f_ID c = certID) then (Some ErrCertNotExist, f1)
         else (None, f1\<lparr>certs := filter (\<lambda>c. f_ID c \<noteq> certID) (certs f1),
                        byToken := filter (\<lambda>(t, i). i \<noteq> certID) (byToken f1)\<rparr>))"

text \<open>The part before the first dot, with dots and hyphens replaced.\<close>

definition sanitizeHint :: "string \<Rightarrow> string" where
  "sanitizeHint s = map (\<lambda>c. if c = CHR ''.'' \<or> c = CHR ''-'' then CHR ''_'' else c) (hd (Split s (CHR ''.'')))"

definition fake_FindUploaded :: "string \<Rightarrow> (CAS, gerror + CertSummary list) state" where
  "fake_FindUploaded domainHint = State (\<lambda>f0.
     let f1 = f0\<lparr>findCalls := findCalls f0 + 1\<rparr> in
     case pop (findErrs f1) of
       (Some err, q) \<Rightarrow> (Inl err, f1\<lparr>findErrs := q\<rparr>)
     | (None, q) \<Rightarrow>
         (Inr (map (\<lambda>c. \<lparr> sm_CertID = f_ID c, sm_Name = f_Name c, sm_SANs = [], sm_EndDate = [] \<rparr>)
            (filter (\<lambda>c. domainHint = [] \<or> Contains (f_Name c) (sanitizeHint domainHint)) (certs f1))), f1))"

definition fake_cas :: "CAS CASClient" where
  "fake_cas = \<lparr> cas_Upload = fake_Upload, cas_Delete = fake_Delete, cas_FindUploaded = fake_FindUploaded \<rparr>"

section \<open>FC3\<close>

definition ErrDomainNotFound :: gerror where
  "ErrDomainNotFound = AliyunError ClassNotFound ActionGetCustomDomain ''DomainNameNotFound''
     (Plain ''custom domain not found'')"

record Domain =
  dm_DomainName :: string
  dm_Protocol :: string
  dm_CertName :: string
  dm_CertPEM :: bytes
  dm_KeyPEM :: bytes
  dm_Echo :: DomainEcho

record FC3 =
  accountID :: string
  domains :: "string \<rightharpoonup> Domain"
  getErrs :: "gerror list"
  updateErrs :: "gerror list"
  alwaysUpdateErr :: "gerror option"
  fc3_failAfterCommit :: "gerror option"

definition NewFC3 :: FC3 where
  "NewFC3 = \<lparr> accountID = [], domains = (\<lambda>_. None), getErrs = [], updateErrs = [],
     alwaysUpdateErr = None, fc3_failAfterCommit = None \<rparr>"

definition AddDomain :: "Domain \<Rightarrow> FC3 \<Rightarrow> FC3" where
  "AddDomain d f = f\<lparr>domains := (domains f)(dm_DomainName d \<mapsto> d)\<rparr>"

definition RemoveDomain :: "string \<Rightarrow> FC3 \<Rightarrow> FC3" where
  "RemoveDomain n f = f\<lparr>domains := (domains f)(n := None)\<rparr>"

definition fake_Domain :: "string \<Rightarrow> FC3 \<Rightarrow> Domain option" where
  "fake_Domain n f = domains f n"

definition SetAccountID :: "string \<Rightarrow> FC3 \<Rightarrow> FC3" where
  "SetAccountID i f = f\<lparr>accountID := i\<rparr>"

definition QueueGetErr :: "gerror \<Rightarrow> FC3 \<Rightarrow> FC3" where
  "QueueGetErr e f = f\<lparr>getErrs := getErrs f @ [e]\<rparr>"

definition QueueUpdateErr :: "gerror \<Rightarrow> FC3 \<Rightarrow> FC3" where
  "QueueUpdateErr e f = f\<lparr>updateErrs := updateErrs f @ [e]\<rparr>"

definition AlwaysUpdateErr :: "gerror option \<Rightarrow> FC3 \<Rightarrow> FC3" where
  "AlwaysUpdateErr e f = f\<lparr>alwaysUpdateErr := e\<rparr>"

definition FailNextUpdateAfterCommit :: "gerror option \<Rightarrow> FC3 \<Rightarrow> FC3" where
  "FailNextUpdateAfterCommit e f = f\<lparr>fc3_failAfterCommit := e\<rparr>"

definition fake_GetCustomDomain :: "string \<Rightarrow> (FC3, gerror + CustomDomain) state" where
  "fake_GetCustomDomain domain = State (\<lambda>f.
     case pop (getErrs f) of
       (Some err, q) \<Rightarrow> (Inl err, f\<lparr>getErrs := q\<rparr>)
     | (None, q) \<Rightarrow> (case domains f domain of
           None \<Rightarrow> (Inl ErrDomainNotFound, f)
         | Some d \<Rightarrow> (Inr \<lparr> cd_AccountID = accountID f, cd_DomainName = dm_DomainName d, cd_Protocol = dm_Protocol d,
             cd_CertName = dm_CertName d, cd_CertificatePEM = dm_CertPEM d, cd_Echo = dm_Echo d \<rparr>, f)))"

definition updateRejected :: "string \<Rightarrow> string \<Rightarrow> gerror" where
  "updateRejected code msg = AliyunError ClassPermanent ActionUpdateCustomDomain code (Plain msg)"

definition validateUpdate :: "UpdateCustomDomainInput \<Rightarrow> gerror option" where
  "validateUpdate i = (if ui_Protocol i = []
     then Some (updateRejected ''ProtocolRequired'' ''the update must give Protocol'') else None)"

definition fake_UpdateCustomDomain :: "string \<Rightarrow> UpdateCustomDomainInput \<Rightarrow> (FC3, gerror option) state" where
  "fake_UpdateCustomDomain domain i = State (\<lambda>f.
     case alwaysUpdateErr f of
       Some err \<Rightarrow> (Some err, f)
     | None \<Rightarrow> (case pop (updateErrs f) of
         (Some err, q) \<Rightarrow> (Some err, f\<lparr>updateErrs := q\<rparr>)
       | (None, q) \<Rightarrow> (case domains f domain of
           None \<Rightarrow> (Some ErrDomainNotFound, f)
         | Some d \<Rightarrow> (case validateUpdate i of
             Some err \<Rightarrow> (Some err, f)
           | None \<Rightarrow>
               let d1 = d\<lparr>dm_Protocol := ui_Protocol i\<rparr>;
                   d2 = (if ui_ClearCert i then d1\<lparr>dm_CertName := [], dm_CertPEM := [], dm_KeyPEM := []\<rparr>
                         else case ui_CertConfig i of
                             Some c \<Rightarrow> d1\<lparr>dm_CertName := cc_CertName c, dm_CertPEM := cc_CertPEM c, dm_KeyPEM := cc_KeyPEM c\<rparr>
                           | None \<Rightarrow> d1);
                   d3 = d2\<lparr>dm_Echo := ui_Echo i\<rparr>;
                   f1 = f\<lparr>domains := (domains f)(domain \<mapsto> d3)\<rparr>
               in (case fc3_failAfterCommit f1 of
                     Some err \<Rightarrow> (Some err, f1\<lparr>fc3_failAfterCommit := None\<rparr>)
                   | None \<Rightarrow> (None, f1))))))"

definition fake_fc3 :: "FC3 FC3Client" where
  "fake_fc3 = \<lparr> fc3_GetCustomDomain = fake_GetCustomDomain, fc3_UpdateCustomDomain = fake_UpdateCustomDomain \<rparr>"

section \<open>OSS\<close>

definition ErrNoSuchBucket :: gerror where
  "ErrNoSuchBucket = AliyunError ClassNotFound ActionListCname ''NoSuchBucket'' (Plain ''bucket does not exist'')"

definition ErrCnameNotFound :: gerror where
  "ErrCnameNotFound = AliyunError ClassNotFound ActionListCname ''CnameNotFound'' (Plain ''no such custom domain'')"

record CnameRecord =
  rec_Domain :: string
  rec_CertRef :: string
  rec_CertType :: string

record OSS =
  owner :: string
  buckets :: "string \<rightharpoonup> (string \<rightharpoonup> CnameRecord)"
  listErrs :: "gerror list"
  putErrs :: "gerror list"
  alwaysPutErr :: "gerror option"

definition NewOSS :: OSS where
  "NewOSS = \<lparr> owner = [], buckets = (\<lambda>_. None), listErrs = [], putErrs = [], alwaysPutErr = None \<rparr>"

definition AddBucket :: "string \<Rightarrow> OSS \<Rightarrow> OSS" where
  "AddBucket bucket f = (case buckets f bucket of
     None \<Rightarrow> f\<lparr>buckets := (buckets f)(bucket \<mapsto> (\<lambda>_. None))\<rparr> | Some _ \<Rightarrow> f)"

definition AddCname :: "string \<Rightarrow> CnameRecord \<Rightarrow> OSS \<Rightarrow> OSS" where
  "AddCname bucket r f =
     (let b = (case buckets f bucket of None \<Rightarrow> (\<lambda>_. None) | Some b \<Rightarrow> b)
      in f\<lparr>buckets := (buckets f)(bucket \<mapsto> b(ToLower (rec_Domain r) \<mapsto> r))\<rparr>)"

definition fake_Cname :: "string \<Rightarrow> string \<Rightarrow> OSS \<Rightarrow> CnameRecord option" where
  "fake_Cname bucket domain f = (case buckets f bucket of None \<Rightarrow> None | Some b \<Rightarrow> b (ToLower domain))"

definition SetOwner :: "string \<Rightarrow> OSS \<Rightarrow> OSS" where
  "SetOwner i f = f\<lparr>owner := i\<rparr>"

definition QueueListErr :: "gerror \<Rightarrow> OSS \<Rightarrow> OSS" where
  "QueueListErr e f = f\<lparr>listErrs := listErrs f @ [e]\<rparr>"

definition QueuePutErr :: "gerror \<Rightarrow> OSS \<Rightarrow> OSS" where
  "QueuePutErr e f = f\<lparr>putErrs := putErrs f @ [e]\<rparr>"

definition AlwaysPutErr :: "gerror option \<Rightarrow> OSS \<Rightarrow> OSS" where
  "AlwaysPutErr e f = f\<lparr>alwaysPutErr := e\<rparr>"

definition fake_GetCname :: "string \<Rightarrow> string \<Rightarrow> (OSS, gerror + Cname) state" where
  "fake_GetCname bucket domain = State (\<lambda>f.
     case pop (listErrs f) of
       (Some err, q) \<Rightarrow> (Inl err, f\<lparr>listErrs := q\<rparr>)
     | (None, q) \<Rightarrow> (case buckets f bucket of
         None \<Rightarrow> (Inl ErrNoSuchBucket, f)
       | Some b \<Rightarrow> (case b (ToLower domain) of
           None \<Rightarrow> (Inl ErrCnameNotFound, f)
         | Some r \<Rightarrow> (Inr \<lparr> cn_Domain = rec_Domain r, cn_Status = ''Enabled'', cn_CertRef = rec_CertRef r,
             cn_CertType = rec_CertType r, cn_AccountID = owner f \<rparr>, f))))"

definition fake_write :: "string \<Rightarrow> string \<Rightarrow> (CnameRecord \<Rightarrow> CnameRecord) \<Rightarrow> (OSS, gerror option) state" where
  "fake_write bucket domain mutate = State (\<lambda>f.
     case alwaysPutErr f of
       Some err \<Rightarrow> (Some err, f)
     | None \<Rightarrow> (case pop (putErrs f) of
         (Some err, q) \<Rightarrow> (Some err, f\<lparr>putErrs := q\<rparr>)
       | (None, q) \<Rightarrow> (case buckets f bucket of
           None \<Rightarrow> (Some ErrNoSuchBucket, f)
         | Some b \<Rightarrow> (case b (ToLower domain) of
             None \<Rightarrow> (Some ErrCnameNotFound, f)
           | Some r \<Rightarrow> (None, f\<lparr>buckets := (buckets f)(bucket \<mapsto> b(ToLower domain \<mapsto> mutate r))\<rparr>)))))"

definition fake_PutCnameCert :: "string \<Rightarrow> string \<Rightarrow> string \<Rightarrow> (OSS, gerror option) state" where
  "fake_PutCnameCert bucket domain certRef =
     (if certRef = [] then ret (Some (AliyunError ClassPermanent ActionPutCname ''InvalidArgument'' (Plain ''certRef is empty'')))
      else fake_write bucket domain (\<lambda>r. r\<lparr>rec_CertRef := certRef, rec_CertType := ''CAS''\<rparr>))"

definition fake_DeleteCnameCert :: "string \<Rightarrow> string \<Rightarrow> (OSS, gerror option) state" where
  "fake_DeleteCnameCert bucket domain = fake_write bucket domain (\<lambda>r. r\<lparr>rec_CertRef := [], rec_CertType := []\<rparr>)"

definition fake_oss :: "OSS OSSClient" where
  "fake_oss = \<lparr> oss_GetCname = fake_GetCname, oss_PutCnameCert = fake_PutCnameCert,
     oss_DeleteCnameCert = fake_DeleteCnameCert \<rparr>"

end
