(* ===== verification/Sample_World.thy ===== *)
theory Sample_World
  imports Cert_Model Fakes
begin

text \<open>
  A small cluster to run the controllers in: one AliyunCertificate, its cert-manager
  Certificate, Secrets and Bindings behind an API server that stores what it is given, a
  clock, and the fake clouds. It instantiates every parameter of the controllers and is
  what the examples in the theories below are evaluated on.
\<close>

section \<open>Conditions and finalizers\<close>

fun put_condition :: "condition list \<Rightarrow> condition \<Rightarrow> condition list" where
  "put_condition [] c = [c]"
| "put_condition (d # cs) c = (if c_Type d = c_Type c then c # cs else d # put_condition cs c)"

definition sample_meta :: meta_api where
  "sample_meta = \<lparr> SetStatusCondition = put_condition,
     FindStatusCondition = (\<lambda>cs t. List.find (\<lambda>c. c_Type c = t) cs),
     IsStatusConditionTrue = (\<lambda>cs t. case List.find (\<lambda>c. c_Type c = t) cs of
       Some c \<Rightarrow> c_Status c = ConditionTrue | None \<Rightarrow> False),
     ContainsFinalizer = (\<lambda>fs f. f \<in> set fs),
     AddFinalizer = (\<lambda>fs f. if f \<in> set fs then fs else fs @ [f]),
     RemoveFinalizer = (\<lambda>fs f. filter (\<lambda>x. x \<noteq> f) fs),
     SetControllerReference = (\<lambda>ac c. Inr (c\<lparr>cm_OwnerUID := Some (ac_UID ac)\<rparr>)) \<rparr>"

lemma find_put_same: "List.find (\<lambda>x. c_Type x = c_Type c) (put_condition cs c) = Some c"
  by (induction cs) auto

lemma find_put_other: "t \<noteq> c_Type c \<Longrightarrow>
    List.find (\<lambda>x. c_Type x = t) (put_condition cs c) = List.find (\<lambda>x. c_Type x = t) cs"
  by (induction cs) auto

lemma sample_meta_laws: "meta_laws sample_meta"
  unfolding meta_laws_def
  by (auto simp: sample_meta_def find_put_same find_put_other split: option.splits)

section \<open>The cluster\<close>

record cluster =
  w_ac :: "AliyunCertificate option"
  w_cert :: "certificate option"
  w_secrets :: "secret list"
  w_bindings :: "AliyunCertificateBinding list"
  w_clock :: time
  w_cas :: CAS
  w_fc3 :: FC3
  w_oss :: OSS

definition on_cas :: "(CAS, 'a) state \<Rightarrow> (cluster, 'a) state" where
  "on_cas m = State (\<lambda>w. case run_state m (w_cas w) of (x, f) \<Rightarrow> (x, w\<lparr>w_cas := f\<rparr>))"

definition on_fc3 :: "(FC3, 'a) state \<Rightarrow> (cluster, 'a) state" where
  "on_fc3 m = State (\<lambda>w. case run_state m (w_fc3 w) of (x, f) \<Rightarrow> (x, w\<lparr>w_fc3 := f\<rparr>))"

definition on_oss :: "(OSS, 'a) state \<Rightarrow> (cluster, 'a) state" where
  "on_oss m = State (\<lambda>w. case run_state m (w_oss w) of (x, f) \<Rightarrow> (x, w\<lparr>w_oss := f\<rparr>))"

definition cluster_cas :: "cluster CASClient" where
  "cluster_cas = \<lparr> cas_Upload = (\<lambda>n c k t. on_cas (fake_Upload n c k t)),
     cas_Delete = (\<lambda>i t. on_cas (fake_Delete i t)),
     cas_FindUploaded = (\<lambda>h. on_cas (fake_FindUploaded h)) \<rparr>"

definition cluster_fc3 :: "cluster FC3Client" where
  "cluster_fc3 = \<lparr> fc3_GetCustomDomain = (\<lambda>d. on_fc3 (fake_GetCustomDomain d)),
     fc3_UpdateCustomDomain = (\<lambda>d i. on_fc3 (fake_UpdateCustomDomain d i)) \<rparr>"

definition cluster_oss :: "cluster OSSClient" where
  "cluster_oss = \<lparr> oss_GetCname = (\<lambda>b d. on_oss (fake_GetCname b d)),
     oss_PutCnameCert = (\<lambda>b d c. on_oss (fake_PutCnameCert b d c)),
     oss_DeleteCnameCert = (\<lambda>b d. on_oss (fake_DeleteCnameCert b d)) \<rparr>"

definition ask :: "(cluster \<Rightarrow> 'a) \<Rightarrow> (cluster, 'a) state" where
  "ask f = State (\<lambda>w. (f w, w))"

definition not_found :: gerror where "not_found = ApiNotFound ''not found''"

definition get_ac :: "string \<Rightarrow> string \<Rightarrow> (cluster, gerror + AliyunCertificate) state" where
  "get_ac ns n = ask (\<lambda>w. case w_ac w of
     Some a \<Rightarrow> if ac_Namespace a = ns \<and> ac_Name a = n then Inr a else Inl not_found
   | None \<Rightarrow> Inl not_found)"

definition sample_kube :: "cluster kube" where
  "sample_kube = \<lparr>
     k_GetAC = get_ac,
     k_UpdateAC = (\<lambda>a. State (\<lambda>w. (Inr a, w\<lparr>w_ac := Some a\<rparr>))),
     k_PatchACStatus = (\<lambda>t b. State (\<lambda>w. case w_ac w of
         Some a \<Rightarrow> (Inr (a\<lparr>ac_Status := ac_Status t\<rparr>), w\<lparr>w_ac := Some (a\<lparr>ac_Status := ac_Status t\<rparr>)\<rparr>)
       | None \<Rightarrow> (Inl not_found, w))),
     k_GetCert = (\<lambda>ns n. ask (\<lambda>w. case w_cert w of Some c \<Rightarrow> Inr c | None \<Rightarrow> Inl not_found)),
     k_CreateOrUpdateCert = (\<lambda>c f. State (\<lambda>w. case w_cert w of
         None \<Rightarrow> (case f c of Inl e \<Rightarrow> (Inl e, w)
           | Inr d \<Rightarrow> (Inr (OperationResultCreated, d), w\<lparr>w_cert := Some d\<rparr>))
       | Some o' \<Rightarrow> (case f o' of Inl e \<Rightarrow> (Inl e, w)
           | Inr d \<Rightarrow> (Inr (if d = o' then OperationResultNone else OperationResultUpdated, d), w\<lparr>w_cert := Some d\<rparr>)))),
     k_DeleteCert = (\<lambda>c. State (\<lambda>w. (None, w\<lparr>w_cert := None\<rparr>))),
     k_GetSecret = (\<lambda>ns n. ask (\<lambda>w. case List.find (\<lambda>s. s_Namespace s = ns \<and> s_Name s = n) (w_secrets w) of
         Some s \<Rightarrow> Inr s | None \<Rightarrow> Inl not_found)),
     k_DeleteSecret = (\<lambda>s. State (\<lambda>w. (None, w\<lparr>w_secrets := filter (\<lambda>x. s_Name x \<noteq> s_Name s) (w_secrets w)\<rparr>))),
     k_ListByTarget = (\<lambda>key. ask (\<lambda>w. Inr (filter (\<lambda>b. TargetKey b = key) (w_bindings w)))),
     k_UpdateBinding = (\<lambda>b. State (\<lambda>w. (Inr b,
         w\<lparr>w_bindings := map (\<lambda>x. if b_UID x = b_UID b then b else x) (w_bindings w)\<rparr>))),
     k_PatchBindingStatus = (\<lambda>t b. State (\<lambda>w. (Inr t,
         w\<lparr>w_bindings := map (\<lambda>x. if b_UID x = b_UID t then x\<lparr>b_Status := b_Status t\<rparr> else x) (w_bindings w)\<rparr>))),
     live_GetAC = Some get_ac,
     live_ListBindings = (\<lambda>ns. ask (\<lambda>w. Inr (filter (\<lambda>b. b_Namespace b = ns) (w_bindings w)))),
     live_GetBinding = (\<lambda>ns n. ask (\<lambda>w. case List.find (\<lambda>b. b_Namespace b = ns \<and> b_Name b = n) (w_bindings w) of
         Some b \<Rightarrow> Inr b | None \<Rightarrow> Inl not_found)),
     k_now = ask w_clock \<rparr>"

section \<open>Objects\<close>

abbreviation day :: duration where "day \<equiv> 24 * hour"

definition sample_template :: CertificateTemplate where
  "sample_template = \<lparr> t_IssuerRef = None, t_CommonName = [], t_DNSNames = [''a.b.c''], t_IPAddresses = [],
     t_Duration = None, t_RenewBefore = None, t_Subject = None, t_Usages = [], t_PrivateKey = None, t_SecretTemplate = None \<rparr>"

definition sample_status :: AliyunCertificateStatus where
  "sample_status = \<lparr> x_ObservedGeneration = 1, x_EffectiveIssuerRef = None, x_SecretName = ''web-tls'',
     x_CertManagerCertificateName = ''web'', x_Issuance = None, x_Current = None, x_History = [],
     x_PendingUpload = None, x_CASProbedAt = None, x_CleanupStartedAt = None, x_Conditions = [] \<rparr>"

definition sample_ac :: AliyunCertificate where
  "sample_ac = \<lparr> ac_Namespace = ''ns'', ac_Name = ''web'', ac_UID = sample_uid, ac_Generation = 1,
     ac_DeletionTimestamp = None, ac_Finalizers = [FinalizerName],
     ac_Spec = \<lparr> sp_SecretName = [], sp_CertificateTemplate = sample_template,
       sp_Aliyun = \<lparr> a_CredentialsRef = ''creds'', a_Region = ''cn-hangzhou'', a_CASRegion = [],
         a_EndpointOverride = [], a_ResourceGroupID = [], a_UploadToCAS = None \<rparr>,
       sp_Retention = \<lparr> r_KeepLast = 2, r_MinAge = None \<rparr> \<rparr>,
     ac_Status = sample_status \<rparr>"

definition sample_gen :: "string \<Rightarrow> int \<Rightarrow> time \<Rightarrow> CertificateGeneration" where
  "sample_gen fp i at = \<lparr> g_Fingerprint = fp, g_CertID = Some i, g_CASName = CASName ''web'' fp,
     g_NotBefore = 0, g_NotAfter = 90 * day, g_UploadedAt = at \<rparr>"

definition sample_certificate :: certificate where
  "sample_certificate = \<lparr> cm_Namespace = ''ns'', cm_Name = ''web'', cm_Labels = [], cm_DeletionTimestamp = None,
     cm_OwnerUID = Some sample_uid,
     cm_Spec = desiredCertificateSpec sample_ac \<lparr> ir_Name = ''le'', ir_Kind = ''ClusterIssuer'', ir_Group = [] \<rparr>,
     cm_Conditions = [\<lparr> cc_Type = ''Ready'', cc_Status = ConditionTrue, cc_LastTransitionTime = None \<rparr>],
     cm_Revision = Some 1, cm_RenewalTime = None, cm_FailedIssuanceAttempts = None, cm_LastFailureTime = None \<rparr>"

definition sample_secret :: secret where
  "sample_secret = \<lparr> s_Namespace = ''ns'', s_Name = ''web-tls'', s_ResourceVersion = ''1'',
     s_Annotations = [(certManagerCertificateNameAnnotation, ''web'')],
     s_Data = [(''tls.crt'', sample_certPEM ''a.b.c''), (''tls.key'', sample_keyPEM)] \<rparr>"

definition sample_cluster :: "AliyunCertificate \<Rightarrow> AliyunCertificateBinding list \<Rightarrow> cluster" where
  "sample_cluster ac bs = \<lparr> w_ac = Some ac, w_cert = Some sample_certificate, w_secrets = [sample_secret],
     w_bindings = bs, w_clock = minute, w_cas = NewCAS, w_fc3 = NewFC3, w_oss = NewOSS \<rparr>"

section \<open>Witnesses\<close>

theorem ResolveIssuerRef_pinned_witness:
  "\<exists>i. ResolveIssuerRef sample_template sample_status None \<lparr> d_Name = ''le'', d_Kind = [], d_Group = [] \<rparr> = Some (i, IssuerSourceDefault) \<and>
     ResolveIssuerRef sample_template (sample_status\<lparr>x_EffectiveIssuerRef := Some i\<rparr>) None
       \<lparr> d_Name = ''other'', d_Kind = [], d_Group = [] \<rparr> = Some (i, IssuerSourceStatus)"
proof -
  let ?i = "NormalizeIssuerRef \<lparr> ir_Name = ''le'', ir_Kind = [], ir_Group = [] \<rparr>"
  have r: "ResolveIssuerRef sample_template sample_status None \<lparr> d_Name = ''le'', d_Kind = [], d_Group = [] \<rparr> = Some (?i, IssuerSourceDefault)"
    by code_simp
  have "t_IssuerRef sample_template = None" by (simp add: sample_template_def)
  with ResolveIssuerRef_pinned [OF r] r show ?thesis by blast
qed

end
