(* ===== verification/Upload.thy ===== *)
theory Upload
  imports Cert_Model Sample_World
begin

text \<open>
  The reconciler of certificates and its upload step (\<open>internal/controller/upload.go\<close>).

  \<open>AliyunCertificateReconciler\<close> is the struct of that name; its clock and its resync
  interval can only be replaced by tests while it runs, so they are fixed here. A function
  of the source that mutates \<open>ac\<close> or the patch base \<open>orig\<close> returns the new values.
\<close>

section \<open>Definitions\<close>

record 'w AliyunCertificateReconciler =
  r_kube :: "'w kube"
  r_meta :: meta_api
  r_crypto :: crypto_env
  r_CASFactory :: "(AliyunCertificate \<Rightarrow> ('w, gerror + 'w CASClient) state) option"
  r_ResyncInterval :: duration
  r_CASProbeInterval :: duration
  r_IssuanceStallThreshold :: duration
  r_CleanupGracePeriod :: duration
  r_CleanupFailurePolicy :: string
  r_defaults :: IssuerDefaults

definition now :: "'w AliyunCertificateReconciler \<Rightarrow> ('w, time) io" where
  "now r = perform ReadClock (k_now (r_kube r))"

definition patchStatus ::
  "'w AliyunCertificateReconciler \<Rightarrow> AliyunCertificate \<Rightarrow> AliyunCertificate \<Rightarrow> ('w, gerror + AliyunCertificate) io" where
  "patchStatus r ac orig = do {
     recordCertMetrics (r_meta r) ac;
     perform (PatchACStatus ac orig) (k_PatchACStatus (r_kube r) ac orig)
   }"

definition tokenPrefixLen :: nat where "tokenPrefixLen = 40"

definition uploadToken :: "string \<Rightarrow> string \<Rightarrow> time \<Rightarrow> string" where
  "uploadToken uid fingerprint startedAt =
     slice_to tokenPrefixLen (ClientToken uid fingerprint) @ hex8 (word_of_int (startedAt div second))"

definition adoptUploadState :: "AliyunCertificate \<Rightarrow> AliyunCertificate \<Rightarrow> AliyunCertificate" where
  "adoptUploadState dst src = upd_status (\<lambda>x. x\<lparr>
     x_Current := x_Current (ac_Status src), x_PendingUpload := x_PendingUpload (ac_Status src),
     x_CASProbedAt := x_CASProbedAt (ac_Status src), x_History := x_History (ac_Status src)\<rparr>) dst"

definition refreshUploadState ::
  "'w AliyunCertificateReconciler \<Rightarrow> AliyunCertificate \<Rightarrow> AliyunCertificate \<Rightarrow>
     ('w, gerror + AliyunCertificate \<times> AliyunCertificate) io" where
  "refreshUploadState r ac orig = do {
     fresh \<leftarrow> (case live_GetAC (r_kube r) of
         Some g \<Rightarrow> perform (GetAC True (ac_Namespace ac) (ac_Name ac)) (g (ac_Namespace ac) (ac_Name ac))
       | None \<Rightarrow> perform (GetAC False (ac_Namespace ac) (ac_Name ac))
           (k_GetAC (r_kube r) (ac_Namespace ac) (ac_Name ac)));
     (case fresh of
        Inl err \<Rightarrow> ret (Inl err)
      | Inr fresh \<Rightarrow> ret (Inr (adoptUploadState ac fresh, adoptUploadState orig fresh)))
   }"

definition patchPendingUpload ::
  "'w AliyunCertificateReconciler \<Rightarrow> AliyunCertificate \<Rightarrow> AliyunCertificate \<Rightarrow> PendingUpload \<Rightarrow>
     ('w, gerror + AliyunCertificate \<times> AliyunCertificate) io" where
  "patchPendingUpload r ac orig want = do {
     let target = upd_status (\<lambda>x. x\<lparr>x_PendingUpload := Some want\<rparr>) ac;
     res \<leftarrow> perform (PatchACStatus target ac) (k_PatchACStatus (r_kube r) target ac);
     (case res of
        Inl err \<Rightarrow> ret (Inl err)
      | Inr _ \<Rightarrow> ret (Inr (upd_status (\<lambda>x. x\<lparr>x_PendingUpload := Some want\<rparr>) ac,
                           upd_status (\<lambda>x. x\<lparr>x_PendingUpload := Some want\<rparr>) orig)))
   }"

definition casClient :: "'w AliyunCertificateReconciler \<Rightarrow> AliyunCertificate \<Rightarrow> ('w, gerror + 'w CASClient) io" where
  "casClient r ac = (case r_CASFactory r of
     None \<Rightarrow> ret (Inl (Plain ''CASFactory is not configured''))
   | Some f \<Rightarrow> perform (\<lambda>c. BuildCAS (case c of Inl e \<Rightarrow> Some e | Inr _ \<Rightarrow> None)) (f ac))"

definition isDuplicateName :: "gerror \<Rightarrow> bool" where
  "isDuplicateName err = (case as_aliyun err of
     None \<Rightarrow> False
   | Some (c, code) \<Rightarrow> code = ''NameRepeat'' \<or> code = ''CertNameDuplicated''
       \<or> code = ''DuplicateCertificateName'' \<or> code = ''CertNameExisted'')"

definition casDomainHint :: "AliyunCertificate \<Rightarrow> string" where
  "casDomainHint ac = (let t = sp_CertificateTemplate (ac_Spec ac) in
     case t_DNSNames t of n # _ \<Rightarrow> n | [] \<Rightarrow> t_CommonName t)"

definition casFindHint :: "AliyunCertificate \<Rightarrow> string \<Rightarrow> string" where
  "casFindHint ac preferred =
     (if (case x_PendingUpload (ac_Status ac) of Some p \<Rightarrow> p_DomainHint p \<noteq> [] | None \<Rightarrow> False)
      then p_DomainHint (the (x_PendingUpload (ac_Status ac)))
      else if preferred \<noteq> [] then preferred else casDomainHint ac)"

definition findByName :: "'w CASClient \<Rightarrow> Bundle \<Rightarrow> string \<Rightarrow> ('w, gerror + int) io" where
  "findByName cas b casName = do {
     let hint = (case DNSNames b of n # _ \<Rightarrow> n | [] \<Rightarrow> []);
     l \<leftarrow> perform (CASFind hint) (cas_FindUploaded cas hint);
     (case l of
        Inl err \<Rightarrow> ret (Inl err)
      | Inr list \<Rightarrow> (case List.find (\<lambda>c. sm_Name c = casName) list of
          Some c \<Rightarrow> ret (Inr (sm_CertID c))
        | None \<Rightarrow> ret (Inl (Plain (''no certificate of that name in CAS: '' @ casName)))))
   }"

definition current_is :: "AliyunCertificate \<Rightarrow> string \<Rightarrow> bool" where
  "current_is ac fp = (case x_Current (ac_Status ac) of Some c \<Rightarrow> g_Fingerprint c = fp | None \<Rightarrow> False)"

text \<open>The write-ahead record of \<open>ensureUploaded\<close>: kept if there is one for this
  fingerprint, else made and persisted.\<close>

definition ensurePending ::
  "'w AliyunCertificateReconciler \<Rightarrow> AliyunCertificate \<Rightarrow> AliyunCertificate \<Rightarrow> string \<Rightarrow>
     ('w, gerror + AliyunCertificate \<times> AliyunCertificate) io" where
  "ensurePending r ac orig fp =
     (if (case x_PendingUpload (ac_Status ac) of None \<Rightarrow> True | Some p \<Rightarrow> p_Fingerprint p \<noteq> fp)
      then do {
        startedAt \<leftarrow> now r;
        patchPendingUpload r ac orig
          \<lparr> p_Fingerprint = fp, p_CASName = CASName (ac_Name ac) fp,
            p_ClientToken = uploadToken (ac_UID ac) fp startedAt, p_StartedAt = startedAt,
            p_DomainHint = casDomainHint ac \<rparr>
      }
      else ret (Inr (ac, orig)))"

text \<open>The upload itself, with the claim of an existing certificate of the same name.\<close>

definition uploadOrClaim :: "'w CASClient \<Rightarrow> Bundle \<Rightarrow> bytes \<Rightarrow> bytes \<Rightarrow> PendingUpload \<Rightarrow> ('w, gerror + int) io" where
  "uploadOrClaim cas b certPEM keyPEM p = do {
     r1 \<leftarrow> perform (CASUpload (p_CASName p) certPEM keyPEM (p_ClientToken p))
            (cas_Upload cas (p_CASName p) certPEM keyPEM (p_ClientToken p));
     r2 \<leftarrow> (case r1 of
         Inr certID \<Rightarrow> ret (Inr certID)
       | Inl err \<Rightarrow>
           if ClassOf err = ClassPermanent \<and> isDuplicateName err
           then do {
             f \<leftarrow> findByName cas b (p_CASName p);
             ret (case f of Inr found \<Rightarrow> if found \<noteq> 0 then Inr found else Inl err | Inl _ \<Rightarrow> Inl err)
           }
           else ret (Inl err));
     emit (Metric (CounterInc ''aliyuncert_cas_upload_total''
       [casResult (case r2 of Inl e \<Rightarrow> Some e | Inr _ \<Rightarrow> None)]));
     ret r2
   }"

text \<open>The end of \<open>ensureUploaded\<close>: the old current generation goes to the head of the
  history unless it is the placeholder a probe left.\<close>

definition advance :: "AliyunCertificate \<Rightarrow> CertificateGeneration \<Rightarrow> AliyunCertificate" where
  "advance ac gen = upd_status (\<lambda>x. x\<lparr>
     x_History := (case x_Current x of
         Some c \<Rightarrow> if g_Fingerprint c \<noteq> [] then c # x_History x else x_History x
       | None \<Rightarrow> x_History x),
     x_Current := Some gen\<rparr>) ac"

definition uploadGeneration ::
  "'w AliyunCertificateReconciler \<Rightarrow> AliyunCertificate \<Rightarrow> AliyunCertificate \<Rightarrow> Bundle \<Rightarrow> time \<Rightarrow> CertificateGeneration \<Rightarrow>
     ('w, (gerror + bool) \<times> AliyunCertificate \<times> AliyunCertificate) io" where
  "uploadGeneration r ac orig b at gen = do {
     pend \<leftarrow> ensurePending r ac orig (bn_Fingerprint b);
     (case pend of
        Inl err \<Rightarrow> ret (Inl err, ac, orig)
      | Inr (ac, orig) \<Rightarrow> do {
          cl \<leftarrow> casClient r ac;
          (case cl of
             Inl err \<Rightarrow> ret (Inl err, ac, orig)
           | Inr cas \<Rightarrow> (case KeyPEM (r_crypto r) b of
               Inl err \<Rightarrow> ret (Inl err, ac, orig)
             | Inr keyPEM \<Rightarrow> do {
                 let p = the (x_PendingUpload (ac_Status ac));
                 res \<leftarrow> uploadOrClaim cas b (CertPEM (r_crypto r) b) keyPEM p;
                 (case res of
                    Inl err \<Rightarrow> ret (Inl err, ac, orig)
                  | Inr certID \<Rightarrow> do {
                      emit (Event EventTypeNormal ''Uploaded'' (Msg ''certificate uploaded to CAS'' []));
                      ret (Inr True,
                        advance (upd_status (\<lambda>x. x\<lparr>x_CASProbedAt := Some at, x_PendingUpload := None\<rparr>) ac)
                          (gen\<lparr>g_CertID := Some certID, g_CASName := p_CASName p\<rparr>),
                        orig)
                    })
               }))
        })
   }"

definition ensureUploaded ::
  "'w AliyunCertificateReconciler \<Rightarrow> AliyunCertificate \<Rightarrow> AliyunCertificate \<Rightarrow> Bundle \<Rightarrow>
     ('w, (gerror + bool) \<times> AliyunCertificate \<times> AliyunCertificate) io" where
  "ensureUploaded r ac orig b =
     (if current_is ac (bn_Fingerprint b) then ret (Inr False, ac, orig)
      else do {
        fresh \<leftarrow> refreshUploadState r ac orig;
        (case fresh of
           Inl err \<Rightarrow> ret (Inl err, ac, orig)
         | Inr (ac, orig) \<Rightarrow>
             if current_is ac (bn_Fingerprint b) then ret (Inr False, ac, orig)
             else do {
               at \<leftarrow> now r;
               let gen = \<lparr> g_Fingerprint = bn_Fingerprint b, g_CertID = None, g_CASName = [],
                           g_NotBefore = xc_NotBefore (bn_Leaf b), g_NotAfter = xc_NotAfter (bn_Leaf b),
                           g_UploadedAt = at \<rparr>;
               if UploadEnabled (sp_Aliyun (ac_Spec ac)) then uploadGeneration r ac orig b at gen
               else ret (Inr True, advance ac gen, orig)
             })
      })"

section \<open>Lemmas\<close>

lemma refreshUploadState_spec:
  "emits (\<lambda>es res. \<exists>lv a. es = [GetAC lv (ac_Namespace ac) (ac_Name ac) a] \<and>
     res = map_sum id (\<lambda>f. (adoptUploadState ac f, adoptUploadState orig f)) a)
   (refreshUploadState r ac orig)"
  unfolding refreshUploadState_def by (intro emits_intro) auto

text \<open>A record of the write-ahead log is for a fingerprint.\<close>

definition pending_for :: "string \<Rightarrow> PendingUpload option \<Rightarrow> bool" where
  "pending_for fp p \<longleftrightarrow> (case p of None \<Rightarrow> False | Some p \<Rightarrow> p_Fingerprint p = fp)"

definition new_pending :: "AliyunCertificate \<Rightarrow> string \<Rightarrow> time \<Rightarrow> PendingUpload" where
  "new_pending ac fp t = \<lparr> p_Fingerprint = fp, p_CASName = CASName (ac_Name ac) fp,
     p_ClientToken = uploadToken (ac_UID ac) fp t, p_StartedAt = t, p_DomainHint = casDomainHint ac \<rparr>"

abbreviation with_pending :: "PendingUpload option \<Rightarrow> AliyunCertificate \<Rightarrow> AliyunCertificate" where
  "with_pending p \<equiv> upd_status (\<lambda>x. x\<lparr>x_PendingUpload := p\<rparr>)"

lemma ensurePending_spec:
  "emits (\<lambda>es res.
     pending_for fp (x_PendingUpload (ac_Status ac)) \<and> es = [] \<and> res = Inr (ac, orig) \<or>
     \<not> pending_for fp (x_PendingUpload (ac_Status ac)) \<and> (\<exists>t a.
       es = [ReadClock t, PatchACStatus (with_pending (Some (new_pending ac fp t)) ac) ac a] \<and>
       res = map_sum id (\<lambda>_. (with_pending (Some (new_pending ac fp t)) ac, with_pending (Some (new_pending ac fp t)) orig)) a))
   (ensurePending r ac orig fp)"
  unfolding ensurePending_def patchPendingUpload_def now_def
  by (intro emits_intro) (auto simp: pending_for_def new_pending_def split: option.splits)

lemma casClient_spec:
  "emits (\<lambda>es res. es = [] \<and> (\<exists>e. res = Inl e) \<or>
     es = [BuildCAS (case res of Inl e \<Rightarrow> Some e | Inr _ \<Rightarrow> None)]) (casClient r ac)"
  unfolding casClient_def by (intro emits_intro) auto

text \<open>How an upload ends: with the identifier the service answered, or with that of a
  certificate found under the same name after a duplicate-name refusal.\<close>

definition claimed :: "string \<Rightarrow> gerror + int \<Rightarrow> effect list \<Rightarrow> int \<Rightarrow> bool" where
  "claimed n a next i \<longleftrightarrow> a = Inr i \<or>
     (\<exists>e h l c rest. a = Inl e \<and> isDuplicateName e \<and> next = CASFind h (Inr l) # rest \<and>
        c \<in> set l \<and> sm_Name c = n \<and> sm_CertID c = i)"

lemma claimed_append: "claimed n a es i \<Longrightarrow> claimed n a (es @ es') i"
  unfolding claimed_def by auto

lemma findByName_spec:
  "emits (\<lambda>es res. \<exists>h a. es = [CASFind h a] \<and>
     (\<forall>i. res = Inr i \<longrightarrow> (\<exists>l c. a = Inr l \<and> c \<in> set l \<and> sm_Name c = n \<and> sm_CertID c = i)))
   (findByName cas b n)"
  unfolding findByName_def
  by (intro emits_intro) (auto simp: find_Some_iff in_set_conv_nth)

lemma uploadOrClaim_spec:
  "emits (\<lambda>es res. \<exists>a fnd m. es = CASUpload (p_CASName p) c k (p_ClientToken p) a # fnd @ [Metric m] \<and>
     (fnd = [] \<or> (\<exists>h l. fnd = [CASFind h l])) \<and>
     (case res of Inl e \<Rightarrow> a = Inl e | Inr i \<Rightarrow> claimed (p_CASName p) a fnd i))
   (uploadOrClaim cas b c k p)"
  unfolding uploadOrClaim_def
proof (intro emits_intro, goal_cases)
  case (1 a err)
  then show ?case
    by (intro emits_mono [OF findByName_spec] emits_intro)
      (auto simp: claimed_def split: sum.splits if_splits)
qed (auto simp: claimed_def)

lemmas upload_specs =
  emits_mono [OF refreshUploadState_spec] emits_mono [OF ensurePending_spec]
  emits_mono [OF casClient_spec] emits_mono [OF uploadOrClaim_spec]

text \<open>The write-ahead record the API server is known to hold after an effect.\<close>

fun server_pending :: "PendingUpload option \<Rightarrow> effect \<Rightarrow> PendingUpload option" where
  "server_pending cur (GetAC lv ns n (Inr x)) = x_PendingUpload (ac_Status x)"
| "server_pending cur (PatchACStatus t base (Inr x)) = x_PendingUpload (ac_Status t)"
| "server_pending cur e = cur"

text \<open>Every upload carries the name and the token of the record the API server holds at that
  moment, and that record is for the fingerprint.\<close>

fun write_ahead :: "string \<Rightarrow> PendingUpload option \<Rightarrow> effect list \<Rightarrow> bool" where
  "write_ahead fp cur [] = True"
| "write_ahead fp cur (e # es) =
     ((case e of CASUpload n c k t a \<Rightarrow>
         (case cur of Some p \<Rightarrow> p_Fingerprint p = fp \<and> p_CASName p = n \<and> p_ClientToken p = t | None \<Rightarrow> False)
       | _ \<Rightarrow> True) \<and> write_ahead fp (server_pending cur e) es)"

lemma adopt_pending [simp]: "x_PendingUpload (ac_Status (adoptUploadState ac f)) = x_PendingUpload (ac_Status f)"
  by (simp add: adoptUploadState_def)

lemma uploadGeneration_write_ahead:
  "emits (\<lambda>es res. write_ahead (bn_Fingerprint b) (x_PendingUpload (ac_Status ac)) es) (uploadGeneration r ac orig b at gen)"
  unfolding uploadGeneration_def
  by (intro emits_intro upload_specs)
    (auto simp: pending_for_def new_pending_def split: option.splits sum.splits)

text \<open>All uploads carry a given record, which is not rewritten.\<close>

definition uses_record :: "PendingUpload \<Rightarrow> effect list \<Rightarrow> bool" where
  "uses_record p es \<longleftrightarrow> list_all (\<lambda>e. case e of
     CASUpload n c k t a \<Rightarrow> n = p_CASName p \<and> t = p_ClientToken p
   | PatchACStatus t base a \<Rightarrow> False
   | _ \<Rightarrow> True) es"

lemma uses_record_upload:
  "uses_record p es \<Longrightarrow> CASUpload n c k t a \<in> set es \<Longrightarrow> n = p_CASName p \<and> t = p_ClientToken p"
  by (force simp: uses_record_def list_all_iff)

lemma uploadGeneration_reuses:
  "emits (\<lambda>es res. (\<forall>lv ns n a. GetAC lv ns n a \<notin> set es) \<and>
       (\<forall>p. x_PendingUpload (ac_Status ac) = Some p \<longrightarrow> p_Fingerprint p = bn_Fingerprint b \<longrightarrow> uses_record p es))
     (uploadGeneration r ac orig b at gen)"
  unfolding uploadGeneration_def
  by (intro emits_intro upload_specs) (auto simp: pending_for_def uses_record_def)

text \<open>An upload of the material under a name, and the identifier it led to.\<close>

fun upload_led_to :: "string \<Rightarrow> bytes \<Rightarrow> bytes \<Rightarrow> int \<Rightarrow> effect list \<Rightarrow> bool" where
  "upload_led_to n c k i [] = False"
| "upload_led_to n c k i (e # es) =
     ((case e of CASUpload n' c' k' t a \<Rightarrow> n' = n \<and> c' = c \<and> k' = k \<and> claimed n a es i | _ \<Rightarrow> False)
      \<or> upload_led_to n c k i es)"

section \<open>Properties\<close>

text \<open>
  C1. Write-ahead: whatever the API server, the clock and the service answer, no upload
  leaves the process before the API server holds a write-ahead record for exactly this
  fingerprint, and the upload carries the name and the idempotency token of that record. A
  crash after the call therefore never loses track of a certificate that was created.
\<close>

theorem ensureUploaded_write_ahead:
  "emits (\<lambda>es res. write_ahead (bn_Fingerprint b) None es) (ensureUploaded r ac orig b)"
  unfolding ensureUploaded_def now_def
  by (intro emits_intro upload_specs emits_mono [OF uploadGeneration_write_ahead]) auto

text \<open>
  C17. Retries reuse the recorded token: if the object read from the API server already has a
  write-ahead record for this fingerprint, every upload carries exactly its name and its
  token, and the record is not rewritten.
\<close>

theorem ensureUploaded_reuses_token:
  "emits (\<lambda>es res. \<forall>lv ns n fresh p.
       GetAC lv ns n (Inr fresh) \<in> set es \<and> x_PendingUpload (ac_Status fresh) = Some p \<and>
       p_Fingerprint p = bn_Fingerprint b \<longrightarrow> uses_record p es)
   (ensureUploaded r ac orig b)"
  unfolding ensureUploaded_def now_def
  by (intro emits_intro upload_specs emits_mono [OF uploadGeneration_reuses]) (auto simp: uses_record_def)

text \<open>What a successful or failed upload leaves behind.\<close>

definition base_state :: "AliyunCertificate \<Rightarrow> effect list \<Rightarrow> AliyunCertificate" where
  "base_state ac es = (case es of GetAC lv ns n (Inr f) # _ \<Rightarrow> adoptUploadState ac f | _ \<Rightarrow> ac)"

definition pushed_history :: "AliyunCertificate \<Rightarrow> CertificateGeneration list" where
  "pushed_history ac = (case x_Current (ac_Status ac) of
     Some c \<Rightarrow> if g_Fingerprint c \<noteq> [] then c # x_History (ac_Status ac) else x_History (ac_Status ac)
   | None \<Rightarrow> x_History (ac_Status ac))"

lemma advance_simps [simp]:
  "x_Current (ac_Status (advance ac g)) = Some g"
  "x_History (ac_Status (advance ac g)) = pushed_history ac"
  "x_PendingUpload (ac_Status (advance ac g)) = x_PendingUpload (ac_Status ac)"
  "ac_Spec (advance ac g) = ac_Spec ac"
  by (simp_all add: advance_def pushed_history_def split: option.splits)

lemma base_state_simps [simp]:
  "base_state ac [] = ac"
  "base_state ac (GetAC lv ns n (Inr f) # es) = adoptUploadState ac f"
  "base_state ac (GetAC lv ns n (Inl e) # es) = ac"
  by (simp_all add: base_state_def)

lemma pushed_history_with_pending [simp]:
  "pushed_history (upd_status (\<lambda>x. x\<lparr>x_CASProbedAt := a, x_PendingUpload := b\<rparr>) ac) = pushed_history ac"
  "pushed_history (with_pending b ac) = pushed_history ac"
  by (simp_all add: pushed_history_def split: option.splits)

lemma adopt_Spec [simp]: "ac_Spec (adoptUploadState ac f) = ac_Spec ac"
  by (simp add: adoptUploadState_def)

text \<open>
  C15. The outcome of the upload step. With an error, the generations are the ones of the API
  server and no certificate was recorded. Without a change, the current generation already
  has the fingerprint. With a change, the current generation is this bundle with its
  validity, the previous one (unless it is the placeholder of a probe) is at the head of the
  history, and, when uploading is enabled, it has the identifier the service returned for the
  upload or for the certificate of that very name after a duplicate-name refusal, and the
  write-ahead record is gone from memory so that one final patch records both.
\<close>

theorem ensureUploaded_outcome:
  "emits (\<lambda>es (res, ac', orig'). case res of
       Inl e \<Rightarrow> x_Current (ac_Status ac') = x_Current (ac_Status (base_state ac es)) \<and>
         x_History (ac_Status ac') = x_History (ac_Status (base_state ac es))
     | Inr False \<Rightarrow> ac' = base_state ac es \<and> current_is ac' (bn_Fingerprint b)
     | Inr True \<Rightarrow> \<exists>g. x_Current (ac_Status ac') = Some g \<and> g_Fingerprint g = bn_Fingerprint b \<and>
         g_NotBefore g = xc_NotBefore (bn_Leaf b) \<and> g_NotAfter g = xc_NotAfter (bn_Leaf b) \<and>
         x_History (ac_Status ac') = pushed_history (base_state ac es) \<and>
         (UploadEnabled (sp_Aliyun (ac_Spec ac)) \<longrightarrow>
            x_PendingUpload (ac_Status ac') = None \<and>
            (\<exists>k i. KeyPEM (r_crypto r) b = Inr k \<and> g_CertID g = Some i \<and>
               upload_led_to (g_CASName g) (CertPEM (r_crypto r) b) k i es)))
   (ensureUploaded r ac orig b)"
  unfolding ensureUploaded_def now_def uploadGeneration_def
  by (intro emits_intro upload_specs) (auto split: sum.splits dest: claimed_append)

section \<open>Witnesses\<close>

definition sample_reconciler :: "cluster AliyunCertificateReconciler" where
  "sample_reconciler = \<lparr> r_kube = sample_kube, r_meta = sample_meta, r_crypto = sample_env,
     r_CASFactory = Some (\<lambda>ac. ret (Inr cluster_cas)), r_ResyncInterval = hour, r_CASProbeInterval = 12 * hour,
     r_IssuanceStallThreshold = hour, r_CleanupGracePeriod = hour, r_CleanupFailurePolicy = ''Abandon'',
     r_defaults = \<lparr> d_Name = ''le'', d_Kind = ''ClusterIssuer'', d_Group = [] \<rparr> \<rparr>"

definition sample_pending :: PendingUpload where
  "sample_pending = \<lparr> p_Fingerprint = bn_Fingerprint (sample_bundle ''a.b.c''), p_CASName = ''web_x'',
     p_ClientToken = ''token'', p_StartedAt = 0, p_DomainHint = ''a.b.c'' \<rparr>"

definition read_then_uploaded :: "AliyunCertificate \<Rightarrow> effect list \<Rightarrow> bool" where
  "read_then_uploaded ac es \<longleftrightarrow> es \<noteq> [] \<and> hd es = GetAC True ''ns'' ''web'' (Inr ac) \<and>
     list_ex (\<lambda>e. case e of CASUpload n c k t a \<Rightarrow> True | _ \<Rightarrow> False) es"

theorem ensureUploaded_reuses_token_witness:
  "\<exists>c k a. CASUpload (p_CASName sample_pending) c k (p_ClientToken sample_pending) a \<in>
     set (effects_of (ensureUploaded sample_reconciler sample_ac sample_ac (sample_bundle ''a.b.c''))
       (sample_cluster (with_pending (Some sample_pending) sample_ac) []))"
proof -
  let ?m = "ensureUploaded sample_reconciler sample_ac sample_ac (sample_bundle ''a.b.c'')"
  let ?w = "sample_cluster (with_pending (Some sample_pending) sample_ac) []"
  let ?f = "with_pending (Some sample_pending) sample_ac"
  have "read_then_uploaded ?f (effects_of ?m ?w)" by code_simp
  then have run: "\<exists>e \<in> set (effects_of ?m ?w). case e of CASUpload n c k t a \<Rightarrow> True | _ \<Rightarrow> False"
    "GetAC True ''ns'' ''web'' (Inr ?f) \<in> set (effects_of ?m ?w)"
    by (auto simp: read_then_uploaded_def list_ex_iff neq_Nil_conv split: list.splits)
  then obtain e where e: "e \<in> set (effects_of ?m ?w)" "case e of CASUpload n c k t a \<Rightarrow> True | _ \<Rightarrow> False" by blast
  from e(2) obtain n c k t a where "e = CASUpload n c k t a" by (cases e) simp_all
  with e have up: "CASUpload n c k t a \<in> set (effects_of ?m ?w)" by simp
  note run(2)
  moreover have "x_PendingUpload (ac_Status ?f) = Some sample_pending" by simp
  moreover have "p_Fingerprint sample_pending = bn_Fingerprint (sample_bundle ''a.b.c'')"
    by (simp add: sample_pending_def)
  ultimately have "uses_record sample_pending (effects_of ?m ?w)"
    using emits_run [OF ensureUploaded_reuses_token [where b = "sample_bundle ''a.b.c''" and r = sample_reconciler and ac = sample_ac and orig = sample_ac], of ?w]
    by blast
  then have "n = p_CASName sample_pending \<and> t = p_ClientToken sample_pending"
    using uses_record_upload up by blast
  with up show ?thesis by blast
qed

theorem ensureUploaded_outcome_witness:
  "\<exists>g. x_Current (ac_Status (fst (snd (result_of
       (ensureUploaded sample_reconciler sample_ac sample_ac (sample_bundle ''a.b.c'')) (sample_cluster sample_ac []))))) = Some g
     \<and> g_CertID g = Some 1001 \<and> g_Fingerprint g = bn_Fingerprint (sample_bundle ''a.b.c'')"
proof -
  let ?m = "ensureUploaded sample_reconciler sample_ac sample_ac (sample_bundle ''a.b.c'')"
  let ?w = "sample_cluster sample_ac []"
  have res: "fst (result_of ?m ?w) = Inr True" by code_simp
  have id: "map_option g_CertID (x_Current (ac_Status (fst (snd (result_of ?m ?w))))) = Some (Some 1001)" by code_simp
  obtain ac' o' where r: "result_of ?m ?w = (Inr True, ac', o')" using res by (cases "result_of ?m ?w") auto
  show ?thesis
    using emits_run [OF ensureUploaded_outcome [where b = "sample_bundle ''a.b.c''" and r = sample_reconciler and ac = sample_ac and orig = sample_ac], of ?w] id
    unfolding r by auto
qed

end
