(* ===== verification/Retention.thy ===== *)
theory Retention
  imports Upload
begin

text \<open>
  The retention policy (\<open>internal/controller/retention.go\<close>): old generations are deleted
  from CAS, oldest first, until \<open>keepLast\<close> remain, and only behind three guards.
\<close>

section \<open>Definitions\<close>

definition reclaimable ::
  "CertificateGeneration \<Rightarrow> time \<Rightarrow> duration \<Rightarrow> AliyunCertificateBinding list \<Rightarrow> bool \<times> message" where
  "reclaimable gen at minAge bindings =
     (if at - g_UploadedAt gen < minAge then (False, Msg ''minAge not reached'' [])
      else case List.find (\<lambda>b. bx_ObservedGeneration (b_Status b) < b_Generation b
               \<or> bx_AppliedFingerprint (b_Status b) = g_Fingerprint gen) bindings of
        Some b \<Rightarrow>
          if bx_ObservedGeneration (b_Status b) < b_Generation b
          then (False, Msg ''binding has not finished its reconcile'' [b_Name b])
          else (False, Msg ''binding still uses this generation'' [b_Name b])
      | None \<Rightarrow> (True, NoMsg))"

definition liveBindingsFor ::
  "'w AliyunCertificateReconciler \<Rightarrow> AliyunCertificate \<Rightarrow> ('w, gerror + AliyunCertificateBinding list) io" where
  "liveBindingsFor r ac = do {
     l \<leftarrow> perform (ListBindings (ac_Namespace ac)) (live_ListBindings (r_kube r) (ac_Namespace ac));
     (case l of
        Inl err \<Rightarrow> ret (Inl err)
      | Inr items \<Rightarrow> ret (Inr (filter (\<lambda>b. bs_CertificateRef (b_Spec b) = ac_Name ac) items)))
   }"

definition reclaimToken :: "string \<Rightarrow> string \<Rightarrow> string" where
  "reclaimToken uid fp = slice_to 64 (ClientToken uid fp @ ''d'')"

text \<open>One turn of the loop after the guards: the delete call for a generation that was
  uploaded. The client is built on first use.\<close>

definition reclaimOne ::
  "'w AliyunCertificateReconciler \<Rightarrow> AliyunCertificate \<Rightarrow> 'w CASClient option \<Rightarrow> CertificateGeneration \<Rightarrow>
     ('w, gerror + 'w CASClient option) io" where
  "reclaimOne r ac cas oldest = (case g_CertID oldest of
     None \<Rightarrow> ret (Inr cas)
   | Some certID \<Rightarrow> do {
       c \<leftarrow> (case cas of Some c \<Rightarrow> ret (Inr c) | None \<Rightarrow> casClient r ac);
       (case c of
          Inl err \<Rightarrow> ret (Inl err)
        | Inr c \<Rightarrow> do {
            let token = reclaimToken (ac_UID ac) (g_Fingerprint oldest);
            derr \<leftarrow> perform (CASDelete certID token) (cas_Delete c certID token);
            recordCASDelete derr;
            (case derr of
               Some err \<Rightarrow>
                 if ClassOf err \<noteq> ClassNotFound then ret (Inl err)
                 else do {
                   emit (Event EventTypeNormal ''Reclaimed'' (Msg ''old CAS certificate reclaimed'' []));
                   ret (Inr (Some c))
                 }
             | None \<Rightarrow> do {
                 emit (Event EventTypeNormal ''Reclaimed'' (Msg ''old CAS certificate reclaimed'' []));
                 ret (Inr (Some c))
               })
          })
     })"

abbreviation set_history :: "CertificateGeneration list \<Rightarrow> AliyunCertificate \<Rightarrow> AliyunCertificate" where
  "set_history h \<equiv> upd_status (\<lambda>x. x\<lparr>x_History := h\<rparr>)"

text \<open>The loop; its counter is the excess, which falls by one each turn.\<close>

fun reclaim_loop ::
  "'w AliyunCertificateReconciler \<Rightarrow> time \<Rightarrow> duration \<Rightarrow> AliyunCertificateBinding list \<Rightarrow> 'w CASClient option \<Rightarrow>
     nat \<Rightarrow> AliyunCertificate \<Rightarrow> ('w, gerror option \<times> AliyunCertificate) io" where
  "reclaim_loop r at minAge bindings cas 0 ac = ret (None, ac)"
| "reclaim_loop r at minAge bindings cas (Suc excess) ac =
     (if x_History (ac_Status ac) = [] then ret (None, ac)
      else let oldest = last (x_History (ac_Status ac)) in
        if \<not> fst (reclaimable oldest at minAge bindings) then ret (None, ac)
        else do {
          step \<leftarrow> reclaimOne r ac cas oldest;
          (case step of
             Inl err \<Rightarrow> ret (Some err, ac)
           | Inr cas' \<Rightarrow> reclaim_loop r at minAge bindings cas' excess
               (set_history (butlast (x_History (ac_Status ac))) ac))
        })"

definition reclaimOldGenerations ::
  "'w AliyunCertificateReconciler \<Rightarrow> AliyunCertificate \<Rightarrow> ('w, gerror option \<times> AliyunCertificate) io" where
  "reclaimOldGenerations r ac =
     (if \<not> UploadEnabled (sp_Aliyun (ac_Spec ac)) then ret (None, ac)
      else let keep = KeepLastOrDefault (sp_Retention (ac_Spec ac));
               excess = 1 + int (length (x_History (ac_Status ac))) - keep
           in if excess \<le> 0 then ret (None, ac)
              else do {
                bs \<leftarrow> liveBindingsFor r ac;
                (case bs of
                   Inl err \<Rightarrow> ret (Some err, ac)
                 | Inr bindings \<Rightarrow> do {
                     at \<leftarrow> now r;
                     reclaim_loop r at (MinAgeOrDefault (sp_Retention (ac_Spec ac))) bindings None (nat excess) ac
                   })
              })"

section \<open>Lemmas\<close>

text \<open>The three guards, as the comment of the source lists them.\<close>

definition guards :: "CertificateGeneration \<Rightarrow> time \<Rightarrow> duration \<Rightarrow> AliyunCertificateBinding list \<Rightarrow> bool" where
  "guards gen at minAge bindings \<longleftrightarrow> minAge \<le> at - g_UploadedAt gen \<and>
     (\<forall>b \<in> set bindings. b_Generation b \<le> bx_ObservedGeneration (b_Status b) \<and>
        bx_AppliedFingerprint (b_Status b) \<noteq> g_Fingerprint gen)"

lemma reclaimable_guards: "fst (reclaimable gen at minAge bindings) \<longleftrightarrow> guards gen at minAge bindings"
proof (cases "List.find (\<lambda>b. bx_ObservedGeneration (b_Status b) < b_Generation b
    \<or> bx_AppliedFingerprint (b_Status b) = g_Fingerprint gen) bindings")
  case None
  then have "\<forall>b \<in> set bindings. b_Generation b \<le> bx_ObservedGeneration (b_Status b) \<and>
      bx_AppliedFingerprint (b_Status b) \<noteq> g_Fingerprint gen"
    by (auto simp: find_None_iff not_less)
  then show ?thesis unfolding reclaimable_def None by (auto simp: guards_def)
next
  case (Some b)
  then have "\<not> guards gen at minAge bindings" by (auto simp: guards_def not_le dest!: find_Some_mem)
  with Some show ?thesis by (simp add: reclaimable_def)
qed

lemma liveBindingsFor_spec:
  "emits (\<lambda>es res. \<exists>a. es = [ListBindings (ac_Namespace ac) a] \<and>
     res = map_sum id (filter (\<lambda>b. bs_CertificateRef (b_Spec b) = ac_Name ac)) a) (liveBindingsFor r ac)"
  unfolding liveBindingsFor_def by (intro emits_intro) auto

text \<open>What a trace of deletes does to a certificate: it is gone when a delete was answered
  with success or with not-found.\<close>

definition gone :: "int \<Rightarrow> effect list \<Rightarrow> bool" where
  "gone i es \<longleftrightarrow> (\<exists>t a. CASDelete i t a \<in> set es \<and> (\<forall>e. a = Some e \<longrightarrow> ClassOf e = ClassNotFound))"

lemma gone_append [simp]: "gone i (es @ es') \<longleftrightarrow> gone i es \<or> gone i es'"
  by (auto simp: gone_def)

definition deletes_only :: "int option \<Rightarrow> effect list \<Rightarrow> bool" where
  "deletes_only i es \<longleftrightarrow> (\<forall>e \<in> set es. (\<forall>j t a. e = CASDelete j t a \<longrightarrow> i = Some j) \<and>
     (\<forall>n c k t a. e \<noteq> CASUpload n c k t a) \<and> (\<forall>t b a. e \<noteq> PatchACStatus t b a))"

lemma reclaimOne_spec:
  "emits (\<lambda>es res. deletes_only (g_CertID g) es \<and>
     (\<forall>c i. res = Inr c \<longrightarrow> g_CertID g = Some i \<longrightarrow> gone i es)) (reclaimOne r ac cas g)"
  unfolding reclaimOne_def recordCASDelete_def
  by (intro emits_intro emits_mono [OF casClient_spec]) (auto simp: deletes_only_def gone_def)

text \<open>The invariant of the loop: what is left is a prefix; what was cut off passed the guards
  and is gone; every delete was of a generation that passed the guards.\<close>

definition reclaimed ::
  "time \<Rightarrow> duration \<Rightarrow> AliyunCertificateBinding list \<Rightarrow> CertificateGeneration list \<Rightarrow> CertificateGeneration list \<Rightarrow> effect list \<Rightarrow> bool" where
  "reclaimed at minAge bindings h h' es \<longleftrightarrow> (\<exists>cut. h = h' @ cut \<and>
     (\<forall>g \<in> set cut. guards g at minAge bindings \<and> (\<forall>i. g_CertID g = Some i \<longrightarrow> gone i es))) \<and>
     (\<forall>i t a. CASDelete i t a \<in> set es \<longrightarrow>
        (\<exists>g \<in> set h. g_CertID g = Some i \<and> guards g at minAge bindings))"

lemma reclaimed_same:
  "\<forall>i t a. CASDelete i t a \<in> set es \<longrightarrow> (\<exists>g \<in> set h. g_CertID g = Some i \<and> guards g at minAge bindings) \<Longrightarrow>
     reclaimed at minAge bindings h h es"
  by (auto simp: reclaimed_def)

text \<open>One more generation cut off the end.\<close>

lemma reclaimed_step:
  assumes "h \<noteq> []" and last: "guards (last h) at minAge bindings" "deletes_only (g_CertID (last h)) es"
    "\<forall>i. g_CertID (last h) = Some i \<longrightarrow> gone i es"
    and rest: "reclaimed at minAge bindings (butlast h) h' es'"
  shows "reclaimed at minAge bindings h h' (es @ es')"
proof -
  have h: "h = butlast h @ [last h]" "last h \<in> set h" using \<open>h \<noteq> []\<close> by simp_all
  from rest obtain cut where cut: "butlast h = h' @ cut"
    "\<forall>g \<in> set cut. guards g at minAge bindings \<and> (\<forall>i. g_CertID g = Some i \<longrightarrow> gone i es')"
    by (auto simp: reclaimed_def)
  have "\<exists>g \<in> set h. g_CertID g = Some i \<and> guards g at minAge bindings"
    if "CASDelete i t a \<in> set (es @ es')" for i t a
  proof (cases "CASDelete i t a \<in> set es")
    case True
    then have "g_CertID (last h) = Some i" using last(2) by (auto simp: deletes_only_def)
    with h(2) last(1) show ?thesis by blast
  next
    case False
    then have "CASDelete i t a \<in> set es'" using that by simp
    then obtain g where "g \<in> set (butlast h)" "g_CertID g = Some i" "guards g at minAge bindings"
      using rest unfolding reclaimed_def by blast
    then show ?thesis by (meson in_set_butlastD)
  qed
  moreover have "h = h' @ cut @ [last h]" using h(1) cut(1) by simp
  moreover have "\<forall>g \<in> set (cut @ [last h]). guards g at minAge bindings \<and>
      (\<forall>i. g_CertID g = Some i \<longrightarrow> gone i (es @ es'))"
    using cut(2) last(1,3) by auto
  ultimately show ?thesis unfolding reclaimed_def by (intro conjI exI [of _ "cut @ [last h]"]) auto
qed

lemma reclaim_loop_spec:
  "emits (\<lambda>es (err, ac'). \<exists>h'. ac' = set_history h' ac \<and>
     reclaimed at minAge bindings (x_History (ac_Status ac)) h' es \<and>
     length (x_History (ac_Status ac)) \<le> length h' + n \<and>
     (err = None \<longrightarrow> length (x_History (ac_Status ac)) = length h' + n \<or> h' = [] \<or>
        \<not> guards (last h') at minAge bindings))
   (reclaim_loop r at minAge bindings cas n ac)"
proof (induction n arbitrary: cas ac)
  case 0
  show ?case by (auto simp: reclaimed_same intro!: exI [of _ "x_History (ac_Status ac)"])
next
  case (Suc n)
  let ?h = "x_History (ac_Status ac)"
  have keep: "ac = set_history ?h ac" by simp
  show ?case
    unfolding reclaim_loop.simps Let_def
  proof (intro emits_intro emits_mono [OF reclaimOne_spec], goal_cases)
    case 1
    then show ?case by (auto simp: reclaimed_same intro!: exI [of _ ?h])
  next
    case 2
    then show ?case by (auto simp: reclaimed_same reclaimable_guards intro!: exI [of _ ?h])
  next
    case (3 es res e)
    then have "guards (last ?h) at minAge bindings" "last ?h \<in> set ?h" by (auto simp: reclaimable_guards)
    with 3 show ?case by (fastforce simp: deletes_only_def intro!: exI [of _ ?h] reclaimed_same)
  next
    case (4 es res cas')
    then have g: "guards (last ?h) at minAge bindings" and ne: "?h \<noteq> []" by (auto simp: reclaimable_guards)
    show ?case
    proof (rule emits_mono [OF Suc.IH], goal_cases)
      case (1 es' x)
      then obtain err ac' h' where h': "x = (err, ac')" "ac' = set_history h' ac"
        "reclaimed at minAge bindings (butlast ?h) h' es'" "length (butlast ?h) \<le> length h' + n"
        "err = None \<longrightarrow> length (butlast ?h) = length h' + n \<or> h' = [] \<or> \<not> guards (last h') at minAge bindings"
        by auto
      have "reclaimed at minAge bindings ?h h' (es @ es')"
        using 4 by (intro reclaimed_step [OF ne g _ _ h'(3)]) auto
      moreover have "length ?h = Suc (length (butlast ?h))" using ne by simp
      ultimately show ?case unfolding h'(1) prod.case using h'(2,4,5) by (intro exI [of _ h']) linarith
    qed
  qed
qed

lemma no_delete_prefix: "reclaimed at m b h h' es \<Longrightarrow>
    reclaimed at m b h h' (ListBindings ns a # ReadClock t # es)"
  unfolding reclaimed_def by (auto simp: gone_def)

text \<open>A run that got as far as the loop.\<close>

definition reclaim_run ::
  "AliyunCertificate \<Rightarrow> AliyunCertificateBinding list \<Rightarrow> time \<Rightarrow> CertificateGeneration list \<Rightarrow> gerror option \<Rightarrow> effect list \<Rightarrow> bool" where
  "reclaim_run ac items at h' err es \<longleftrightarrow>
     (let bs = filter (\<lambda>b. bs_CertificateRef (b_Spec b) = ac_Name ac) items;
          minAge = MinAgeOrDefault (sp_Retention (ac_Spec ac)); keep = KeepLastOrDefault (sp_Retention (ac_Spec ac))
      in reclaimed at minAge bs (x_History (ac_Status ac)) h' es \<and> keep \<le> 1 + int (length h') \<and>
         (err = None \<longrightarrow> 1 + int (length h') = keep \<or> h' = [] \<or> \<not> guards (last h') at minAge bs))"

lemma reclaim_runI:
  assumes "reclaimed at (MinAgeOrDefault (sp_Retention (ac_Spec ac)))
      (filter (\<lambda>b. bs_CertificateRef (b_Spec b) = ac_Name ac) items) (x_History (ac_Status ac)) h' es"
    and "\<not> 1 + int (length (x_History (ac_Status ac))) - KeepLastOrDefault (sp_Retention (ac_Spec ac)) \<le> 0"
    and "length (x_History (ac_Status ac)) \<le> length h' +
      nat (1 + int (length (x_History (ac_Status ac))) - KeepLastOrDefault (sp_Retention (ac_Spec ac)))"
    and "err = None \<longrightarrow> length (x_History (ac_Status ac)) = length h' +
      nat (1 + int (length (x_History (ac_Status ac))) - KeepLastOrDefault (sp_Retention (ac_Spec ac))) \<or>
      h' = [] \<or> \<not> guards (last h') at (MinAgeOrDefault (sp_Retention (ac_Spec ac)))
        (filter (\<lambda>b. bs_CertificateRef (b_Spec b) = ac_Name ac) items)"
  shows "reclaim_run ac items at h' err (ListBindings ns a # ReadClock t # es)"
proof -
  have "KeepLastOrDefault (sp_Retention (ac_Spec ac)) \<le> 1 + int (length h')" using assms(2,3) by linarith
  moreover have "1 + int (length h') = KeepLastOrDefault (sp_Retention (ac_Spec ac))"
    if "length (x_History (ac_Status ac)) = length h' +
      nat (1 + int (length (x_History (ac_Status ac))) - KeepLastOrDefault (sp_Retention (ac_Spec ac)))"
    using that assms(2) by linarith
  ultimately show ?thesis
    unfolding reclaim_run_def Let_def using no_delete_prefix [OF assms(1)] assms(4) by blast
qed

lemma reclaimOldGenerations_spec:
  "emits (\<lambda>es (err, ac').
     es = [] \<and> ac' = ac \<and> (UploadEnabled (sp_Aliyun (ac_Spec ac)) \<longrightarrow>
          1 + int (length (x_History (ac_Status ac))) \<le> KeepLastOrDefault (sp_Retention (ac_Spec ac))) \<or>
     (\<exists>e. es = [ListBindings (ac_Namespace ac) (Inl e)] \<and> ac' = ac \<and> err \<noteq> None) \<or>
     (\<exists>items at h'. ListBindings (ac_Namespace ac) (Inr items) \<in> set es \<and> ReadClock at \<in> set es \<and>
        ac' = set_history h' ac \<and> reclaim_run ac items at h' err es))
   (reclaimOldGenerations r ac)"
  unfolding reclaimOldGenerations_def Let_def now_def
proof (intro emits_intro emits_mono [OF liveBindingsFor_spec] emits_mono [OF reclaim_loop_spec], goal_cases)
  case (4 es x bs at es' x')
  obtain items where items: "es = [ListBindings (ac_Namespace ac) (Inr items)]"
      "bs = filter (\<lambda>b. bs_CertificateRef (b_Spec b) = ac_Name ac) items"
    using 4(3,4) by auto
  obtain err ac' h' where x': "x' = (err, ac')" "ac' = set_history h' ac"
    and h': "reclaimed at (MinAgeOrDefault (sp_Retention (ac_Spec ac))) bs (x_History (ac_Status ac)) h' es'"
      "length (x_History (ac_Status ac)) \<le> length h' +
        nat (1 + int (length (x_History (ac_Status ac))) - KeepLastOrDefault (sp_Retention (ac_Spec ac)))"
      "err = None \<longrightarrow> length (x_History (ac_Status ac)) = length h' +
        nat (1 + int (length (x_History (ac_Status ac))) - KeepLastOrDefault (sp_Retention (ac_Spec ac))) \<or>
        h' = [] \<or> \<not> guards (last h') at (MinAgeOrDefault (sp_Retention (ac_Spec ac))) bs"
    using 4(5) by (cases x') auto
  have "reclaim_run ac items at h' err (es @ [ReadClock at] @ es')"
    using reclaim_runI [OF h'(1) [unfolded items(2)] 4(2) h'(2) h'(3) [unfolded items(2)]] by (simp add: items(1))
  then show ?case unfolding x' items(1) by auto
qed auto

section \<open>Properties\<close>

text \<open>
  C14. Reclaiming is safe: whatever the world answers, a certificate is deleted from CAS only
  if it belongs to a generation of the history (never to the current one) that is at least
  \<open>minAge\<close> old by the clock reading, while every Binding of the uncached listing that
  references this certificate has finished the reconcile of its generation and none has this
  generation applied. What remains is the newer part of the history, never less than
  \<open>keepLast\<close> generations together with the current one, and a generation leaves the
  history only after its certificate is gone from CAS.
\<close>

theorem reclaimOldGenerations_safe:
  "emits (\<lambda>es (err, ac').
     (\<forall>i t a. CASDelete i t a \<in> set es \<longrightarrow> (\<exists>items at g.
        ListBindings (ac_Namespace ac) (Inr items) \<in> set es \<and> ReadClock at \<in> set es \<and>
        g \<in> set (x_History (ac_Status ac)) \<and> g_CertID g = Some i \<and>
        guards g at (MinAgeOrDefault (sp_Retention (ac_Spec ac)))
          (filter (\<lambda>b. bs_CertificateRef (b_Spec b) = ac_Name ac) items))) \<and>
     (\<exists>h' cut. ac' = set_history h' ac \<and> x_History (ac_Status ac) = h' @ cut \<and>
        (cut = [] \<or> KeepLastOrDefault (sp_Retention (ac_Spec ac)) \<le> 1 + int (length h')) \<and>
        (\<forall>g \<in> set cut. \<forall>i. g_CertID g = Some i \<longrightarrow> gone i es)))
   (reclaimOldGenerations r ac)"
proof (rule emits_mono [OF reclaimOldGenerations_spec], goal_cases)
  case (1 es x)
  obtain err ac' where x: "x = (err, ac')" by (cases x)
  let ?min = "MinAgeOrDefault (sp_Retention (ac_Spec ac))"
  let ?h = "x_History (ac_Status ac)"
  from 1 [unfolded x prod.case] show ?case
  proof (elim disjE exE conjE)
    fix items :: "AliyunCertificateBinding list" and at h'
    let ?bs = "filter (\<lambda>b. bs_CertificateRef (b_Spec b) = ac_Name ac) items"
    assume es: "ListBindings (ac_Namespace ac) (Inr items) \<in> set es" "ReadClock at \<in> set es" "ac' = set_history h' ac"
      and l: "reclaim_run ac items at h' err es"
    then have r: "reclaimed at ?min ?bs ?h h' es" and k: "KeepLastOrDefault (sp_Retention (ac_Spec ac)) \<le> 1 + int (length h')"
      by (auto simp: Let_def reclaim_run_def)
    then obtain cut where cut: "?h = h' @ cut" "\<forall>g \<in> set cut. \<forall>i. g_CertID g = Some i \<longrightarrow> gone i es"
      unfolding reclaimed_def by blast
    have "\<exists>items at g. ListBindings (ac_Namespace ac) (Inr items) \<in> set es \<and> ReadClock at \<in> set es \<and>
        g \<in> set ?h \<and> g_CertID g = Some i \<and>
        guards g at ?min (filter (\<lambda>b. bs_CertificateRef (b_Spec b) = ac_Name ac) items)"
      if d: "CASDelete i t a \<in> set es" for i t a
    proof -
      obtain g where "g \<in> set ?h" "g_CertID g = Some i" "guards g at ?min ?bs"
        using r d unfolding reclaimed_def by blast
      with es show ?thesis by blast
    qed
    with cut show ?thesis unfolding x prod.case using es(3) k by blast
  qed (auto simp: x intro: exI [of _ ?h])
qed

text \<open>
  C20. Reclaiming converges: with uploads enabled, when it reports no error, the generations are
  down to \<open>keepLast\<close>, or the oldest generation left is held back by one of the guards at the
  moment of the clock reading. With uploads disabled it does nothing and reports no error,
  however many generations there are.
\<close>

theorem reclaimOldGenerations_converges:
  "emits (\<lambda>es (err, ac').
     if UploadEnabled (sp_Aliyun (ac_Spec ac)) then
       err = None \<longrightarrow>
         1 + int (length (x_History (ac_Status ac'))) \<le> KeepLastOrDefault (sp_Retention (ac_Spec ac)) \<or>
         x_History (ac_Status ac') \<noteq> [] \<and>
         (\<exists>items at. ListBindings (ac_Namespace ac) (Inr items) \<in> set es \<and> ReadClock at \<in> set es \<and>
            \<not> guards (last (x_History (ac_Status ac'))) at (MinAgeOrDefault (sp_Retention (ac_Spec ac)))
                (filter (\<lambda>b. bs_CertificateRef (b_Spec b) = ac_Name ac) items))
     else es = [] \<and> err = None \<and> ac' = ac)
   (reclaimOldGenerations r ac)"
proof (cases "UploadEnabled (sp_Aliyun (ac_Spec ac))")
  case enabled: True
  have keep: "1 \<le> KeepLastOrDefault (sp_Retention (ac_Spec ac))" by (simp add: KeepLastOrDefault_def)
  show ?thesis
  proof (rule emits_mono [OF reclaimOldGenerations_spec], goal_cases)
    case (1 es x)
    obtain err ac' where x: "x = (err, ac')" by (cases x)
    from 1 [unfolded x prod.case] show ?case
    proof (elim disjE exE conjE)
      fix items :: "AliyunCertificateBinding list" and at h'
      assume es: "ListBindings (ac_Namespace ac) (Inr items) \<in> set es" "ReadClock at \<in> set es"
        and h': "ac' = set_history h' ac" "reclaim_run ac items at h' err es"
      then have "err = None \<longrightarrow> 1 + int (length (x_History (ac_Status ac'))) = KeepLastOrDefault (sp_Retention (ac_Spec ac)) \<or>
          x_History (ac_Status ac') = [] \<or> \<not> guards (last (x_History (ac_Status ac'))) at
            (MinAgeOrDefault (sp_Retention (ac_Spec ac))) (filter (\<lambda>b. bs_CertificateRef (b_Spec b) = ac_Name ac) items)"
        by (simp add: reclaim_run_def Let_def)
      with es keep enabled show ?thesis
        unfolding x prod.case by (cases "x_History (ac_Status ac') = []") auto
    qed (use enabled in \<open>auto simp: x\<close>)
  qed
next
  case False
  then show ?thesis by (simp add: reclaimOldGenerations_def)
qed

section \<open>Witnesses\<close>

definition sample_old_ac :: AliyunCertificate where
  "sample_old_ac = upd_status (\<lambda>x. x\<lparr>x_Current := Some (sample_gen ''cc'' 3 0),
     x_History := [sample_gen ''bb'' 2 (- 40 * day), sample_gen ''aa'' 1 (- 80 * day)]\<rparr>) sample_ac"

text \<open>A CAS that holds the oldest generation.\<close>

definition sample_old_cluster :: cluster where
  "sample_old_cluster = (sample_cluster sample_old_ac [])\<lparr>w_cas := NewCAS\<lparr>certs :=
     [\<lparr> f_ID = 1, f_Name = ''web_aa'', f_CertPEM = [], f_KeyPEM = [], f_Token = [] \<rparr>]\<rparr>\<rparr>"

theorem reclaimOldGenerations_safe_witness:
  "\<exists>g. CASDelete 1 (reclaimToken sample_uid ''aa'') None \<in>
       set (effects_of (reclaimOldGenerations sample_reconciler sample_old_ac) sample_old_cluster) \<and>
     g \<in> set (x_History (ac_Status sample_old_ac)) \<and> g_CertID g = Some 1"
proof -
  have d: "CASDelete 1 (reclaimToken sample_uid ''aa'') None \<in>
      set (effects_of (reclaimOldGenerations sample_reconciler sample_old_ac) sample_old_cluster)" by code_simp
  show ?thesis
    using emits_run [OF reclaimOldGenerations_safe [where r = sample_reconciler and ac = sample_old_ac],
        of sample_old_cluster] d
    by (cases "result_of (reclaimOldGenerations sample_reconciler sample_old_ac) sample_old_cluster") (simp, blast)
qed

theorem reclaimOldGenerations_converges_witness:
  "length (x_History (ac_Status (snd (result_of (reclaimOldGenerations sample_reconciler sample_old_ac) sample_old_cluster)))) = 1
   \<and> 1 + int (length (x_History (ac_Status (snd (result_of (reclaimOldGenerations sample_reconciler sample_old_ac)
        sample_old_cluster))))) \<le> 2"
proof -
  let ?m = "reclaimOldGenerations sample_reconciler sample_old_ac"
  have e: "fst (result_of ?m sample_old_cluster) = None" by code_simp
  have l: "length (x_History (ac_Status (snd (result_of ?m sample_old_cluster)))) = 1" by code_simp
  have u: "UploadEnabled (sp_Aliyun (ac_Spec sample_old_ac))" by code_simp
  have k: "KeepLastOrDefault (sp_Retention (ac_Spec sample_old_ac)) = 2" by code_simp
  show ?thesis
    using emits_run [OF reclaimOldGenerations_converges [where r = sample_reconciler and ac = sample_old_ac],
        of sample_old_cluster] e l u k
    by (cases "result_of ?m sample_old_cluster") simp
qed

end
