(* ===== verification/Probe.thy ===== *)
theory Probe
  imports Retention
begin

text \<open>
  The existence probe (\<open>internal/controller/probe.go\<close>): at most once per interval the
  listing of CAS is searched for the current certificate; if it was deleted by hand, its
  identifier and fingerprint are cleared so that the upload step sends it again.
\<close>

section \<open>Definitions\<close>

definition probed_at :: "time \<Rightarrow> AliyunCertificate \<Rightarrow> AliyunCertificate" where
  "probed_at t ac = upd_status (\<lambda>x. x\<lparr>x_CASProbedAt := Some t\<rparr>) ac"

definition probe_missing :: "AliyunCertificate \<Rightarrow> AliyunCertificate" where
  "probe_missing ac = upd_status (\<lambda>x. x\<lparr>x_Current :=
     map_option (\<lambda>c. c\<lparr>g_CertID := None, g_Fingerprint := []\<rparr>) (x_Current x)\<rparr>) ac"

text \<open>The throttle reads the clock only when there was a probe before.\<close>

definition probe_throttled :: "'w AliyunCertificateReconciler \<Rightarrow> AliyunCertificate \<Rightarrow> ('w, bool) io" where
  "probe_throttled r ac = (case x_CASProbedAt (ac_Status ac) of
     None \<Rightarrow> ret False
   | Some t \<Rightarrow> do { n \<leftarrow> now r; ret (n - t < r_CASProbeInterval r) })"

definition probeCAS ::
  "'w AliyunCertificateReconciler \<Rightarrow> AliyunCertificate \<Rightarrow> string \<Rightarrow> ('w, (gerror + bool) \<times> AliyunCertificate) io" where
  "probeCAS r ac primaryDomain =
     (case (UploadEnabled (sp_Aliyun (ac_Spec ac)), x_Current (ac_Status ac)) of
        (True, Some cur) \<Rightarrow> (case g_CertID cur of
            None \<Rightarrow> ret (Inr False, ac)
          | Some certID \<Rightarrow> do {
              t \<leftarrow> now r;
              if g_NotAfter cur < t then ret (Inr False, ac)
              else do {
                throttled \<leftarrow> probe_throttled r ac;
                if throttled then ret (Inr False, ac)
                else do {
                  cl \<leftarrow> casClient r ac;
                  (case cl of
                     Inl err \<Rightarrow> ret (Inl err, ac)
                   | Inr cas \<Rightarrow> do {
                       let hint = casFindHint ac primaryDomain;
                       l \<leftarrow> perform (CASFind hint) (cas_FindUploaded cas hint);
                       (case l of
                          Inl err \<Rightarrow> ret (Inl err, ac)
                        | Inr list \<Rightarrow> do {
                            at \<leftarrow> now r;
                            let ac = probed_at at ac;
                            if (\<exists>c \<in> set list. sm_CertID c = certID) then ret (Inr False, ac)
                            else do {
                              emit (Event EventTypeWarning ''CASCertificateMissing'' (Msg ''current certificate not found in CAS; re-uploading'' []));
                              ret (Inr True, probe_missing ac)
                            }
                          })
                     })
                }
              }
            })
      | _ \<Rightarrow> ret (Inr False, ac))"

definition noteProbeFailure :: "('w, unit) io" where
  "noteProbeFailure = emit (Event EventTypeWarning ''ProbeFailed''
     (Msg ''failed to verify the CAS certificate still exists; the current certificate is unaffected'' []))"

section \<open>Lemmas\<close>

lemma probe_throttled_spec:
  "emits (\<lambda>es th. x_CASProbedAt (ac_Status ac) = None \<and> es = [] \<and> \<not> th \<or>
     (\<exists>t n. x_CASProbedAt (ac_Status ac) = Some t \<and> es = [ReadClock n] \<and> (th \<longleftrightarrow> n - t < r_CASProbeInterval r)))
   (probe_throttled r ac)"
  unfolding probe_throttled_def now_def by (intro emits_intro) auto

text \<open>Why the listing says that the current certificate is gone.\<close>

definition listed_missing :: "AliyunCertificate \<Rightarrow> effect list \<Rightarrow> bool" where
  "listed_missing ac es \<longleftrightarrow> (\<exists>cur i h l. x_Current (ac_Status ac) = Some cur \<and> g_CertID cur = Some i \<and>
     CASFind h (Inr l) \<in> set es \<and> i \<notin> sm_CertID ` set l)"

text \<open>The probe was due: the certificate had not expired and the last probe was long ago.\<close>

definition probe_due :: "duration \<Rightarrow> AliyunCertificate \<Rightarrow> effect list \<Rightarrow> bool" where
  "probe_due interval ac es \<longleftrightarrow> UploadEnabled (sp_Aliyun (ac_Spec ac)) \<and>
     (\<exists>cur t. x_Current (ac_Status ac) = Some cur \<and> g_CertID cur \<noteq> None \<and> ReadClock t \<in> set es \<and> t \<le> g_NotAfter cur) \<and>
     (\<forall>p. x_CASProbedAt (ac_Status ac) = Some p \<longrightarrow> (\<exists>t. ReadClock t \<in> set es \<and> interval \<le> t - p))"

lemma probeCAS_cases:
  assumes "\<And>cur i. UploadEnabled (sp_Aliyun (ac_Spec ac)) \<Longrightarrow> x_Current (ac_Status ac) = Some cur \<Longrightarrow> g_CertID cur = Some i \<Longrightarrow>
      emits C (probeCAS r ac p)"
    and "\<not> (UploadEnabled (sp_Aliyun (ac_Spec ac)) \<and> (\<exists>cur. x_Current (ac_Status ac) = Some cur \<and> g_CertID cur \<noteq> None)) \<Longrightarrow>
      C [] (Inr False, ac)"
  shows "emits C (probeCAS r ac p)"
proof (cases "UploadEnabled (sp_Aliyun (ac_Spec ac)) \<and> (\<exists>cur. x_Current (ac_Status ac) = Some cur \<and> g_CertID cur \<noteq> None)")
  case True
  then show ?thesis using assms(1) by blast
next
  case False
  then show ?thesis using assms(2) by (auto simp: probeCAS_def split: bool.split option.split)
qed

lemma probeCAS_asks:
  "emits (\<lambda>es x. (\<exists>h a. CASFind h a \<in> set es) \<longrightarrow> probe_due (r_CASProbeInterval r) ac es) (probeCAS r ac p)"
proof (rule probeCAS_cases, goal_cases)
  case (1 cur i)
  then show ?case
    unfolding probeCAS_def now_def Let_def
    by (simp, intro emits_intro emits_mono [OF probe_throttled_spec] emits_mono [OF casClient_spec])
      (auto simp: probe_due_def not_less)
qed simp

lemma probeCAS_verdict:
  "emits (\<lambda>es x. fst x = Inr True \<longleftrightarrow> listed_missing ac es) (probeCAS r ac p)"
proof (rule probeCAS_cases, goal_cases)
  case (1 cur i)
  then show ?case
    unfolding probeCAS_def now_def Let_def
    by (simp, intro emits_intro emits_mono [OF probe_throttled_spec] emits_mono [OF casClient_spec])
      (auto simp: listed_missing_def)
qed (simp add: listed_missing_def)

lemma probeCAS_state:
  "emits (\<lambda>es x. if \<exists>h l. CASFind h (Inr l) \<in> set es
      then \<exists>t. ReadClock t \<in> set es \<and> snd x = (if fst x = Inr True then probe_missing (probed_at t ac) else probed_at t ac)
      else snd x = ac) (probeCAS r ac p)"
proof (rule probeCAS_cases, goal_cases)
  case (1 cur i)
  then show ?case
    unfolding probeCAS_def now_def Let_def
    by (simp, intro emits_intro emits_mono [OF probe_throttled_spec] emits_mono [OF casClient_spec])
      auto
qed simp

section \<open>Properties\<close>

text \<open>
  C16. The probe never condemns a certificate without proof. The service is asked only when
  the probe is due; the current generation loses its identifier and fingerprint exactly when
  a listing succeeded and does not contain the identifier; in every other case, failing calls
  included, the generations and the write-ahead record are untouched; and the time of the
  last probe advances exactly when a listing succeeded.
\<close>

theorem probeCAS_sound:
  "emits (\<lambda>es (res, ac').
     ((\<exists>h a. CASFind h a \<in> set es) \<longrightarrow> probe_due (r_CASProbeInterval r) ac es) \<and>
     (res = Inr True \<longleftrightarrow> listed_missing ac es) \<and>
     (if \<exists>h l. CASFind h (Inr l) \<in> set es
      then \<exists>t. ReadClock t \<in> set es \<and> ac' = (if res = Inr True then probe_missing (probed_at t ac) else probed_at t ac)
      else ac' = ac))
   (probeCAS r ac primary)"
proof (rule emits_mono [OF emits_conj [OF probeCAS_asks emits_conj [OF probeCAS_verdict probeCAS_state]]], goal_cases)
  case (1 es x)
  then show ?case unfolding case_prod_beta by (intro conjI) blast+
qed

section \<open>Witnesses\<close>

definition sample_current_ac :: AliyunCertificate where
  "sample_current_ac = upd_status (\<lambda>x. x\<lparr>x_Current := Some (sample_gen ''cc'' 3 0)\<rparr>) sample_ac"

theorem probeCAS_sound_witness:
  "fst (result_of (probeCAS sample_reconciler sample_current_ac ''a.b.c'') (sample_cluster sample_current_ac [])) = Inr True \<and>
   listed_missing sample_current_ac (effects_of (probeCAS sample_reconciler sample_current_ac ''a.b.c'') (sample_cluster sample_current_ac []))"
proof -
  let ?m = "probeCAS sample_reconciler sample_current_ac ''a.b.c''"
  let ?w = "sample_cluster sample_current_ac []"
  have "fst (result_of ?m ?w) = Inr True" by code_simp
  then show ?thesis
    using emits_run [OF probeCAS_sound [where r = sample_reconciler and ac = sample_current_ac and primary = "''a.b.c''"], of ?w]
    by (cases "result_of ?m ?w") simp
qed

end
