(* ===== verification/Deletion.thy ===== *)
theory Deletion
  imports Retention
begin

text \<open>
  The deletion of an AliyunCertificate (\<open>internal/controller/deletion.go\<close>): blocked while
  Bindings use it, then the CAS certificates, the cert-manager Certificate, the Secret and
  last the finalizer, each step only after the one before it.

  A reconcile returns the delay of \<open>ctrl.Result\<close> (0 for none) and an error. A nil
  dereference panics; controller-runtime turns the panic into an error of the reconcile.
\<close>

section \<open>Definitions\<close>

type_synonym reconcile_result = "duration \<times> gerror option"

abbreviation CleanupPolicyAbandon :: string where "CleanupPolicyAbandon \<equiv> ''Abandon''"
abbreviation CleanupPolicyBlock :: string where "CleanupPolicyBlock \<equiv> ''Block''"
abbreviation requeueDeletionWait :: duration where "requeueDeletionWait \<equiv> 2 * second"

definition nil_dereference :: gerror where
  "nil_dereference = Plain ''runtime error: invalid memory address or nil pointer dereference''"

definition shouldAbandonCleanup :: "string \<Rightarrow> duration \<Rightarrow> duration \<Rightarrow> bool" where
  "shouldAbandonCleanup policy elapsed grace \<longleftrightarrow> policy \<noteq> CleanupPolicyBlock \<and> grace \<le> elapsed"

definition activeBindingNames :: "AliyunCertificateBinding list \<Rightarrow> string list" where
  "activeBindingNames bindings = map b_Name (filter (\<lambda>b. b_DeletionTimestamp b = None) bindings)"

definition remainingCertIDs :: "AliyunCertificate \<Rightarrow> int list" where
  "remainingCertIDs ac =
     (case x_Current (ac_Status ac) of Some c \<Rightarrow> (case g_CertID c of Some i \<Rightarrow> [i] | None \<Rightarrow> []) | None \<Rightarrow> [])
     @ List.map_filter g_CertID (x_History (ac_Status ac))"

definition deleteToken :: "string \<Rightarrow> string" where
  "deleteToken token = slice_to 64 (token @ ''d'')"

text \<open>The closure \<open>del\<close> of \<open>cleanupCAS\<close>; it returns the generation it was given, without
  the identifier once the certificate is gone.\<close>

definition del_generation ::
  "'w CASClient \<Rightarrow> string \<Rightarrow> CertificateGeneration \<Rightarrow> ('w, gerror option \<times> CertificateGeneration) io" where
  "del_generation cas uid gen = (case g_CertID gen of
     None \<Rightarrow> ret (None, gen)
   | Some i \<Rightarrow> do {
       let token = deleteToken (ClientToken uid (g_Fingerprint gen));
       err \<leftarrow> perform (CASDelete i token) (cas_Delete cas i token);
       recordCASDelete err;
       (case err of
          Some e \<Rightarrow> if ClassOf e \<noteq> ClassNotFound then ret (Some e, gen) else ret (None, gen\<lparr>g_CertID := None\<rparr>)
        | None \<Rightarrow> ret (None, gen\<lparr>g_CertID := None\<rparr>))
     })"

fun del_history ::
  "'w CASClient \<Rightarrow> string \<Rightarrow> CertificateGeneration list \<Rightarrow> ('w, gerror option \<times> CertificateGeneration list) io" where
  "del_history cas uid [] = ret (None, [])"
| "del_history cas uid (g # h) = do {
     (err, g') \<leftarrow> del_generation cas uid g;
     (case err of
        Some e \<Rightarrow> ret (Some e, g' # h)
      | None \<Rightarrow> do { (err, h') \<leftarrow> del_history cas uid h; ret (err, g' # h') })
   }"

definition cleanupPendingUpload :: "'w CASClient \<Rightarrow> AliyunCertificate \<Rightarrow> ('w, gerror option \<times> AliyunCertificate) io" where
  "cleanupPendingUpload cas ac = (case x_PendingUpload (ac_Status ac) of
     None \<Rightarrow> ret (None, ac)
   | Some p \<Rightarrow> do {
       let hint = casFindHint ac [];
       l \<leftarrow> perform (CASFind hint) (cas_FindUploaded cas hint);
       (case l of
          Inl err \<Rightarrow> ret (Some err, ac)
        | Inr list \<Rightarrow> (case List.find (\<lambda>c. sm_Name c = p_CASName p) list of
            None \<Rightarrow> ret (None, with_pending None ac)
          | Some c \<Rightarrow> do {
              let token = deleteToken (p_ClientToken p);
              derr \<leftarrow> perform (CASDelete (sm_CertID c) token) (cas_Delete cas (sm_CertID c) token);
              recordCASDelete derr;
              (case derr of
                 Some e \<Rightarrow> if ClassOf e \<noteq> ClassNotFound then ret (Some e, ac) else ret (None, with_pending None ac)
               | None \<Rightarrow> ret (None, with_pending None ac))
            }))
     })"

definition cleanupCAS :: "'w AliyunCertificateReconciler \<Rightarrow> AliyunCertificate \<Rightarrow> ('w, gerror option \<times> AliyunCertificate) io" where
  "cleanupCAS r ac =
     (if length (remainingCertIDs ac) = 0 \<and> x_PendingUpload (ac_Status ac) = None then ret (None, ac)
      else do {
        cl \<leftarrow> casClient r ac;
        (case cl of
           Inl err \<Rightarrow> ret (Some err, ac)
         | Inr cas \<Rightarrow> do {
             (err, h) \<leftarrow> del_history cas (ac_UID ac) (x_History (ac_Status ac));
             let ac = set_history h ac;
             (case err of
                Some e \<Rightarrow> ret (Some e, ac)
              | None \<Rightarrow> (case x_Current (ac_Status ac) of
                  None \<Rightarrow> cleanupPendingUpload cas ac
                | Some c \<Rightarrow> do {
                    (err, c') \<leftarrow> del_generation cas (ac_UID ac) c;
                    let ac = upd_status (\<lambda>x. x\<lparr>x_Current := Some c'\<rparr>) ac;
                    (case err of
                       Some e \<Rightarrow> ret (Some e, ac)
                     | None \<Rightarrow> cleanupPendingUpload cas ac)
                  }))
           })
      })"

definition patch_and_return ::
  "'w AliyunCertificateReconciler \<Rightarrow> AliyunCertificate \<Rightarrow> AliyunCertificate \<Rightarrow> duration \<Rightarrow> ('w, reconcile_result) io" where
  "patch_and_return r ac orig requeue = do {
     p \<leftarrow> patchStatus r ac orig;
     ret (requeue, case p of Inl err \<Rightarrow> Some err | Inr _ \<Rightarrow> None)
   }"

text \<open>The start of the grace period is persisted before the first call.\<close>

definition startCleanup ::
  "'w AliyunCertificateReconciler \<Rightarrow> AliyunCertificate \<Rightarrow> AliyunCertificate \<Rightarrow>
     ('w, gerror + AliyunCertificate \<times> AliyunCertificate) io" where
  "startCleanup r ac orig = (case x_CleanupStartedAt (ac_Status ac) of
     Some _ \<Rightarrow> ret (Inr (ac, orig))
   | None \<Rightarrow> do {
       t \<leftarrow> now r;
       p \<leftarrow> patchStatus r (upd_status (\<lambda>x. x\<lparr>x_CleanupStartedAt := Some t\<rparr>) ac) orig;
       (case p of Inl err \<Rightarrow> ret (Inl err) | Inr ac \<Rightarrow> ret (Inr (ac, ac)))
     })"

text \<open>A failed cleanup: retried, or (\<open>None\<close>) abandoned.\<close>

definition cleanupFailed ::
  "'w AliyunCertificateReconciler \<Rightarrow> AliyunCertificate \<Rightarrow> AliyunCertificate \<Rightarrow> gerror \<Rightarrow> ('w, reconcile_result option) io" where
  "cleanupFailed r ac orig err = do {
     t \<leftarrow> now r;
     (case x_CleanupStartedAt (ac_Status ac) of
        None \<Rightarrow> ret (Some (0, Some nil_dereference))
      | Some started \<Rightarrow>
          if \<not> shouldAbandonCleanup (r_CleanupFailurePolicy r) (t - started) (r_CleanupGracePeriod r)
          then do {
            p \<leftarrow> patchStatus r (setCondition (r_meta r) ac ConditionReady ConditionFalse ReasonCleanupFailed
                   (MsgErr ''CAS cleanup failed, retrying: '' (error_text err))) orig;
            ret (Some (0, case p of Inl perr \<Rightarrow> Some perr | Inr _ \<Rightarrow> Some err))
          }
          else do {
            emit (Event EventTypeWarning ReasonCleanupAbandoned (Msg ''gave up deleting the CAS certificates after the cleanup grace period'' []));
            emit (Metric (CounterInc ''aliyuncert_cleanup_abandoned_total''
              [EffectiveCASRegion (sp_Aliyun (ac_Spec ac)), ErrClass_String (ClassOf err)]));
            ret None
          })
   }"

definition afterCleanup ::
  "'w AliyunCertificateReconciler \<Rightarrow> AliyunCertificate \<Rightarrow> AliyunCertificate \<Rightarrow> gerror option \<Rightarrow> ('w, reconcile_result option) io" where
  "afterCleanup r ac orig err = (case err of Some e \<Rightarrow> cleanupFailed r ac orig e | None \<Rightarrow> ret None)"

text \<open>Step c: \<open>None\<close> when the Certificate is gone.\<close>

definition deleteCertificate :: "'w AliyunCertificateReconciler \<Rightarrow> AliyunCertificate \<Rightarrow> ('w, reconcile_result option) io" where
  "deleteCertificate r ac = do {
     c \<leftarrow> perform (GetCert (ac_Namespace ac) (certManagerNameFor ac)) (k_GetCert (r_kube r) (ac_Namespace ac) (certManagerNameFor ac));
     (case c of
        Inr cert \<Rightarrow>
          if cm_DeletionTimestamp cert = None
          then do {
            derr \<leftarrow> perform (DeleteCert cert) (k_DeleteCert (r_kube r) cert);
            (case IgnoreNotFound derr of
               Some e \<Rightarrow> ret (Some (0, Some e))
             | None \<Rightarrow> ret (Some (requeueDeletionWait, None)))
          }
          else ret (Some (requeueDeletionWait, None))
      | Inl err \<Rightarrow> if IsNotFound err then ret None else ret (Some (0, Some err)))
   }"

text \<open>Step d: the name of a Secret that was left alone, if any.\<close>

definition deleteOwnedSecret :: "'w AliyunCertificateReconciler \<Rightarrow> AliyunCertificate \<Rightarrow> ('w, gerror + string option) io" where
  "deleteOwnedSecret r ac = do {
     let name = servingSecretName ac (x_SecretName (ac_Status ac));
     s \<leftarrow> perform (GetSecret (ac_Namespace ac) name) (k_GetSecret (r_kube r) (ac_Namespace ac) name);
     (case s of
        Inr s \<Rightarrow>
          if secretOwnedByUs s ac
          then do {
            derr \<leftarrow> perform (DeleteSecret s) (k_DeleteSecret (r_kube r) s);
            (case IgnoreNotFound derr of Some e \<Rightarrow> ret (Inl e) | None \<Rightarrow> ret (Inr None))
          }
          else ret (Inr (Some (s_Name s)))
      | Inl err \<Rightarrow> if IsNotFound err then ret (Inr None) else ret (Inl err))
   }"

text \<open>Step e and the traces it leaves.\<close>

definition removeFinalizer :: "'w AliyunCertificateReconciler \<Rightarrow> AliyunCertificate \<Rightarrow> string option \<Rightarrow> ('w, reconcile_result) io" where
  "removeFinalizer r ac skippedSecret = do {
     let ac' = ac\<lparr>ac_Finalizers := RemoveFinalizer (r_meta r) (ac_Finalizers ac) FinalizerName\<rparr>;
     u \<leftarrow> perform (UpdateAC ac') (k_UpdateAC (r_kube r) ac');
     (case IgnoreNotFound (case u of Inl e \<Rightarrow> Some e | Inr _ \<Rightarrow> None) of
        Some e \<Rightarrow> ret (0, Some e)
      | None \<Rightarrow> do {
          let gone_ac = (case u of Inr a \<Rightarrow> a | Inl _ \<Rightarrow> ac');
          (case (skippedSecret, u) of
             (Some n, Inr _) \<Rightarrow>
               if n = [] then ret () else do {
                 emit (Event EventTypeWarning ReasonSecretNameConflict (Msg ''secret does not belong to this resource, deletion skipped'' []));
                 emit (Metric (CounterInc ''aliyuncert_secret_deletion_skipped_total'' [ac_Namespace gone_ac]))
               }
           | _ \<Rightarrow> ret ());
          clearCertMetrics (ac_Namespace gone_ac) (ac_Name gone_ac);
          ret (0, None)
        })
   }"

definition deleteObjects :: "'w AliyunCertificateReconciler \<Rightarrow> AliyunCertificate \<Rightarrow> ('w, reconcile_result) io" where
  "deleteObjects r ac = do {
     c \<leftarrow> deleteCertificate r ac;
     (case c of
        Some res \<Rightarrow> ret res
      | None \<Rightarrow> do {
          s \<leftarrow> deleteOwnedSecret r ac;
          (case s of
             Inl err \<Rightarrow> ret (0, Some err)
           | Inr skipped \<Rightarrow> removeFinalizer r ac skipped)
        })
   }"

text \<open>Steps b to e.\<close>

definition cleanupAndDelete ::
  "'w AliyunCertificateReconciler \<Rightarrow> AliyunCertificate \<Rightarrow> AliyunCertificate \<Rightarrow> ('w, reconcile_result) io" where
  "cleanupAndDelete r ac orig = do {
     (err, ac) \<leftarrow> cleanupCAS r ac;
     stop \<leftarrow> afterCleanup r ac orig err;
     (case stop of
        Some res \<Rightarrow> ret res
      | None \<Rightarrow> do {
          p \<leftarrow> patchStatus r ac orig;
          (case p of Inl e \<Rightarrow> ret (0, Some e) | Inr ac \<Rightarrow> deleteObjects r ac)
        })
   }"

definition reconcileDelete ::
  "'w AliyunCertificateReconciler \<Rightarrow> AliyunCertificate \<Rightarrow> AliyunCertificate \<Rightarrow> ('w, reconcile_result) io" where
  "reconcileDelete r ac orig =
     (if \<not> ContainsFinalizer (r_meta r) (ac_Finalizers ac) FinalizerName then ret (0, None)
      else do {
        bs \<leftarrow> liveBindingsFor r ac;
        (case bs of
           Inl err \<Rightarrow> ret (0, Some err)
         | Inr bindings \<Rightarrow>
             let names = activeBindingNames bindings in
             if length names > 0
             then do {
               let msg = Msg ''still referenced by bindings'' names;
               let ac = setCondition (r_meta r) ac ConditionReady ConditionFalse ReasonDeletionBlocked msg;
               emit (Event EventTypeWarning ReasonDeletionBlocked msg);
               patch_and_return r ac orig 0
             }
             else do {
               st \<leftarrow> startCleanup r ac orig;
               (case st of Inl err \<Rightarrow> ret (0, Some err) | Inr (ac, orig) \<Rightarrow> cleanupAndDelete r ac orig)
             })
      })"

section \<open>Lemmas\<close>

lemma patchStatus_spec:
  "emits (\<lambda>es res. \<exists>ms. es = map Metric ms @ [PatchACStatus ac orig res]) (patchStatus r ac orig)"
  unfolding patchStatus_def
proof (rule emits_bind_mono [OF onlyD [OF only_recordCertMetrics [where P = "\<lambda>e. \<exists>m. e = Metric m"]]], goal_cases)
  case (2 es x)
  then have "\<exists>ms. es = map Metric ms"
    by (intro ex_map_conv [THEN iffD2]) blast
  then show ?case by (intro emits_intro) auto
qed blast

text \<open>The alphabet of the CAS clean-up.\<close>

definition cas_effect :: "effect \<Rightarrow> bool" where
  "cas_effect e \<longleftrightarrow> (case e of BuildCAS a \<Rightarrow> True | CASDelete i t a \<Rightarrow> True | CASFind h a \<Rightarrow> True | Metric m \<Rightarrow> True | _ \<Rightarrow> False)"

text \<open>A certificate of the write-ahead record that a listing shows is gone, and there was a
  listing.\<close>

definition pending_gone :: "PendingUpload option \<Rightarrow> effect list \<Rightarrow> bool" where
  "pending_gone p es \<longleftrightarrow> (case p of None \<Rightarrow> True | Some p \<Rightarrow>
     (\<exists>h l. CASFind h (Inr l) \<in> set es \<and>
        (\<forall>c. List.find (\<lambda>c. sm_Name c = p_CASName p) l = Some c \<longrightarrow> gone (sm_CertID c) es)))"

lemma pending_gone_append: "pending_gone p es \<Longrightarrow> pending_gone p (es' @ es)"
  by (auto simp: pending_gone_def split: option.splits)

lemma del_generation_spec:
  "emits (\<lambda>es (err, g'). list_all cas_effect es \<and> (err = None \<longrightarrow> g' = g\<lparr>g_CertID := None\<rparr> \<and> (\<forall>i. g_CertID g = Some i \<longrightarrow> gone i es)) \<and>
     (err \<noteq> None \<longrightarrow> g' = g)) (del_generation cas uid g)"
  unfolding del_generation_def recordCASDelete_def
  by (intro emits_intro) (auto simp: gone_def cas_effect_def)

lemma del_history_spec:
  "emits (\<lambda>es (err, h'). list_all cas_effect es \<and>
     (err = None \<longrightarrow> h' = map (\<lambda>g. g\<lparr>g_CertID := None\<rparr>) h \<and> (\<forall>g \<in> set h. \<forall>i. g_CertID g = Some i \<longrightarrow> gone i es))) (del_history cas uid h)"
proof (induction h)
  case (Cons g h)
  show ?case
    unfolding del_history.simps
    by (intro emits_intro emits_mono [OF del_generation_spec] emits_mono [OF Cons.IH]) auto
qed simp

lemma cleanupPendingUpload_spec:
  "emits (\<lambda>es (err, ac'). list_all cas_effect es \<and>
     x_CleanupStartedAt (ac_Status ac') = x_CleanupStartedAt (ac_Status ac) \<and>
     (err = None \<longrightarrow> pending_gone (x_PendingUpload (ac_Status ac)) es)) (cleanupPendingUpload cas ac)"
  unfolding cleanupPendingUpload_def recordCASDelete_def
  by (intro emits_intro) (auto simp: gone_def pending_gone_def cas_effect_def)

text \<open>Everything the status knows of is gone from CAS.\<close>

definition cas_clean :: "AliyunCertificate \<Rightarrow> effect list \<Rightarrow> bool" where
  "cas_clean ac es \<longleftrightarrow> (\<forall>i \<in> set (remainingCertIDs ac). gone i es) \<and> pending_gone (x_PendingUpload (ac_Status ac)) es"

lemma set_map_filter: "set (List.map_filter f xs) = {y. \<exists>x \<in> set xs. f x = Some y}"
  by (induction xs) (auto simp: List.map_filter_simps split: option.splits)

lemma remaining_iff:
  "i \<in> set (remainingCertIDs ac) \<longleftrightarrow> (\<exists>c. x_Current (ac_Status ac) = Some c \<and> g_CertID c = Some i) \<or>
     (\<exists>g \<in> set (x_History (ac_Status ac)). g_CertID g = Some i)"
  unfolding remainingCertIDs_def set_append Un_iff set_map_filter
  by (cases "x_Current (ac_Status ac)"; cases "g_CertID (the (x_Current (ac_Status ac)))") auto

lemma no_remaining:
  "length (remainingCertIDs ac) = 0 \<and> x_PendingUpload (ac_Status ac) = None \<Longrightarrow> cas_clean ac es"
  by (simp add: cas_clean_def pending_gone_def)

lemma gone_Cons: "gone i es \<Longrightarrow> gone i (e # es)"
  by (auto simp: gone_def)

lemma cas_cleanI:
  assumes "\<And>c i. x_Current (ac_Status ac) = Some c \<Longrightarrow> g_CertID c = Some i \<Longrightarrow> gone i es"
    and "\<And>g i. g \<in> set (x_History (ac_Status ac)) \<Longrightarrow> g_CertID g = Some i \<Longrightarrow> gone i es"
    and "es = es1 @ es2" and "pending_gone (x_PendingUpload (ac_Status ac)) es2"
  shows "cas_clean ac es"
proof -
  have "pending_gone (x_PendingUpload (ac_Status ac)) es" using pending_gone_append [OF assms(4), of es1] assms(3) by simp
  with assms(1,2) show ?thesis unfolding cas_clean_def Ball_def remaining_iff by blast
qed

lemma cleanupCAS_spec:
  "emits (\<lambda>es (err, ac'). list_all cas_effect es \<and> (err = None \<longrightarrow> cas_clean ac es) \<and>
     x_CleanupStartedAt (ac_Status ac') = x_CleanupStartedAt (ac_Status ac)) (cleanupCAS r ac)"
  unfolding cleanupCAS_def Let_def
proof (intro emits_intro emits_mono [OF casClient_spec] emits_mono [OF del_history_spec] emits_mono [OF del_generation_spec]
    emits_mono [OF cleanupPendingUpload_spec], goal_cases)
  case 1
  then show ?case using no_remaining by auto
next
  case (3 es x cas es2 y err h es3 z)
  then show ?case
    by (cases z) (auto simp: cas_effect_def gone_Cons intro!: cas_cleanI [where ?es1.0 = "es @ es2" and ?es2.0 = es3])
next
  case (4 es x cas es2 y err h c es3 z err2 c' es4 w)
  then show ?case
    by (cases w) (auto simp: cas_effect_def gone_Cons intro!: cas_cleanI [where ?es1.0 = "es @ es2 @ es3" and ?es2.0 = es4])
qed (auto simp: cas_effect_def)

text \<open>What must have happened before each step. \<open>seen\<close> are the versions of the object the
  reconcile has worked with.\<close>

definition seen :: "AliyunCertificate \<Rightarrow> effect list \<Rightarrow> AliyunCertificate \<Rightarrow> bool" where
  "seen ac es cur \<longleftrightarrow> cur = ac \<or> (\<exists>t b. PatchACStatus t b (Inr cur) \<in> set es)"

definition unreferenced :: "AliyunCertificate \<Rightarrow> effect list \<Rightarrow> bool" where
  "unreferenced ac es \<longleftrightarrow> (\<exists>items. ListBindings (ac_Namespace ac) (Inr items) \<in> set es \<and>
     (\<forall>b \<in> set items. bs_CertificateRef (b_Spec b) = ac_Name ac \<longrightarrow> b_DeletionTimestamp b \<noteq> None))"

definition abandoned :: "'w AliyunCertificateReconciler \<Rightarrow> AliyunCertificate \<Rightarrow> effect list \<Rightarrow> bool" where
  "abandoned r cur es \<longleftrightarrow> r_CleanupFailurePolicy r \<noteq> CleanupPolicyBlock \<and>
     (\<exists>t s. ReadClock t \<in> set es \<and> x_CleanupStartedAt (ac_Status cur) = Some s \<and> r_CleanupGracePeriod r \<le> t - s)"

definition cas_settled :: "'w AliyunCertificateReconciler \<Rightarrow> AliyunCertificate \<Rightarrow> effect list \<Rightarrow> bool" where
  "cas_settled r ac es \<longleftrightarrow> (\<exists>cur. seen ac es cur \<and> (cas_clean cur es \<or> abandoned r cur es))"

definition certificate_gone :: "AliyunCertificate \<Rightarrow> effect list \<Rightarrow> bool" where
  "certificate_gone ac es \<longleftrightarrow> (\<exists>cur e. seen ac es cur \<and>
     GetCert (ac_Namespace cur) (certManagerNameFor cur) (Inl e) \<in> set es \<and> IsNotFound e)"

definition secret_settled :: "AliyunCertificate \<Rightarrow> effect list \<Rightarrow> bool" where
  "secret_settled ac es \<longleftrightarrow> (\<exists>cur x. seen ac es cur \<and>
     GetSecret (ac_Namespace cur) (servingSecretName cur (x_SecretName (ac_Status cur))) x \<in> set es \<and>
     (case x of Inl e \<Rightarrow> IsNotFound e
      | Inr s \<Rightarrow> secretOwnedByUs s cur \<longrightarrow> (\<exists>a. DeleteSecret s a \<in> set es \<and> IgnoreNotFound a = None)))"

fun delete_guard :: "'w AliyunCertificateReconciler \<Rightarrow> AliyunCertificate \<Rightarrow> effect list \<Rightarrow> effect \<Rightarrow> bool" where
  "delete_guard r ac pre (CASDelete i t a) \<longleftrightarrow> unreferenced ac pre"
| "delete_guard r ac pre (DeleteCert c a) \<longleftrightarrow> unreferenced ac pre \<and> cas_settled r ac pre"
| "delete_guard r ac pre (DeleteSecret s a) \<longleftrightarrow> unreferenced ac pre \<and> cas_settled r ac pre \<and> certificate_gone ac pre \<and>
     (\<exists>cur. seen ac pre cur \<and> secretOwnedByUs s cur)"
| "delete_guard r ac pre (UpdateAC t a) \<longleftrightarrow> unreferenced ac pre \<and> cas_settled r ac pre \<and> certificate_gone ac pre \<and>
     secret_settled ac pre"
| "delete_guard r ac pre (CASUpload n c k t a) \<longleftrightarrow> False"
| "delete_guard r ac pre (SyncCert c a) \<longleftrightarrow> False"
| "delete_guard r ac pre e \<longleftrightarrow> True"

named_theorems delete_mono \<open>facts about a trace are kept when it grows\<close>

lemma seen_mono [delete_mono]: "seen ac es cur \<Longrightarrow> seen ac (es @ es') cur"
  by (auto simp: seen_def)

lemma seen_self: "seen ac es ac"
  by (simp add: seen_def)

lemma seenI: "PatchACStatus t b (Inr cur) \<in> set es \<Longrightarrow> seen ac es cur"
  by (auto simp: seen_def)

lemma unreferenced_mono [delete_mono]: "unreferenced ac es \<Longrightarrow> unreferenced ac (es @ es')"
  by (auto simp: unreferenced_def)

lemma pending_gone_mono [delete_mono]: "pending_gone p es \<Longrightarrow> pending_gone p (es @ es')"
  by (auto simp: pending_gone_def split: option.splits)

lemma cas_settled_mono [delete_mono]: "cas_settled r ac es \<Longrightarrow> cas_settled r ac (es @ es')"
  unfolding cas_settled_def cas_clean_def abandoned_def
  using seen_mono pending_gone_mono by (metis UnCI gone_append set_append)

lemma certificate_gone_mono [delete_mono]: "certificate_gone ac es \<Longrightarrow> certificate_gone ac (es @ es')"
  unfolding certificate_gone_def using seen_mono by (metis UnCI set_append)

lemma guarded_metrics: "\<forall>e \<in> set es. \<exists>m. e = Metric m \<Longrightarrow> guarded (delete_guard r ac) pre es"
  by (intro guarded_all) auto

lemma guarded_cas: "unreferenced ac pre \<Longrightarrow> list_all cas_effect es \<Longrightarrow> guarded (delete_guard r ac) pre es"
proof (intro guarded_all)
  fix pre' e assume u: "unreferenced ac pre" and "list_all cas_effect es" "e \<in> set es"
  then have "cas_effect e" by (auto simp: list_all_iff)
  then show "delete_guard r ac (pre @ pre') e"
    using unreferenced_mono [OF u, of pre'] by (cases e) (simp_all add: cas_effect_def)
qed

lemma clearCertMetrics_spec: "emits (\<lambda>es x. \<forall>e \<in> set es. \<exists>m. e = Metric m) (clearCertMetrics ns n)"
  by (rule onlyD [OF only_clearCertMetrics]) blast

lemma deleteCertificate_spec:
  "emits (\<lambda>es res. (\<exists>a. es = [GetCert (ac_Namespace ac) (certManagerNameFor ac) a] \<and>
        (res = None \<longrightarrow> (\<exists>e. a = Inl e \<and> IsNotFound e))) \<or>
     (\<exists>c a. es = [GetCert (ac_Namespace ac) (certManagerNameFor ac) (Inr c), DeleteCert c a] \<and> res \<noteq> None))
   (deleteCertificate r ac)"
  unfolding deleteCertificate_def by (intro emits_intro) auto

lemma deleteOwnedSecret_spec:
  "emits (\<lambda>es res. \<exists>x. (es = [GetSecret (ac_Namespace ac) (servingSecretName ac (x_SecretName (ac_Status ac))) x] \<and>
        ((\<exists>k. res = Inr k) \<longrightarrow> (case x of Inl e \<Rightarrow> IsNotFound e | Inr s \<Rightarrow> \<not> secretOwnedByUs s ac))) \<or>
     (\<exists>s a. x = Inr s \<and> secretOwnedByUs s ac \<and>
        es = [GetSecret (ac_Namespace ac) (servingSecretName ac (x_SecretName (ac_Status ac))) x, DeleteSecret s a] \<and>
        ((\<exists>k. res = Inr k) \<longrightarrow> IgnoreNotFound a = None)))
   (deleteOwnedSecret r ac)"
  unfolding deleteOwnedSecret_def Let_def by (intro emits_intro) auto

lemma removeFinalizer_spec:
  "emits (\<lambda>es res. \<exists>u rest. es = UpdateAC (ac\<lparr>ac_Finalizers := RemoveFinalizer (r_meta r) (ac_Finalizers ac) FinalizerName\<rparr>) u # rest \<and>
     (\<forall>e \<in> set rest. (\<exists>m. e = Metric m) \<or> (\<exists>t n m. e = Event t n m))) (removeFinalizer r ac sk)"
  unfolding removeFinalizer_def Let_def
  by (intro emits_intro emits_mono [OF clearCertMetrics_spec]) auto

lemma seen_ge: "seen ac pre cur \<Longrightarrow> seen ac (pre @ es) cur"
  by (rule seen_mono)

lemma deleteObjects_guarded:
  assumes "unreferenced ac pre" "cas_settled r ac pre" "seen ac pre cur"
  shows "emits (\<lambda>es res. guarded (delete_guard r ac) pre es) (deleteObjects r cur)"
proof -
  have mono: "unreferenced ac (pre @ es)" "cas_settled r ac (pre @ es)" "seen ac (pre @ es) cur" for es
    using assms by (auto intro: delete_mono)
  have settled: "certificate_gone ac (pre @ GetCert (ac_Namespace cur) (certManagerNameFor cur) (Inl e) # es)" if "IsNotFound e" for e es
    unfolding certificate_gone_def using that mono(3) by auto
  show ?thesis
    unfolding deleteObjects_def
  proof (intro emits_intro emits_mono [OF deleteCertificate_spec] emits_mono [OF deleteOwnedSecret_spec]
      emits_mono [OF removeFinalizer_spec], goal_cases)
    case (1 es x es2 s err)
    then obtain e where "es = [GetCert (ac_Namespace cur) (certManagerNameFor cur) (Inl e)]" "IsNotFound e" by auto
    with 1 show ?case by (auto simp: mono settled intro!: exI [of _ cur])
  next
    case (2 es x es2 s sk es3 res)
    then obtain e where es: "es = [GetCert (ac_Namespace cur) (certManagerNameFor cur) (Inl e)]" "IsNotFound e" by auto
    obtain u rest where es3: "es3 = UpdateAC (cur\<lparr>ac_Finalizers := RemoveFinalizer (r_meta r) (ac_Finalizers cur) FinalizerName\<rparr>) u # rest"
        "\<forall>e \<in> set rest. (\<exists>m. e = Metric m) \<or> (\<exists>t n m. e = Event t n m)" using 2 by auto
    obtain g where "GetSecret (ac_Namespace cur) (servingSecretName cur (x_SecretName (ac_Status cur))) g \<in> set es2"
      "case g of Inl e \<Rightarrow> IsNotFound e
       | Inr s \<Rightarrow> secretOwnedByUs s cur \<longrightarrow> (\<exists>a. DeleteSecret s a \<in> set es2 \<and> IgnoreNotFound a = None)"
      using 2(3,4) by (elim exE disjE conjE) (auto split: sum.splits)
    then have "secret_settled ac (pre @ es @ es2)"
      unfolding secret_settled_def using mono(3)
      by (intro exI [of _ cur] exI [of _ g]) (auto split: sum.splits)
    moreover have "guarded (delete_guard r ac) pre' rest" for pre'
      using es3(2) by (intro guarded_all) auto
    ultimately show ?case using 2(3) es es3(1) by (auto simp: mono settled intro!: exI [of _ cur])
  qed (auto simp: mono)
qed

text \<open>Reads, patches of the status, events and metrics need no guard.\<close>

definition quiet :: "effect \<Rightarrow> bool" where
  "quiet e \<longleftrightarrow> (case e of CASDelete i t a \<Rightarrow> False | DeleteCert c a \<Rightarrow> False | DeleteSecret s a \<Rightarrow> False
     | UpdateAC c a \<Rightarrow> False | CASUpload n c k t a \<Rightarrow> False | SyncCert c a \<Rightarrow> False | _ \<Rightarrow> True)"

lemma guarded_quiet: "list_all quiet es \<Longrightarrow> guarded (delete_guard r ac) pre es"
proof (intro guarded_all)
  fix pre' e assume "list_all quiet es" "e \<in> set es"
  then have "quiet e" by (auto simp: list_all_iff)
  then show "delete_guard r ac (pre @ pre') e" by (cases e) (simp_all add: quiet_def)
qed

lemma quiet_simps:
  "list_all quiet (map Metric ms)" "quiet (PatchACStatus t b a)" "quiet (ListBindings ns l)" "quiet (Event k n m)"
  by (simp_all add: list_all_iff quiet_def)

lemma startCleanup_spec:
  "emits (\<lambda>es res. list_all quiet es \<and> (\<forall>cur o'. res = Inr (cur, o') \<longrightarrow> seen ac es cur)) (startCleanup r ac orig)"
  unfolding startCleanup_def now_def
  by (intro emits_intro emits_mono [OF patchStatus_spec]) (auto simp: quiet_def list_all_iff seen_self intro: seenI)

lemma cleanupFailed_spec:
  "emits (\<lambda>es res. list_all quiet es \<and> (res = None \<longrightarrow> abandoned r cur es)) (cleanupFailed r cur orig err)"
  unfolding cleanupFailed_def now_def
  by (intro emits_intro emits_mono [OF patchStatus_spec])
    (auto simp: abandoned_def shouldAbandonCleanup_def quiet_def list_all_iff)

lemma stop_spec:
  "emits (\<lambda>es res. list_all quiet es \<and> (res = None \<longrightarrow> err = None \<or> abandoned r cur es))
     (afterCleanup r cur orig err)"
  unfolding afterCleanup_def by (intro emits_intro emits_mono [OF cleanupFailed_spec]) auto

lemma cas_settledI:
  assumes "seen ac pre cur" "err = None \<Longrightarrow> cas_clean cur es" "err = None \<or> abandoned r cur' es'"
    and "x_CleanupStartedAt (ac_Status cur') = x_CleanupStartedAt (ac_Status cur)"
  shows "cas_settled r ac (pre @ es @ es' @ rest)"
proof -
  have seen: "seen ac (pre @ es @ es' @ rest) cur" using seen_mono [OF assms(1)] by blast
  show ?thesis
  proof (cases "err = None")
    case True
    then have "cas_clean cur es" by (rule assms(2))
    then have "cas_clean cur (pre @ es @ es' @ rest)"
      unfolding cas_clean_def
      using pending_gone_append [of _ es pre] pending_gone_mono [of _ "pre @ es" "es' @ rest"] by simp
    with seen show ?thesis unfolding cas_settled_def by blast
  next
    case False
    with assms(3,4) have "abandoned r cur (pre @ es @ es' @ rest)" unfolding abandoned_def by auto
    with seen show ?thesis unfolding cas_settled_def by blast
  qed
qed

lemma cleanupAndDelete_guarded:
  assumes "unreferenced ac pre" "seen ac pre cur"
  shows "emits (\<lambda>es res. guarded (delete_guard r ac) pre es) (cleanupAndDelete r cur orig)"
  unfolding cleanupAndDelete_def
proof (intro emits_intro emits_mono [OF cleanupCAS_spec] emits_mono [OF stop_spec] emits_mono [OF patchStatus_spec], goal_cases)
  case (2 es x err cur' es2 stop es3 p new)
  let ?pre = "pre @ es @ es2 @ es3"
  have g: "guarded (delete_guard r ac) pre (es @ es2 @ es3)"
    using 2 assms by (auto simp: guarded_cas guarded_quiet quiet_simps)
  have "unreferenced ac ?pre" using unreferenced_mono [OF assms(1)] by blast
  moreover have "cas_settled r ac ?pre" using cas_settledI [OF assms(2), where err = err and es = es and r = r and cur' = cur' and es' = es2 and rest = es3] 2 by auto
  moreover have "PatchACStatus cur' orig (Inr new) \<in> set ?pre" using 2 by auto
  then have "seen ac ?pre new" by (rule seenI)
  ultimately show ?case
    using emits_mono [OF deleteObjects_guarded [of ac ?pre r new]] g by (auto elim!: emits_mono)
qed (use assms in \<open>auto simp: guarded_cas guarded_quiet quiet_simps\<close>)

lemma live_unreferenced:
  assumes "emits_trace = [ListBindings (ac_Namespace ac) a]"
    and "map_sum id (filter (\<lambda>b. bs_CertificateRef (b_Spec b) = ac_Name ac)) a = Inr bindings"
    and "\<not> length (activeBindingNames bindings) > 0"
  shows "unreferenced ac emits_trace"
  using assms by (auto simp: unreferenced_def activeBindingNames_def filter_empty_conv)

lemma unreferenced_later: "unreferenced ac es \<Longrightarrow> unreferenced ac (pre @ es)"
  by (auto simp: unreferenced_def)

lemma seen_later: "seen ac es cur \<Longrightarrow> seen ac (pre @ es) cur"
  by (auto simp: seen_def)

lemma reconcileDelete_guarded:
  "emits (\<lambda>es res. guarded (delete_guard r ac) pre es) (reconcileDelete r ac orig)"
  unfolding reconcileDelete_def Let_def patch_and_return_def
proof (intro emits_intro emits_mono [OF liveBindingsFor_spec] emits_mono [OF patchStatus_spec]
    emits_mono [OF startCleanup_spec], goal_cases)
  case (5 es x bindings es2 st pr cur orig')
  then have "unreferenced ac es" using live_unreferenced by metis
  then have "unreferenced ac (pre @ es @ es2)" by (intro unreferenced_later unreferenced_mono)
  moreover have "seen ac (pre @ es @ es2) cur" using 5 by (intro seen_later) simp
  ultimately show ?case
    using 5 by (auto simp: guarded_quiet quiet_simps elim!: emits_mono [OF cleanupAndDelete_guarded])
qed (auto simp: guarded_quiet quiet_simps)

section \<open>Properties\<close>

text \<open>
  C3. Deletion goes in order and never too far, whatever the world answers. A certificate is
  deleted from CAS, the Certificate deleted, the Secret deleted or the finalizer removed only
  after an uncached listing showed that every Binding that references the certificate is
  itself being deleted. The Certificate, the Secret and the finalizer follow only when CAS is
  settled: everything the status knows is gone, the upload in flight included, or the grace
  period has passed and the policy is not Block. The Secret and the finalizer follow only
  when the Certificate is gone; the Secret is deleted only if its annotation names this
  certificate; and the finalizer goes only after the Secret in service was found missing,
  foreign or was deleted. Nothing is uploaded or synced.
\<close>

theorem reconcileDelete_ordered:
  "emits (\<lambda>es res. guarded (delete_guard r ac) [] es) (reconcileDelete r ac orig)"
  by (rule reconcileDelete_guarded)

end
