(* ===== verification/Cert_Controller.thy ===== *)
theory Cert_Controller
  imports Probe Deletion
begin

text \<open>
  The reconcile of an AliyunCertificate
  (\<open>internal/controller/aliyuncertificate_controller.go\<close>): the deletion branch, the
  finalizer, issuer and Certificate, then material, probe, upload, retention and the
  aggregated Ready condition.
\<close>

section \<open>Definitions\<close>

definition detectIssuerDivergence ::
  "'w AliyunCertificateReconciler \<Rightarrow> AliyunCertificate \<Rightarrow> IssuerReference \<Rightarrow> IssuerSource \<Rightarrow> ('w, AliyunCertificate) io" where
  "detectIssuerDivergence r ac effective source =
     (case IssuerDefaults_Ref (r_defaults r) of
        Some d \<Rightarrow>
          if source = IssuerSourceStatus \<and> \<not> IssuerRefEqual d effective
          then do {
            (if \<not> condTrue (r_meta r) ac ConditionIssuerDefaultDiverged
             then emit (Event EventTypeWarning ReasonIssuerDefaultDiverged (Msg ''pinned issuer differs from operator default'' []))
             else ret ());
            ret (setCondition (r_meta r) ac ConditionIssuerDefaultDiverged ConditionTrue ReasonIssuerDefaultDiverged
              (Msg ''issuer pinned, operator default differs'' [ir_Kind effective, ir_Name effective, ir_Kind d, ir_Name d]))
          }
          else ret (setCondition (r_meta r) ac ConditionIssuerDefaultDiverged ConditionFalse ReasonReady NoMsg)
      | None \<Rightarrow> ret (setCondition (r_meta r) ac ConditionIssuerDefaultDiverged ConditionFalse ReasonReady NoMsg))"

definition setUploadedCondition :: "meta_api \<Rightarrow> AliyunCertificate \<Rightarrow> AliyunCertificate" where
  "setUploadedCondition mt ac =
     (if \<not> UploadEnabled (sp_Aliyun (ac_Spec ac))
      then setCondition mt ac ConditionUploaded ConditionFalse ReasonUploadDisabled (Msg ''spec.aliyun.uploadToCAS=false'' [])
      else case Option.bind (x_Current (ac_Status ac)) g_CertID of
        Some i \<Rightarrow> setCondition mt ac ConditionUploaded ConditionTrue ReasonReady (Msg ''certId='' [FormatInt i])
      | None \<Rightarrow> setCondition mt ac ConditionUploaded ConditionFalse ReasonUploadFailed (Msg ''not uploaded yet'' []))"

definition not_true_reason :: "meta_api \<Rightarrow> AliyunCertificate \<Rightarrow> string \<Rightarrow> string option" where
  "not_true_reason mt ac t = (case FindStatusCondition mt (x_Conditions (ac_Status ac)) t of
     Some c \<Rightarrow> if c_Status c \<noteq> ConditionTrue then Some (c_Reason c) else None
   | None \<Rightarrow> None)"

definition aggregateReady :: "meta_api \<Rightarrow> AliyunCertificate \<Rightarrow> AliyunCertificate" where
  "aggregateReady mt ac =
     (if secretNameGuardHolding ac
      then setCondition mt ac ConditionReady ConditionFalse ReasonSecretNameConflict (secretNameConflictMessage ac)
      else let issued = condTrue mt ac ConditionIssued;
               uploadedOK = (\<not> UploadEnabled (sp_Aliyun (ac_Spec ac)) \<or> condTrue mt ac ConditionUploaded)
           in if issued \<and> uploadedOK then setCondition mt ac ConditionReady ConditionTrue ReasonReady NoMsg
              else let reason = (case not_true_reason mt ac ConditionIssued of
                       Some rs \<Rightarrow> rs
                     | None \<Rightarrow> (case not_true_reason mt ac ConditionUploaded of
                         Some rs \<Rightarrow> rs
                       | None \<Rightarrow> ReasonCertificateNotReady))
                   in setCondition mt ac ConditionReady ConditionFalse reason NoMsg)"

text \<open>\<open>setCondition\<close> on Uploaded, \<open>aggregateReady\<close> and the final patch, as all error
  branches do.\<close>

definition fail_uploaded ::
  "'w AliyunCertificateReconciler \<Rightarrow> AliyunCertificate \<Rightarrow> string \<Rightarrow> message \<Rightarrow> AliyunCertificate" where
  "fail_uploaded r ac reason msg =
     aggregateReady (r_meta r) (setCondition (r_meta r) ac ConditionUploaded ConditionFalse reason msg)"

definition handleCloudError ::
  "'w AliyunCertificateReconciler \<Rightarrow> AliyunCertificate \<Rightarrow> AliyunCertificate \<Rightarrow> string \<Rightarrow> gerror \<Rightarrow> ('w, reconcile_result) io" where
  "handleCloudError r ac orig op err = (case as_credentials err of
     Some (reason, txt) \<Rightarrow> patch_and_return r (fail_uploaded r ac reason (MsgErr [] txt)) orig (5 * minute)
   | None \<Rightarrow> (case ClassOf err of
       ClassRetryable \<Rightarrow> do {
         let reason = (case as_aliyun err of
             Some (c, code) \<Rightarrow> if HasPrefix code ''Throttling'' then ReasonThrottled else ReasonUploadFailed
           | None \<Rightarrow> ReasonUploadFailed);
         p \<leftarrow> patchStatus r (fail_uploaded r ac reason (Msg ''failed, will retry'' [op])) orig;
         ret (0, case p of Inl perr \<Rightarrow> Some perr | Inr _ \<Rightarrow> Some err)
       }
     | ClassAuth \<Rightarrow> patch_and_return r
         (fail_uploaded r ac ReasonCredentialsInvalid (MsgErr (op @ '' rejected: '') (error_text err))) orig (5 * minute)
     | _ \<Rightarrow> do {
         emit (Event EventTypeWarning ReasonUploadFailed (Msg (op @ '' failed'') []));
         patch_and_return r (fail_uploaded r ac ReasonUploadFailed (MsgErr (op @ '' failed: '') (error_text err))) orig
           (r_ResyncInterval r)
       }))"

definition handleNonFatalCloudError ::
  "'w AliyunCertificateReconciler \<Rightarrow> AliyunCertificate \<Rightarrow> AliyunCertificate \<Rightarrow> gerror \<Rightarrow> string \<Rightarrow> message \<Rightarrow>
     ('w, reconcile_result) io" where
  "handleNonFatalCloudError r ac orig err reason msg = do {
     emit (Event EventTypeWarning reason msg);
     p \<leftarrow> patchStatus r (aggregateReady (r_meta r) ac) orig;
     ret (case p of
        Inl perr \<Rightarrow> (0, Some perr)
      | Inr _ \<Rightarrow> if ClassOf err = ClassRetryable then (0, Some err) else (r_ResyncInterval r, None))
   }"

definition handleReclaimError ::
  "'w AliyunCertificateReconciler \<Rightarrow> AliyunCertificate \<Rightarrow> AliyunCertificate \<Rightarrow> gerror \<Rightarrow> ('w, reconcile_result) io" where
  "handleReclaimError r ac orig err = handleNonFatalCloudError r ac orig err ''ReclaimFailed''
     (Msg ''failed to reclaim an old CAS certificate; the current certificate is unaffected'' [])"

definition secretNameConflict :: "'w AliyunCertificateReconciler \<Rightarrow> AliyunCertificate \<Rightarrow> ('w, gerror + bool) io" where
  "secretNameConflict r ac = do {
     s \<leftarrow> perform (GetSecret (ac_Namespace ac) (secretNameFor ac)) (k_GetSecret (r_kube r) (ac_Namespace ac) (secretNameFor ac));
     ret (case s of
        Inl err \<Rightarrow> if IsNotFound err then Inr False else Inl err
      | Inr s \<Rightarrow> Inr (\<not> secretOwnedByUs s ac))
   }"

subsection \<open>Steps 5 to 10\<close>

text \<open>Step 9, run before the upload: what the probe says is persisted first. A failure is
  noted and the round goes on.\<close>

definition probeAndPersist ::
  "'w AliyunCertificateReconciler \<Rightarrow> AliyunCertificate \<Rightarrow> AliyunCertificate \<Rightarrow> Bundle \<Rightarrow>
     ('w, gerror + AliyunCertificate \<times> AliyunCertificate) io" where
  "probeAndPersist r ac orig b = do {
     (missing, ac) \<leftarrow> probeCAS r ac (case DNSNames b of n # _ \<Rightarrow> n | [] \<Rightarrow> []);
     (case missing of
        Inl err \<Rightarrow> do { noteProbeFailure; ret (Inr (ac, orig)) }
      | Inr True \<Rightarrow> do {
          p \<leftarrow> patchStatus r ac orig;
          ret (case p of Inl err \<Rightarrow> Inl err | Inr ac \<Rightarrow> Inr (ac, ac))
        }
      | Inr False \<Rightarrow> ret (Inr (ac, orig)))
   }"

text \<open>Steps 6 to 10.\<close>

definition uploadAndReclaim ::
  "'w AliyunCertificateReconciler \<Rightarrow> AliyunCertificate \<Rightarrow> AliyunCertificate \<Rightarrow> Bundle \<Rightarrow> ('w, reconcile_result) io" where
  "uploadAndReclaim r ac orig b = do {
     (up, ac, orig) \<leftarrow> ensureUploaded r ac orig b;
     (case up of
        Inl err \<Rightarrow> handleCloudError r ac orig ''Upload'' err
      | Inr _ \<Rightarrow> do {
          let ac = setUploadedCondition (r_meta r) ac;
          (err, ac) \<leftarrow> reclaimOldGenerations r ac;
          (case err of
             Some e \<Rightarrow> handleReclaimError r ac orig e
           | None \<Rightarrow> patch_and_return r (aggregateReady (r_meta r) ac) orig (r_ResyncInterval r))
        })
   }"

definition reconcileIssued ::
  "'w AliyunCertificateReconciler \<Rightarrow> AliyunCertificate \<Rightarrow> AliyunCertificate \<Rightarrow> certificate \<Rightarrow> bool \<Rightarrow> ('w, reconcile_result) io" where
  "reconcileIssued r ac orig cert stalled = do {
     m \<leftarrow> loadMaterial (r_crypto r) (r_kube r) ac cert;
     (case m of
        Inl me \<Rightarrow> do {
          let ac = setCondition (r_meta r) ac ConditionIssued ConditionFalse (me_Reason me) (me_Message me);
          (if me_Reason me = ReasonSelfSignedDuringIssuance
           then emit (Event EventTypeWarning (me_Reason me) (me_Message me)) else ret ());
          patch_and_return r (aggregateReady (r_meta r) ac) orig (r_ResyncInterval r)
        }
      | Inr b \<Rightarrow> do {
          let ac = (if \<not> stalled
                    then setCondition (r_meta r) ac ConditionIssued ConditionTrue ReasonReady (Msg ''secret validated'' []) else ac);
          pr \<leftarrow> probeAndPersist r ac orig b;
          (case pr of
             Inl err \<Rightarrow> ret (0, Some err)
           | Inr (ac, orig) \<Rightarrow> uploadAndReclaim r ac orig b)
        })
   }"

subsection \<open>Steps 1 to 4\<close>

definition emptyCertificate :: "string \<Rightarrow> string \<Rightarrow> certificate" where
  "emptyCertificate ns n = \<lparr> cm_Namespace = ns, cm_Name = n, cm_Labels = [], cm_DeletionTimestamp = None, cm_OwnerUID = None,
     cm_Spec = \<lparr> cs_SecretName = [], cs_IssuerRef = \<lparr> ir_Name = [], ir_Kind = [], ir_Group = [] \<rparr>, cs_CommonName = [],
       cs_DNSNames = [], cs_IPAddresses = [], cs_Duration = None, cs_RenewBefore = None, cs_Subject = None, cs_Usages = [],
       cs_PrivateKey = None, cs_SecretTemplate = None \<rparr>,
     cm_Conditions = [], cm_Revision = None, cm_RenewalTime = None, cm_FailedIssuanceAttempts = None, cm_LastFailureTime = None \<rparr>"

text \<open>The mutation given to \<open>CreateOrUpdate\<close>.\<close>

definition mutateCertificate :: "meta_api \<Rightarrow> AliyunCertificate \<Rightarrow> IssuerReference \<Rightarrow> certificate \<Rightarrow> gerror + certificate" where
  "mutateCertificate mt ac issuer cert = SetControllerReference mt ac
     (cert\<lparr>cm_Spec := desiredCertificateSpec ac issuer, cm_Labels := map_assign (cm_Labels cert) LabelManaged ''true''\<rparr>)"

definition syncCertificate ::
  "'w AliyunCertificateReconciler \<Rightarrow> AliyunCertificate \<Rightarrow> IssuerReference \<Rightarrow> ('w, gerror + certificate) io" where
  "syncCertificate r ac issuer = do {
     let cert = emptyCertificate (ac_Namespace ac) (certManagerNameFor ac);
     res \<leftarrow> perform (SyncCert cert) (k_CreateOrUpdateCert (r_kube r) cert (mutateCertificate (r_meta r) ac issuer));
     (case res of
        Inl err \<Rightarrow> ret (Inl (Wrapf ''syncing the cert-manager Certificate failed: '' err []))
      | Inr (op, cert) \<Rightarrow>
          if op = OperationResultCreated \<and> x_CertManagerCertificateName (ac_Status ac) \<noteq> []
          then do {
            emit (Metric (CounterInc ''aliyuncert_certmanager_certificate_recreated_total'' [ac_Namespace ac, ac_Name ac]));
            emit (Event EventTypeWarning ''CertificateRecreated'' (Msg ''cert-manager Certificate was recreated'' []));
            ret (Inr cert)
          }
          else ret (Inr cert))
   }"

text \<open>Whole minutes, rounded towards zero.\<close>

definition truncate_minutes :: "duration \<Rightarrow> int" where
  "truncate_minutes d = sgn d * (\<bar>d\<bar> div minute)"

text \<open>Step 4: whether the issuance is stalled.\<close>

definition noteStall ::
  "'w AliyunCertificateReconciler \<Rightarrow> AliyunCertificate \<Rightarrow> certificate \<Rightarrow> ('w, bool \<times> AliyunCertificate) io" where
  "noteStall r ac cert = (case certIssuingSince cert of
     (True, Some since) \<Rightarrow> do {
       t \<leftarrow> now r;
       if t - since > r_IssuanceStallThreshold r
       then do {
         t' \<leftarrow> now r;
         emit (Event EventTypeWarning ReasonIssuanceStalled (Msg ''cert-manager issuance stalled'' []));
         ret (True, setCondition (r_meta r) ac ConditionIssued ConditionFalse ReasonIssuanceStalled
           (Msg ''cert-manager Issuing for minutes'' [FormatInt (truncate_minutes (t' - since))]))
       }
       else ret (False, ac)
     }
   | _ \<Rightarrow> ret (False, ac))"

definition reconcileCertificate ::
  "'w AliyunCertificateReconciler \<Rightarrow> AliyunCertificate \<Rightarrow> AliyunCertificate \<Rightarrow> certificate \<Rightarrow> ('w, reconcile_result) io" where
  "reconcileCertificate r ac orig cert = do {
     let ac = upd_status (\<lambda>x. x\<lparr>x_CertManagerCertificateName := cm_Name cert, x_SecretName := cs_SecretName (cm_Spec cert)\<rparr>) ac;
     (stalled, ac) \<leftarrow> noteStall r (mirrorIssuance ac cert) cert;
     (if \<not> certReady cert
      then do {
        let ac = (if stalled then ac
                  else setCondition (r_meta r) ac ConditionIssued ConditionFalse ReasonCertificateNotReady
                    (Msg ''waiting for cert-manager'' []));
        let ac = aggregateReady (r_meta r) ac;
        patch_and_return r ac orig (if stalled \<or> secretNameGuardHolding ac then r_ResyncInterval r else 0)
      }
      else reconcileIssued r ac orig cert stalled)
   }"

text \<open>Step 2: the target Secret is looked at before the Certificate is created or pointed
  elsewhere.\<close>

definition checkSecretName ::
  "'w AliyunCertificateReconciler \<Rightarrow> AliyunCertificate \<Rightarrow> certificate option \<Rightarrow> ('w, gerror + bool) io" where
  "checkSecretName r ac existing =
     (if (case existing of None \<Rightarrow> True | Some c \<Rightarrow> cs_SecretName (cm_Spec c) \<noteq> secretNameFor ac)
      then secretNameConflict r ac else ret (Inr False))"

definition reconcileResolved ::
  "'w AliyunCertificateReconciler \<Rightarrow> AliyunCertificate \<Rightarrow> AliyunCertificate \<Rightarrow> certificate option \<Rightarrow> IssuerReference \<Rightarrow>
     ('w, reconcile_result) io" where
  "reconcileResolved r ac orig existing issuer = do {
     conf \<leftarrow> checkSecretName r ac existing;
     (case conf of
        Inl err \<Rightarrow> ret (0, Some err)
      | Inr True \<Rightarrow> (case existing of
          None \<Rightarrow> patch_and_return r (setCondition (r_meta r) ac ConditionReady ConditionFalse ReasonSecretNameConflict
              (secretNameConflictMessage ac)) orig (r_ResyncInterval r)
        | Some cert \<Rightarrow> reconcileCertificate r ac orig cert)
      | Inr False \<Rightarrow> do {
          s \<leftarrow> syncCertificate r ac issuer;
          (case s of Inl err \<Rightarrow> ret (0, Some err) | Inr cert \<Rightarrow> reconcileCertificate r ac orig cert)
        })
   }"

definition reconcileLive ::
  "'w AliyunCertificateReconciler \<Rightarrow> AliyunCertificate \<Rightarrow> AliyunCertificate \<Rightarrow> ('w, reconcile_result) io" where
  "reconcileLive r ac orig = do {
     let ac = upd_status (\<lambda>x. x\<lparr>x_ObservedGeneration := ac_Generation ac\<rparr>) ac;
     ex \<leftarrow> perform (GetCert (ac_Namespace ac) (certManagerNameFor ac)) (k_GetCert (r_kube r) (ac_Namespace ac) (certManagerNameFor ac));
     (case (case ex of Inl e \<Rightarrow> if IsNotFound e then Inr None else Inl e | Inr c \<Rightarrow> Inr (Some c)) of
        Inl err \<Rightarrow> ret (0, Some err)
      | Inr existing \<Rightarrow> (case ResolveIssuerRef (sp_CertificateTemplate (ac_Spec ac)) (ac_Status ac) existing (r_defaults r) of
          None \<Rightarrow> patch_and_return r (setCondition (r_meta r) ac ConditionReady ConditionFalse ReasonNoIssuer
              (Msg ''no issuerRef and no default issuer'' [])) orig 0
        | Some (issuer, source) \<Rightarrow> do {
            ac \<leftarrow> detectIssuerDivergence r (upd_status (\<lambda>x. x\<lparr>x_EffectiveIssuerRef := Some issuer\<rparr>) ac) issuer source;
            reconcileResolved r ac orig existing issuer
          }))
   }"

definition AliyunCertificate_Reconcile ::
  "'w AliyunCertificateReconciler \<Rightarrow> string \<Rightarrow> string \<Rightarrow> ('w, reconcile_result) io" where
  "AliyunCertificate_Reconcile r ns n = do {
     a \<leftarrow> perform (GetAC False ns n) (k_GetAC (r_kube r) ns n);
     (case a of
        Inl err \<Rightarrow> ret (0, IgnoreNotFound (Some err))
      | Inr ac \<Rightarrow>
          if ac_DeletionTimestamp ac \<noteq> None then reconcileDelete r ac ac
          else if \<not> ContainsFinalizer (r_meta r) (ac_Finalizers ac) FinalizerName
          then do {
            let ac' = ac\<lparr>ac_Finalizers := AddFinalizer (r_meta r) (ac_Finalizers ac) FinalizerName\<rparr>;
            u \<leftarrow> perform (UpdateAC ac') (k_UpdateAC (r_kube r) ac');
            ret (0, case u of Inl err \<Rightarrow> Some err | Inr _ \<Rightarrow> None)
          }
          else reconcileLive r ac ac)
   }"

section \<open>Lemmas\<close>

subsection \<open>Alphabets\<close>

text \<open>Effects a live certificate needs no guard for: everything but a sync, an upload and a
  deletion of objects.\<close>

definition calm :: "effect \<Rightarrow> bool" where
  "calm e \<longleftrightarrow> (case e of SyncCert c a \<Rightarrow> False | CASUpload n c k t a \<Rightarrow> False | DeleteCert c a \<Rightarrow> False
     | DeleteSecret s a \<Rightarrow> False | UpdateAC c a \<Rightarrow> False | _ \<Rightarrow> True)"

lemma calm_simps [simp]:
  "calm (GetAC lv ns n x)" "calm (PatchACStatus t b x)" "calm (GetCert ns n y)" "calm (GetSecret ns n z)"
  "calm (ListBindings ns w)" "calm (BuildCAS u)" "calm (CASDelete i tok u)" "calm (CASFind h v)" "calm (ReadClock c)"
  "calm (Event k rs m)" "calm (Metric mt)"
  by (simp_all add: calm_def)

lemma calm_patchStatus [only_intro]: "only calm (patchStatus r ac orig)"
  unfolding patchStatus_def by (intro only_intro) simp_all

lemma calm_patch_and_return [only_intro]: "only calm (patch_and_return r ac orig d)"
  unfolding patch_and_return_def by (intro only_intro)

lemma calm_now [only_intro]: "only calm (now r)"
  unfolding now_def by (intro only_intro) simp

lemma calm_casClient [only_intro]: "only calm (casClient r ac)"
  unfolding casClient_def by (intro only_intro) simp_all

lemma calm_case_ErrClass [only_intro]:
  "only P a \<Longrightarrow> only P b \<Longrightarrow> only P c \<Longrightarrow> only P d \<Longrightarrow>
     only P (case k of ClassPermanent \<Rightarrow> a | ClassRetryable \<Rightarrow> b | ClassAuth \<Rightarrow> c | ClassNotFound \<Rightarrow> d)"
  by (cases k) auto

lemma calm_handleCloudError [only_intro]: "only calm (handleCloudError r ac orig op err)"
  unfolding handleCloudError_def by (intro only_intro) simp_all

lemma calm_handleNonFatal [only_intro]: "only calm (handleNonFatalCloudError r ac orig err rs msg)"
  unfolding handleNonFatalCloudError_def by (intro only_intro) simp_all

lemma calm_probeCAS [only_intro]: "only calm (probeCAS r ac p)"
  unfolding probeCAS_def probe_throttled_def
  by (cases "UploadEnabled (sp_Aliyun (ac_Spec ac))"; cases "x_Current (ac_Status ac)")
    (simp_all, (intro only_intro; simp)+)

lemma calm_liveBindingsFor [only_intro]: "only calm (liveBindingsFor r ac)"
  unfolding liveBindingsFor_def by (intro only_intro) simp_all

lemma calm_reclaimOne [only_intro]: "only calm (reclaimOne r ac cas g)"
  unfolding reclaimOne_def by (intro only_intro) simp_all

lemma calm_reclaim_loop [only_intro]: "only calm (reclaim_loop r at m bs cas n ac)"
proof (induction n arbitrary: cas ac)
  case 0
  show ?case unfolding reclaim_loop.simps by (intro only_intro)
next
  case (Suc n)
  show ?case unfolding reclaim_loop.simps by (intro only_intro Suc)
qed

lemma calm_reclaim [only_intro]: "only calm (reclaimOldGenerations r ac)"
  unfolding reclaimOldGenerations_def by (intro only_intro)

lemma calm_probeAndPersist [only_intro]: "only calm (probeAndPersist r ac orig b)"
  unfolding probeAndPersist_def noteProbeFailure_def by (intro only_intro) (auto intro!: only_intro split: bool.splits)

text \<open>What is uploaded is the given bundle.\<close>

definition uploads_bundle :: "crypto_env \<Rightarrow> Bundle \<Rightarrow> effect \<Rightarrow> bool" where
  "uploads_bundle env b e \<longleftrightarrow> calm e \<or> (\<exists>n k t a. e = CASUpload n (CertPEM env b) k t a \<and> KeyPEM env b = Inr k)"

lemma uploads_bundle_calm: "only calm m \<Longrightarrow> only (uploads_bundle env b) m"
  by (erule only_mono) (simp add: uploads_bundle_def)

lemma ensureUploaded_bundle: "only (uploads_bundle (r_crypto r) b) (ensureUploaded r ac orig b)"
  unfolding ensureUploaded_def uploadGeneration_def ensurePending_def patchPendingUpload_def refreshUploadState_def
    uploadOrClaim_def findByName_def now_def casClient_def
  by (intro only_intro) (simp_all add: uploads_bundle_def)

lemma uploadAndReclaim_bundle: "only (uploads_bundle (r_crypto r) b) (uploadAndReclaim r ac orig b)"
  unfolding uploadAndReclaim_def handleReclaimError_def
  by (intro only_intro ensureUploaded_bundle uploads_bundle_calm)

subsection \<open>Guards of the live branch\<close>

text \<open>The two objects agree on what the guards read.\<close>

definition same_spec :: "AliyunCertificate \<Rightarrow> AliyunCertificate \<Rightarrow> bool" where
  "same_spec ac cur \<longleftrightarrow> ac_Namespace cur = ac_Namespace ac \<and> ac_Name cur = ac_Name ac \<and> ac_Spec cur = ac_Spec ac"

lemma same_spec_simps [simp]:
  "same_spec ac ac"
  "same_spec ac (setCondition mt cur t cs rs m) \<longleftrightarrow> same_spec ac cur"
  "same_spec ac (cur\<lparr>ac_Status := st\<rparr>) \<longleftrightarrow> same_spec ac cur"
  by (simp_all add: same_spec_def)

text \<open>The Secret the Certificate is about to be pointed at is free: the existing Certificate
  already uses it, or it was looked up and is absent or written for this certificate.\<close>

definition target_free :: "AliyunCertificate \<Rightarrow> effect list \<Rightarrow> bool" where
  "target_free ac es \<longleftrightarrow>
     (\<exists>c. GetCert (ac_Namespace ac) (certManagerNameFor ac) (Inr c) \<in> set es \<and> cs_SecretName (cm_Spec c) = secretNameFor ac) \<or>
     (\<exists>x. GetSecret (ac_Namespace ac) (secretNameFor ac) x \<in> set es \<and>
        (case x of Inl e \<Rightarrow> IsNotFound e | Inr s \<Rightarrow> secretOwnedByUs s ac))"

text \<open>A bundle that was read from a Secret of the namespace and validated.\<close>

definition validated :: "crypto_env \<Rightarrow> AliyunCertificate \<Rightarrow> effect list \<Rightarrow> Bundle \<Rightarrow> bool" where
  "validated env ac es b \<longleftrightarrow> (\<exists>nm s. GetSecret (ac_Namespace ac) nm (Inr s) \<in> set es \<and>
     ParseBundle env (map_index (s_Data s) ''tls.crt'') (map_index (s_Data s) ''tls.key'') = Inr b \<and> template_covered ac b)"

fun live_guard :: "crypto_env \<Rightarrow> AliyunCertificate \<Rightarrow> effect list \<Rightarrow> effect \<Rightarrow> bool" where
  "live_guard env ac pre (SyncCert c a) \<longleftrightarrow> target_free ac pre \<and> cm_Namespace c = ac_Namespace ac \<and> cm_Name c = certManagerNameFor ac"
| "live_guard env ac pre (CASUpload n c k t a) \<longleftrightarrow> (\<exists>b. validated env ac pre b \<and> c = CertPEM env b \<and> KeyPEM env b = Inr k)"
| "live_guard env ac pre (DeleteCert c a) \<longleftrightarrow> False"
| "live_guard env ac pre (DeleteSecret s a) \<longleftrightarrow> False"
| "live_guard env ac pre (UpdateAC c a) \<longleftrightarrow> False"
| "live_guard env ac pre e \<longleftrightarrow> True"

lemma guarded_calm: "\<forall>e \<in> set es. calm e \<Longrightarrow> guarded (live_guard env ac) pre es"
proof (rule guarded_all)
  fix pre' e assume "\<forall>e \<in> set es. calm e" "e \<in> set es"
  then have "calm e" by blast
  then show "live_guard env ac (pre @ pre') e" by (cases e) (simp_all add: calm_def)
qed

lemma only_calm_guarded: "only calm m \<Longrightarrow> emits (\<lambda>es x. guarded (live_guard env ac) pre es) m"
  by (drule onlyD, erule emits_mono) (rule guarded_calm)

lemma validated_mono: "validated env ac es b \<Longrightarrow> validated env ac (es @ es') b"
  unfolding validated_def by auto

lemma target_free_mono: "target_free ac es \<Longrightarrow> target_free ac (es @ es')"
  unfolding target_free_def by auto

lemma guarded_bundle:
  assumes "\<forall>e \<in> set es. uploads_bundle env b e" "validated env ac pre b"
  shows "guarded (live_guard env ac) pre es"
proof (rule guarded_all)
  fix pre' e assume "e \<in> set es"
  with assms(1) have "uploads_bundle env b e" by blast
  then show "live_guard env ac (pre @ pre') e"
    unfolding uploads_bundle_def using validated_mono [OF assms(2), of pre']
    by (cases e) (auto simp: calm_def)
qed

lemma uploadAndReclaim_guarded:
  "validated (r_crypto r) ac pre b \<Longrightarrow> emits (\<lambda>es x. guarded (live_guard (r_crypto r) ac) pre es) (uploadAndReclaim r cur orig b)"
  by (rule emits_mono [OF onlyD [OF uploadAndReclaim_bundle]]) (rule guarded_bundle)

lemma bind_calm_guarded:
  assumes "only calm m" "\<And>es x. emits (\<lambda>es' y. guarded (live_guard env ac) (pre @ es) es') (f x)"
  shows "emits (\<lambda>es y. guarded (live_guard env ac) pre es) (State_Monad.bind m f)"
  using onlyD [OF assms(1)]
proof (rule emits_bind_mono)
  fix es x assume "\<forall>e \<in> set es. calm e"
  then show "emits (\<lambda>es' y. guarded (live_guard env ac) pre (es @ es')) (f x)"
    using assms(2) guarded_calm by (auto elim!: emits_mono)
qed

lemma probed_guarded:
  assumes "validated (r_crypto r) ac pre b"
  shows "emits (\<lambda>es x. guarded (live_guard (r_crypto r) ac) pre es)
    (do { pr \<leftarrow> probeAndPersist r cur orig b;
          (case pr of Inl err \<Rightarrow> ret (0, Some err) | Inr (ac, orig) \<Rightarrow> uploadAndReclaim r ac orig b) })"
  by (rule bind_calm_guarded [OF calm_probeAndPersist])
    (auto intro!: emits_intro uploadAndReclaim_guarded validated_mono [OF assms] split: prod.splits)

lemma reconcileIssued_guarded:
  assumes "same_spec ac cur"
  shows "emits (\<lambda>es x. guarded (live_guard (r_crypto r) ac) pre es) (reconcileIssued r cur orig cert stalled)"
  unfolding reconcileIssued_def
proof (rule emits_bind_mono [OF loadMaterial_spec], goal_cases)
  case (1 es m)
  then obtain a where a: "es = [GetSecret (ac_Namespace cur) (servingSecretName cur (cs_SecretName (cm_Spec cert))) a]"
    and iff: "\<forall>b. m = Inr b \<longleftrightarrow> (\<exists>s. a = Inr s \<and>
        ParseBundle (r_crypto r) (map_index (s_Data s) ''tls.crt'') (map_index (s_Data s) ''tls.key'') = Inr b \<and>
        \<not> (fst (certIssuingSince cert) \<and> IsSelfSigned (r_crypto r) b) \<and> template_covered cur b)"
    by (elim exE conjE)
  have m: "\<exists>s. a = Inr s \<and> ParseBundle (r_crypto r) (map_index (s_Data s) ''tls.crt'') (map_index (s_Data s) ''tls.key'') = Inr b
      \<and> template_covered cur b" if "m = Inr b" for b
    using iff [THEN spec, of b, THEN iffD1, OF that] by (elim exE conjE) (intro exI conjI)
  show ?case
  proof (cases m)
    case (Inl me)
    have "only calm (do {
        (if me_Reason me = ReasonSelfSignedDuringIssuance
         then emit (Event EventTypeWarning (me_Reason me) (me_Message me)) else ret ());
        patch_and_return r (aggregateReady (r_meta r) (setCondition (r_meta r) cur ConditionIssued ConditionFalse (me_Reason me) (me_Message me)))
          orig (r_ResyncInterval r) })"
      by (intro only_intro) simp_all
    then show ?thesis using Inl a by (auto simp: Let_def elim!: emits_mono [OF only_calm_guarded])
  next
    case (Inr b)
    have "template_covered ac b" "ac_Namespace cur = ac_Namespace ac"
      using m [OF Inr] assms by (auto simp: same_spec_def template_covered_def Let_def)
    then have "validated (r_crypto r) ac (pre @ es) b"
      unfolding validated_def using m [OF Inr] a by auto
    from probed_guarded [OF this] show ?thesis using Inr a by (auto simp: Let_def elim!: emits_mono)
  qed
qed

lemma noteStall_spec:
  "emits (\<lambda>es (st, cur'). (\<forall>e \<in> set es. calm e) \<and> (same_spec ac cur' \<longleftrightarrow> same_spec ac cur)) (noteStall r cur cert)"
  unfolding noteStall_def now_def by (intro emits_intro) (auto split: option.splits bool.splits intro!: emits_intro)

lemma guarded_prefix:
  "emits (\<lambda>es' x. guarded (live_guard env ac) (pre @ es) es') m \<Longrightarrow> guarded (live_guard env ac) pre es \<Longrightarrow>
     emits (\<lambda>es' x. guarded (live_guard env ac) pre (es @ es')) m"
  by (erule emits_mono) simp

lemma same_spec_mirror [simp]: "same_spec ac (mirrorIssuance cur cert) \<longleftrightarrow> same_spec ac cur"
  by (simp add: mirrorIssuance_def)

lemma reconcileCertificate_guarded:
  assumes "same_spec ac cur"
  shows "emits (\<lambda>es x. guarded (live_guard (r_crypto r) ac) pre es) (reconcileCertificate r cur orig cert)"
  unfolding reconcileCertificate_def
proof (rule emits_Let, rule emits_bind_mono [OF noteStall_spec [of ac]], goal_cases)
  case (1 es x)
  then have g: "guarded (live_guard (r_crypto r) ac) pre es" by (auto intro: guarded_calm)
  obtain st cur' where x: "x = (st, cur')" by (cases x)
  from 1 assms have s: "same_spec ac cur'" by (simp add: x)
  show ?case
    unfolding x prod.case Let_def
    by (intro guarded_prefix [OF _ g] emits_if reconcileIssued_guarded [OF s] only_calm_guarded calm_patch_and_return)
qed

lemma secretNameConflict_spec:
  "emits (\<lambda>es res. \<exists>x. es = [GetSecret (ac_Namespace ac) (secretNameFor ac) x] \<and>
     (res = Inr False \<longleftrightarrow> (case x of Inl e \<Rightarrow> IsNotFound e | Inr s \<Rightarrow> secretOwnedByUs s ac))) (secretNameConflict r ac)"
  unfolding secretNameConflict_def by (intro emits_intro) (auto split: sum.splits)

lemma checkSecretName_spec:
  "emits (\<lambda>es res. (\<forall>e \<in> set es. calm e) \<and>
     (res = Inr False \<longrightarrow> (\<exists>c. existing = Some c \<and> cs_SecretName (cm_Spec c) = secretNameFor ac) \<or> target_free ac es))
   (checkSecretName r ac existing)"
  unfolding checkSecretName_def
  by (intro emits_intro emits_mono [OF secretNameConflict_spec]) (auto simp: target_free_def split: option.splits)

lemma syncCertificate_spec:
  "emits (\<lambda>es res. \<exists>a rest. es = SyncCert (emptyCertificate (ac_Namespace ac) (certManagerNameFor ac)) a # rest \<and>
     (\<forall>e \<in> set rest. calm e)) (syncCertificate r ac issuer)"
  unfolding syncCertificate_def Let_def by (intro emits_intro) auto

lemma emptyCertificate_name [simp]: "cm_Namespace (emptyCertificate ns n) = ns" "cm_Name (emptyCertificate ns n) = n"
  by (simp_all add: emptyCertificate_def)

lemma same_spec_target:
  "same_spec ac cur \<Longrightarrow> target_free cur es = target_free ac es \<and> secretNameFor cur = secretNameFor ac \<and>
     certManagerNameFor cur = certManagerNameFor ac \<and> ac_Namespace cur = ac_Namespace ac"
proof -
  assume "same_spec ac cur"
  then have n: "secretNameFor cur = secretNameFor ac" "certManagerNameFor cur = certManagerNameFor ac" "ac_Namespace cur = ac_Namespace ac"
    by (simp_all add: same_spec_def secretNameFor_def certManagerNameFor_def)
  then have "secretOwnedByUs s cur = secretOwnedByUs s ac" for s by (simp add: secretOwnedByUs_def)
  with n show ?thesis by (simp add: target_free_def cong: sum.case_cong)
qed

lemma target_free_existing:
  "GetCert (ac_Namespace ac) (certManagerNameFor ac) (Inr c) \<in> set pre \<Longrightarrow> cs_SecretName (cm_Spec c) = secretNameFor ac \<Longrightarrow>
     target_free ac (pre @ es)"
  unfolding target_free_def by auto

lemma target_free_later: "target_free ac es \<Longrightarrow> target_free ac (pre @ es)"
  unfolding target_free_def by auto

lemma reconcileResolved_guarded:
  assumes s: "same_spec ac cur"
    and ex: "\<And>c. existing = Some c \<Longrightarrow> GetCert (ac_Namespace ac) (certManagerNameFor ac) (Inr c) \<in> set pre"
  shows "emits (\<lambda>es x. guarded (live_guard (r_crypto r) ac) pre es) (reconcileResolved r cur orig existing issuer)"
  unfolding reconcileResolved_def
proof (rule emits_bind_mono [OF checkSecretName_spec], goal_cases)
  case (1 es res)
  then have g: "guarded (live_guard (r_crypto r) ac) pre es" by (auto intro: guarded_calm)
  have free: "target_free ac (pre @ es)" if "res = Inr False"
    using 1 that same_spec_target [OF s] ex by (auto intro: target_free_existing target_free_later)
  have sync: "emits (\<lambda>es' x. guarded (live_guard (r_crypto r) ac) (pre @ es) es')
      (do { s \<leftarrow> syncCertificate r cur issuer;
            (case s of Inl err \<Rightarrow> ret (0, Some err) | Inr cert \<Rightarrow> reconcileCertificate r cur orig cert) })" if f: "res = Inr False"
  proof (rule emits_bind_mono [OF syncCertificate_spec], goal_cases)
    case (1 es' c)
    then have g': "guarded (live_guard (r_crypto r) ac) (pre @ es) es'"
      using free [OF f] same_spec_target [OF s] by (auto intro: guarded_calm)
    show ?case by (intro emits_intro guarded_prefix [OF _ g'] reconcileCertificate_guarded [OF s]) (simp add: g')
  qed
  show ?case
  proof (intro guarded_prefix [OF _ g] emits_case_sum emits_case_bool emits_case_option, goal_cases)
    case (2 y)
    then show ?case by (intro only_calm_guarded calm_patch_and_return)
  next
    case (3 y cert)
    then show ?case by (intro reconcileCertificate_guarded [OF s])
  next
    case (4 y)
    then show ?case by (intro sync) simp
  qed simp
qed

lemma detectIssuerDivergence_spec:
  "emits (\<lambda>es cur'. (\<forall>e \<in> set es. calm e) \<and> (same_spec ac cur' \<longleftrightarrow> same_spec ac cur)) (detectIssuerDivergence r cur i src)"
  unfolding detectIssuerDivergence_def by (intro emits_intro) auto

lemma reconcileLive_guarded: "emits (\<lambda>es x. guarded (live_guard (r_crypto r) ac) pre es) (reconcileLive r ac orig)"
  unfolding reconcileLive_def Let_def
proof (rule emits_bind, rule emits_perform, goal_cases)
  case (1 ex)
  let ?ac = "upd_status (\<lambda>x. x\<lparr>x_ObservedGeneration := ac_Generation ac\<rparr>) ac"
  let ?e = "GetCert (ac_Namespace ?ac) (certManagerNameFor ?ac) ex"
  have g: "guarded (live_guard (r_crypto r) ac) pre [?e]" by simp
  have n: "certManagerNameFor ?ac = certManagerNameFor ac" by (simp add: certManagerNameFor_def)
  show ?case
  proof (intro guarded_prefix [OF _ g] emits_case_sum emits_case_option emits_case_prod, goal_cases)
    case (2 existing)
    then show ?case by (intro only_calm_guarded calm_patch_and_return)
  next
    case (3 existing y issuer source)
    show ?case
    proof (rule emits_bind_mono [OF detectIssuerDivergence_spec [of ac]], goal_cases)
      case (1 es cur)
      then have g': "guarded (live_guard (r_crypto r) ac) (pre @ [?e]) es" and s: "same_spec ac cur"
        by (auto intro: guarded_calm)
      show ?case
        using 3(1) by (intro guarded_prefix [OF _ g'] reconcileResolved_guarded [OF s]) (auto simp: n split: sum.splits if_splits)
    qed
  qed simp
qed

text \<open>The guard of a whole reconcile, by the state of the object it was called for.\<close>

definition cert_guard :: "'w AliyunCertificateReconciler \<Rightarrow> string \<Rightarrow> string \<Rightarrow> effect list \<Rightarrow> effect \<Rightarrow> bool" where
  "cert_guard r ns n pre e \<longleftrightarrow> (case pre of
     [] \<Rightarrow> (\<exists>a. e = GetAC False ns n a)
   | GetAC lv ns' n' (Inr ac) # _ \<Rightarrow>
       if ac_DeletionTimestamp ac \<noteq> None then delete_guard r ac pre e
       else if ContainsFinalizer (r_meta r) (ac_Finalizers ac) FinalizerName then live_guard (r_crypto r) ac pre e
       else \<exists>a. e = UpdateAC (ac\<lparr>ac_Finalizers := AddFinalizer (r_meta r) (ac_Finalizers ac) FinalizerName\<rparr>) a
   | _ \<Rightarrow> False)"

lemma guarded_weaken:
  "guarded P pre es \<Longrightarrow> (\<And>es' e. P (pre @ es') e \<Longrightarrow> Q (pre @ es') e) \<Longrightarrow> guarded Q pre es"
proof (induction es arbitrary: pre)
  case (Cons e es)
  have "P pre e" using Cons.prems(1) by simp
  then have "Q pre e" using Cons.prems(2) [of "[]" e] by simp
  moreover have "guarded Q (pre @ [e]) es"
    using Cons.prems by (intro Cons.IH) (simp, metis append.assoc)
  ultimately show ?case by simp
qed simp

lemma cert_guard_delete:
  "ac_DeletionTimestamp ac \<noteq> None \<Longrightarrow> guarded (delete_guard r ac) [GetAC False ns n (Inr ac)] es \<Longrightarrow>
     guarded (cert_guard r ns n) [GetAC False ns n (Inr ac)] es"
  by (erule guarded_weaken) (simp add: cert_guard_def)

lemma cert_guard_live:
  "ac_DeletionTimestamp ac = None \<Longrightarrow> ContainsFinalizer (r_meta r) (ac_Finalizers ac) FinalizerName \<Longrightarrow>
     guarded (live_guard (r_crypto r) ac) [GetAC False ns n (Inr ac)] es \<Longrightarrow>
     guarded (cert_guard r ns n) [GetAC False ns n (Inr ac)] es"
  by (erule guarded_weaken) (simp add: cert_guard_def)

subsection \<open>Conditions\<close>

lemma aggregateReady_cond:
  assumes "meta_laws mt"
  shows "condTrue mt (aggregateReady mt ac) t =
    (if t = ConditionReady
     then \<not> secretNameGuardHolding ac \<and> condTrue mt ac ConditionIssued \<and>
       (UploadEnabled (sp_Aliyun (ac_Spec ac)) \<longrightarrow> condTrue mt ac ConditionUploaded)
     else condTrue mt ac t)"
  using assms by (cases "t = ConditionReady") (simp_all add: aggregateReady_def Let_def meta_simps)





section \<open>Properties\<close>

text \<open>
  C2. A reconcile of an AliyunCertificate never oversteps, whatever the API server, the clock
  and the clouds answer. It starts by reading the object. A live object without the finalizer
  gets the finalizer and nothing else. With it, the cert-manager Certificate is created or
  changed only when its target Secret is already in use by it, absent, or written for this
  very certificate, so no foreign Secret is ever overwritten; what is uploaded is the PEM of
  a bundle parsed from a Secret of the namespace that covers every name of the template; and
  no Certificate, Secret or finalizer is removed. A deleted object follows the order of
  deletion, and nothing is synced or uploaded for it.
\<close>

theorem Reconcile_guarded:
  "emits (\<lambda>es res. guarded (cert_guard r ns n) [] es) (AliyunCertificate_Reconcile r ns n)"
  unfolding AliyunCertificate_Reconcile_def
proof (rule emits_bind, rule emits_perform, goal_cases)
  case (1 a)
  have g: "cert_guard r ns n [] (GetAC False ns n a)" by (simp add: cert_guard_def)
  show ?case
  proof (intro emits_case_sum emits_if emits_Let, goal_cases)
    case (1 err)
    then show ?case using g by simp
  next
    case (2 ac)
    have "emits (\<lambda>es res. guarded (cert_guard r ns n) [GetAC False ns n (Inr ac)] es) (reconcileDelete r ac ac)"
      by (rule emits_mono [OF reconcileDelete_guarded cert_guard_delete [OF 2(2)]])
    then show ?case using g 2(1) by simp
  next
    case (3 ac)
    then show ?case using g by (intro emits_intro) (auto simp: cert_guard_def)
  next
    case (4 ac)
    have "emits (\<lambda>es res. guarded (cert_guard r ns n) [GetAC False ns n (Inr ac)] es) (reconcileLive r ac ac)"
      by (rule emits_mono [OF reconcileLive_guarded cert_guard_live]) (use 4 in simp_all)
    then show ?case using g 4(1) by simp
  qed
qed

text \<open>
  C12. Ready tells the truth: after the aggregation it is true exactly when the spec is in
  effect (no Secret name is held back), the certificate is issued, and it is uploaded unless
  uploading is disabled; no other condition changes, so a diverged issuer default never
  counts.
\<close>

theorem aggregateReady_iff:
  assumes "meta_laws mt"
  shows "(condTrue mt (aggregateReady mt ac) ConditionReady \<longleftrightarrow>
      \<not> secretNameGuardHolding ac \<and> condTrue mt ac ConditionIssued \<and>
      (\<not> UploadEnabled (sp_Aliyun (ac_Spec ac)) \<or> condTrue mt ac ConditionUploaded)) \<and>
    (\<forall>t. t \<noteq> ConditionReady \<longrightarrow> condTrue mt (aggregateReady mt ac) t = condTrue mt ac t)"
  using aggregateReady_cond [OF assms] by auto


section \<open>Witnesses\<close>

theorem aggregateReady_iff_witness:
  "condTrue sample_meta (aggregateReady sample_meta
     (setCondition sample_meta (setCondition sample_meta sample_ac ConditionIssued ConditionTrue [] NoMsg)
        ConditionUploaded ConditionTrue [] NoMsg)) ConditionReady"
proof -
  let ?ac = "setCondition sample_meta (setCondition sample_meta sample_ac ConditionIssued ConditionTrue [] NoMsg)
        ConditionUploaded ConditionTrue [] NoMsg"
  have "\<not> secretNameGuardHolding ?ac \<and> condTrue sample_meta ?ac ConditionIssued \<and> condTrue sample_meta ?ac ConditionUploaded"
    by code_simp
  then show ?thesis using aggregateReady_iff [OF sample_meta_laws, of ?ac] by blast
qed


end
