(* ===== verification/Cas_Service.thy ===== *)
theory Cas_Service
  imports Fakes
begin

text \<open>
  What the certificate controller relies on when it talks to CAS (the comments of
  \<open>pkg/aliyun/cas.go\<close> and \<open>upload.go\<close>): uploads are idempotent by token, deletes
  remove one certificate, a listing reports what is there. The contract is the locale
  \<open>cas_service\<close>; the fake CAS satisfies it.
\<close>

section \<open>The contract\<close>

locale cas_service =
  fixes cl :: "'w CASClient"
    and view :: "'w \<Rightarrow> int \<Rightarrow> string option"
    and tok :: "'w \<Rightarrow> string \<Rightarrow> int option"
    and inv :: "'w \<Rightarrow> bool"
  assumes inv_upload: "inv w \<Longrightarrow> inv (snd (run_state (cas_Upload cl n c k t) w))"
    and inv_delete: "inv w \<Longrightarrow> inv (snd (run_state (cas_Delete cl i t) w))"
    and inv_find: "inv w \<Longrightarrow> inv (snd (run_state (cas_FindUploaded cl h) w))"
    and tok_valid: "inv w \<Longrightarrow> tok w t = Some i \<Longrightarrow> view w i \<noteq> None"
    and upload_known: "inv w \<Longrightarrow> t \<noteq> [] \<Longrightarrow> tok w t = Some i \<Longrightarrow>
      run_state (cas_Upload cl n c k t) w = (r, w') \<Longrightarrow>
      view w' = view w \<and> tok w' = tok w \<and> (\<forall>j. r = Inr j \<longrightarrow> j = i)"
    and upload_new: "inv w \<Longrightarrow> t \<noteq> [] \<Longrightarrow> tok w t = None \<Longrightarrow>
      run_state (cas_Upload cl n c k t) w = (r, w') \<Longrightarrow>
      view w' = view w \<and> tok w' = tok w \<and> (\<exists>e. r = Inl e) \<or>
      (\<exists>i. view w i = None \<and> view w' = (view w)(i \<mapsto> n) \<and> tok w' = (tok w)(t \<mapsto> i) \<and> (\<forall>j. r = Inr j \<longrightarrow> j = i))"
    and delete_ok: "inv w \<Longrightarrow> run_state (cas_Delete cl i t) w = (None, w') \<Longrightarrow> view w' = (view w)(i := None)"
    and delete_err: "inv w \<Longrightarrow> run_state (cas_Delete cl i t) w = (Some e, w') \<Longrightarrow>
      view w' = view w \<and> (ClassOf e = ClassNotFound \<longrightarrow> view w i = None)"
    and find_pure: "inv w \<Longrightarrow> run_state (cas_FindUploaded cl h) w = (found, w') \<Longrightarrow>
      view w' = view w \<and> tok w' = tok w"
    and find_sound: "inv w \<Longrightarrow> run_state (cas_FindUploaded cl h) w = (Inr l, w') \<Longrightarrow> s \<in> set l \<Longrightarrow>
      view w (sm_CertID s) = Some (sm_Name s)"
begin

text \<open>The same upload tried over and over, whatever each attempt answers.\<close>

fun retry :: "nat \<Rightarrow> string \<Rightarrow> bytes \<Rightarrow> bytes \<Rightarrow> string \<Rightarrow> 'w \<Rightarrow> (gerror + int) list \<times> 'w" where
  "retry 0 n c k t w = ([], w)"
| "retry (Suc m) n c k t w =
     (let (r, w1) = run_state (cas_Upload cl n c k t) w; (rs, w2) = retry m n c k t w1 in (r # rs, w2))"

lemma retry_known:
  "inv w \<Longrightarrow> t \<noteq> [] \<Longrightarrow> tok w t = Some i \<Longrightarrow> retry m n c k t w = (rs, w') \<Longrightarrow>
     inv w' \<and> view w' = view w \<and> tok w' = tok w \<and> (\<forall>j. Inr j \<in> set rs \<longrightarrow> j = i)"
proof (induction m arbitrary: w rs)
  case (Suc m)
  obtain r w1 where u: "run_state (cas_Upload cl n c k t) w = (r, w1)" by (cases "run_state (cas_Upload cl n c k t) w")
  obtain rs1 where rest: "retry m n c k t w1 = (rs1, w')" and rs: "rs = r # rs1"
    using Suc.prems(4) u by (auto split: prod.splits)
  have w1: "view w1 = view w" "tok w1 = tok w" "\<forall>j. r = Inr j \<longrightarrow> j = i"
    using upload_known [OF Suc.prems(1-3) u] by auto
  moreover have "inv w1" using inv_upload [OF Suc.prems(1), of n c k t] u by simp
  ultimately have "inv w' \<and> view w' = view w1 \<and> tok w' = tok w1 \<and> (\<forall>j. Inr j \<in> set rs1 \<longrightarrow> j = i)"
    using Suc.IH [of w1 rs1] Suc.prems(2,3) rest by simp
  with w1 rs show ?case by auto
qed simp

lemma retry_at_most_once:
  "inv w \<Longrightarrow> t \<noteq> [] \<Longrightarrow> tok w t = None \<Longrightarrow> retry m n c k t w = (rs, w') \<Longrightarrow>
     view w' = view w \<and> (\<forall>j. Inr j \<notin> set rs) \<or>
     (\<exists>i. view w i = None \<and> view w' = (view w)(i \<mapsto> n) \<and> (\<forall>j. Inr j \<in> set rs \<longrightarrow> j = i))"
proof (induction m arbitrary: w rs)
  case (Suc m)
  obtain r w1 where u: "run_state (cas_Upload cl n c k t) w = (r, w1)" by (cases "run_state (cas_Upload cl n c k t) w")
  obtain rs1 where rest: "retry m n c k t w1 = (rs1, w')" and rs: "rs = r # rs1"
    using Suc.prems(4) u by (auto split: prod.splits)
  have i1: "inv w1" using inv_upload [OF Suc.prems(1), of n c k t] u by simp
  from upload_new [OF Suc.prems(1-3) u] show ?case
  proof (elim disjE exE conjE)
    fix e assume "view w1 = view w" "tok w1 = tok w" "r = Inl e"
    with Suc.IH [OF i1 Suc.prems(2) _ rest] Suc.prems(3) rs show ?case by auto
  next
    fix i assume "view w i = None" "view w1 = (view w)(i \<mapsto> n)" "tok w1 = (tok w)(t \<mapsto> i)" "\<forall>j. r = Inr j \<longrightarrow> j = i"
    with retry_known [OF i1 Suc.prems(2) _ rest, of i] rs
    show ?case by (intro disjI2 exI [of _ i]) auto
  qed
qed simp

end

section \<open>The fake satisfies it\<close>

definition fake_view :: "CAS \<Rightarrow> int \<Rightarrow> string option" where
  "fake_view f = map_of (map (\<lambda>c. (f_ID c, f_Name c)) (certs f))"

definition fake_tok :: "CAS \<Rightarrow> string \<Rightarrow> int option" where
  "fake_tok f = map_of (byToken f)"

definition fake_inv :: "CAS \<Rightarrow> bool" where
  "fake_inv f \<longleftrightarrow> (\<forall>c \<in> set (certs f). f_ID c \<le> nextID f) \<and> distinct (map f_ID (certs f)) \<and>
     (\<forall>(t, i) \<in> set (byToken f). i \<in> f_ID ` set (certs f)) \<and>
     (\<forall>e \<in> set (deleteErrs f). ClassOf e \<noteq> ClassNotFound)"

lemma fake_view_None: "fake_view f i = None \<longleftrightarrow> i \<notin> f_ID ` set (certs f)"
  by (auto simp: fake_view_def map_of_eq_None_iff image_image)

lemma fake_view_fresh: "fake_inv f \<Longrightarrow> fake_view f (nextID f + 1) = None"
  by (force simp: fake_view_None fake_inv_def)

lemma fake_view_snoc:
  "fake_view f (f_ID c) = None \<Longrightarrow>
     fake_view (f\<lparr>certs := certs f @ [c]\<rparr>) = (fake_view f)(f_ID c \<mapsto> f_Name c)"
  by (rule ext) (auto simp: fake_view_def map_add_def split: option.splits)

lemma map_of_filter_ne:
  "map_of (filter (\<lambda>(k, v). k \<noteq> i) xs) = (map_of xs)(i := None)"
  by (induction xs) (auto simp: fun_eq_iff)

lemma fake_view_delete:
  "fake_view (f\<lparr>certs := filter (\<lambda>c. f_ID c \<noteq> i) (certs f), byToken := b, deleteCalls := d\<rparr>) = (fake_view f)(i := None)"
proof -
  have "map (\<lambda>c. (f_ID c, f_Name c)) (filter (\<lambda>c. f_ID c \<noteq> i) (certs f)) =
      filter (\<lambda>(k, v). k \<noteq> i) (map (\<lambda>c. (f_ID c, f_Name c)) (certs f))"
    by (simp add: filter_map o_def)
  then show ?thesis by (simp add: fake_view_def map_of_filter_ne)
qed

lemma fake_Upload_cases:
  assumes "fake_inv f" "run_state (fake_Upload n c k t) f = (r, f')"
  obtains (error) e where "r = Inl e" "fake_view f' = fake_view f" "fake_tok f' = fake_tok f" "fake_inv f'"
  | (known) i where "t \<noteq> []" "fake_tok f t = Some i" "r = Inr i" "fake_view f' = fake_view f" "fake_tok f' = fake_tok f" "fake_inv f'"
  | (new) i where "fake_view f i = None" "fake_view f' = (fake_view f)(i \<mapsto> n)"
      "fake_tok f' = (if t \<noteq> [] then (fake_tok f)(t \<mapsto> i) else fake_tok f)"
      "t = [] \<or> fake_tok f t = None" "\<forall>j. r = Inr j \<longrightarrow> j = i" "fake_inv f'"
proof -
  let ?i = "nextID f + 1"
  let ?c = "\<lparr> f_ID = ?i, f_Name = n, f_CertPEM = c, f_KeyPEM = k, f_Token = t \<rparr>"
  consider (q) e q where "pop (uploadErrs f) = (Some e, q)"
    | (k) "fst (pop (uploadErrs f)) = None" "fake_tok f t \<noteq> None" "t \<noteq> []"
    | (d) "fst (pop (uploadErrs f)) = None" "fake_tok f t = None \<or> t = []" "\<exists>c \<in> set (certs f). f_Name c = n"
    | (n) "fst (pop (uploadErrs f)) = None" "fake_tok f t = None \<or> t = []" "\<not> (\<exists>c \<in> set (certs f). f_Name c = n)"
    by (cases "pop (uploadErrs f)") (auto, metis option.exhaust)
  then show thesis
  proof cases
    case q
    then have "r = Inl e" "f' = f\<lparr>uploadCalls := uploadCalls f + 1, uploadErrs := q\<rparr>"
      using assms(2) by (auto simp: fake_Upload_def Let_def)
    with assms(1) error show thesis by (simp add: fake_view_def fake_tok_def fake_inv_def)
  next
    case k
    then obtain i where i: "fake_tok f t = Some i" by auto
    with k have "r = Inr i" "f' = f\<lparr>uploadCalls := uploadCalls f + 1\<rparr>"
      using assms(2) by (auto simp: fake_Upload_def Let_def fake_tok_def split: prod.splits)
    with assms(1) known [OF k(3) i] show thesis by (simp add: fake_view_def fake_tok_def fake_inv_def)
  next
    case d
    then have "(r, f') = (Inl ErrDuplicateName, f\<lparr>uploadCalls := uploadCalls f + 1\<rparr>)"
      unfolding assms(2) [symmetric] fake_Upload_def fake_tok_def by (simp add: Let_def split: prod.splits) auto
    with assms(1) error show thesis by (simp add: fake_view_def fake_tok_def fake_inv_def)
  next
    case n
    have f': "nextID f' = ?i" "certs f' = certs f @ [?c]" "deleteErrs f' = deleteErrs f"
        "byToken f' = (if t \<noteq> [] then (t, ?i) # byToken f else byToken f)" "\<forall>j. r = Inr j \<longrightarrow> j = ?i"
      using assms(2) n by (auto simp: fake_Upload_def Let_def fake_tok_def split: prod.splits option.splits)
    have v: "fake_view f ?i = None" using assms(1) by (rule fake_view_fresh)
    have "fake_view f' = (fake_view f)(?i \<mapsto> n)"
      using fake_view_snoc [of f ?c] v f'(2) by (simp add: fake_view_def)
    moreover have "fake_tok f' = (if t \<noteq> [] then (fake_tok f)(t \<mapsto> ?i) else fake_tok f)"
      by (simp add: f'(4) fake_tok_def)
    moreover have "fake_inv f'"
      using assms(1) v unfolding fake_inv_def fake_view_None f'(1-4) by auto
    moreover have "t = [] \<or> fake_tok f t = None" using n(2) by auto
    ultimately show thesis using new [OF v] f'(5) by blast
  qed
qed

lemma fake_Delete_cases:
  assumes "fake_inv f" "run_state (fake_Delete i t) f = (r, f')"
  obtains (error) e where "r = Some e" "fake_view f' = fake_view f"
      "ClassOf e = ClassNotFound \<Longrightarrow> fake_view f i = None" "fake_inv f'"
  | (ok) "r = None" "fake_view f' = (fake_view f)(i := None)" "fake_inv f'"
proof (cases "pop (deleteErrs f)")
  case (Pair e q)
  show thesis
  proof (cases e)
    case (Some err)
    with Pair have q: "deleteErrs f = err # q" by (cases "deleteErrs f") auto
    then have "r = Some err" "f' = f\<lparr>deleteCalls := deleteCalls f + 1, deleteErrs := q\<rparr>"
      using assms(2) by (auto simp: fake_Delete_def Let_def)
    with assms(1) q error show thesis by (simp add: fake_view_def fake_inv_def)
  next
    case None
    show thesis
    proof (cases "\<exists>c \<in> set (certs f). f_ID c = i")
      case True
      with Pair None have f': "r = None" "f' = f\<lparr>certs := filter (\<lambda>c. f_ID c \<noteq> i) (certs f),
          byToken := filter (\<lambda>(t, j). j \<noteq> i) (byToken f), deleteCalls := deleteCalls f + 1\<rparr>"
        using assms(2) by (auto simp: fake_Delete_def Let_def)
      have "fake_inv f'"
        using assms(1) unfolding f'(2) fake_inv_def by (auto simp: distinct_map intro: inj_on_subset)
      then show thesis using ok f' fake_view_delete by simp
    next
      case False
      with Pair None have "r = Some ErrCertNotExist" "f' = f\<lparr>deleteCalls := deleteCalls f + 1\<rparr>"
        using assms(2) by (auto simp: fake_Delete_def Let_def)
      moreover have "fake_view f i = None" using False by (auto simp: fake_view_None)
      ultimately show thesis using assms(1) error by (simp add: fake_view_def fake_inv_def)
    qed
  qed
qed

lemma fake_Find_facts:
  assumes "run_state (fake_FindUploaded h) f = (r, f')"
  shows "fake_view f' = fake_view f" "fake_tok f' = fake_tok f" "fake_inv f' = fake_inv f"
  using assms by (auto simp: fake_FindUploaded_def Let_def fake_view_def fake_tok_def fake_inv_def
      split: prod.splits option.splits)

lemma fake_Find_sound:
  assumes "run_state (fake_FindUploaded h) f = (Inr l, f')" "s \<in> set l"
  shows "\<exists>c \<in> set (certs f). sm_CertID s = f_ID c \<and> sm_Name s = f_Name c"
proof (cases "pop (findErrs f)")
  case (Pair e q)
  with assms have "l = map (\<lambda>c. \<lparr> sm_CertID = f_ID c, sm_Name = f_Name c, sm_SANs = [], sm_EndDate = [] \<rparr>)
      (filter (\<lambda>c. h = [] \<or> Contains (f_Name c) (sanitizeHint h)) (certs f))"
    by (auto simp: fake_FindUploaded_def Let_def split: option.splits)
  with assms(2) show ?thesis by (auto intro: bexI)
qed

interpretation fk: cas_service fake_cas fake_view fake_tok fake_inv
proof unfold_locales
  fix w n c k t assume "fake_inv w"
  then show "fake_inv (snd (run_state (cas_Upload fake_cas n c k t) w))"
    by (cases "run_state (fake_Upload n c k t) w") (auto simp: fake_cas_def elim: fake_Upload_cases)
next
  fix w i t assume "fake_inv w"
  then show "fake_inv (snd (run_state (cas_Delete fake_cas i t) w))"
    by (cases "run_state (fake_Delete i t) w") (auto simp: fake_cas_def elim: fake_Delete_cases)
next
  fix w h assume "fake_inv w"
  then show "fake_inv (snd (run_state (cas_FindUploaded fake_cas h) w))"
    by (cases "run_state (fake_FindUploaded h) w") (simp add: fake_cas_def fake_Find_facts(3))
next
  fix w t i assume "fake_inv w" "fake_tok w t = Some i"
  then show "fake_view w i \<noteq> None"
    by (auto simp: fake_view_None fake_tok_def fake_inv_def dest!: map_of_SomeD)
next
  fix w t i n c k r w'
  assume "fake_inv w" "t \<noteq> []" "fake_tok w t = Some i" "run_state (cas_Upload fake_cas n c k t) w = (r, w')"
  then show "fake_view w' = fake_view w \<and> fake_tok w' = fake_tok w \<and> (\<forall>j. r = Inr j \<longrightarrow> j = i)"
    by (auto simp: fake_cas_def elim: fake_Upload_cases)
next
  fix w t n c k r w'
  assume "fake_inv w" "t \<noteq> []" "fake_tok w t = None" "run_state (cas_Upload fake_cas n c k t) w = (r, w')"
  then show "fake_view w' = fake_view w \<and> fake_tok w' = fake_tok w \<and> (\<exists>e. r = Inl e) \<or>
      (\<exists>i. fake_view w i = None \<and> fake_view w' = (fake_view w)(i \<mapsto> n) \<and> fake_tok w' = (fake_tok w)(t \<mapsto> i)
         \<and> (\<forall>j. r = Inr j \<longrightarrow> j = i))"
    unfolding fake_cas_def by simp (erule (1) fake_Upload_cases; auto)
next
  fix w i t w' assume "fake_inv w" "run_state (cas_Delete fake_cas i t) w = (None, w')"
  then show "fake_view w' = (fake_view w)(i := None)"
    by (auto simp: fake_cas_def elim: fake_Delete_cases)
next
  fix w i t e w' assume "fake_inv w" "run_state (cas_Delete fake_cas i t) w = (Some e, w')"
  then show "fake_view w' = fake_view w \<and> (ClassOf e = ClassNotFound \<longrightarrow> fake_view w i = None)"
    by (auto simp: fake_cas_def elim: fake_Delete_cases)
next
  fix w h r w' assume "fake_inv w" "run_state (cas_FindUploaded fake_cas h) w = (r, w')"
  then show "fake_view w' = fake_view w \<and> fake_tok w' = fake_tok w"
    by (simp add: fake_cas_def fake_Find_facts)
next
  fix w h l w' s assume a: "fake_inv w" "run_state (cas_FindUploaded fake_cas h) w = (Inr l, w')" "s \<in> set l"
  then obtain c where "c \<in> set (certs w)" "sm_CertID s = f_ID c" "sm_Name s = f_Name c"
    using fake_Find_sound [of h w l w' s] by (auto simp: fake_cas_def)
  with a(1) show "fake_view w (sm_CertID s) = Some (sm_Name s)"
    by (auto simp: fake_view_def fake_inv_def distinct_map inj_on_def o_def intro!: map_of_is_SomeI)
qed

section \<open>Properties\<close>

text \<open>
  An upload that is retried with its token creates at most one certificate: starting from
  a CAS that does not know the token, any number of attempts, with any injected refusals and
  with a response lost after the server had already committed, leaves either the same
  certificates as before or exactly one more, under the requested name, and every attempt
  that succeeds returns that one's identifier.
\<close>

lemma fake_upload_retry_once:
  assumes "fake_inv f" and "token \<noteq> []" and "fake_tok f token = None"
    and "fk.retry attempts name cert key token f = (answers, f')"
  shows "fake_view f' = fake_view f \<and> (\<forall>j. Inr j \<notin> set answers) \<or>
    (\<exists>i. fake_view f i = None \<and> fake_view f' = (fake_view f)(i \<mapsto> name) \<and> (\<forall>j. Inr j \<in> set answers \<longrightarrow> j = i))"
  using fk.retry_at_most_once [OF assms] .

lemma fake_upload_retry_once_example:
  "\<exists>f' i. fk.retry 3 ''web'' ''c'' ''k'' ''tok'' (FailNextUploadAfterCommit DeadlineExceeded NewCAS) =
       ([Inl DeadlineExceeded, Inr 1001, Inr 1001], f') \<and> fake_view f' = [i \<mapsto> ''web'']"
proof -
  let ?f = "FailNextUploadAfterCommit DeadlineExceeded NewCAS"
  have i: "fake_inv ?f" by code_simp
  have t: "fake_tok ?f ''tok'' = None" by code_simp
  have n: "''tok'' \<noteq> []" by simp
  have v: "fake_view ?f = (\<lambda>_. None)" by (simp add: fake_view_def NewCAS_def FailNextUploadAfterCommit_def)
  have up: "cas_Upload fake_cas = fake_Upload" by (simp add: fake_cas_def)
  have "\<exists>f'. fk.retry 3 ''web'' ''c'' ''k'' ''tok'' ?f = ([Inl DeadlineExceeded, Inr 1001, Inr 1001], f')"
    by (simp add: up numeral_3_eq_3 fake_Upload_def NewCAS_def FailNextUploadAfterCommit_def)
  then obtain f' where r: "fk.retry 3 ''web'' ''c'' ''k'' ''tok'' ?f = ([Inl DeadlineExceeded, Inr 1001, Inr 1001], f')" ..
  have "Inr 1001 \<in> set [Inl DeadlineExceeded, Inr 1001 :: gerror + int, Inr 1001]" by simp
  then obtain i where "fake_view f' = (fake_view ?f)(i \<mapsto> ''web'')"
    using fake_upload_retry_once [OF i n t r] by blast
  then show ?thesis unfolding v using r by blast
qed

end
