(* ===== verification/Target_Contract.thy ===== *)
theory Target_Contract
  imports Provider_Types
begin

text \<open>
  What the Binding controller relies on when it talks to a provider
  (\<open>pkg/provider/provider.go\<close>, the comments of its interface): an observation changes
  nothing and reports the certificate in service, a successful \<open>Apply\<close> installs the
  material, a clean-up with policy Orphan does nothing and one with Unbind leaves no
  certificate, and no operation touches another target. The contract is the locale
  \<open>cert_target\<close>; each provider satisfies it over the in-memory cloud of its kind.

  \<open>view w t\<close> is the identity of the certificate on a target in the world \<open>w\<close>: \<open>None\<close> when
  the target does not exist, \<open>Some []\<close> when it has no certificate.
\<close>

datatype target_op =
    OpObserve Target
  | OpApply Target CertMaterial ApplyOptions
  | OpCleanup Target string

fun op_target :: "target_op \<Rightarrow> Target" where
  "op_target (OpObserve t) = t"
| "op_target (OpApply t m ao) = t"
| "op_target (OpCleanup t p) = t"

fun op_writes :: "target_op \<Rightarrow> bool" where
  "op_writes (OpObserve t) = False"
| "op_writes (OpApply t m ao) = True"
| "op_writes (OpCleanup t p) \<longleftrightarrow> p = DeletionPolicyUnbind"

locale cert_target =
  fixes prov :: "'w Provider"
    and cl :: "'w Client"
    and shown :: "ObservedState \<Rightarrow> string"
    and wants :: "CertMaterial \<Rightarrow> string"
    and view :: "'w \<Rightarrow> Target \<Rightarrow> string option"
    and same :: "Target \<Rightarrow> Target \<Rightarrow> bool"
    and inv :: "'w \<Rightarrow> bool"
  assumes same_view: "same t t' \<Longrightarrow> view w t = view w t'"
    and observe_world: "inv w \<Longrightarrow> run_state (pv_Observe prov t cl) w = (r, w') \<Longrightarrow> inv w' \<and> view w' = view w"
    and observe_sound: "inv w \<Longrightarrow> run_state (pv_Observe prov t cl) w = (Inr obs, w') \<Longrightarrow> view w t = Some (shown obs)"
    and observe_missing: "inv w \<Longrightarrow> run_state (pv_Observe prov t cl) w = (Inl e, w') \<Longrightarrow>
      ErrorOf e = Some (CodeTargetNotFound, b, rs) \<Longrightarrow> view w t = None"
    and apply_inv: "inv w \<Longrightarrow> run_state (pv_Apply prov t cl m ao) w = (a, w') \<Longrightarrow> inv w'"
    and apply_ok: "inv w \<Longrightarrow> run_state (pv_Apply prov t cl m ao) w = (None, w') \<Longrightarrow> view w' t = Some (wants m)"
    and apply_frame: "inv w \<Longrightarrow> run_state (pv_Apply prov t cl m ao) w = (a, w') \<Longrightarrow> \<not> same t t' \<Longrightarrow> view w' t' = view w t'"
    and orphan: "p \<noteq> DeletionPolicyUnbind \<Longrightarrow> run_state (pv_Cleanup prov t cl p) w = (None, w)"
    and unbind_inv: "inv w \<Longrightarrow> run_state (pv_Cleanup prov t cl p) w = (a, w') \<Longrightarrow> inv w'"
    and unbind_ok: "inv w \<Longrightarrow> run_state (pv_Cleanup prov t cl DeletionPolicyUnbind) w = (None, w') \<Longrightarrow>
      view w' t = Some [] \<or> view w' t = None"
    and unbind_frame: "inv w \<Longrightarrow> run_state (pv_Cleanup prov t cl p) w = (a, w') \<Longrightarrow> \<not> same t t' \<Longrightarrow> view w' t' = view w t'"
begin

text \<open>Any sequence of operations, whatever each answers.\<close>

fun step :: "target_op \<Rightarrow> 'w \<Rightarrow> 'w" where
  "step (OpObserve t) w = snd (run_state (pv_Observe prov t cl) w)"
| "step (OpApply t m ao) w = snd (run_state (pv_Apply prov t cl m ao) w)"
| "step (OpCleanup t p) w = snd (run_state (pv_Cleanup prov t cl p) w)"

fun steps :: "target_op list \<Rightarrow> 'w \<Rightarrow> 'w" where
  "steps [] w = w"
| "steps (x # xs) w = steps xs (step x w)"

lemma step_inv: "inv w \<Longrightarrow> inv (step x w)"
  by (cases x) (auto simp: observe_world [OF _ surjective_pairing, THEN conjunct1]
      apply_inv [OF _ surjective_pairing] unbind_inv [OF _ surjective_pairing])

lemma step_frame:
  assumes "inv w" "op_writes x \<longrightarrow> \<not> same (op_target x) t"
  shows "view (step x w) t = view w t"
proof (cases x)
  case (OpObserve u)
  then show ?thesis using observe_world [OF assms(1) surjective_pairing, of u] by simp
next
  case (OpApply u m ao)
  then show ?thesis using apply_frame [OF assms(1) surjective_pairing] assms(2) by simp
next
  case (OpCleanup u p)
  then show ?thesis using unbind_frame [OF assms(1) surjective_pairing] orphan assms(2)
    by (cases "p = DeletionPolicyUnbind") simp_all
qed

lemma steps_frame:
  "inv w \<Longrightarrow> \<forall>x \<in> set xs. op_writes x \<longrightarrow> \<not> same (op_target x) t \<Longrightarrow>
     inv (steps xs w) \<and> view (steps xs w) t = view w t"
  by (induction xs arbitrary: w) (simp_all add: step_inv step_frame)

text \<open>What was applied stays in service, and is what an observation reports, until the
  target itself is written again.\<close>

lemma applied_is_observed:
  assumes "inv w" "run_state (pv_Apply prov t cl m ao) w = (None, w1)"
    and "\<forall>x \<in> set xs. op_writes x \<longrightarrow> \<not> same (op_target x) t"
    and "run_state (pv_Observe prov t cl) (steps xs w1) = (Inr obs, w2)"
  shows "shown obs = wants m"
proof -
  have "inv w1" by (rule apply_inv [OF assms(1,2)])
  then have "inv (steps xs w1)" "view (steps xs w1) t = Some (wants m)"
    using steps_frame [OF _ assms(3)] apply_ok [OF assms(1,2)] by simp_all
  with observe_sound [OF _ assms(4)] show ?thesis by simp
qed

lemma unbound_is_observed:
  assumes "inv w" "run_state (pv_Cleanup prov t cl DeletionPolicyUnbind) w = (None, w1)"
    and "\<forall>x \<in> set xs. op_writes x \<longrightarrow> \<not> same (op_target x) t"
    and "run_state (pv_Observe prov t cl) (steps xs w1) = (Inr obs, w2)"
  shows "shown obs = []"
proof -
  have "inv w1" by (rule unbind_inv [OF assms(1,2)])
  then have "inv (steps xs w1)" "view (steps xs w1) t = Some [] \<or> view (steps xs w1) t = None"
    using steps_frame [OF _ assms(3)] unbind_ok [OF assms(1,2)] by simp_all
  with observe_sound [OF _ assms(4)] show ?thesis by auto
qed

end

end
