(* ===== verification/Cas_Sdk.thy ===== *)
theory Cas_Sdk
  imports Provider_Types Aliyun_Client
begin

text \<open>
  The client of the certificate service over the vendor SDK (\<open>pkg/aliyun/cas_sdk.go\<close>), and
  what the three SDK clients share: the wait for quota of \<open>ratelimit.go\<close>, the observation
  of a call, the configuration given to the SDK.

  The SDK itself, the token bucket behind a limiter, the clock and the allocation of a map
  of limiters are parameters (\<open>cas_api\<close>, \<open>sdk_env\<close>). A Go context is left out: an expired
  one shows as an error of the call or of the wait.
\<close>

section \<open>Shared by the SDK clients\<close>

text \<open>A shared \<open>*Limiters\<close>: where its map is kept in the world.\<close>

record 'w limiters_ref =
  lr_get :: "'w \<Rightarrow> Limiters"
  lr_set :: "Limiters \<Rightarrow> 'w \<Rightarrow> 'w"

record 'w sdk_env =
  sv_now :: "('w, time) state"
  sv_bucket_wait :: "string \<Rightarrow> limiter \<Rightarrow> ('w, gerror option) state"
  sv_NewLimiters :: "('w, 'w limiters_ref) state"

text \<open>\<open>(*Limiters).Wait\<close>: the lookup under the mutex, then the wait on the limiter found.\<close>

definition Wait :: "'w sdk_env \<Rightarrow> 'w limiters_ref \<Rightarrow> string \<Rightarrow> LimitKind \<Rightarrow> ('w, gerror option) state" where
  "Wait ev l key kind = do {
     lim \<leftarrow> State (\<lambda>w. let (lim, m) = Limiters_Wait (lr_get l w) key kind in (lim, lr_set l m w));
     sv_bucket_wait ev (limiter_id key kind) lim
   }"

type_synonym 'w on_call = "string \<Rightarrow> string \<Rightarrow> duration \<Rightarrow> ('w, unit) state"

definition observe :: "'w sdk_env \<Rightarrow> 'w on_call option \<Rightarrow> string \<Rightarrow> time \<Rightarrow> gerror option \<Rightarrow> ('w, unit) state" where
  "observe ev onCall action start err = (case onCall of
     None \<Rightarrow> ret ()
   | Some f \<Rightarrow> do { now \<leftarrow> sv_now ev; f action (callCode err) (now - start) })"

text \<open>The error of a result \<open>(T, error)\<close>.\<close>

definition err_of :: "'e + 'a \<Rightarrow> 'e option" where
  "err_of r = (case r of Inl e \<Rightarrow> Some e | Inr _ \<Rightarrow> None)"

record CredentialModel =
  cm_AccessKeyId :: "string option"
  cm_AccessKeySecret :: "string option"
  cm_SecurityToken :: "string option"

text \<open>A \<open>credential.Credential\<close>: what it answers when it is asked.\<close>

record 'w credential =
  GetCredential :: "('w, gerror + CredentialModel option) state"

text \<open>The SDK configuration of the CAS and FC3 clients; timeouts in milliseconds.\<close>

record 'w openapi_config =
  oc_Credential :: "'w credential"
  oc_RegionId :: string
  oc_ReadTimeout :: int
  oc_ConnectTimeout :: int
  oc_UserAgent :: string
  oc_Endpoint :: "string option"

definition openapi_config_for :: "'w credential \<Rightarrow> string \<Rightarrow> string \<Rightarrow> duration \<Rightarrow> 'w openapi_config" where
  "openapi_config_for cred region endpoint timeout =
     \<lparr> oc_Credential = cred, oc_RegionId = region, oc_ReadTimeout = timeout div 1000000,
       oc_ConnectTimeout = 5000, oc_UserAgent = ''le-to-alicloud'',
       oc_Endpoint = (if endpoint \<noteq> [] then Some endpoint else None) \<rparr>"

definition limiters_or_new :: "'w sdk_env \<Rightarrow> 'w limiters_ref option \<Rightarrow> ('w, 'w limiters_ref) state" where
  "limiters_or_new ev l = (case l of None \<Rightarrow> sv_NewLimiters ev | Some l \<Rightarrow> ret l)"

section \<open>The SDK of the certificate service\<close>

record upload_request =
  ur_Name :: string
  ur_Cert :: bytes
  ur_Key :: bytes
  ur_ClientToken :: string
  ur_ResourceGroupId :: "string option"

record delete_request =
  dr_CertId :: int
  dr_ClientToken :: "string option"

record list_request =
  lq_OrderType :: string
  lq_Keyword :: string
  lq_CurrentPage :: int
  lq_ShowSize :: int
  lq_ResourceGroupId :: "string option"

record order_item =
  oi_CertificateId :: "int option"
  oi_Name :: "string option"
  oi_Sans :: "string option"
  oi_EndDate :: "string option"

text \<open>The options of an answer are the nil pointers the code tests for: the response with
  its body, the identifier in the body, the items of the list.\<close>

record 'w cas_api =
  sdk_Upload :: "upload_request \<Rightarrow> ('w, gerror + int option option) state"
  sdk_Delete :: "delete_request \<Rightarrow> ('w, gerror + unit) state"
  sdk_List :: "list_request \<Rightarrow> ('w, gerror + order_item option list option) state"

section \<open>The client\<close>

abbreviation ActionUploadUserCertificate :: string where "ActionUploadUserCertificate \<equiv> ''UploadUserCertificate''"
abbreviation ActionDeleteUserCertificate :: string where "ActionDeleteUserCertificate \<equiv> ''DeleteUserCertificate''"
abbreviation ActionListUserCertificateOrder :: string where "ActionListUserCertificateOrder \<equiv> ''ListUserCertificateOrder''"

record 'w CASClientConfig =
  cf_Region :: string
  cf_Endpoint :: string
  cf_ResourceGroupID :: string
  cf_Timeout :: duration
  cf_Limiters :: "'w limiters_ref option"
  cf_LimiterKey :: string
  cf_OnCall :: "'w on_call option"

record 'w sdkCAS =
  sc_api :: "'w cas_api"
  sc_limiters :: "'w limiters_ref"
  sc_cfg :: "'w CASClientConfig"

definition default_timeout :: "duration \<Rightarrow> duration" where
  "default_timeout t = (if t \<le> 0 then 30 * second else t)"

definition NewCASClient ::
  "'w sdk_env \<Rightarrow> ('w openapi_config \<Rightarrow> gerror + 'w cas_api) \<Rightarrow> 'w credential \<Rightarrow> 'w CASClientConfig \<Rightarrow>
     ('w, gerror + 'w sdkCAS) state" where
  "NewCASClient ev newClient cred cfg = do {
     let cfg = cfg\<lparr>cf_Timeout := default_timeout (cf_Timeout cfg)\<rparr>;
     l \<leftarrow> limiters_or_new ev (cf_Limiters cfg);
     (case newClient (openapi_config_for cred (cf_Region cfg) (cf_Endpoint cfg) (cf_Timeout cfg)) of
        Inl err \<Rightarrow> ret (Inl (the (Classify ''NewClient'' (Some err))))
      | Inr c \<Rightarrow> ret (Inr \<lparr> sc_api = c, sc_limiters = l, sc_cfg = cfg\<lparr>cf_Limiters := Some l\<rparr> \<rparr>))
   }"

definition resource_group :: "'w CASClientConfig \<Rightarrow> string option" where
  "resource_group cfg = (if cf_ResourceGroupID cfg \<noteq> [] then Some (cf_ResourceGroupID cfg) else None)"

definition missing_cert_id :: gerror where
  "missing_cert_id = AliyunError ClassRetryable ''Upload'' CodeEmptyResponse (Plain ''the response has no CertId'')"

definition sdk_cas_Upload ::
  "'w sdk_env \<Rightarrow> 'w sdkCAS \<Rightarrow> string \<Rightarrow> bytes \<Rightarrow> bytes \<Rightarrow> string \<Rightarrow> ('w, gerror + int) state" where
  "sdk_cas_Upload ev s name certPEM keyPEM clientToken = do {
     werr \<leftarrow> Wait ev (sc_limiters s) (cf_LimiterKey (sc_cfg s)) LimitCASWrite;
     (case werr of
        Some err \<Rightarrow> ret (Inl (the (Classify ''Upload'' (Some err))))
      | None \<Rightarrow> do {
          let req = \<lparr> ur_Name = name, ur_Cert = certPEM, ur_Key = keyPEM, ur_ClientToken = clientToken,
            ur_ResourceGroupId = resource_group (sc_cfg s) \<rparr>;
          start \<leftarrow> sv_now ev;
          resp \<leftarrow> sdk_Upload (sc_api s) req;
          let cerr = Classify ''Upload'' (err_of resp);
          observe ev (cf_OnCall (sc_cfg s)) ActionUploadUserCertificate start cerr;
          ret (case cerr of
             Some err \<Rightarrow> Inl err
           | None \<Rightarrow> (case resp of
               Inr (Some (Some certId)) \<Rightarrow> Inr certId
             | _ \<Rightarrow> Inl missing_cert_id))
        })
   }"

definition sdk_cas_Delete :: "'w sdk_env \<Rightarrow> 'w sdkCAS \<Rightarrow> int \<Rightarrow> string \<Rightarrow> ('w, gerror option) state" where
  "sdk_cas_Delete ev s certID clientToken = do {
     werr \<leftarrow> Wait ev (sc_limiters s) (cf_LimiterKey (sc_cfg s)) LimitCASWrite;
     (case werr of
        Some err \<Rightarrow> ret (Classify ''Delete'' (Some err))
      | None \<Rightarrow> do {
          let req = \<lparr> dr_CertId = certID, dr_ClientToken = (if clientToken \<noteq> [] then Some clientToken else None) \<rparr>;
          start \<leftarrow> sv_now ev;
          resp \<leftarrow> sdk_Delete (sc_api s) req;
          let cerr = Classify ''Delete'' (err_of resp);
          observe ev (cf_OnCall (sc_cfg s)) ActionDeleteUserCertificate start cerr;
          ret cerr
        })
   }"

subsection \<open>Listing\<close>

abbreviation casListPageSize :: int where "casListPageSize \<equiv> 50"
abbreviation casListMaxPages :: int where "casListMaxPages \<equiv> 200"

definition shouldFetchNextPage :: "int \<Rightarrow> int \<Rightarrow> int \<Rightarrow> bool" where
  "shouldFetchNextPage got sz page =
     (if got \<le> 0 \<or> sz \<le> 0 \<or> got < sz then False else page < casListMaxPages)"

definition summary_of :: "order_item option \<Rightarrow> CertSummary option" where
  "summary_of it = (case it of None \<Rightarrow> None | Some it \<Rightarrow> (case oi_CertificateId it of
       None \<Rightarrow> None
     | Some i \<Rightarrow> Some \<lparr> sm_CertID = i,
         sm_Name = (case oi_Name it of Some n \<Rightarrow> n | None \<Rightarrow> []),
         sm_SANs = (case oi_Sans it of Some s \<Rightarrow> Split s (CHR '','') | None \<Rightarrow> []),
         sm_EndDate = (case oi_EndDate it of Some d \<Rightarrow> d | None \<Rightarrow> []) \<rparr>))"

definition summaries :: "order_item option list \<Rightarrow> CertSummary list" where
  "summaries its = List.map_filter summary_of its"

definition too_many_pages :: gerror where
  "too_many_pages = AliyunError ClassPermanent ActionListUserCertificateOrder ''TooManyPages''
     (Plain ''more than 200 pages'')"

definition list_request_for :: "'w sdkCAS \<Rightarrow> string \<Rightarrow> int \<Rightarrow> list_request" where
  "list_request_for s domainHint page = \<lparr> lq_OrderType = ''UPLOAD'', lq_Keyword = domainHint,
     lq_CurrentPage = page, lq_ShowSize = casListPageSize, lq_ResourceGroupId = resource_group (sc_cfg s) \<rparr>"

text \<open>One round of the loop up to the test of the response: the call for one page.\<close>

definition list_page ::
  "'w sdk_env \<Rightarrow> 'w sdkCAS \<Rightarrow> string \<Rightarrow> int \<Rightarrow> ('w, gerror + order_item option list option) state" where
  "list_page ev s domainHint page = do {
     werr \<leftarrow> Wait ev (sc_limiters s) (cf_LimiterKey (sc_cfg s)) LimitCASList;
     (case werr of
        Some err \<Rightarrow> ret (Inl (the (Classify ActionListUserCertificateOrder (Some err))))
      | None \<Rightarrow> do {
          start \<leftarrow> sv_now ev;
          resp \<leftarrow> sdk_List (sc_api s) (list_request_for s domainHint page);
          let cerr = Classify ActionListUserCertificateOrder (err_of resp);
          observe ev (cf_OnCall (sc_cfg s)) ActionListUserCertificateOrder start cerr;
          ret (case cerr of
             Some err \<Rightarrow> Inl err
           | None \<Rightarrow> Inr (case resp of Inr r \<Rightarrow> r | Inl _ \<Rightarrow> None))
        })
   }"

function find_loop ::
  "'w sdk_env \<Rightarrow> 'w sdkCAS \<Rightarrow> string \<Rightarrow> CertSummary list \<Rightarrow> int \<Rightarrow> ('w, gerror + CertSummary list) state" where
  "find_loop ev s domainHint out page =
     State_Monad.bind (list_page ev s domainHint page) (\<lambda>r. case r of
        Inl err \<Rightarrow> ret (Inl err)
      | Inr None \<Rightarrow> ret (Inr out)
      | Inr (Some its) \<Rightarrow>
          let out = out @ summaries its; got = int (length its) in
          if \<not> shouldFetchNextPage got casListPageSize page then
            if got \<ge> casListPageSize \<and> page \<ge> casListMaxPages then ret (Inl too_many_pages)
            else ret (Inr out)
          else find_loop ev s domainHint out (page + 1))"
  by pat_completeness auto
termination
  by (relation "measure (\<lambda>(ev, s, h, out, page). nat (casListMaxPages - page))")
     (auto simp: shouldFetchNextPage_def split: if_splits)

declare find_loop.simps [simp del]

definition sdk_cas_FindUploaded :: "'w sdk_env \<Rightarrow> 'w sdkCAS \<Rightarrow> string \<Rightarrow> ('w, gerror + CertSummary list) state" where
  "sdk_cas_FindUploaded ev s domainHint = find_loop ev s domainHint [] 1"

text \<open>The client as the interface the controllers use.\<close>

definition sdk_cas :: "'w sdk_env \<Rightarrow> 'w sdkCAS \<Rightarrow> 'w CASClient" where
  "sdk_cas ev s = \<lparr> cas_Upload = sdk_cas_Upload ev s, cas_Delete = sdk_cas_Delete ev s,
     cas_FindUploaded = sdk_cas_FindUploaded ev s \<rparr>"

section \<open>Results of computations\<close>

text \<open>\<open>yields P m\<close>: whatever the world, the result of \<open>m\<close> satisfies \<open>P\<close>.\<close>

definition yields :: "('a \<Rightarrow> bool) \<Rightarrow> ('w, 'a) state \<Rightarrow> bool" where
  "yields P m \<longleftrightarrow> (\<forall>w. P (fst (run_state m w)))"

named_theorems yields_intro \<open>rules for the results of computations\<close>

lemma yields_ret [yields_intro]: "P x \<Longrightarrow> yields P (ret x)"
  by (simp add: yields_def)

lemma yields_bind [yields_intro]: "yields (\<lambda>x. yields P (f x)) m \<Longrightarrow> yields P (State_Monad.bind m f)"
  by (auto simp: yields_def split: prod.splits) (metis fst_conv)

lemma yields_mono: "yields P m \<Longrightarrow> (\<And>x. P x \<Longrightarrow> Q x) \<Longrightarrow> yields Q m"
  by (auto simp: yields_def)

lemma yields_triv: "(\<And>x. P x) \<Longrightarrow> yields P m"
  by (simp add: yields_def)

lemma yields_if [yields_intro]: "(b \<Longrightarrow> yields P m) \<Longrightarrow> (\<not> b \<Longrightarrow> yields P n) \<Longrightarrow> yields P (if b then m else n)"
  by simp

lemma yields_case_option [yields_intro]:
  "(x = None \<Longrightarrow> yields P m) \<Longrightarrow> (\<And>y. x = Some y \<Longrightarrow> yields P (f y)) \<Longrightarrow>
   yields P (case x of None \<Rightarrow> m | Some y \<Rightarrow> f y)"
  by (cases x) auto

lemma yields_case_sum [yields_intro]:
  "(\<And>e. x = Inl e \<Longrightarrow> yields P (f e)) \<Longrightarrow> (\<And>y. x = Inr y \<Longrightarrow> yields P (g y)) \<Longrightarrow>
   yields P (case x of Inl e \<Rightarrow> f e | Inr y \<Rightarrow> g y)"
  by (cases x) auto

lemma yields_Let [yields_intro]: "yields P (f x) \<Longrightarrow> yields P (Let x f)"
  by (simp add: Let_def)

lemma yields_run: "yields P m \<Longrightarrow> run_state m w = (x, w') \<Longrightarrow> P x"
  by (metis fst_conv yields_def)

section \<open>Lemmas\<close>

text \<open>A server that holds the list \<open>L\<close>: when a call succeeds, its answer is the page asked
  for, of the size asked for or of the cap of the server, whichever is less.\<close>

definition page_of :: "nat \<Rightarrow> order_item option list \<Rightarrow> list_request \<Rightarrow> order_item option list" where
  "page_of cap L q = (let sz = min cap (nat (lq_ShowSize q))
     in take sz (drop (sz * nat (lq_CurrentPage q - 1)) L))"

definition serves :: "nat \<Rightarrow> order_item option list \<Rightarrow> 'w cas_api \<Rightarrow> bool" where
  "serves cap L api \<longleftrightarrow> (\<forall>q. yields (\<lambda>r. \<forall>p. r = Inr p \<longrightarrow> p = Some (page_of cap L q)) (sdk_List api q))"

text \<open>Neither the quota nor a listing fails.\<close>

definition faultless :: "'w sdk_env \<Rightarrow> 'w cas_api \<Rightarrow> bool" where
  "faultless ev api \<longleftrightarrow> (\<forall>k l. yields (\<lambda>e. e = None) (sv_bucket_wait ev k l))
     \<and> (\<forall>q. yields (\<lambda>r. \<exists>p. r = Inr p) (sdk_List api q))"

lemma err_of_simps [simp]: "err_of (Inl e) = Some e" "err_of (Inr x) = None"
  by (simp_all add: err_of_def)

lemma err_of_eq_None [simp]: "err_of r = None \<longleftrightarrow> (\<exists>x. r = Inr x)"
  by (cases r) auto

lemma summaries_append [simp]: "summaries (xs @ ys) = summaries xs @ summaries ys"
  by (simp add: summaries_def List.map_filter_def)

lemma list_page_yields:
  assumes "\<And>l k kd. yields W (Wait ev l k kd)" "\<And>e e'. W (Some e) \<Longrightarrow> B (Inl e')"
    and "yields A (sdk_List (sc_api s) (list_request_for s h page))" "\<And>e e'. A (Inl e) \<Longrightarrow> B (Inl e')"
    and "\<And>p. A (Inr p) \<Longrightarrow> B (Inr p)"
  shows "yields B (list_page ev s h page)"
proof -
  have call: "yields B (do {
      resp \<leftarrow> sdk_List (sc_api s) (list_request_for s h page);
      let cerr = Classify ActionListUserCertificateOrder (err_of resp);
      observe ev (cf_OnCall (sc_cfg s)) ActionListUserCertificateOrder start cerr;
      ret (case cerr of Some err \<Rightarrow> Inl err | None \<Rightarrow> Inr (case resp of Inr r \<Rightarrow> r | Inl _ \<Rightarrow> None)) })" for start
    by (rule yields_bind, rule yields_mono [OF assms(3)], rule yields_Let, rule yields_bind, rule yields_triv,
        rule yields_ret)
      (auto split: option.splits sum.splits intro: assms(4,5))
  show ?thesis
    unfolding list_page_def
    by (rule yields_bind, rule yields_mono [OF assms(1)], rule yields_case_option,
        rule yields_bind, rule yields_triv, rule call, rule yields_ret, simp only: assms(2))
qed

lemma list_page_served:
  assumes "serves cap L (sc_api s)"
  shows "yields (\<lambda>r. \<forall>p. r = Inr p \<longrightarrow> p = Some (page_of cap L (list_request_for s h page))) (list_page ev s h page)"
proof -
  let ?q = "list_request_for s h page"
  have "yields (\<lambda>r. \<forall>p. r = Inr p \<longrightarrow> p = Some (page_of cap L ?q)) (sdk_List (sc_api s) ?q)"
    using assms unfolding serves_def by blast
  then show ?thesis by (rule list_page_yields [where W = "\<lambda>_. True", rotated 2]) (auto simp: yields_def)
qed

lemma Wait_ok:
  assumes "faultless ev api"
  shows "yields (\<lambda>e. e = None) (Wait ev l k kd)"
  unfolding Wait_def
  by (rule yields_bind, rule yields_triv) (use assms in \<open>auto simp: faultless_def\<close>)

lemma list_page_ok: "faultless ev (sc_api s) \<Longrightarrow> yields (\<lambda>r. \<exists>p. r = Inr p) (list_page ev s h page)"
  by (rule list_page_yields [where W = "\<lambda>e. e = None" and A = "\<lambda>r. \<exists>p. r = Inr p"])
    (auto simp: Wait_ok faultless_def)

lemma page_of_request:
  "1 \<le> page \<Longrightarrow> page_of cap L (list_request_for s h page) = take (min cap 50) (drop (min cap 50 * nat (page - 1)) L)"
  by (simp add: page_of_def list_request_for_def Let_def)

text \<open>What the loop returns, from page \<open>page\<close> on, against a server that gives full pages.\<close>

lemma yields_conj: "yields P m \<Longrightarrow> yields Q m \<Longrightarrow> yields (\<lambda>x. P x \<and> Q x) m"
  by (simp add: yields_def)

definition read_from :: "bool \<Rightarrow> order_item option list \<Rightarrow> CertSummary list \<Rightarrow> nat \<Rightarrow> gerror + CertSummary list \<Rightarrow> bool" where
  "read_from ok L out n r \<longleftrightarrow> (case r of
     Inr l \<Rightarrow> l = out @ summaries (drop n L) \<and> length L < 10000
   | Inl e \<Rightarrow> \<not> ok \<or> e = too_many_pages \<and> 10000 \<le> length L)"

text \<open>The step of the loop after a page of \<open>L\<close> has been read at offset \<open>n\<close>.\<close>

lemma find_step_served:
  assumes n: "int n = 50 * (page - 1)" and range: "1 \<le> page" "page \<le> 200"
    and more: "\<And>out'. page < 200 \<Longrightarrow> yields (read_from ok L out' (n + 50)) (k out')"
  shows "yields (read_from ok L out n)
     (let its = take 50 (drop n L); out = out @ summaries its; got = int (length its) in
      if \<not> shouldFetchNextPage got casListPageSize page then
        if got \<ge> casListPageSize \<and> page \<ge> casListMaxPages then ret (Inl too_many_pages) else ret (Inr out)
      else k out)"
proof (cases "length L < n + 50")
  case True
  then show ?thesis using range n
    by (auto simp: Let_def shouldFetchNextPage_def read_from_def intro!: yields_ret)
next
  case False
  let ?its = "take 50 (drop n L)"
  have len: "length ?its = 50" using False by simp
  have "drop n L = ?its @ drop (n + 50) L"
    using append_take_drop_id [of 50 "drop n L"] by (simp add: add.commute)
  then have sums: "summaries (drop n L) = summaries ?its @ summaries (drop (n + 50) L)"
    by (metis summaries_append)
  show ?thesis
  proof (cases "page < 200")
    case True
    have "read_from ok L (out @ summaries ?its) (n + 50) = read_from ok L out n"
      by (rule ext) (simp add: read_from_def sums split: sum.splits)
    with more [OF True, of "out @ summaries ?its"] show ?thesis using len True False
      by (simp add: Let_def shouldFetchNextPage_def)
  next
    case lim: False
    then have "page = 200" using range by simp
    then show ?thesis using len n False
      by (auto simp: Let_def shouldFetchNextPage_def read_from_def intro!: yields_ret)
  qed
qed

lemma find_loop_served:
  assumes "serves cap L (sc_api s)" "50 \<le> cap" "1 \<le> page" "page \<le> 200"
  shows "yields (read_from (faultless ev (sc_api s)) L out (nat (50 * (page - 1)))) (find_loop ev s h out page)"
  using assms(3,4)
proof (induction "nat (200 - page)" arbitrary: page out rule: less_induct)
  case less
  define n where "n = nat (50 * (page - 1))"
  have n: "50 * nat (page - 1) = n" "int n = 50 * (page - 1)" using less.prems by (simp_all add: n_def)
  let ?ok = "faultless ev (sc_api s)"
  have page: "yields (\<lambda>r. (\<forall>p. r = Inr p \<longrightarrow> p = Some (take 50 (drop n L))) \<and> (?ok \<longrightarrow> (\<exists>p. r = Inr p)))
      (list_page ev s h page)"
    using list_page_served [OF assms(1), where ev = ev and h = h and page = page] list_page_ok [of ev s h page] page_of_request [OF less.prems(1), of cap L s h]
      assms(2) n(1) by (auto simp: yields_def)
  have step: "yields (read_from ?ok L out' (n + 50)) (find_loop ev s h out' (page + 1))" if "page < 200" for out'
  proof -
    have "nat (50 * (page + 1 - 1)) = n + 50" using less.prems(1) by (simp add: n_def)
    then show ?thesis using less.hyps [of "page + 1" out'] less.prems that by simp
  qed
  let ?its = "take 50 (drop n L)"
  show ?case
    unfolding find_loop.simps [of ev s h out page] n_def [symmetric]
  proof (rule yields_bind, rule yields_mono [OF page], elim conjE, rule yields_case_sum)
    fix r :: "gerror + order_item option list option" and e
    assume "?ok \<longrightarrow> (\<exists>p. r = Inr p)" "r = Inl e"
    then show "yields (read_from ?ok L out n) (ret (Inl e))"
      by (intro yields_ret) (auto simp: read_from_def)
  next
    fix r :: "gerror + order_item option list option" and p
    assume "\<forall>p. r = Inr p \<longrightarrow> p = Some ?its" "r = Inr p"
    then have p: "p = Some ?its" by simp
    show "yields (read_from ?ok L out n) (case p of None \<Rightarrow> ret (Inr out)
      | Some its \<Rightarrow> let out = out @ summaries its; got = int (length its) in
          if \<not> shouldFetchNextPage got casListPageSize page then
            if got \<ge> casListPageSize \<and> page \<ge> casListMaxPages then ret (Inl too_many_pages)
            else ret (Inr out)
          else find_loop ev s h out (page + 1))"
      using find_step_served [OF n(2) less.prems, of ?ok L "\<lambda>out. find_loop ev s h out (page + 1)" out] step
      unfolding p Let_def option.case by blast
  qed
qed

lemma find_loop_capped:
  assumes "serves cap L (sc_api s)" "cap < 50" "faultless ev (sc_api s)"
  shows "yields (\<lambda>r. r = Inr (out @ summaries (take cap L))) (find_loop ev s h out 1)"
proof -
  have m: "min cap 50 = cap" using assms(2) by simp
  have q: "page_of cap L (list_request_for s h 1) = take cap L" by (simp add: page_of_request m)
  have page: "yields (\<lambda>r. r = Inr (Some (take cap L))) (list_page ev s h 1)"
    using list_page_served [OF assms(1), where ev = ev and h = h and page = 1]
      list_page_ok [OF assms(3), of h 1] unfolding yields_def q by metis
  show ?thesis
    unfolding find_loop.simps [of ev s h out 1]
    by (rule yields_bind, rule yields_mono [OF page])
      (use assms(2) in \<open>auto simp: Let_def shouldFetchNextPage_def intro!: yields_ret\<close>)
qed

section \<open>The number of calls\<close>

text \<open>\<open>c\<close> reads a counter in the world; \<open>raises c k m\<close> bounds what a computation adds to it.\<close>

definition raises :: "('w \<Rightarrow> nat) \<Rightarrow> nat \<Rightarrow> ('w, 'a) state \<Rightarrow> bool" where
  "raises c k m \<longleftrightarrow> (\<forall>w. c (snd (run_state m w)) \<le> c w + k)"

lemma raises_ret: "raises c 0 (ret x)"
  by (simp add: raises_def)

lemma raises_mono: "raises c k m \<Longrightarrow> k \<le> n \<Longrightarrow> raises c n m"
  unfolding raises_def by (meson add_left_mono order_trans)

lemma raises_bind:
  assumes "raises c k m" "\<And>x. raises c n (f x)"
  shows "raises c (k + n) (State_Monad.bind m f)"
  unfolding raises_def
proof
  fix w
  obtain x w' where w': "run_state m w = (x, w')" by fastforce
  then have "c w' \<le> c w + k" "c (snd (run_state (f x) w')) \<le> c w' + n"
    using assms by (metis raises_def snd_conv)+
  then show "c (snd (run_state (State_Monad.bind m f) w)) \<le> c w + (k + n)"
    using w' by simp
qed

lemma raises_observe:
  assumes "raises c 0 (sv_now ev)" "\<And>f a cd d. oc = Some f \<Longrightarrow> raises c 0 (f a cd d)"
  shows "raises c 0 (observe ev oc action st err)"
  unfolding observe_def
  using assms by (auto split: option.split intro!: raises_ret raises_bind [of c 0 _ 0, simplified])

lemma raises_Wait:
  assumes "\<And>m w. c (lr_set l m w) = c w" "\<And>k b. raises c 0 (sv_bucket_wait ev k b)"
  shows "raises c 0 (Wait ev l key kind)"
  unfolding Wait_def
  by (rule raises_bind [of c 0 _ 0, simplified]) (use assms in \<open>simp_all add: raises_def split: prod.split\<close>)

text \<open>\<open>c\<close> counts listings: one call of \<open>ListUserCertificateOrder\<close> adds at most one to it, and
  nothing else the client uses touches it.\<close>

definition counts_lists :: "('w \<Rightarrow> nat) \<Rightarrow> 'w sdk_env \<Rightarrow> 'w sdkCAS \<Rightarrow> bool" where
  "counts_lists c ev s \<longleftrightarrow> (\<forall>q. raises c 1 (sdk_List (sc_api s) q)) \<and> raises c 0 (sv_now ev) \<and>
     (\<forall>k b. raises c 0 (sv_bucket_wait ev k b)) \<and> (\<forall>m w. c (lr_set (sc_limiters s) m w) = c w) \<and>
     (\<forall>f a cd d. cf_OnCall (sc_cfg s) = Some f \<longrightarrow> raises c 0 (f a cd d))"

lemma raises_list_page:
  assumes "counts_lists c ev s"
  shows "raises c 1 (list_page ev s h page)"
proof -
  note rs = assms [unfolded counts_lists_def]
  have call: "raises c (1 + 0) (do {
      resp \<leftarrow> sdk_List (sc_api s) (list_request_for s h page);
      let cerr = Classify ActionListUserCertificateOrder (err_of resp);
      observe ev (cf_OnCall (sc_cfg s)) ActionListUserCertificateOrder start cerr;
      ret (case cerr of Some err \<Rightarrow> Inl err | None \<Rightarrow> Inr (case resp of Inr r \<Rightarrow> r | Inl _ \<Rightarrow> None)) })" for start
    unfolding Let_def
    by (intro raises_bind raises_bind [of c 0 _ 0, simplified] raises_observe raises_ret) (use rs in auto)
  have "raises c (0 + (0 + (1 + 0))) (list_page ev s h page)"
    unfolding list_page_def
  proof (rule raises_bind)
    show "raises c 0 (Wait ev (sc_limiters s) (cf_LimiterKey (sc_cfg s)) LimitCASList)"
      by (rule raises_Wait) (use rs in auto)
    have "raises c (0 + (1 + 0)) (State_Monad.bind (sv_now ev) (\<lambda>start. do {
        resp \<leftarrow> sdk_List (sc_api s) (list_request_for s h page);
        let cerr = Classify ActionListUserCertificateOrder (err_of resp);
        observe ev (cf_OnCall (sc_cfg s)) ActionListUserCertificateOrder start cerr;
        ret (case cerr of Some err \<Rightarrow> Inl err | None \<Rightarrow> Inr (case resp of Inr r \<Rightarrow> r | Inl _ \<Rightarrow> None)) }))"
      using rs by (intro raises_bind call) auto
    then show "raises c (0 + (1 + 0)) (case werr of
        Some err \<Rightarrow> ret (Inl (the (Classify ActionListUserCertificateOrder (Some err))))
      | None \<Rightarrow> do {
          start \<leftarrow> sv_now ev;
          resp \<leftarrow> sdk_List (sc_api s) (list_request_for s h page);
          let cerr = Classify ActionListUserCertificateOrder (err_of resp);
          observe ev (cf_OnCall (sc_cfg s)) ActionListUserCertificateOrder start cerr;
          ret (case cerr of Some err \<Rightarrow> Inl err | None \<Rightarrow> Inr (case resp of Inr r \<Rightarrow> r | Inl _ \<Rightarrow> None))
        })" for werr
      by (cases werr) (auto intro: raises_mono [OF raises_ret])
  qed
  then show ?thesis by simp
qed

lemma raises_find_loop:
  assumes "counts_lists c ev s" "page \<le> 200"
  shows "raises c (nat (201 - page)) (find_loop ev s h out page)"
  using assms(2)
proof (induction "nat (200 - page)" arbitrary: page out rule: less_induct)
  case less
  have next_page: "raises c (nat (200 - page)) (find_loop ev s h out' (page + 1))" if "page < 200" for out'
    using less.hyps [of "page + 1" out'] that by simp
  have k: "nat (201 - page) = 1 + nat (200 - page)" using less.prems by simp
  show ?case
    unfolding find_loop.simps [of ev s h out page] k
    by (rule raises_bind [OF raises_list_page [OF assms(1)]])
      (auto simp: Let_def shouldFetchNextPage_def intro: raises_mono [OF raises_ret] next_page
        split: sum.split option.split)
qed

text \<open>A response without a body ends the listing with the pages read so far, without an error.\<close>

lemma find_loop_nil_body:
  "run_state (list_page ev s h page) w = (Inr None, w') \<Longrightarrow> run_state (find_loop ev s h out page) w = (Inr out, w')"
  by (simp add: find_loop.simps [of ev s h out page])

section \<open>Properties\<close>

text \<open>
  C21. A listing ends within 200 calls, whatever the server answers. Against a server that
  answers every page of a list in full, with a body and with no cap below 50 entries, it is
  complete or an error, whatever calls fail on the way: a successful \<open>FindUploaded\<close> returns
  every certificate of the list, and the list has fewer than 10000 entries; and when nothing
  fails the only error is the refusal of a list that does not end within 200 pages. Both
  conditions on the server are needed: \<open>find_loop_nil_body\<close> and C22 give prefixes without an
  error.
\<close>

theorem FindUploaded_complete:
  assumes "run_state (sdk_cas_FindUploaded ev s hint) w = (r, w')"
  shows "(counts_lists c ev s \<longrightarrow> c w' \<le> c w + 200) \<and>
    (serves cap L (sc_api s) \<and> 50 \<le> cap \<longrightarrow> (case r of
       Inr l \<Rightarrow> l = summaries L \<and> length L < 10000
     | Inl e \<Rightarrow> \<not> faultless ev (sc_api s) \<or> e = too_many_pages \<and> 10000 \<le> length L))"
proof (intro conjI impI)
  assume "counts_lists c ev s"
  from raises_find_loop [OF this, of 1 hint "[]"] have "raises c 200 (sdk_cas_FindUploaded ev s hint)"
    by (simp add: sdk_cas_FindUploaded_def)
  then have "c (snd (run_state (sdk_cas_FindUploaded ev s hint) w)) \<le> c w + 200" unfolding raises_def ..
  with assms show "c w' \<le> c w + 200" by simp
next
  assume "serves cap L (sc_api s) \<and> 50 \<le> cap"
  then show "case r of
       Inr l \<Rightarrow> l = summaries L \<and> length L < 10000
     | Inl e \<Rightarrow> \<not> faultless ev (sc_api s) \<or> e = too_many_pages \<and> 10000 \<le> length L"
    using yields_run [OF find_loop_served [where cap = cap and L = L and s = s and page = 1 and h = hint and out = "[]"] assms [unfolded sdk_cas_FindUploaded_def]]
    by (simp add: read_from_def split: sum.splits)
qed

text \<open>
  C22. A server that caps its pages below the page size asked for ends the listing at the
  first page: the loop takes a page of fewer than 50 entries for the last one, so the
  certificates behind it are left out without an error.
\<close>

theorem FindUploaded_capped_truncates:
  assumes "serves cap L (sc_api s)" and "cap < 50" and "faultless ev (sc_api s)"
    and "run_state (sdk_cas_FindUploaded ev s hint) w = (r, w')"
  shows "r = Inr (summaries (take cap L))"
  using yields_run [OF find_loop_capped [OF assms(1-3)] assms(4) [unfolded sdk_cas_FindUploaded_def]]
  by simp

section \<open>Witnesses\<close>

definition quiet_env :: "nat sdk_env" where
  "quiet_env = \<lparr> sv_now = ret 0, sv_bucket_wait = (\<lambda>_ _. ret None),
     sv_NewLimiters = ret \<lparr> lr_get = (\<lambda>_. Map.empty), lr_set = (\<lambda>_ w. w) \<rparr> \<rparr>"

definition list_api :: "nat \<Rightarrow> order_item option list \<Rightarrow> nat cas_api" where
  "list_api cap L = \<lparr> sdk_Upload = (\<lambda>_. ret (Inr (Some (Some 1)))), sdk_Delete = (\<lambda>_. ret (Inr ())),
     sdk_List = (\<lambda>q. State (\<lambda>n. (Inr (Some (page_of cap L q)), n + 1))) \<rparr>"

definition sample_sdk :: "nat \<Rightarrow> order_item option list \<Rightarrow> nat sdkCAS" where
  "sample_sdk cap L = \<lparr> sc_api = list_api cap L,
     sc_limiters = \<lparr> lr_get = (\<lambda>_. Map.empty), lr_set = (\<lambda>_ w. w) \<rparr>,
     sc_cfg = \<lparr> cf_Region = ''cn-hangzhou'', cf_Endpoint = [], cf_ResourceGroupID = [], cf_Timeout = 30 * second,
       cf_Limiters = None, cf_LimiterKey = ''AK'', cf_OnCall = None \<rparr> \<rparr>"

definition order_items :: "nat \<Rightarrow> order_item option list" where
  "order_items n = map (\<lambda>i. Some \<lparr> oi_CertificateId = Some (int i), oi_Name = Some ''web'',
     oi_Sans = Some ''a.example.com'', oi_EndDate = None \<rparr>) [0..<n]"

lemma sample_sdk_laws:
  "serves cap L (sc_api (sample_sdk cap L))" "faultless quiet_env (sc_api (sample_sdk cap L))"
  by (simp_all add: serves_def faultless_def sample_sdk_def list_api_def quiet_env_def yields_def)

text \<open>The sample server counts its listings.\<close>

lemma sample_sdk_counts: "counts_lists id quiet_env (sample_sdk cap L)"
  by (simp add: counts_lists_def raises_def sample_sdk_def list_api_def quiet_env_def)

theorem FindUploaded_complete_witness:
  "\<exists>n. run_state (sdk_cas_FindUploaded quiet_env (sample_sdk 50 (order_items 120)) []) 0 =
     (Inr (summaries (order_items 120)), n) \<and> n \<le> 200"
proof (cases "run_state (sdk_cas_FindUploaded quiet_env (sample_sdk 50 (order_items 120)) []) 0")
  case (Pair r n)
  have "length (order_items 120) < 10000" by (simp add: order_items_def)
  with FindUploaded_complete [OF Pair, where c = id and cap = 50 and L = "order_items 120"]
    sample_sdk_laws [of 50 "order_items 120"] sample_sdk_counts [of 50 "order_items 120"]
  show ?thesis by (cases r) (simp_all add: Pair)
qed

theorem FindUploaded_capped_truncates_witness:
  "fst (run_state (sdk_cas_FindUploaded quiet_env (sample_sdk 20 (order_items 30)) []) 0) =
     Inr (summaries (order_items 20)) \<and> summaries (order_items 20) \<noteq> summaries (order_items 30)"
proof (cases "run_state (sdk_cas_FindUploaded quiet_env (sample_sdk 20 (order_items 30)) []) 0")
  case (Pair r w')
  have t: "take 20 (order_items 30) = order_items 20" by (simp add: order_items_def take_map)
  have len: "length (summaries (order_items n)) = n" for n
    by (simp add: summaries_def order_items_def List.map_filter_def summary_of_def comp_def)
  have "r = Inr (summaries (order_items 20))"
    using FindUploaded_capped_truncates [OF sample_sdk_laws(1) _ sample_sdk_laws(2) Pair] by (simp add: t)
  moreover have "summaries (order_items 20) \<noteq> summaries (order_items 30)"
    using len [of 20] len [of 30] by force
  ultimately show ?thesis by (simp add: Pair)
qed

end
