(* ===== verification/Fc3_Sdk.thy ===== *)
theory Fc3_Sdk
  imports Cas_Sdk
begin

text \<open>
  The client of Function Compute over the vendor SDK (\<open>pkg/aliyun/fc3_sdk.go\<close>): the view of
  a domain without its private key, the echo of everything the operator does not manage, and
  the body of an update built over that echo.
\<close>

section \<open>The SDK\<close>

record sdk_custom_domain =
  sd_AccountId :: "string option"
  sd_DomainName :: "string option"
  sd_Protocol :: "string option"
  sd_CertConfig :: "sdk_cert_config option"
  sd_AuthConfig :: "opaque option"
  sd_CorsConfig :: "opaque option"
  sd_RouteConfig :: "opaque option"
  sd_TlsConfig :: "opaque option"
  sd_WafConfig :: "opaque option"

text \<open>The answer to a read is the body of the response, if there is one.\<close>

record 'w fc3_api =
  sdk_GetCustomDomain :: "string \<Rightarrow> ('w, gerror + sdk_custom_domain option) state"
  sdk_UpdateCustomDomain :: "string \<Rightarrow> sdk_update_body \<Rightarrow> ('w, gerror + unit) state"

text \<open>\<open>dara.StringValue\<close>.\<close>

definition StringValue :: "string option \<Rightarrow> string" where
  "StringValue p = (case p of Some s \<Rightarrow> s | None \<Rightarrow> [])"

section \<open>The client\<close>

record 'w FC3ClientConfig =
  ff_Region :: string
  ff_Endpoint :: string
  ff_Timeout :: duration
  ff_Limiters :: "'w limiters_ref option"
  ff_LimiterKey :: string
  ff_OnCall :: "'w on_call option"

record 'w sdkFC3 =
  sf_api :: "'w fc3_api"
  sf_limiters :: "'w limiters_ref"
  sf_cfg :: "'w FC3ClientConfig"

definition NewFC3Client ::
  "'w sdk_env \<Rightarrow> ('w openapi_config \<Rightarrow> gerror + 'w fc3_api) \<Rightarrow> 'w credential \<Rightarrow> 'w FC3ClientConfig \<Rightarrow>
     ('w, gerror + 'w sdkFC3) state" where
  "NewFC3Client ev newClient cred cfg = do {
     let cfg = cfg\<lparr>ff_Timeout := default_timeout (ff_Timeout cfg)\<rparr>;
     l \<leftarrow> limiters_or_new ev (ff_Limiters cfg);
     (case newClient (openapi_config_for cred (ff_Region cfg) (ff_Endpoint cfg) (ff_Timeout cfg)) of
        Inl err \<Rightarrow> ret (Inl (the (Classify ''NewFC3Client'' (Some err))))
      | Inr c \<Rightarrow> ret (Inr \<lparr> sf_api = c, sf_limiters = l, sf_cfg = cfg\<lparr>ff_Limiters := Some l\<rparr> \<rparr>))
   }"

definition customDomainFromSDK :: "sdk_custom_domain \<Rightarrow> CustomDomain" where
  "customDomainFromSDK d =
     \<lparr> cd_AccountID = StringValue (sd_AccountId d), cd_DomainName = StringValue (sd_DomainName d),
       cd_Protocol = StringValue (sd_Protocol d),
       cd_CertName = (case sd_CertConfig d of Some c \<Rightarrow> StringValue (sk_CertName c) | None \<Rightarrow> []),
       cd_CertificatePEM = (case sd_CertConfig d of Some c \<Rightarrow> StringValue (sk_Certificate c) | None \<Rightarrow> []),
       cd_Echo = EchoSDK \<lparr> up_AuthConfig = sd_AuthConfig d, up_CorsConfig = sd_CorsConfig d,
         up_RouteConfig = sd_RouteConfig d, up_TlsConfig = sd_TlsConfig d, up_WafConfig = sd_WafConfig d,
         up_Protocol = None, up_CertConfig = None \<rparr> \<rparr>"

definition empty_body :: sdk_update_body where
  "empty_body = \<lparr> up_AuthConfig = None, up_CorsConfig = None, up_RouteConfig = None, up_TlsConfig = None,
     up_WafConfig = None, up_Protocol = None, up_CertConfig = None \<rparr>"

definition updateInputToSDK :: "UpdateCustomDomainInput \<Rightarrow> gerror + sdk_update_body" where
  "updateInputToSDK i =
     (case (case ui_Echo i of
         EchoNil \<Rightarrow> Inr empty_body
       | EchoSDK p \<Rightarrow> Inr p
       | EchoOther ty \<Rightarrow> Inl (AliyunError ClassPermanent ActionUpdateCustomDomain ''InvalidEcho''
           (Plain (''the echo has type '' @ ty)))) of
        Inl err \<Rightarrow> Inl err
      | Inr base \<Rightarrow>
          let base = (if ui_Protocol i \<noteq> [] then base\<lparr>up_Protocol := Some (ui_Protocol i)\<rparr> else base)
          in Inr (if ui_ClearCert i
              then base\<lparr>up_CertConfig := Some \<lparr> sk_CertName = Some [], sk_Certificate = Some [], sk_PrivateKey = Some [] \<rparr>\<rparr>
              else case ui_CertConfig i of
                Some c \<Rightarrow> base\<lparr>up_CertConfig := Some \<lparr> sk_CertName = Some (cc_CertName c),
                  sk_Certificate = Some (cc_CertPEM c), sk_PrivateKey = Some (cc_KeyPEM c) \<rparr>\<rparr>
              | None \<Rightarrow> base))"

definition missing_body :: gerror where
  "missing_body = AliyunError ClassRetryable ActionGetCustomDomain CodeEmptyResponse (Plain ''the response has no body'')"

definition sdk_fc3_GetCustomDomain :: "'w sdk_env \<Rightarrow> 'w sdkFC3 \<Rightarrow> string \<Rightarrow> ('w, gerror + CustomDomain) state" where
  "sdk_fc3_GetCustomDomain ev s domain = do {
     werr \<leftarrow> Wait ev (sf_limiters s) (ff_LimiterKey (sf_cfg s)) LimitFC3;
     (case werr of
        Some err \<Rightarrow> ret (Inl (the (Classify ActionGetCustomDomain (Some err))))
      | None \<Rightarrow> do {
          start \<leftarrow> sv_now ev;
          resp \<leftarrow> sdk_GetCustomDomain (sf_api s) domain;
          let cerr = Classify ActionGetCustomDomain (err_of resp);
          observe ev (ff_OnCall (sf_cfg s)) ActionGetCustomDomain start cerr;
          ret (case cerr of
             Some err \<Rightarrow> Inl err
           | None \<Rightarrow> (case resp of
               Inr (Some body) \<Rightarrow> Inr (customDomainFromSDK body)
             | _ \<Rightarrow> Inl missing_body))
        })
   }"

definition nil_input :: gerror where
  "nil_input = AliyunError ClassPermanent ActionUpdateCustomDomain ''NilInput'' (Plain ''the update is nil'')"

text \<open>The pointer to the update may be nil.\<close>

definition sdk_fc3_UpdateCustomDomain ::
  "'w sdk_env \<Rightarrow> 'w sdkFC3 \<Rightarrow> string \<Rightarrow> UpdateCustomDomainInput option \<Rightarrow> ('w, gerror option) state" where
  "sdk_fc3_UpdateCustomDomain ev s domain i = (case i of
     None \<Rightarrow> ret (Some nil_input)
   | Some i \<Rightarrow> (case updateInputToSDK i of
       Inl err \<Rightarrow> ret (Some err)
     | Inr body \<Rightarrow> do {
         werr \<leftarrow> Wait ev (sf_limiters s) (ff_LimiterKey (sf_cfg s)) LimitFC3;
         (case werr of
            Some err \<Rightarrow> ret (Classify ActionUpdateCustomDomain (Some err))
          | None \<Rightarrow> do {
              start \<leftarrow> sv_now ev;
              resp \<leftarrow> sdk_UpdateCustomDomain (sf_api s) domain body;
              let cerr = Classify ActionUpdateCustomDomain (err_of resp);
              observe ev (ff_OnCall (sf_cfg s)) ActionUpdateCustomDomain start cerr;
              ret cerr
            })
       }))"

definition sdk_fc3 :: "'w sdk_env \<Rightarrow> 'w sdkFC3 \<Rightarrow> 'w FC3Client" where
  "sdk_fc3 ev s = \<lparr> fc3_GetCustomDomain = sdk_fc3_GetCustomDomain ev s,
     fc3_UpdateCustomDomain = (\<lambda>d i. sdk_fc3_UpdateCustomDomain ev s d (Some i)) \<rparr>"

section \<open>Lemmas\<close>

lemma updateInputToSDK_echo:
  assumes "ui_Echo i = cd_Echo (customDomainFromSDK d)"
  shows "updateInputToSDK i = Inr \<lparr> up_AuthConfig = sd_AuthConfig d, up_CorsConfig = sd_CorsConfig d,
    up_RouteConfig = sd_RouteConfig d, up_TlsConfig = sd_TlsConfig d, up_WafConfig = sd_WafConfig d,
    up_Protocol = (if ui_Protocol i = [] then None else Some (ui_Protocol i)),
    up_CertConfig = (if ui_ClearCert i
       then Some \<lparr> sk_CertName = Some [], sk_Certificate = Some [], sk_PrivateKey = Some [] \<rparr>
       else map_option (\<lambda>c. \<lparr> sk_CertName = Some (cc_CertName c), sk_Certificate = Some (cc_CertPEM c),
         sk_PrivateKey = Some (cc_KeyPEM c) \<rparr>) (ui_CertConfig i)) \<rparr>"
  using assms by (simp add: updateInputToSDK_def customDomainFromSDK_def Let_def split: option.splits)

section \<open>Properties\<close>

text \<open>
  C23. A private key that comes back from FC3 goes no further: the view of a domain does not
  depend on it, and no update built over the echo of a domain sends a private key other than
  the one it was given.
\<close>

theorem fc3_private_key_dropped:
  "customDomainFromSDK (d\<lparr>sd_CertConfig := Some (c\<lparr>sk_PrivateKey := k\<rparr>)\<rparr>) =
     customDomainFromSDK (d\<lparr>sd_CertConfig := Some (c\<lparr>sk_PrivateKey := k'\<rparr>)\<rparr>)
   \<and> (case updateInputToSDK \<lparr> ui_Protocol = p, ui_CertConfig = cfg, ui_ClearCert = clear,
          ui_Echo = cd_Echo (customDomainFromSDK d) \<rparr> of
        Inl _ \<Rightarrow> False
      | Inr body \<Rightarrow> (case Option.bind (up_CertConfig body) sk_PrivateKey of
          None \<Rightarrow> \<not> clear \<and> cfg = None
        | Some sent \<Rightarrow> sent = (if clear then [] else cc_KeyPEM (the cfg))))"
  by (cases cfg; cases clear; subst updateInputToSDK_echo) (simp_all add: customDomainFromSDK_def)

end
