(* ===== verification/Fc3_Provider.thy ===== *)
theory Fc3_Provider
  imports Target_Contract Fc3_Sdk Fakes Pki
begin

text \<open>
  The provider of Function Compute custom domains (\<open>pkg/provider/fc3\<close>): the protocol list of
  a domain, \<open>Observe\<close> by the fingerprint of the PEM in service, \<open>Apply\<close> and \<open>Cleanup\<close> as a
  read followed by a write of the whole domain.
\<close>

section \<open>Protocols\<close>

abbreviation protocolHTTP :: string where "protocolHTTP \<equiv> ''HTTP''"
abbreviation protocolHTTPS :: string where "protocolHTTPS \<equiv> ''HTTPS''"
abbreviation protocolBoth :: string where "protocolBoth \<equiv> ''HTTP,HTTPS''"

definition splitProtocol :: "string \<Rightarrow> string set" where
  "splitProtocol p = set (filter (\<lambda>s. s \<noteq> []) (map (\<lambda>part. ToUpper (TrimSpace part)) (Split p (CHR '',''))))"

definition protocolHasHTTPS :: "string \<Rightarrow> bool" where
  "protocolHasHTTPS p \<longleftrightarrow> protocolHTTPS \<in> splitProtocol p"

definition isHTTPSOnly :: "string \<Rightarrow> bool" where
  "isHTTPSOnly p \<longleftrightarrow> protocolHTTPS \<in> splitProtocol p \<and> protocolHTTP \<notin> splitProtocol p"

section \<open>The provider\<close>

definition fc3_Capabilities :: Capabilities where
  "fc3_Capabilities = \<lparr> ReferencesCertByID = False, SupportsProtocolSwitch = True, RequiresCASUpload = False \<rparr>"

definition fc3_toProviderError :: "string \<Rightarrow> gerror \<Rightarrow> string \<Rightarrow> gerror option" where
  "fc3_toProviderError op err failReason = ToProviderError op (Some err) failReason"

definition fc3_swallowNotFound :: "gerror option \<Rightarrow> gerror option" where
  "fc3_swallowNotFound err = SwallowNotFound err"

definition fc3_clientOf :: "'w Client \<Rightarrow> gerror + 'w FC3Client" where
  "fc3_clientOf c = (case c of
     FC3Cl cl \<Rightarrow> Inr cl
   | OSSCl _ \<Rightarrow> Inl (Errorf CodeInvalidClient False ReasonApplyFailed (Plain ''not an aliyun.FC3Client'')))"

definition observed_of :: "crypto_env \<Rightarrow> CustomDomain \<Rightarrow> ObservedState" where
  "observed_of env cd =
     (let obs = \<lparr> o_CurrentFingerprint = [], o_CurrentCertRef = [], o_Protocol = cd_Protocol cd, o_AccountID = cd_AccountID cd \<rparr>
      in if cd_CertificatePEM cd \<noteq> []
         then (case LeafFingerprint env (cd_CertificatePEM cd) of
             Inl _ \<Rightarrow> obs
           | Inr fp \<Rightarrow> obs\<lparr>o_CurrentFingerprint := fp\<rparr>)
         else obs)"

definition fc3_Observe :: "crypto_env \<Rightarrow> Target \<Rightarrow> 'w Client \<Rightarrow> ('w, gerror + ObservedState) state" where
  "fc3_Observe env t c = (case fc3_clientOf c of
     Inl err \<Rightarrow> ret (Inl err)
   | Inr cl \<Rightarrow> do {
       r \<leftarrow> fc3_GetCustomDomain cl (tg_Identifier t);
       (case r of
          Inl err \<Rightarrow> ret (Inl (the (fc3_toProviderError ActionGetCustomDomain err ReasonObserveFailed)))
        | Inr cd \<Rightarrow> ret (Inr (observed_of env cd)))
     })"

text \<open>The body of the write of \<open>Apply\<close>.\<close>

definition apply_input :: "CustomDomain \<Rightarrow> CertMaterial \<Rightarrow> ApplyOptions \<Rightarrow> UpdateCustomDomainInput" where
  "apply_input cd m ao =
     (let i = \<lparr> ui_Protocol = cd_Protocol cd,
            ui_CertConfig = Some \<lparr> cc_CertName = m_CASName m, cc_CertPEM = m_CertPEM m, cc_KeyPEM = m_KeyPEM m \<rparr>,
            ui_ClearCert = False, ui_Echo = cd_Echo cd \<rparr>
      in if ao_EnsureHTTPSProtocol ao \<and> \<not> protocolHasHTTPS (cd_Protocol cd)
         then i\<lparr>ui_Protocol := protocolBoth\<rparr> else i)"

definition no_cas_name :: gerror where
  "no_cas_name = Errorf CodePermanent False ReasonApplyFailed (Plain ''CertMaterial.CASName is empty'')"

definition fc3_Apply :: "Target \<Rightarrow> 'w Client \<Rightarrow> CertMaterial \<Rightarrow> ApplyOptions \<Rightarrow> ('w, gerror option) state" where
  "fc3_Apply t c m ao = (case fc3_clientOf c of
     Inl err \<Rightarrow> ret (Some err)
   | Inr cl \<Rightarrow>
       if m_CASName m = [] then ret (Some no_cas_name)
       else do {
         r \<leftarrow> fc3_GetCustomDomain cl (tg_Identifier t);
         (case r of
            Inl err \<Rightarrow> ret (fc3_toProviderError ActionGetCustomDomain err ReasonApplyFailed)
          | Inr cd \<Rightarrow> do {
              u \<leftarrow> fc3_UpdateCustomDomain cl (tg_Identifier t) (apply_input cd m ao);
              ret (case u of
                 Some err \<Rightarrow> fc3_toProviderError ActionUpdateCustomDomain err ReasonApplyFailed
               | None \<Rightarrow> None)
            })
       })"

definition cleanup_input :: "CustomDomain \<Rightarrow> UpdateCustomDomainInput" where
  "cleanup_input cd =
     (let i = \<lparr> ui_Protocol = cd_Protocol cd, ui_CertConfig = None, ui_ClearCert = True, ui_Echo = cd_Echo cd \<rparr>
      in if isHTTPSOnly (cd_Protocol cd) then i\<lparr>ui_Protocol := protocolHTTP\<rparr> else i)"

definition fc3_Cleanup :: "Target \<Rightarrow> 'w Client \<Rightarrow> string \<Rightarrow> ('w, gerror option) state" where
  "fc3_Cleanup t c policy =
     (if policy \<noteq> DeletionPolicyUnbind then ret None
      else case fc3_clientOf c of
        Inl err \<Rightarrow> ret (Some err)
      | Inr cl \<Rightarrow> do {
          r \<leftarrow> fc3_GetCustomDomain cl (tg_Identifier t);
          (case r of
             Inl err \<Rightarrow> ret (fc3_swallowNotFound (fc3_toProviderError ActionGetCustomDomain err ReasonCleanupFailed))
           | Inr cd \<Rightarrow> do {
               u \<leftarrow> fc3_UpdateCustomDomain cl (tg_Identifier t) (cleanup_input cd);
               ret (case u of
                  Some err \<Rightarrow> fc3_swallowNotFound (fc3_toProviderError ActionUpdateCustomDomain err ReasonCleanupFailed)
                | None \<Rightarrow> None)
             })
        })"

definition fc3_provider :: "crypto_env \<Rightarrow> 'w Provider" where
  "fc3_provider env = \<lparr> pv_Name = TargetTypeFC3CustomDomain, pv_Capabilities = fc3_Capabilities,
     pv_Observe = fc3_Observe env, pv_Apply = fc3_Apply, pv_Cleanup = fc3_Cleanup \<rparr>"

section \<open>The provider over the in-memory FC3\<close>

text \<open>The fingerprint of what a domain serves; empty for no certificate and for one that
  does not parse.\<close>

definition fp_of :: "crypto_env \<Rightarrow> bytes \<Rightarrow> string" where
  "fp_of env pem = (if pem = [] then [] else case LeafFingerprint env pem of Inr fp \<Rightarrow> fp | Inl _ \<Rightarrow> [])"

definition fc3_view :: "crypto_env \<Rightarrow> FC3 \<Rightarrow> Target \<Rightarrow> string option" where
  "fc3_view env w t = map_option (\<lambda>d. fp_of env (dm_CertPEM d)) (domains w (tg_Identifier t))"

definition fc3_same :: "Target \<Rightarrow> Target \<Rightarrow> bool" where
  "fc3_same t t' \<longleftrightarrow> tg_Identifier t = tg_Identifier t'"

text \<open>Injected errors are real ones: none of them says that the domain is missing.\<close>

definition fc3_inv :: "FC3 \<Rightarrow> bool" where
  "fc3_inv w \<longleftrightarrow> (\<forall>e \<in> set (getErrs w) \<union> set (updateErrs w) \<union> set_option (alwaysUpdateErr w) \<union>
     set_option (fc3_failAfterCommit w). ClassOf e \<noteq> ClassNotFound)"

lemma fp_of_Nil [simp]: "fp_of env [] = []"
  by (simp add: fp_of_def)

lemma observed_fp: "o_CurrentFingerprint (observed_of env cd) = fp_of env (cd_CertificatePEM cd)"
  by (simp add: observed_of_def fp_of_def Let_def split: sum.splits)

lemma swallow_NotFound_None:
  "SwallowNotFound (ToProviderError op (Some e) rs) = None \<longleftrightarrow> ClassOf e = ClassNotFound"
proof -
  obtain e' where e': "ToProviderError op (Some e) rs = Some e'" using ToProviderError_Some by blast
  then show ?thesis
    using ErrorOf_ToProviderError [OF e'] by (cases "ClassOf e") (auto simp: SwallowNotFound_def)
qed

lemma ErrorOf_NotFound:
  "ErrorOf (the (ToProviderError op (Some e) rs)) = Some (CodeTargetNotFound, b, r) \<Longrightarrow> ClassOf e = ClassNotFound"
proof -
  obtain e' where e': "ToProviderError op (Some e) rs = Some e'" using ToProviderError_Some by blast
  then show "ErrorOf (the (ToProviderError op (Some e) rs)) = Some (CodeTargetNotFound, b, r) \<Longrightarrow> ?thesis"
    using ErrorOf_ToProviderError [OF e'] by (cases "ClassOf e") (auto split: if_splits)
qed

definition domain_view :: "FC3 \<Rightarrow> Domain \<Rightarrow> CustomDomain" where
  "domain_view w d = \<lparr> cd_AccountID = accountID w, cd_DomainName = dm_DomainName d, cd_Protocol = dm_Protocol d,
     cd_CertName = dm_CertName d, cd_CertificatePEM = dm_CertPEM d, cd_Echo = dm_Echo d \<rparr>"

text \<open>What an update makes of a domain.\<close>

definition updated :: "Domain \<Rightarrow> UpdateCustomDomainInput \<Rightarrow> Domain" where
  "updated d i =
     (let d1 = d\<lparr>dm_Protocol := ui_Protocol i\<rparr>;
          d2 = (if ui_ClearCert i then d1\<lparr>dm_CertName := [], dm_CertPEM := [], dm_KeyPEM := []\<rparr>
                else case ui_CertConfig i of
                    Some c \<Rightarrow> d1\<lparr>dm_CertName := cc_CertName c, dm_CertPEM := cc_CertPEM c, dm_KeyPEM := cc_KeyPEM c\<rparr>
                  | None \<Rightarrow> d1)
      in d2\<lparr>dm_Echo := ui_Echo i\<rparr>)"

lemma fake_GetCustomDomain_spec:
  assumes "run_state (fake_GetCustomDomain d) w = (r, w')" "fc3_inv w"
  shows "fc3_inv w' \<and> domains w' = domains w \<and>
    (case r of Inr cd \<Rightarrow> \<exists>dm. domains w d = Some dm \<and> cd = domain_view w dm
     | Inl e \<Rightarrow> ClassOf e = ClassNotFound \<longrightarrow> domains w d = None)"
proof (cases "getErrs w")
  case Nil
  then show ?thesis using assms
    by (cases "domains w d") (auto simp: fake_GetCustomDomain_def domain_view_def)
next
  case (Cons e q)
  then show ?thesis using assms by (auto simp: fake_GetCustomDomain_def fc3_inv_def)
qed

lemma fake_UpdateCustomDomain_spec:
  assumes "run_state (fake_UpdateCustomDomain d i) w = (a, w')" "fc3_inv w"
  shows "fc3_inv w' \<and> (a = None \<longrightarrow> (\<exists>dm. domains w d = Some dm \<and> domains w' = (domains w)(d \<mapsto> updated dm i))) \<and>
    (domains w' = domains w \<or> (\<exists>dm. domains w d = Some dm \<and> domains w' = (domains w)(d \<mapsto> updated dm i))) \<and>
    (\<forall>e. a = Some e \<longrightarrow> ClassOf e = ClassNotFound \<longrightarrow> domains w' d = None)"
proof (cases "alwaysUpdateErr w")
  case (Some e)
  then show ?thesis using assms by (auto simp: fake_UpdateCustomDomain_def fc3_inv_def)
next
  case None
  show ?thesis
  proof (cases "updateErrs w")
    case (Cons e q)
    with None show ?thesis using assms by (auto simp: fake_UpdateCustomDomain_def fc3_inv_def)
  next
    case Nil
    show ?thesis
    proof (cases "domains w d")
      case None
      with \<open>alwaysUpdateErr w = None\<close> Nil show ?thesis using assms by (auto simp: fake_UpdateCustomDomain_def)
    next
      case (Some dm)
      have r: "ClassOf (updateRejected c m) \<noteq> ClassNotFound" for c m by (simp add: updateRejected_def ClassOf_def)
      show ?thesis
      proof (cases "validateUpdate i")
        case (Some e)
        then have "ClassOf e \<noteq> ClassNotFound" by (auto simp: validateUpdate_def r split: if_splits)
        with Some \<open>domains w d = Some dm\<close> \<open>alwaysUpdateErr w = None\<close> Nil show ?thesis
          using assms by (auto simp: fake_UpdateCustomDomain_def)
      next
        case None
        then have "run_state (fake_UpdateCustomDomain d i) w =
           (fc3_failAfterCommit w, w\<lparr>domains := (domains w)(d \<mapsto> updated dm i), fc3_failAfterCommit := None\<rparr>)"
          using \<open>domains w d = Some dm\<close> \<open>alwaysUpdateErr w = None\<close> Nil
          by (cases "fc3_failAfterCommit w") (simp_all add: fake_UpdateCustomDomain_def updated_def Let_def)
        then show ?thesis using assms \<open>domains w d = Some dm\<close> by (auto simp: fc3_inv_def)
      qed
    qed
  qed
qed

lemma fc3_read_write:
  assumes "run_state (do { r \<leftarrow> fake_GetCustomDomain d; (case r of Inl err \<Rightarrow> ret (f err)
      | Inr cd \<Rightarrow> do { u \<leftarrow> fake_UpdateCustomDomain d (i cd); ret (case u of Some err \<Rightarrow> g err | None \<Rightarrow> None) }) }) w = (a, w')"
    and "fc3_inv w"
  shows "fc3_inv w' \<and> (\<forall>x. x \<noteq> d \<longrightarrow> domains w' x = domains w x) \<and>
    (a = None \<longrightarrow> (\<exists>dm. domains w d = Some dm \<and> domains w' d = Some (updated dm (i (domain_view w dm))))
      \<or> (\<exists>e. f e = None \<and> (ClassOf e = ClassNotFound \<longrightarrow> domains w' d = None))
      \<or> (\<exists>e. g e = None \<and> (ClassOf e = ClassNotFound \<longrightarrow> domains w' d = None)))"
proof -
  obtain r w1 where g: "run_state (fake_GetCustomDomain d) w = (r, w1)" by (cases "run_state (fake_GetCustomDomain d) w")
  note G = fake_GetCustomDomain_spec [OF g assms(2)]
  show ?thesis
  proof (cases r)
    case (Inl e)
    then show ?thesis using assms(1) g G by auto
  next
    case (Inr cd)
    obtain u w2 where u: "run_state (fake_UpdateCustomDomain d (i cd)) w1 = (u, w2)"
      by (cases "run_state (fake_UpdateCustomDomain d (i cd)) w1")
    have *: "w' = w2" "a = (case u of Some err \<Rightarrow> g err | None \<Rightarrow> None)" using assms(1) g u Inr by auto
    from G Inr have G': "fc3_inv w1" "domains w1 = domains w" "\<exists>dm. domains w d = Some dm \<and> cd = domain_view w dm" by auto
    obtain dm where dm: "domains w d = Some dm" "cd = domain_view w dm" using G'(3) by blast
    note U = fake_UpdateCustomDomain_spec [OF u G'(1)]
    then have frame: "fc3_inv w2" "\<forall>x. x \<noteq> d \<longrightarrow> domains w2 x = domains w x" using G'(2) by auto
    show ?thesis
    proof (cases u)
      case None
      then have "domains w2 d = Some (updated dm (i cd))" using U dm G'(2) by auto
      with frame dm * None show ?thesis by simp
    next
      case (Some e)
      then have "ClassOf e = ClassNotFound \<longrightarrow> domains w2 d = None" using U by blast
      with frame * Some show ?thesis by auto
    qed
  qed
qed

lemma fc3_Observe_fake:
  "fc3_Observe env t (FC3Cl fake_fc3) = do {
     r \<leftarrow> fake_GetCustomDomain (tg_Identifier t);
     (case r of
        Inl err \<Rightarrow> ret (Inl (the (ToProviderError ActionGetCustomDomain (Some err) ReasonObserveFailed)))
      | Inr cd \<Rightarrow> ret (Inr (observed_of env cd))) }"
  by (simp add: fc3_Observe_def fc3_clientOf_def fake_fc3_def fc3_toProviderError_def)

lemma fc3_Observe_spec:
  assumes "run_state (fc3_Observe env t (FC3Cl fake_fc3)) w = (r, w')" "fc3_inv w"
  shows "fc3_inv w' \<and> domains w' = domains w \<and> (case r of
     Inr obs \<Rightarrow> \<exists>dm. domains w (tg_Identifier t) = Some dm \<and> obs = observed_of env (domain_view w dm)
   | Inl e \<Rightarrow> (\<exists>b rs. ErrorOf e = Some (CodeTargetNotFound, b, rs)) \<longrightarrow> domains w (tg_Identifier t) = None)"
proof -
  obtain g w1 where g: "run_state (fake_GetCustomDomain (tg_Identifier t)) w = (g, w1)"
    by (cases "run_state (fake_GetCustomDomain (tg_Identifier t)) w")
  from fake_GetCustomDomain_spec [OF g assms(2)] show ?thesis
  proof (cases g)
    case (Inl e)
    with fake_GetCustomDomain_spec [OF g assms(2)] show ?thesis
      using assms(1) g ErrorOf_NotFound by (auto simp: fc3_Observe_fake)
  next
    case (Inr cd)
    with fake_GetCustomDomain_spec [OF g assms(2)] show ?thesis
      using assms(1) g by (auto simp: fc3_Observe_fake)
  qed
qed

lemma fc3_Apply_spec:
  assumes "run_state (fc3_Apply t (FC3Cl fake_fc3) m ao) w = (a, w')" "fc3_inv w"
  shows "fc3_inv w' \<and> (\<forall>x. x \<noteq> tg_Identifier t \<longrightarrow> domains w' x = domains w x) \<and>
    (a = None \<longrightarrow> (\<exists>dm. domains w (tg_Identifier t) = Some dm \<and>
       domains w' (tg_Identifier t) = Some (updated dm (apply_input (domain_view w dm) m ao))))"
proof (cases "m_CASName m = []")
  case True
  then show ?thesis using assms by (auto simp: fc3_Apply_def fc3_clientOf_def)
next
  case False
  then have *: "fc3_Apply t (FC3Cl fake_fc3) m ao = (do { r \<leftarrow> fake_GetCustomDomain (tg_Identifier t); (case r of
      Inl err \<Rightarrow> ret (ToProviderError ActionGetCustomDomain (Some err) ReasonApplyFailed)
    | Inr cd \<Rightarrow> do { u \<leftarrow> fake_UpdateCustomDomain (tg_Identifier t) (apply_input cd m ao);
        ret (case u of Some err \<Rightarrow> ToProviderError ActionUpdateCustomDomain (Some err) ReasonApplyFailed | None \<Rightarrow> None) }) })"
    unfolding fc3_Apply_def fc3_toProviderError_def fc3_clientOf_def fake_fc3_def by simp
  have "ToProviderError op (Some e) rs \<noteq> None" for op e rs using ToProviderError_Some by fastforce
  with fc3_read_write [OF assms(1) [unfolded *] assms(2)] show ?thesis by blast
qed

lemma fc3_Cleanup_spec:
  assumes "run_state (fc3_Cleanup t (FC3Cl fake_fc3) DeletionPolicyUnbind) w = (a, w')" "fc3_inv w"
  shows "fc3_inv w' \<and> (\<forall>x. x \<noteq> tg_Identifier t \<longrightarrow> domains w' x = domains w x) \<and>
    (a = None \<longrightarrow> domains w' (tg_Identifier t) = None \<or> (\<exists>dm. domains w (tg_Identifier t) = Some dm \<and>
       domains w' (tg_Identifier t) = Some (updated dm (cleanup_input (domain_view w dm)))))"
proof -
  have *: "fc3_Cleanup t (FC3Cl fake_fc3) DeletionPolicyUnbind = (do { r \<leftarrow> fake_GetCustomDomain (tg_Identifier t); (case r of
      Inl err \<Rightarrow> ret (SwallowNotFound (ToProviderError ActionGetCustomDomain (Some err) ReasonCleanupFailed))
    | Inr cd \<Rightarrow> do { u \<leftarrow> fake_UpdateCustomDomain (tg_Identifier t) (cleanup_input cd);
        ret (case u of Some err \<Rightarrow> SwallowNotFound (ToProviderError ActionUpdateCustomDomain (Some err) ReasonCleanupFailed)
             | None \<Rightarrow> None) }) })"
    unfolding fc3_Cleanup_def fc3_toProviderError_def fc3_swallowNotFound_def fc3_clientOf_def fake_fc3_def by simp
  from fc3_read_write [OF assms(1) [unfolded *] assms(2)] show ?thesis
    unfolding swallow_NotFound_None by metis
qed

lemma input_simps [simp]:
  "ui_Protocol (apply_input cd m ao) =
     (if ao_EnsureHTTPSProtocol ao \<and> \<not> protocolHasHTTPS (cd_Protocol cd) then protocolBoth else cd_Protocol cd)"
  "ui_ClearCert (apply_input cd m ao) = False"
  "ui_CertConfig (apply_input cd m ao) =
     Some \<lparr> cc_CertName = m_CASName m, cc_CertPEM = m_CertPEM m, cc_KeyPEM = m_KeyPEM m \<rparr>"
  "ui_Echo (apply_input cd m ao) = cd_Echo cd"
  "ui_Protocol (cleanup_input cd) = (if isHTTPSOnly (cd_Protocol cd) then protocolHTTP else cd_Protocol cd)"
  "ui_ClearCert (cleanup_input cd) = True"
  "ui_CertConfig (cleanup_input cd) = None"
  "ui_Echo (cleanup_input cd) = cd_Echo cd"
  by (simp_all add: apply_input_def cleanup_input_def Let_def)

lemma updated_apply_input [simp]:
  "dm_CertPEM (updated dm (apply_input cd m ao)) = m_CertPEM m"
  "dm_Protocol (updated dm (apply_input cd m ao)) =
     (if ao_EnsureHTTPSProtocol ao \<and> \<not> protocolHasHTTPS (cd_Protocol cd) then protocolBoth else cd_Protocol cd)"
  "dm_Echo (updated dm (apply_input cd m ao)) = cd_Echo cd"
  by (simp_all add: updated_def Let_def)

lemma updated_cleanup_input [simp]:
  "dm_CertPEM (updated dm (cleanup_input cd)) = []"
  "dm_Protocol (updated dm (cleanup_input cd)) =
     (if isHTTPSOnly (cd_Protocol cd) then protocolHTTP else cd_Protocol cd)"
  "dm_Echo (updated dm (cleanup_input cd)) = cd_Echo cd"
  by (simp_all add: updated_def Let_def)

interpretation fc3t: cert_target "fc3_provider env" "FC3Cl fake_fc3" o_CurrentFingerprint
  "\<lambda>m. fp_of env (m_CertPEM m)" "fc3_view env" fc3_same fc3_inv
  for env
proof (unfold_locales, goal_cases)
  case (1 t t' w)
  then show ?case by (simp add: fc3_same_def fc3_view_def)
next
  case (2 w t r w')
  then show ?case using fc3_Observe_spec [of env t w r w'] by (simp add: fc3_provider_def fc3_view_def fun_eq_iff)
next
  case (3 w t obs w')
  then show ?case
    using fc3_Observe_spec [of env t w "Inr obs" w'] observed_fp by (auto simp: fc3_provider_def fc3_view_def domain_view_def)
next
  case (4 w t e w' b rs)
  then show ?case using fc3_Observe_spec [of env t w "Inl e" w'] by (auto simp: fc3_provider_def fc3_view_def)
next
  case (5 w t m ao a w')
  then show ?case using fc3_Apply_spec [of t m ao w a w'] by (simp add: fc3_provider_def)
next
  case (6 w t m ao w')
  then show ?case using fc3_Apply_spec [of t m ao w None w'] by (auto simp: fc3_provider_def fc3_view_def)
next
  case (7 w t m ao a w' t')
  then show ?case using fc3_Apply_spec [of t m ao w a w'] by (simp add: fc3_provider_def fc3_view_def fc3_same_def)
next
  case (8 p t w)
  then show ?case by (simp add: fc3_provider_def fc3_Cleanup_def)
next
  case (9 w t p a w')
  then show ?case using fc3_Cleanup_spec [of t w a w']
    by (cases "p = DeletionPolicyUnbind") (auto simp: fc3_provider_def fc3_Cleanup_def)
next
  case (10 w t w')
  then show ?case using fc3_Cleanup_spec [of t w None w'] by (auto simp: fc3_provider_def fc3_view_def)
next
  case (11 w t p a w' t')
  then show ?case using fc3_Cleanup_spec [of t w a w']
    by (cases "p = DeletionPolicyUnbind") (auto simp: fc3_provider_def fc3_Cleanup_def fc3_view_def fc3_same_def)
qed

section \<open>The semantics of an update\<close>

text \<open>The documentation of FC3 leaves open whether an update replaces a domain or merges
  into it: the two readings, as functions on the domain.\<close>

definition server_replace :: "sdk_custom_domain \<Rightarrow> sdk_update_body \<Rightarrow> sdk_custom_domain" where
  "server_replace d b = d\<lparr>sd_Protocol := up_Protocol b, sd_CertConfig := up_CertConfig b, sd_AuthConfig := up_AuthConfig b,
     sd_CorsConfig := up_CorsConfig b, sd_RouteConfig := up_RouteConfig b, sd_TlsConfig := up_TlsConfig b,
     sd_WafConfig := up_WafConfig b\<rparr>"

definition or_old :: "'a option \<Rightarrow> 'a option \<Rightarrow> 'a option" where
  "or_old new old = (case new of Some x \<Rightarrow> Some x | None \<Rightarrow> old)"

definition server_merge :: "sdk_custom_domain \<Rightarrow> sdk_update_body \<Rightarrow> sdk_custom_domain" where
  "server_merge d b = d\<lparr>sd_Protocol := or_old (up_Protocol b) (sd_Protocol d), sd_CertConfig := or_old (up_CertConfig b) (sd_CertConfig d),
     sd_AuthConfig := or_old (up_AuthConfig b) (sd_AuthConfig d), sd_CorsConfig := or_old (up_CorsConfig b) (sd_CorsConfig d),
     sd_RouteConfig := or_old (up_RouteConfig b) (sd_RouteConfig d), sd_TlsConfig := or_old (up_TlsConfig b) (sd_TlsConfig d),
     sd_WafConfig := or_old (up_WafConfig b) (sd_WafConfig d)\<rparr>"

lemma or_old_self [simp]: "or_old x x = x"
  by (simp add: or_old_def split: option.splits)

lemma or_old_Some [simp]: "or_old (Some x) y = Some x"
  by (simp add: or_old_def)

section \<open>Properties\<close>

text \<open>
  C24. What \<open>Apply\<close> installs is what \<open>Observe\<close> reports: on the in-memory FC3, after a
  successful \<open>Apply\<close> and any sequence of provider operations that writes only other
  domains, whatever errors they meet, an observation that succeeds reports the fingerprint
  of the certificate applied, so the next reconcile finds nothing to do.
\<close>

theorem fc3_apply_observed:
  assumes "fc3_inv w" and "run_state (fc3_Apply t (FC3Cl fake_fc3) m ao) w = (None, w1)"
    and "\<forall>x \<in> set xs. op_writes x \<longrightarrow> \<not> fc3_same (op_target x) t"
    and "run_state (fc3_Observe env t (FC3Cl fake_fc3)) (fc3t.steps env xs w1) = (Inr obs, w2)"
  shows "o_CurrentFingerprint obs = fp_of env (m_CertPEM m)"
  using fc3t.applied_is_observed [where env = env and w = w and t = t and m = m and ao = ao and ?w1.0 = w1 and xs = xs and obs = obs] assms by (simp add: fc3_provider_def)

text \<open>
  C25. A clean-up on FC3 takes the certificate and nothing else: with policy Orphan the cloud
  is not even asked; a successful Unbind leaves the domain gone or without a certificate, on
  protocol HTTP if it was served over HTTPS only and on its old protocol otherwise, with the
  settings the operator does not manage unchanged; other domains are never touched.
\<close>

theorem fc3_cleanup_unbinds:
  assumes "fc3_inv w" and "run_state (fc3_Cleanup t (FC3Cl fake_fc3) policy) w = (None, w')"
  shows "(\<forall>x. x \<noteq> tg_Identifier t \<longrightarrow> domains w' x = domains w x) \<and>
    (if policy \<noteq> DeletionPolicyUnbind then w' = w
     else case domains w' (tg_Identifier t) of
         None \<Rightarrow> True
       | Some d' \<Rightarrow> (case domains w (tg_Identifier t) of
           None \<Rightarrow> False
         | Some d \<Rightarrow> dm_CertPEM d' = [] \<and> dm_Echo d' = dm_Echo d \<and>
             dm_Protocol d' = (if isHTTPSOnly (dm_Protocol d) then ''HTTP'' else dm_Protocol d)))"
proof (cases "policy = DeletionPolicyUnbind")
  case True
  with fc3_Cleanup_spec [of t w None w'] assms show ?thesis
    by (auto simp: domain_view_def split: option.splits)
next
  case False
  with assms show ?thesis by (simp add: fc3_Cleanup_def)
qed

text \<open>
  The writes do not depend on what the API leaves open: for a domain with a protocol,
  the update that \<open>Apply\<close> and the one that \<open>Cleanup\<close> build from it have the same effect
  whether the server merges an update or replaces the domain by it, and both leave every
  setting but the protocol and the certificate as it was.
\<close>

lemma fc3_update_semantics_agree:
  assumes "sd_Protocol d = Some p" and "p \<noteq> []"
    and "i = apply_input (customDomainFromSDK d) m ao \<or> i = cleanup_input (customDomainFromSDK d)"
  shows "case updateInputToSDK i of
      Inl _ \<Rightarrow> False
    | Inr b \<Rightarrow> server_merge d b = server_replace d b \<and>
        server_replace d b = d\<lparr>sd_Protocol := Some (ui_Protocol i), sd_CertConfig := up_CertConfig b\<rparr> \<and>
        up_CertConfig b \<noteq> None"
proof -
  have echo: "ui_Echo i = cd_Echo (customDomainFromSDK d)"
    using assms(3) by auto
  have "cd_Protocol (customDomainFromSDK d) = p"
    using assms(1) by (simp add: customDomainFromSDK_def StringValue_def)
  then have "ui_Protocol i \<noteq> []"
    using assms(2,3) by (elim disjE) simp_all
  moreover have "ui_ClearCert i \<or> (\<exists>c. ui_CertConfig i = Some c)"
    using assms(3) by auto
  ultimately show ?thesis
    unfolding updateInputToSDK_echo [OF echo]
    by (auto simp: server_merge_def server_replace_def)
qed

section \<open>Witnesses\<close>

definition sample_domain :: Domain where
  "sample_domain = \<lparr> dm_DomainName = ''a.b.c'', dm_Protocol = ''HTTPS'', dm_CertName = ''old'', dm_CertPEM = ''old'',
     dm_KeyPEM = ''key'', dm_Echo = EchoOther ''routes'' \<rparr>"

definition sample_fc3 :: FC3 where
  "sample_fc3 = AddDomain sample_domain (NewFC3\<lparr>accountID := ''1''\<rparr>)"

definition sample_target :: Target where
  "sample_target = \<lparr> tg_Type = TargetTypeFC3CustomDomain, tg_Region = ''cn-hangzhou'', tg_Identifier = ''a.b.c'',
     tg_Spec = SpecFC3 \<lparr> fc_Region = ''cn-hangzhou'', fc_DomainName = ''a.b.c'', fc_EnsureHTTPSProtocol = False \<rparr> \<rparr>"

definition sample_pem_material :: CertMaterial where
  "sample_pem_material = (sample_material None []) \<lparr> m_CertPEM := sample_certPEM ''a.b.c'' \<rparr>"

lemma sample_fc3_inv: "fc3_inv sample_fc3"
  by (simp add: fc3_inv_def sample_fc3_def AddDomain_def NewFC3_def)

lemma sample_apply:
  "\<exists>w1. run_state (fc3_Apply sample_target (FC3Cl fake_fc3) sample_pem_material
      \<lparr> ao_EnsureHTTPSProtocol = False, ao_PreviousFingerprint = [] \<rparr>) sample_fc3 = (None, w1)
    \<and> getErrs w1 = [] \<and> domains w1 ''a.b.c'' \<noteq> None"
  by (simp add: fc3_Apply_def fc3_clientOf_def fake_fc3_def fake_GetCustomDomain_def fake_UpdateCustomDomain_def
      sample_target_def sample_fc3_def sample_domain_def AddDomain_def NewFC3_def sample_pem_material_def
      sample_material_def validateUpdate_def Let_def apply_input_def)

theorem fc3_apply_observed_witness:
  "\<exists>w1 obs w2. run_state (fc3_Apply sample_target (FC3Cl fake_fc3) sample_pem_material
      \<lparr> ao_EnsureHTTPSProtocol = False, ao_PreviousFingerprint = [] \<rparr>) sample_fc3 = (None, w1)
    \<and> run_state (fc3_Observe sample_env sample_target (FC3Cl fake_fc3)) w1 = (Inr obs, w2)
    \<and> o_CurrentFingerprint obs = fp_of sample_env (sample_certPEM ''a.b.c'')"
proof -
  obtain w1 where w1: "run_state (fc3_Apply sample_target (FC3Cl fake_fc3) sample_pem_material
      \<lparr> ao_EnsureHTTPSProtocol = False, ao_PreviousFingerprint = [] \<rparr>) sample_fc3 = (None, w1)"
    "getErrs w1 = []" "domains w1 ''a.b.c'' \<noteq> None" using sample_apply by blast
  then obtain obs where obs: "run_state (fc3_Observe sample_env sample_target (FC3Cl fake_fc3)) w1 = (Inr obs, w1)"
    by (auto simp: fc3_Observe_fake fake_GetCustomDomain_def sample_target_def)
  have m: "m_CertPEM sample_pem_material = sample_certPEM ''a.b.c''" by (simp add: sample_pem_material_def)
  have "o_CurrentFingerprint obs = fp_of sample_env (m_CertPEM sample_pem_material)"
    by (rule fc3_apply_observed [OF sample_fc3_inv w1(1), where xs = "[]"]) (simp_all add: obs)
  with w1 obs m show ?thesis by (intro exI conjI) simp_all
qed

theorem fc3_cleanup_unbinds_witness:
  "\<exists>w' d'. run_state (fc3_Cleanup sample_target (FC3Cl fake_fc3) DeletionPolicyUnbind) sample_fc3 = (None, w')
     \<and> domains w' ''a.b.c'' = Some d' \<and> dm_CertPEM d' = [] \<and> dm_Protocol d' = ''HTTP''
     \<and> dm_Echo d' = EchoOther ''routes''"
proof -
  have "isHTTPSOnly ''HTTPS''" by code_simp
  then obtain w' d' where w': "run_state (fc3_Cleanup sample_target (FC3Cl fake_fc3) DeletionPolicyUnbind) sample_fc3 = (None, w')"
      "domains w' ''a.b.c'' = Some d'"
    by (simp add: fc3_Cleanup_def fc3_clientOf_def fake_fc3_def fake_GetCustomDomain_def fake_UpdateCustomDomain_def
        sample_target_def sample_fc3_def sample_domain_def AddDomain_def NewFC3_def validateUpdate_def Let_def cleanup_input_def)
  moreover have "dm_CertPEM d' = [] \<and> dm_Protocol d' = ''HTTP'' \<and> dm_Echo d' = EchoOther ''routes''"
    using fc3_cleanup_unbinds [OF sample_fc3_inv w'(1)] w'(2) \<open>isHTTPSOnly ''HTTPS''\<close>
    by (simp add: sample_target_def sample_fc3_def sample_domain_def AddDomain_def)
  ultimately show ?thesis by blast
qed

definition sample_sdk_domain :: sdk_custom_domain where
  "sample_sdk_domain = \<lparr> sd_AccountId = Some ''1'', sd_DomainName = Some ''a.b.c'', sd_Protocol = Some ''HTTP'',
     sd_CertConfig = None, sd_AuthConfig = None, sd_CorsConfig = None, sd_RouteConfig = Some (Opaque ''routes''),
     sd_TlsConfig = None, sd_WafConfig = None \<rparr>"

lemma fc3_update_semantics_agree_example:
  "\<exists>b. updateInputToSDK (cleanup_input (customDomainFromSDK sample_sdk_domain)) = Inr b \<and>
     server_merge sample_sdk_domain b = server_replace sample_sdk_domain b"
proof -
  let ?i = "cleanup_input (customDomainFromSDK sample_sdk_domain)"
  have "sd_Protocol sample_sdk_domain = Some ''HTTP''" by (simp add: sample_sdk_domain_def)
  then have "case updateInputToSDK ?i of Inl _ \<Rightarrow> False
    | Inr b \<Rightarrow> server_merge sample_sdk_domain b = server_replace sample_sdk_domain b \<and>
        server_replace sample_sdk_domain b = sample_sdk_domain\<lparr>sd_Protocol := Some (ui_Protocol ?i), sd_CertConfig := up_CertConfig b\<rparr> \<and>
        up_CertConfig b \<noteq> None"
    by (rule fc3_update_semantics_agree) simp_all
  then show ?thesis by (cases "updateInputToSDK ?i") auto
qed

end
