(* ===== verification/Oss_Sdk.thy ===== *)
theory Oss_Sdk
  imports Fc3_Sdk
begin

text \<open>
  The client of OSS over the vendor SDK (\<open>pkg/aliyun/oss_sdk.go\<close>): the adapter of
  credentials, the search for a domain among the CNAME records of a bucket, and the two
  writes of a certificate configuration. The last property is about all three SDK clients.
\<close>

section \<open>The SDK\<close>

record oss_cname_cert =
  oc_CertId :: "string option"
  oc_Type :: "string option"

record oss_cname =
  on_Domain :: "string option"
  on_Status :: "string option"
  on_Certificate :: "oss_cname_cert option"

record oss_list_result =
  ol_Owner :: "string option"
  ol_Cnames :: "oss_cname list"

text \<open>\<open>oss.CertificateConfiguration\<close>: the fields the SDK offers; a nil one is not sent.\<close>

record oss_cert_configuration =
  cg_CertId :: "string option"
  cg_Certificate :: "string option"
  cg_PrivateKey :: "string option"
  cg_Force :: "bool option"
  cg_DeleteCertificate :: "bool option"

record 'w oss_api =
  sdk_ListCname :: "string \<Rightarrow> ('w, gerror + oss_list_result option) state"
  sdk_PutCname :: "string \<Rightarrow> string \<Rightarrow> oss_cert_configuration \<Rightarrow> ('w, gerror + unit) state"

record oss_credentials =
  os_AccessKeyID :: string
  os_AccessKeySecret :: string
  os_SecurityToken :: string

text \<open>The SDK configuration: the calls of \<open>NewOSSClient\<close> on the default configuration.
  Durations in nanoseconds.\<close>

record 'w oss_config =
  og_Region :: string
  og_CredentialsProvider :: "('w, gerror + oss_credentials) state"
  og_ConnectTimeout :: duration
  og_ReadWriteTimeout :: duration
  og_RetryMaxAttempts :: nat
  og_UserAgent :: string

section \<open>The client\<close>

record 'w OSSClientConfig =
  of_Region :: string
  of_Timeout :: duration
  of_Limiters :: "'w limiters_ref option"
  of_LimiterKey :: string
  of_OnCall :: "'w on_call option"

record 'w sdkOSS =
  so_api :: "'w oss_api"
  so_limiters :: "'w limiters_ref"
  so_cfg :: "'w OSSClientConfig"

definition ossCredentials :: "'w credential \<Rightarrow> ('w, gerror + oss_credentials) state" where
  "ossCredentials cred = do {
     m \<leftarrow> GetCredential cred;
     ret (case m of
        Inl err \<Rightarrow> Inl err
      | Inr None \<Rightarrow> Inl (Plain ''credentials-go returned an empty credential model'')
      | Inr (Some m) \<Rightarrow> Inr \<lparr> os_AccessKeyID = StringValue (cm_AccessKeyId m),
          os_AccessKeySecret = StringValue (cm_AccessKeySecret m),
          os_SecurityToken = StringValue (cm_SecurityToken m) \<rparr>)
   }"

definition region_required :: gerror where
  "region_required = AliyunError ClassPermanent ''NewOSSClient'' ''RegionRequired'' (Plain ''OSS client needs a region'')"

definition NewOSSClient ::
  "'w sdk_env \<Rightarrow> ('w oss_config \<Rightarrow> 'w oss_api) \<Rightarrow> 'w credential \<Rightarrow> 'w OSSClientConfig \<Rightarrow>
     ('w, gerror + 'w sdkOSS) state" where
  "NewOSSClient ev newClient cred cfg =
     (if of_Region cfg = [] then ret (Inl region_required)
      else do {
        let cfg = cfg\<lparr>of_Timeout := default_timeout (of_Timeout cfg)\<rparr>;
        l \<leftarrow> limiters_or_new ev (of_Limiters cfg);
        let c = newClient \<lparr> og_Region = of_Region cfg, og_CredentialsProvider = ossCredentials cred,
          og_ConnectTimeout = 5 * second, og_ReadWriteTimeout = of_Timeout cfg, og_RetryMaxAttempts = 1,
          og_UserAgent = ''le-to-alicloud'' \<rparr>;
        ret (Inr \<lparr> so_api = c, so_limiters = l, so_cfg = cfg\<lparr>of_Limiters := Some l\<rparr> \<rparr>)
      })"

definition classifyOSS :: "string \<Rightarrow> gerror option \<Rightarrow> gerror option" where
  "classifyOSS op err = (case err of None \<Rightarrow> None | Some e \<Rightarrow>
     (case as_oss e of
        Some (code, status) \<Rightarrow> Some (fromSDKError op (Some code) (Some status))
      | None \<Rightarrow> Classify op err))"

definition cname_view :: "oss_list_result \<Rightarrow> oss_cname \<Rightarrow> Cname" where
  "cname_view res c = \<lparr> cn_Domain = StringValue (on_Domain c), cn_Status = StringValue (on_Status c),
     cn_CertRef = (case on_Certificate c of Some k \<Rightarrow> StringValue (oc_CertId k) | None \<Rightarrow> []),
     cn_CertType = (case on_Certificate c of Some k \<Rightarrow> StringValue (oc_Type k) | None \<Rightarrow> []),
     cn_AccountID = StringValue (ol_Owner res) \<rparr>"

definition empty_list_response :: gerror where
  "empty_list_response = AliyunError ClassRetryable ActionListCname CodeEmptyResponse (Plain ''the response is empty'')"

definition cname_not_found :: gerror where
  "cname_not_found = AliyunError ClassNotFound ActionListCname ''CnameNotFound'' (Plain ''the bucket has no such domain'')"

definition cnameFromList :: "oss_list_result option \<Rightarrow> string \<Rightarrow> gerror + Cname" where
  "cnameFromList res domain = (case res of
     None \<Rightarrow> Inl empty_list_response
   | Some res \<Rightarrow> (case List.find (\<lambda>c. EqualFold (StringValue (on_Domain c)) domain) (ol_Cnames res) of
       Some c \<Rightarrow> Inr (cname_view res c)
     | None \<Rightarrow> Inl cname_not_found))"

definition sdk_oss_GetCname :: "'w sdk_env \<Rightarrow> 'w sdkOSS \<Rightarrow> string \<Rightarrow> string \<Rightarrow> ('w, gerror + Cname) state" where
  "sdk_oss_GetCname ev s bucket domain = do {
     werr \<leftarrow> Wait ev (so_limiters s) (of_LimiterKey (so_cfg s)) LimitOSS;
     (case werr of
        Some err \<Rightarrow> ret (Inl (the (Classify ActionListCname (Some err))))
      | None \<Rightarrow> do {
          start \<leftarrow> sv_now ev;
          res \<leftarrow> sdk_ListCname (so_api s) bucket;
          let cerr = classifyOSS ActionListCname (err_of res);
          observe ev (of_OnCall (so_cfg s)) ActionListCname start cerr;
          ret (case cerr of
             Some err \<Rightarrow> Inl err
           | None \<Rightarrow> cnameFromList (case res of Inr r \<Rightarrow> r | Inl _ \<Rightarrow> None) domain)
        })
   }"

definition putCname ::
  "'w sdk_env \<Rightarrow> 'w sdkOSS \<Rightarrow> string \<Rightarrow> string \<Rightarrow> oss_cert_configuration \<Rightarrow> ('w, gerror option) state" where
  "putCname ev s bucket domain cc = do {
     werr \<leftarrow> Wait ev (so_limiters s) (of_LimiterKey (so_cfg s)) LimitOSS;
     (case werr of
        Some err \<Rightarrow> ret (Classify ActionPutCname (Some err))
      | None \<Rightarrow> do {
          start \<leftarrow> sv_now ev;
          res \<leftarrow> sdk_PutCname (so_api s) bucket domain cc;
          let cerr = classifyOSS ActionPutCname (err_of res);
          observe ev (of_OnCall (so_cfg s)) ActionPutCname start cerr;
          ret cerr
        })
   }"

definition cert_ref_required :: gerror where
  "cert_ref_required = AliyunError ClassPermanent ActionPutCname ''CertRefRequired'' (Plain ''certRef is empty'')"

definition no_cert_configuration :: oss_cert_configuration where
  "no_cert_configuration = \<lparr> cg_CertId = None, cg_Certificate = None, cg_PrivateKey = None, cg_Force = None,
     cg_DeleteCertificate = None \<rparr>"

definition sdk_oss_PutCnameCert :: "'w sdk_env \<Rightarrow> 'w sdkOSS \<Rightarrow> string \<Rightarrow> string \<Rightarrow> string \<Rightarrow> ('w, gerror option) state" where
  "sdk_oss_PutCnameCert ev s bucket domain certRef =
     (if certRef = [] then ret (Some cert_ref_required)
      else putCname ev s bucket domain (no_cert_configuration\<lparr>cg_CertId := Some certRef, cg_Force := Some True\<rparr>))"

definition sdk_oss_DeleteCnameCert :: "'w sdk_env \<Rightarrow> 'w sdkOSS \<Rightarrow> string \<Rightarrow> string \<Rightarrow> ('w, gerror option) state" where
  "sdk_oss_DeleteCnameCert ev s bucket domain =
     putCname ev s bucket domain (no_cert_configuration\<lparr>cg_DeleteCertificate := Some True\<rparr>)"

definition sdk_oss :: "'w sdk_env \<Rightarrow> 'w sdkOSS \<Rightarrow> 'w OSSClient" where
  "sdk_oss ev s = \<lparr> oss_GetCname = sdk_oss_GetCname ev s, oss_PutCnameCert = sdk_oss_PutCnameCert ev s,
     oss_DeleteCnameCert = sdk_oss_DeleteCnameCert ev s \<rparr>"

section \<open>Lemmas\<close>

text \<open>A classified error, or none.\<close>

definition classified :: "gerror option \<Rightarrow> bool" where
  "classified err \<longleftrightarrow> (case err of None \<Rightarrow> True | Some e \<Rightarrow> as_aliyun e \<noteq> None)"

lemma classified_Classify [simp]: "classified (Classify op err)"
  by (cases "Classify op err"; cases err) (auto simp: classified_def dest: Classify_as_aliyun)

lemma classified_the_Classify [simp]: "classified (Some (the (Classify op (Some e))))"
  using classified_Classify [of op "Some e"] by (cases "Classify op (Some e)") auto

lemma classified_classifyOSS [simp]: "classified (classifyOSS op err)"
  by (auto simp: classifyOSS_def split: option.splits) (simp_all add: classified_def)

lemma classified_simps [simp]: "classified None" "classified (Some (AliyunError c op code e))"
  by (simp_all add: classified_def)

lemma classified_result:
  "classified err \<Longrightarrow> (err = None \<Longrightarrow> classified (err_of y)) \<Longrightarrow>
   classified (err_of (case err of Some e \<Rightarrow> Inl e | None \<Rightarrow> y))"
  by (cases err) simp_all

lemma find_Some_split:
  "List.find P xs = Some x \<longleftrightarrow> (\<exists>pre post. xs = pre @ x # post \<and> P x \<and> list_all (\<lambda>y. \<not> P y) pre)"
proof
  assume f: "List.find P xs = Some x"
  then obtain post where post: "dropWhile (\<lambda>y. \<not> P y) xs = x # post"
    by (auto simp: find_dropWhile comp_def split: list.splits)
  have "xs = takeWhile (\<lambda>y. \<not> P y) xs @ x # post" using takeWhile_dropWhile_id [of "\<lambda>y. \<not> P y" xs] post by simp
  moreover have "list_all (\<lambda>y. \<not> P y) (takeWhile (\<lambda>y. \<not> P y) xs)" by (auto simp: list_all_iff dest: set_takeWhileD)
  ultimately show "\<exists>pre post. xs = pre @ x # post \<and> P x \<and> list_all (\<lambda>y. \<not> P y) pre"
    using find_Some_mem [OF f] by blast
next
  have "List.find P (pre @ x # post) = Some x" if "P x" "list_all (\<lambda>y. \<not> P y) pre" for pre post
    using that by (induction pre) auto
  then show "\<exists>pre post. xs = pre @ x # post \<and> P x \<and> list_all (\<lambda>y. \<not> P y) pre \<Longrightarrow> List.find P xs = Some x"
    by blast
qed

lemmas own_errors = missing_cert_id_def too_many_pages_def missing_body_def nil_input_def
  empty_list_response_def cname_not_found_def cert_ref_required_def region_required_def

lemma cnameFromList_classified: "classified (err_of (cnameFromList res d))"
  by (auto simp: cnameFromList_def own_errors split: option.splits)

lemma updateInputToSDK_classified: "updateInputToSDK i = Inl err \<Longrightarrow> classified (Some err)"
  by (auto simp: updateInputToSDK_def Let_def split: DomainEcho.splits option.splits if_splits)

text \<open>The shape the operations of the clients share.\<close>

lemma yields_guarded_call:
  assumes "\<And>e. P (g e)" "\<And>r. P (h r)"
  shows "yields P (do { werr \<leftarrow> W; (case werr of Some err \<Rightarrow> ret (g err)
     | None \<Rightarrow> do { start \<leftarrow> N; resp \<leftarrow> A; observe ev oc act start (k resp); ret (h resp) }) })"
  by (rule yields_bind, rule yields_triv, rule yields_case_option)
    (intro yields_bind yields_triv yields_ret assms yields_triv [of "\<lambda>x. yields _ _"] | assumption)+

lemma list_page_classified: "yields (\<lambda>r. classified (err_of r)) (list_page ev s h page)"
  unfolding list_page_def Let_def
  by (rule yields_guarded_call) (simp_all add: classified_result)

lemma find_loop_classified: "yields (\<lambda>r. classified (err_of r)) (find_loop ev s h out page)"
proof (induction ev s h out page rule: find_loop.induct)
  case (1 ev s h out page)
  show ?case
    unfolding find_loop.simps [of ev s h out page]
  proof (rule yields_bind, rule yields_mono [OF list_page_classified], rule yields_case_sum)
    fix r :: "gerror + order_item option list option" and e
    assume "classified (err_of r)" "r = Inl e"
    then show "yields (\<lambda>r. classified (err_of r)) (ret (Inl e) :: ('a, gerror + CertSummary list) state)"
      by (intro yields_ret) simp
  next
    fix r :: "gerror + order_item option list option" and p
    show "yields (\<lambda>r. classified (err_of r)) (case p of None \<Rightarrow> ret (Inr out)
      | Some its \<Rightarrow> let out = out @ summaries its; got = int (length its) in
          if \<not> shouldFetchNextPage got casListPageSize page then
            if got \<ge> casListPageSize \<and> page \<ge> casListMaxPages then ret (Inl too_many_pages)
            else ret (Inr out)
          else find_loop ev s h out (page + 1))"
      using "1" by (auto simp: Let_def own_errors intro!: yields_intro)
  qed
qed

section \<open>Properties\<close>

text \<open>
  C27. Every error that leaves a cloud client is classified: whatever the SDK, the quota and
  the clock do, the error of each operation of the three clients has an \<open>*aliyun.Error\<close> in
  its chain, so the retry policy of the controllers and the labels of the metrics never rest
  on a default.
\<close>

theorem sdk_errors_classified:
  "yields (\<lambda>r. classified (err_of r)) (cas_Upload (sdk_cas ev c) name certPEM keyPEM token)
   \<and> yields classified (cas_Delete (sdk_cas ev c) i token)
   \<and> yields (\<lambda>r. classified (err_of r)) (cas_FindUploaded (sdk_cas ev c) hint)
   \<and> yields (\<lambda>r. classified (err_of r)) (fc3_GetCustomDomain (sdk_fc3 ev f) domain)
   \<and> yields classified (fc3_UpdateCustomDomain (sdk_fc3 ev f) domain input)
   \<and> yields (\<lambda>r. classified (err_of r)) (oss_GetCname (sdk_oss ev s) bucket domain)
   \<and> yields classified (oss_PutCnameCert (sdk_oss ev s) bucket domain certRef)
   \<and> yields classified (oss_DeleteCnameCert (sdk_oss ev s) bucket domain)"
proof (intro conjI)
  have put: "yields classified (putCname ev s bucket domain cc)" for cc
    unfolding putCname_def Let_def by (rule yields_guarded_call) simp_all
  then show "yields classified (oss_DeleteCnameCert (sdk_oss ev s) bucket domain)"
    and "yields classified (oss_PutCnameCert (sdk_oss ev s) bucket domain certRef)"
    by (simp_all add: sdk_oss_def sdk_oss_DeleteCnameCert_def sdk_oss_PutCnameCert_def own_errors yields_ret)
  show "yields (\<lambda>r. classified (err_of r)) (cas_FindUploaded (sdk_cas ev c) hint)"
    by (simp add: sdk_cas_def sdk_cas_FindUploaded_def find_loop_classified)
  show "yields (\<lambda>r. classified (err_of r)) (cas_Upload (sdk_cas ev c) name certPEM keyPEM token)"
    unfolding sdk_cas_def sdk_cas_Upload_def Let_def CASClient.simps
    by (rule yields_guarded_call, simp, rule classified_result, simp)
      (auto simp: own_errors split: option.splits sum.splits)
  show "yields classified (cas_Delete (sdk_cas ev c) i token)"
    unfolding sdk_cas_def sdk_cas_Delete_def Let_def CASClient.simps by (rule yields_guarded_call) simp_all
  show "yields (\<lambda>r. classified (err_of r)) (fc3_GetCustomDomain (sdk_fc3 ev f) domain)"
    unfolding sdk_fc3_def sdk_fc3_GetCustomDomain_def Let_def FC3Client.simps
    by (rule yields_guarded_call, simp, rule classified_result, simp)
      (auto simp: own_errors split: option.splits sum.splits)
  show "yields classified (fc3_UpdateCustomDomain (sdk_fc3 ev f) domain input)"
  proof (cases "updateInputToSDK input")
    case (Inl err)
    then show ?thesis
      by (simp add: sdk_fc3_def sdk_fc3_UpdateCustomDomain_def yields_ret updateInputToSDK_classified)
  next
    case (Inr body)
    then show ?thesis
      unfolding sdk_fc3_def sdk_fc3_UpdateCustomDomain_def Let_def FC3Client.simps option.case sum.case
      by (simp only: sum.case) (rule yields_guarded_call, simp_all)
  qed
  show "yields (\<lambda>r. classified (err_of r)) (oss_GetCname (sdk_oss ev s) bucket domain)"
    unfolding sdk_oss_def sdk_oss_GetCname_def Let_def OSSClient.simps
  proof (rule yields_guarded_call)
    fix r :: "gerror + oss_list_result option"
    show "classified (err_of (case classifyOSS ActionListCname (err_of r) of Some err \<Rightarrow> Inl err
        | None \<Rightarrow> cnameFromList (case r of Inr r \<Rightarrow> r | Inl _ \<Rightarrow> None) domain))"
      by (simp add: classified_result cnameFromList_classified)
  qed simp
qed

text \<open>
  The CNAME found for a domain is the one of that domain: a record is returned exactly
  when the bucket lists a record whose domain equals the one asked for up to case; it is the
  first such record, with the owner of the bucket as its account; a listing without one is
  the only answer classified as not found.
\<close>

lemma cnameFromList_spec:
  "(cnameFromList res domain = Inr c \<longleftrightarrow>
     (\<exists>l pre x post. res = Some l \<and> ol_Cnames l = pre @ x # post \<and> c = cname_view l x
        \<and> ToLower (StringValue (on_Domain x)) = ToLower domain
        \<and> list_all (\<lambda>y. ToLower (StringValue (on_Domain y)) \<noteq> ToLower domain) pre))
   \<and> ((\<exists>e. cnameFromList res domain = Inl e \<and> ClassOf e = ClassNotFound) \<longleftrightarrow>
     (\<exists>l. res = Some l \<and> list_all (\<lambda>y. ToLower (StringValue (on_Domain y)) \<noteq> ToLower domain) (ol_Cnames l)))"
proof (cases res)
  case (Some l)
  let ?P = "\<lambda>c. EqualFold (StringValue (on_Domain c)) domain"
  show ?thesis
  proof (cases "List.find ?P (ol_Cnames l)")
    case None
    then have "list_all (\<lambda>y. \<not> ?P y) (ol_Cnames l)" by (simp add: find_None_iff list_all_iff)
    moreover from this have "\<not> (\<exists>pre x post. ol_Cnames l = pre @ x # post \<and> ?P x)" by (auto simp: list_all_iff)
    ultimately show ?thesis using Some None
      by (auto simp: cnameFromList_def EqualFold_def cname_not_found_def ClassOf_def)
  next
    case (Some x)
    then have "?P x" "x \<in> set (ol_Cnames l)" using find_Some_mem by fastforce+
    then have "\<not> list_all (\<lambda>y. \<not> ?P y) (ol_Cnames l)" by (auto simp: list_all_iff)
    moreover have "cnameFromList res domain = Inr c \<longleftrightarrow> (\<exists>y. List.find ?P (ol_Cnames l) = Some y \<and> c = cname_view l y)"
      using Some \<open>res = Some l\<close> by (auto simp: cnameFromList_def)
    moreover have "cnameFromList res domain = Inr (cname_view l x)"
      using Some \<open>res = Some l\<close> by (simp add: cnameFromList_def)
    ultimately show ?thesis using \<open>res = Some l\<close> unfolding find_Some_split by (auto simp: EqualFold_def)
  qed
qed (auto simp: cnameFromList_def empty_list_response_def ClassOf_def)

end
