(* ===== verification/Oss_Provider.thy ===== *)
theory Oss_Provider
  imports Target_Contract Fc3_Provider Oss_Sdk
begin

text \<open>
  The provider of OSS custom domains (\<open>pkg/provider/oss\<close>): the certificate of a CNAME record
  is referenced by its CAS identifier, so \<open>Observe\<close> reports a reference and \<open>Apply\<close> sends
  one. The registry with both providers is here too.
\<close>

section \<open>The provider\<close>

definition oss_Capabilities :: Capabilities where
  "oss_Capabilities = \<lparr> ReferencesCertByID = True, SupportsProtocolSwitch = False, RequiresCASUpload = True \<rparr>"

definition oss_toProviderError :: "string \<Rightarrow> gerror \<Rightarrow> string \<Rightarrow> gerror option" where
  "oss_toProviderError op err failReason = ToProviderError op (Some err) failReason"

definition oss_swallowNotFound :: "gerror option \<Rightarrow> gerror option" where
  "oss_swallowNotFound err = SwallowNotFound err"

definition oss_clientOf :: "'w Client \<Rightarrow> gerror + 'w OSSClient" where
  "oss_clientOf c = (case c of
     OSSCl cl \<Rightarrow> Inr cl
   | FC3Cl _ \<Rightarrow> Inl (Errorf CodeInvalidClient False ReasonApplyFailed (Plain ''not an aliyun.OSSClient'')))"

definition specOf :: "Target \<Rightarrow> gerror + OSSCustomDomainTarget" where
  "specOf t = (case tg_Spec t of
     SpecOSS s \<Rightarrow> Inr s
   | SpecFC3 _ \<Rightarrow> Inl (Errorf CodeInvalidTarget False ReasonApplyFailed (Plain ''not an *OSSCustomDomainTarget'')))"

definition oss_Observe :: "Target \<Rightarrow> 'w Client \<Rightarrow> ('w, gerror + ObservedState) state" where
  "oss_Observe t c = (case oss_clientOf c of
     Inl err \<Rightarrow> ret (Inl err)
   | Inr cl \<Rightarrow> (case specOf t of
       Inl err \<Rightarrow> ret (Inl err)
     | Inr s \<Rightarrow> do {
         r \<leftarrow> oss_GetCname cl (oss_Bucket s) (oss_DomainName s);
         (case r of
            Inl err \<Rightarrow> ret (Inl (the (oss_toProviderError ActionListCname err ReasonObserveFailed)))
          | Inr cn \<Rightarrow> ret (Inr \<lparr> o_CurrentFingerprint = [], o_CurrentCertRef = cn_CertRef cn,
              o_Protocol = [], o_AccountID = cn_AccountID cn \<rparr>))
       }))"

definition no_cert_ref :: gerror where
  "no_cert_ref = Errorf CodePermanent False ReasonApplyFailed (Plain ''CertMaterial has no CAS certId to reference'')"

definition oss_Apply :: "Target \<Rightarrow> 'w Client \<Rightarrow> CertMaterial \<Rightarrow> ApplyOptions \<Rightarrow> ('w, gerror option) state" where
  "oss_Apply t c m ao = (case oss_clientOf c of
     Inl err \<Rightarrow> ret (Some err)
   | Inr cl \<Rightarrow> (case specOf t of
       Inl err \<Rightarrow> ret (Some err)
     | Inr s \<Rightarrow>
         let ref = CASCertRef m in
         if ref = [] then ret (Some no_cert_ref)
         else do {
           u \<leftarrow> oss_PutCnameCert cl (oss_Bucket s) (oss_DomainName s) ref;
           ret (case u of Some err \<Rightarrow> oss_toProviderError ActionPutCname err ReasonApplyFailed | None \<Rightarrow> None)
         }))"

definition oss_Cleanup :: "Target \<Rightarrow> 'w Client \<Rightarrow> string \<Rightarrow> ('w, gerror option) state" where
  "oss_Cleanup t c policy =
     (if policy \<noteq> DeletionPolicyUnbind then ret None
      else case oss_clientOf c of
        Inl err \<Rightarrow> ret (Some err)
      | Inr cl \<Rightarrow> (case specOf t of
          Inl err \<Rightarrow> ret (Some err)
        | Inr s \<Rightarrow> do {
            u \<leftarrow> oss_DeleteCnameCert cl (oss_Bucket s) (oss_DomainName s);
            ret (case u of
               Some err \<Rightarrow> oss_swallowNotFound (oss_toProviderError ActionPutCname err ReasonCleanupFailed)
             | None \<Rightarrow> None)
          }))"

definition oss_provider :: "'w Provider" where
  "oss_provider = \<lparr> pv_Name = TargetTypeOSSCustomDomain, pv_Capabilities = oss_Capabilities,
     pv_Observe = oss_Observe, pv_Apply = oss_Apply, pv_Cleanup = oss_Cleanup \<rparr>"

text \<open>The registrations of the two \<open>init\<close> functions; a duplicate name would panic.\<close>

definition production_registry :: "crypto_env \<Rightarrow> 'w registry" where
  "production_registry env = the (Option.bind (Register [] (fc3_provider env)) (\<lambda>reg. Register reg oss_provider))"

section \<open>The provider over the in-memory OSS\<close>

text \<open>A target of another kind has no certificate here.\<close>

definition oss_view :: "OSS \<Rightarrow> Target \<Rightarrow> string option" where
  "oss_view w t = (case tg_Spec t of
     SpecFC3 _ \<Rightarrow> None
   | SpecOSS s \<Rightarrow> (case buckets w (oss_Bucket s) of
       None \<Rightarrow> None
     | Some b \<Rightarrow> map_option rec_CertRef (b (ToLower (oss_DomainName s)))))"

definition oss_key :: "Target \<Rightarrow> (string \<times> string) option" where
  "oss_key t = (case tg_Spec t of SpecFC3 _ \<Rightarrow> None | SpecOSS s \<Rightarrow> Some (oss_Bucket s, ToLower (oss_DomainName s)))"

definition oss_same :: "Target \<Rightarrow> Target \<Rightarrow> bool" where
  "oss_same t t' \<longleftrightarrow> oss_key t = oss_key t'"

definition oss_inv :: "OSS \<Rightarrow> bool" where
  "oss_inv w \<longleftrightarrow> (\<forall>e \<in> set (listErrs w) \<union> set (putErrs w) \<union> set_option (alwaysPutErr w). ClassOf e \<noteq> ClassNotFound)"

definition oss_at :: "OSS \<Rightarrow> string \<Rightarrow> string \<Rightarrow> CnameRecord option" where
  "oss_at w bk d = Option.bind (buckets w bk) (\<lambda>b. b (ToLower d))"

lemma oss_view_at: "oss_view w t = (case tg_Spec t of SpecFC3 _ \<Rightarrow> None
   | SpecOSS s \<Rightarrow> map_option rec_CertRef (oss_at w (oss_Bucket s) (oss_DomainName s)))"
  by (auto simp: oss_view_def oss_at_def split: target_spec.splits option.splits)

lemma fake_GetCname_spec:
  assumes "run_state (fake_GetCname bk d) w = (r, w')" "oss_inv w"
  shows "oss_inv w' \<and> buckets w' = buckets w \<and> (case r of
      Inr cn \<Rightarrow> \<exists>x. oss_at w bk d = Some x \<and> cn_CertRef cn = rec_CertRef x \<and> cn_AccountID cn = owner w
    | Inl e \<Rightarrow> ClassOf e = ClassNotFound \<longrightarrow> oss_at w bk d = None)"
proof (cases "listErrs w")
  case Nil
  then show ?thesis using assms
    by (auto simp: fake_GetCname_def oss_at_def split: option.splits)
next
  case (Cons e q)
  then show ?thesis using assms by (auto simp: fake_GetCname_def oss_inv_def)
qed

lemma fake_write_spec:
  assumes "run_state (fake_write bk d f) w = (a, w')" "oss_inv w"
  shows "oss_inv w' \<and> (\<forall>bk' d'. (bk', ToLower d') \<noteq> (bk, ToLower d) \<longrightarrow> oss_at w' bk' d' = oss_at w bk' d') \<and>
    (a = None \<longrightarrow> (\<exists>x. oss_at w bk d = Some x \<and> oss_at w' bk d = Some (f x))) \<and>
    (\<forall>e. a = Some e \<longrightarrow> ClassOf e = ClassNotFound \<longrightarrow> oss_at w' bk d = None)"
proof (cases "alwaysPutErr w")
  case (Some e)
  then show ?thesis using assms by (auto simp: fake_write_def oss_inv_def)
next
  case None
  show ?thesis
  proof (cases "putErrs w")
    case (Cons e q)
    with None show ?thesis using assms by (auto simp: fake_write_def oss_inv_def oss_at_def)
  next
    case Nil
    with None show ?thesis using assms
      by (auto simp: fake_write_def oss_at_def oss_inv_def split: option.splits)
  qed
qed

lemma oss_write_spec:
  assumes "run_state (do { u \<leftarrow> fake_write bk d f; ret (case u of Some err \<Rightarrow> g err | None \<Rightarrow> None) }) w = (a, w')"
    and "oss_inv w"
  shows "oss_inv w' \<and> (\<forall>bk' d'. (bk', ToLower d') \<noteq> (bk, ToLower d) \<longrightarrow> oss_at w' bk' d' = oss_at w bk' d') \<and>
    (a = None \<longrightarrow> (\<exists>x. oss_at w bk d = Some x \<and> oss_at w' bk d = Some (f x)) \<or>
       (\<exists>e. g e = None \<and> (ClassOf e = ClassNotFound \<longrightarrow> oss_at w' bk d = None)))"
proof -
  obtain u w1 where u: "run_state (fake_write bk d f) w = (u, w1)" by (cases "run_state (fake_write bk d f) w")
  then have *: "w' = w1" "a = (case u of Some err \<Rightarrow> g err | None \<Rightarrow> None)" using assms(1) by auto
  from fake_write_spec [OF u assms(2)] show ?thesis unfolding * by (cases u) auto
qed

lemma oss_Observe_spec:
  assumes "run_state (oss_Observe t (OSSCl fake_oss)) w = (r, w')" "oss_inv w"
  shows "oss_inv w' \<and> buckets w' = buckets w \<and> (case r of
      Inr obs \<Rightarrow> oss_view w t = Some (o_CurrentCertRef obs) \<and> o_AccountID obs = owner w
    | Inl e \<Rightarrow> (\<exists>b rs. ErrorOf e = Some (CodeTargetNotFound, b, rs)) \<longrightarrow> oss_view w t = None)"
proof (cases "tg_Spec t")
  case (SpecFC3 f)
  then show ?thesis using assms by (auto simp: oss_Observe_def oss_clientOf_def specOf_def Errorf_def)
next
  case (SpecOSS s)
  obtain g w1 where g: "run_state (fake_GetCname (oss_Bucket s) (oss_DomainName s)) w = (g, w1)"
    by (cases "run_state (fake_GetCname (oss_Bucket s) (oss_DomainName s)) w")
  note G = fake_GetCname_spec [OF g assms(2)]
  have *: "oss_Observe t (OSSCl fake_oss) = do {
      r \<leftarrow> fake_GetCname (oss_Bucket s) (oss_DomainName s);
      (case r of
         Inl err \<Rightarrow> ret (Inl (the (ToProviderError ActionListCname (Some err) ReasonObserveFailed)))
       | Inr cn \<Rightarrow> ret (Inr \<lparr> o_CurrentFingerprint = [], o_CurrentCertRef = cn_CertRef cn,
           o_Protocol = [], o_AccountID = cn_AccountID cn \<rparr>)) }"
    unfolding oss_Observe_def oss_clientOf_def specOf_def SpecOSS fake_oss_def oss_toProviderError_def by simp
  show ?thesis
  proof (cases g)
    case (Inl e)
    then show ?thesis using assms(1) g G ErrorOf_NotFound unfolding * by (auto simp: oss_view_at SpecOSS)
  next
    case (Inr cn)
    then show ?thesis using assms(1) g G unfolding * by (auto simp: oss_view_at SpecOSS)
  qed
qed

lemma oss_view_frame:
  assumes "tg_Spec t = SpecOSS s"
    and "\<forall>bk' d'. (bk', ToLower d') \<noteq> (oss_Bucket s, ToLower (oss_DomainName s)) \<longrightarrow> oss_at w' bk' d' = oss_at w bk' d'"
    and "\<not> oss_same t t'"
  shows "oss_view w' t' = oss_view w t'"
  using assms by (auto simp: oss_view_at oss_same_def oss_key_def split: target_spec.splits)

lemma oss_Apply_spec:
  assumes "run_state (oss_Apply t (OSSCl fake_oss) m ao) w = (a, w')" "oss_inv w"
  shows "oss_inv w' \<and> (\<forall>t'. \<not> oss_same t t' \<longrightarrow> oss_view w' t' = oss_view w t') \<and>
    (a = None \<longrightarrow> oss_view w' t = Some (CASCertRef m))"
proof (cases "tg_Spec t")
  case (SpecFC3 f)
  then show ?thesis using assms by (auto simp: oss_Apply_def oss_clientOf_def specOf_def Let_def)
next
  case (SpecOSS s)
  show ?thesis
  proof (cases "CASCertRef m = []")
    case True
    then show ?thesis using assms SpecOSS by (auto simp: oss_Apply_def oss_clientOf_def specOf_def Let_def)
  next
    case False
    then have *: "oss_Apply t (OSSCl fake_oss) m ao = do {
        u \<leftarrow> fake_write (oss_Bucket s) (oss_DomainName s) (\<lambda>r. r\<lparr>rec_CertRef := CASCertRef m, rec_CertType := ''CAS''\<rparr>);
        ret (case u of Some err \<Rightarrow> ToProviderError ActionPutCname (Some err) ReasonApplyFailed | None \<Rightarrow> None) }"
      unfolding oss_Apply_def oss_clientOf_def specOf_def SpecOSS fake_oss_def oss_toProviderError_def Let_def
      by (simp add: fake_PutCnameCert_def)
    have "ToProviderError op (Some e) rs \<noteq> None" for op e rs using ToProviderError_Some by fastforce
    with oss_write_spec [OF assms(1) [unfolded *] assms(2)] show ?thesis
      using oss_view_frame [OF SpecOSS] by (auto simp: oss_view_at [of _ t] SpecOSS)
  qed
qed

lemma oss_Cleanup_spec:
  assumes "run_state (oss_Cleanup t (OSSCl fake_oss) DeletionPolicyUnbind) w = (a, w')" "oss_inv w"
  shows "oss_inv w' \<and> (\<forall>t'. \<not> oss_same t t' \<longrightarrow> oss_view w' t' = oss_view w t') \<and>
    (a = None \<longrightarrow> oss_view w' t = Some [] \<or> oss_view w' t = None)"
proof (cases "tg_Spec t")
  case (SpecFC3 f)
  then show ?thesis using assms by (auto simp: oss_Cleanup_def oss_clientOf_def specOf_def)
next
  case (SpecOSS s)
  then have *: "oss_Cleanup t (OSSCl fake_oss) DeletionPolicyUnbind = do {
      u \<leftarrow> fake_write (oss_Bucket s) (oss_DomainName s) (\<lambda>r. r\<lparr>rec_CertRef := [], rec_CertType := []\<rparr>);
      ret (case u of Some err \<Rightarrow> SwallowNotFound (ToProviderError ActionPutCname (Some err) ReasonCleanupFailed) | None \<Rightarrow> None) }"
    unfolding oss_Cleanup_def oss_clientOf_def specOf_def SpecOSS fake_oss_def oss_toProviderError_def
      oss_swallowNotFound_def
    by (simp add: fake_DeleteCnameCert_def)
  from oss_write_spec [OF assms(1) [unfolded *] assms(2)] show ?thesis
    unfolding swallow_NotFound_None
    using oss_view_frame [OF SpecOSS] by (auto simp: oss_view_at [of _ t] SpecOSS)
qed

interpretation osst: cert_target oss_provider "OSSCl fake_oss" o_CurrentCertRef CASCertRef oss_view oss_same oss_inv
proof (unfold_locales, goal_cases)
  case (1 t t' w)
  then show ?case
    by (auto simp: oss_same_def oss_key_def oss_view_at oss_at_def split: target_spec.splits)
next
  case (2 w t r w')
  then show ?case using oss_Observe_spec [of t w r w'] by (auto simp: oss_provider_def oss_view_def fun_eq_iff split: target_spec.splits)
next
  case (3 w t obs w')
  then show ?case using oss_Observe_spec [of t w "Inr obs" w'] by (simp add: oss_provider_def)
next
  case (4 w t e w' b rs)
  then show ?case using oss_Observe_spec [of t w "Inl e" w'] by (auto simp: oss_provider_def)
next
  case (5 w t m ao a w')
  then show ?case using oss_Apply_spec [of t m ao w a w'] by (simp add: oss_provider_def)
next
  case (6 w t m ao w')
  then show ?case using oss_Apply_spec [of t m ao w None w'] by (simp add: oss_provider_def)
next
  case (7 w t m ao a w' t')
  then show ?case using oss_Apply_spec [of t m ao w a w'] by (simp add: oss_provider_def)
next
  case (8 p t w)
  then show ?case by (simp add: oss_provider_def oss_Cleanup_def)
next
  case (9 w t p a w')
  then show ?case using oss_Cleanup_spec [of t w a w']
    by (cases "p = DeletionPolicyUnbind") (auto simp: oss_provider_def oss_Cleanup_def)
next
  case (10 w t w')
  then show ?case using oss_Cleanup_spec [of t w None w'] by (simp add: oss_provider_def)
next
  case (11 w t p a w' t')
  then show ?case using oss_Cleanup_spec [of t w a w']
    by (cases "p = DeletionPolicyUnbind") (auto simp: oss_provider_def oss_Cleanup_def)
qed

section \<open>Properties\<close>

text \<open>
  C26. The OSS provider has the same contract by reference: on the in-memory OSS, after a
  successful \<open>Apply\<close> and any sequence of provider operations that writes only other CNAME
  records, an observation that succeeds reports the reference that was applied, which is not
  empty; after a successful Unbind it reports none.
\<close>

theorem oss_apply_observed:
  assumes "oss_inv w"
    and "run_state (if unbind then oss_Cleanup t (OSSCl fake_oss) DeletionPolicyUnbind
           else oss_Apply t (OSSCl fake_oss) m ao) w = (None, w1)"
    and "\<forall>x \<in> set xs. op_writes x \<longrightarrow> \<not> oss_same (op_target x) t"
    and "run_state (oss_Observe t (OSSCl fake_oss)) (osst.steps xs w1) = (Inr obs, w2)"
  shows "if unbind then o_CurrentCertRef obs = [] else o_CurrentCertRef obs = CASCertRef m \<and> CASCertRef m \<noteq> []"
proof (cases unbind)
  case True
  then show ?thesis
    using osst.unbound_is_observed [of w t w1 xs obs w2] assms by (simp add: oss_provider_def)
next
  case False
  then have "o_CurrentCertRef obs = CASCertRef m"
    using osst.applied_is_observed [of w t m ao w1 xs obs w2] assms by (simp add: oss_provider_def)
  moreover have "CASCertRef m \<noteq> []"
  proof
    assume "CASCertRef m = []"
    then have "fst (run_state (oss_Apply t (OSSCl fake_oss) m ao) w) \<noteq> None"
      by (auto simp: oss_Apply_def oss_clientOf_def specOf_def Let_def split: target_spec.splits)
    with False assms(2) show False by simp
  qed
  ultimately show ?thesis using False by simp
qed

section \<open>Witnesses\<close>

definition sample_oss :: OSS where
  "sample_oss = NewOSS\<lparr>owner := ''1'', buckets := (\<lambda>_. None)(''bk'' \<mapsto> (\<lambda>_. None)(''a.b.c'' \<mapsto>
     \<lparr> rec_Domain = ''A.b.c'', rec_CertRef = ''1-cn-hangzhou'', rec_CertType = ''CAS'' \<rparr>))\<rparr>"

definition sample_oss_target :: Target where
  "sample_oss_target = \<lparr> tg_Type = TargetTypeOSSCustomDomain, tg_Region = ''cn-hangzhou'', tg_Identifier = ''a.b.c'',
     tg_Spec = SpecOSS \<lparr> oss_Region = ''cn-hangzhou'', oss_Bucket = ''bk'', oss_DomainName = ''a.b.c'' \<rparr> \<rparr>"

lemma sample_oss_inv: "oss_inv sample_oss"
  by (simp add: oss_inv_def sample_oss_def NewOSS_def)

theorem oss_apply_observed_witness:
  "\<exists>w1 obs. run_state (oss_Apply sample_oss_target (OSSCl fake_oss) (sample_material (Some 7) [])
       \<lparr> ao_EnsureHTTPSProtocol = False, ao_PreviousFingerprint = [] \<rparr>) sample_oss = (None, w1)
     \<and> run_state (oss_Observe sample_oss_target (OSSCl fake_oss)) w1 = (Inr obs, w1)
     \<and> o_CurrentCertRef obs = CASCertRef (sample_material (Some 7) []) \<and> o_CurrentCertRef obs \<noteq> []"
proof -
  have low: "ToLower ''a.b.c'' = ''a.b.c''" and ref: "CASCertRef (sample_material (Some 7) []) \<noteq> []" by code_simp+
  obtain w1 where w1: "run_state (oss_Apply sample_oss_target (OSSCl fake_oss) (sample_material (Some 7) [])
       \<lparr> ao_EnsureHTTPSProtocol = False, ao_PreviousFingerprint = [] \<rparr>) sample_oss = (None, w1)"
    "listErrs w1 = []" "oss_at w1 ''bk'' ''a.b.c'' \<noteq> None"
    by (simp add: oss_Apply_def oss_clientOf_def specOf_def sample_oss_target_def fake_oss_def fake_PutCnameCert_def
        fake_write_def sample_oss_def NewOSS_def Let_def low ref oss_at_def)
  then obtain obs where obs: "run_state (oss_Observe sample_oss_target (OSSCl fake_oss)) w1 = (Inr obs, w1)"
    by (auto simp: oss_Observe_def oss_clientOf_def specOf_def sample_oss_target_def fake_oss_def fake_GetCname_def
        oss_at_def bind_eq_None_conv split: option.splits)
  have res: "if False then o_CurrentCertRef obs = []
     else o_CurrentCertRef obs = CASCertRef (sample_material (Some 7) []) \<and> CASCertRef (sample_material (Some 7) []) \<noteq> []"
    by (rule oss_apply_observed [OF sample_oss_inv, where unbind = False and xs = "[]" and ?w1.0 = w1 and t = sample_oss_target
          and ao = "\<lparr> ao_EnsureHTTPSProtocol = False, ao_PreviousFingerprint = [] \<rparr>" and ?w2.0 = w1])
      (simp_all add: w1(1) obs)
  have "o_CurrentCertRef obs = CASCertRef (sample_material (Some 7) [])" using res [unfolded if_False] by (rule conjunct1)
  then show ?thesis using w1(1) obs ref by (intro exI [of _ w1] exI [of _ obs]) (simp only: simp_thms)
qed

end
