(* ===== verification/Binding_Model.thy ===== *)
theory Binding_Model
  imports Cert_Model Oss_Provider
begin

text \<open>
  The parts the Binding controller is made of: its round, conditions and metrics
  (\<open>internal/controller/binding_status.go\<close>, \<open>metrics.go\<close>), the identity of the certificate on
  a target (\<open>binding_identity.go\<close>), the material that is written
  (\<open>binding_material.go\<close>), the target of a Binding (\<open>provider_factory.go\<close>) and the indexes
  (\<open>indexes.go\<close>).

  A function that mutates \<open>rd.b\<close> returns the new round or Binding. The registry of
  providers, a package variable of the program, is a field of the reconciler. The value of
  the gauge of the lag is kept in nanoseconds; labels for log lines are left out.
\<close>

section \<open>The round\<close>

record bindingRound =
  rd_b :: AliyunCertificateBinding
  rd_orig :: AliyunCertificateBinding
  rd_provider :: string
  rd_lag :: duration

definition newBindingRound :: "AliyunCertificateBinding \<Rightarrow> bindingRound" where
  "newBindingRound b = \<lparr> rd_b = b, rd_orig = b, rd_provider = bt_Type (bs_Target (b_Spec b)), rd_lag = 0 \<rparr>"

type_synonym 'w ProviderFactory =
  "AliyunCertificateBinding \<Rightarrow> AliyunCertificate option \<Rightarrow> ('w, gerror + 'w Provider \<times> 'w Client) state"

record 'w AliyunCertificateBindingReconciler =
  br_kube :: "'w kube"
  br_meta :: meta_api
  br_crypto :: crypto_env
  br_registry :: "'w registry"
  br_ProviderFactory :: "'w ProviderFactory option"
  br_DriftCheckInterval :: duration
  br_CleanupGracePeriod :: duration
  br_CleanupFailurePolicy :: string

definition binding_now :: "'w AliyunCertificateBindingReconciler \<Rightarrow> ('w, time) io" where
  "binding_now r = perform ReadClock (k_now (br_kube r))"

abbreviation upd_bstatus ::
  "(AliyunCertificateBindingStatus \<Rightarrow> AliyunCertificateBindingStatus) \<Rightarrow> AliyunCertificateBinding \<Rightarrow> AliyunCertificateBinding" where
  "upd_bstatus f b \<equiv> b\<lparr>b_Status := f (b_Status b)\<rparr>"

abbreviation upd_b :: "(AliyunCertificateBinding \<Rightarrow> AliyunCertificateBinding) \<Rightarrow> bindingRound \<Rightarrow> bindingRound" where
  "upd_b f rd \<equiv> rd\<lparr>rd_b := f (rd_b rd)\<rparr>"

section \<open>Conditions\<close>

definition setBindingCondition ::
  "meta_api \<Rightarrow> string \<Rightarrow> ConditionStatus \<Rightarrow> string \<Rightarrow> message \<Rightarrow> AliyunCertificateBinding \<Rightarrow> AliyunCertificateBinding" where
  "setBindingCondition mt condType status reason msg b =
     upd_bstatus (\<lambda>x. x\<lparr>bx_Conditions := SetStatusCondition mt (bx_Conditions x)
       \<lparr> c_Type = condType, c_Status = status, c_Reason = reason, c_Message = msg,
         c_ObservedGeneration = b_Generation b, c_LastTransitionTime = None \<rparr>\<rparr>) b"

definition bindingCondTrue :: "meta_api \<Rightarrow> AliyunCertificateBinding \<Rightarrow> string \<Rightarrow> bool" where
  "bindingCondTrue mt b condType = IsStatusConditionTrue mt (bx_Conditions (b_Status b)) condType"

definition bindingCondReason :: "meta_api \<Rightarrow> AliyunCertificateBinding \<Rightarrow> string \<Rightarrow> string" where
  "bindingCondReason mt b condType = (case FindStatusCondition mt (bx_Conditions (b_Status b)) condType of
     Some c \<Rightarrow> c_Reason c | None \<Rightarrow> [])"

definition setBindingReadyFalse :: "meta_api \<Rightarrow> string \<Rightarrow> message \<Rightarrow> AliyunCertificateBinding \<Rightarrow> AliyunCertificateBinding" where
  "setBindingReadyFalse mt reason msg b = setBindingCondition mt ConditionReady ConditionFalse reason msg b"

definition targetIdentifier :: "AliyunCertificateBinding \<Rightarrow> string" where
  "targetIdentifier b = (let t = bs_Target (b_Spec b) in
     case bt_FC3CustomDomain t of
       Some fc \<Rightarrow> fc_DomainName fc
     | None \<Rightarrow> (case bt_OSSCustomDomain t of Some o' \<Rightarrow> oss_DomainName o' | None \<Rightarrow> TargetKey b))"

definition targetRegion :: "AliyunCertificateBinding \<Rightarrow> string" where
  "targetRegion b = (let t = bs_Target (b_Spec b) in
     case bt_FC3CustomDomain t of
       Some fc \<Rightarrow> fc_Region fc
     | None \<Rightarrow> (case bt_OSSCustomDomain t of Some o' \<Rightarrow> oss_Region o' | None \<Rightarrow> []))"

definition not_ready_reason :: "meta_api \<Rightarrow> AliyunCertificateBinding \<Rightarrow> string" where
  "not_ready_reason mt b =
     (if bindingCondTrue mt b ConditionConflict then bindingCondReason mt b ConditionConflict
      else if bindingCondReason mt b ConditionApplied \<noteq> [] then bindingCondReason mt b ConditionApplied
      else ReasonObserveFailed)"

definition aggregateBindingReady :: "meta_api \<Rightarrow> AliyunCertificateBinding \<Rightarrow> AliyunCertificateBinding" where
  "aggregateBindingReady mt b =
     (if bindingCondTrue mt b ConditionApplied \<and> \<not> bindingCondTrue mt b ConditionConflict
      then setBindingCondition mt ConditionReady ConditionTrue ReasonApplied NoMsg b
      else setBindingCondition mt ConditionReady ConditionFalse (not_ready_reason mt b) NoMsg b)"

definition appliedLag ::
  "'w AliyunCertificateBindingReconciler \<Rightarrow> AliyunCertificateBinding \<Rightarrow> AliyunCertificate option \<Rightarrow> ('w, duration) io" where
  "appliedLag r b ac = (case Option.bind ac (\<lambda>a. x_Current (ac_Status a)) of
     None \<Rightarrow> ret 0
   | Some cur \<Rightarrow>
       if g_Fingerprint cur = [] \<or> bx_AppliedFingerprint (b_Status b) = g_Fingerprint cur then ret 0
       else do {
         t \<leftarrow> binding_now r;
         let lag = t - g_UploadedAt cur;
         ret (if lag < 0 then 0 else lag)
       })"

section \<open>Metrics\<close>

definition recordBindingReadiness :: "meta_api \<Rightarrow> bindingRound \<Rightarrow> ('w, unit) io" where
  "recordBindingReadiness mt rd = do {
     let ls = [b_Namespace (rd_b rd), b_Name (rd_b rd)];
     emit (Metric (GaugeSet ''aliyuncert_binding_ready'' ls (b2f (bindingCondTrue mt (rd_b rd) ConditionReady))));
     emit (Metric (GaugeSet ''aliyuncert_binding_conflict'' ls (b2f (bindingCondTrue mt (rd_b rd) ConditionConflict))))
   }"

text \<open>The gauge shows the lag in seconds as a float; here it keeps the exact duration.\<close>

definition recordBindingMetrics :: "meta_api \<Rightarrow> bindingRound \<Rightarrow> ('w, unit) io" where
  "recordBindingMetrics mt rd = do {
     recordBindingReadiness mt rd;
     emit (Metric (GaugeSet ''aliyuncert_binding_applied_age_seconds''
       [b_Namespace (rd_b rd), b_Name (rd_b rd), rd_provider rd] (rd_lag rd)))
   }"

definition clearBindingMetrics :: "string \<Rightarrow> string \<Rightarrow> string \<Rightarrow> ('w, unit) io" where
  "clearBindingMetrics namespace name providerName = do {
     emit (Metric (GaugeDelete ''aliyuncert_binding_ready'' [namespace, name]));
     emit (Metric (GaugeDelete ''aliyuncert_binding_conflict'' [namespace, name]));
     emit (Metric (GaugeDelete ''aliyuncert_binding_applied_age_seconds'' [namespace, name, providerName]))
   }"

text \<open>A successful patch decodes the answer into \<open>rd.b\<close>.\<close>

definition patchBindingStatus ::
  "'w AliyunCertificateBindingReconciler \<Rightarrow> bindingRound \<Rightarrow> ('w, gerror + AliyunCertificateBinding) io" where
  "patchBindingStatus r rd = perform (PatchBindingStatus (rd_b rd) (rd_orig rd)) (k_PatchBindingStatus (br_kube r) (rd_b rd) (rd_orig rd))"

definition patchBinding ::
  "'w AliyunCertificateBindingReconciler \<Rightarrow> bindingRound \<Rightarrow> ('w, gerror + AliyunCertificateBinding) io" where
  "patchBinding r rd = do { recordBindingMetrics (br_meta r) rd; patchBindingStatus r rd }"

section \<open>Identity\<close>

record certIdentity =
  want :: string
  current :: string
  applied :: string
  byRef :: bool

definition no_capabilities :: Capabilities where
  "no_capabilities = \<lparr> ReferencesCertByID = False, SupportsProtocolSwitch = False, RequiresCASUpload = False \<rparr>"

definition capabilitiesOf :: "'w registry \<Rightarrow> AliyunCertificateBinding \<Rightarrow> Capabilities" where
  "capabilitiesOf reg b = (case registry_Get reg (bt_Type (bs_Target (b_Spec b))) of
     Some p \<Rightarrow> pv_Capabilities p | None \<Rightarrow> no_capabilities)"

definition identityOf :: "'w registry \<Rightarrow> AliyunCertificateBinding \<Rightarrow> ObservedState \<Rightarrow> CertMaterial \<Rightarrow> certIdentity" where
  "identityOf reg b obs m =
     (if ReferencesCertByID (capabilitiesOf reg b)
      then \<lparr> want = CASCertRef m, current = o_CurrentCertRef obs, applied = bx_AppliedCertRef (b_Status b), byRef = True \<rparr>
      else \<lparr> want = m_Fingerprint m, current = o_CurrentFingerprint obs, applied = bx_AppliedFingerprint (b_Status b), byRef = False \<rparr>)"

definition ensureHTTPSOf :: "AliyunCertificateBinding \<Rightarrow> bool" where
  "ensureHTTPSOf b = (case bt_FC3CustomDomain (bs_Target (b_Spec b)) of Some fc \<Rightarrow> fc_EnsureHTTPSProtocol fc | None \<Rightarrow> False)"

text \<open>\<open>None\<close> is the empty reason, which lets pass.\<close>

definition casUploadGate :: "Capabilities \<Rightarrow> AliyunCertificate \<Rightarrow> CertMaterial \<Rightarrow> (string \<times> message) option" where
  "casUploadGate caps ac m =
     (if \<not> RequiresCASUpload caps then None
      else if \<not> UploadEnabled (sp_Aliyun (ac_Spec ac)) then Some (ReasonCASUploadRequired, Msg ''the target type requires uploadToCAS'' [])
      else if m_CertID m = None then Some (ReasonCertificateNotReady, Msg ''the certificate has no CAS certId yet'' [])
      else None)"

section \<open>Material\<close>

definition material_of :: "AliyunCertificate \<Rightarrow> crypto_env \<Rightarrow> Bundle \<Rightarrow> bytes \<Rightarrow> CertMaterial" where
  "material_of ac env b keyPEM =
     (let m = \<lparr> m_Fingerprint = bn_Fingerprint b, m_CertPEM = CertPEM env b, m_KeyPEM = keyPEM, m_CertID = None,
          m_CASName = CASName (ac_Name ac) (bn_Fingerprint b), m_NotAfter = xc_NotAfter (bn_Leaf b),
          m_DNSNames = DNSNames b, m_CASRegion = EffectiveCASRegion (sp_Aliyun (ac_Spec ac)) \<rparr>
      in case x_Current (ac_Status ac) of
           None \<Rightarrow> m
         | Some cur \<Rightarrow>
             if g_Fingerprint cur = bn_Fingerprint b
             then (let m = m\<lparr>m_CertID := g_CertID cur\<rparr>
                   in if g_CASName cur \<noteq> [] then m\<lparr>m_CASName := g_CASName cur\<rparr> else m)
             else m)"

definition loadBindingMaterial :: "crypto_env \<Rightarrow> 'w kube \<Rightarrow> AliyunCertificate \<Rightarrow> ('w, materialError + CertMaterial) io" where
  "loadBindingMaterial env kb ac = do {
     r \<leftarrow> loadBundle env kb (ac_Namespace ac) (servingSecretName ac (x_SecretName (ac_Status ac)));
     (case r of
        Inl me \<Rightarrow> ret (Inl me)
      | Inr b \<Rightarrow> (case KeyPEM env b of
          Inl kerr \<Rightarrow> ret (Inl \<lparr> me_Reason = ReasonSecretInvalid, me_Message = MsgErr [] (error_text kerr) \<rparr>)
        | Inr keyPEM \<Rightarrow> ret (Inr (material_of ac env b keyPEM))))
   }"

definition requiredDomainsOf :: "AliyunCertificateBinding \<Rightarrow> string list" where
  "requiredDomainsOf b = (let t = bs_Target (b_Spec b) in
     if bt_Type t = TargetTypeFC3CustomDomain \<and> bt_FC3CustomDomain t \<noteq> None
     then [fc_DomainName (the (bt_FC3CustomDomain t))]
     else if bt_Type t = TargetTypeOSSCustomDomain \<and> bt_OSSCustomDomain t \<noteq> None
     then [oss_DomainName (the (bt_OSSCustomDomain t))]
     else [])"

definition checkDomainCoverage :: "CertMaterial \<Rightarrow> AliyunCertificateBinding \<Rightarrow> materialError option" where
  "checkDomainCoverage m b = (let required = requiredDomainsOf b in
     if length required = 0 then None
     else let missing = Missing (m_DNSNames m) required
          in if length missing > 0
             then Some \<lparr> me_Reason = ReasonDomainNotCovered, me_Message = Msg ''not covered'' missing \<rparr>
             else None)"

definition certificateGate :: "CertMaterial \<Rightarrow> AliyunCertificate \<Rightarrow> bool" where
  "certificateGate m ac \<longleftrightarrow> (case x_Current (ac_Status ac) of
     Some cur \<Rightarrow> g_Fingerprint cur = m_Fingerprint m | None \<Rightarrow> False)"

definition certIssued :: "meta_api \<Rightarrow> AliyunCertificate \<Rightarrow> bool" where
  "certIssued mt ac = IsStatusConditionTrue mt (x_Conditions (ac_Status ac)) ConditionIssued"

section \<open>Targets\<close>

definition credentialsSecretNameFor :: "AliyunCertificateBinding \<Rightarrow> AliyunCertificate option \<Rightarrow> string" where
  "credentialsSecretNameFor b ac =
     (if (case bs_CredentialsRef (b_Spec b) of Some n \<Rightarrow> n \<noteq> [] | None \<Rightarrow> False)
      then the (bs_CredentialsRef (b_Spec b))
      else case ac of Some a \<Rightarrow> a_CredentialsRef (sp_Aliyun (ac_Spec a)) | None \<Rightarrow> [])"

definition targetOf :: "'w registry \<Rightarrow> AliyunCertificateBinding \<Rightarrow> gerror + Target" where
  "targetOf reg b = (let t = bs_Target (b_Spec b) in
     if bt_Type t = TargetTypeFC3CustomDomain then
       (case bt_FC3CustomDomain t of
          None \<Rightarrow> Inl (Plain (''target.type='' @ bt_Type t @ '' without fc3CustomDomain''))
        | Some fc \<Rightarrow> Inr \<lparr> tg_Type = bt_Type t, tg_Region = fc_Region fc, tg_Identifier = fc_DomainName fc, tg_Spec = SpecFC3 fc \<rparr>)
     else if bt_Type t = TargetTypeOSSCustomDomain then
       (case bt_OSSCustomDomain t of
          None \<Rightarrow> Inl (Plain (''target.type='' @ bt_Type t @ '' without ossCustomDomain''))
        | Some o' \<Rightarrow> Inr \<lparr> tg_Type = bt_Type t, tg_Region = oss_Region o', tg_Identifier = oss_DomainName o', tg_Spec = SpecOSS o' \<rparr>)
     else Inl (Plain (''unknown target.type '' @ bt_Type t @ '', registered: '' @ Join (registry_Names reg) '' '')))"

section \<open>Indexes\<close>

definition bindingCertificateIndex :: "AliyunCertificateBinding \<Rightarrow> string list" where
  "bindingCertificateIndex b = (if bs_CertificateRef (b_Spec b) = [] then [] else [bs_CertificateRef (b_Spec b)])"

definition bindingTargetIndex :: "AliyunCertificateBinding \<Rightarrow> string list" where
  "bindingTargetIndex b = (let key = TargetKey b in if key = [] then [] else [key])"

end
