(* ===== verification/Binding_Steps.thy ===== *)
theory Binding_Steps
  imports Binding_Model
begin

text \<open>
  The steps of a Binding round around the two cloud calls
  (\<open>internal/controller/binding_observe.go\<close>, \<open>binding_apply.go\<close>): the idempotence test,
  account fencing, drift, what a failure of either call leaves behind, and the state that a
  verified or written certificate is frozen into.
\<close>

section \<open>Results\<close>

type_synonym binding_result = "duration \<times> gerror option"

text \<open>\<open>return ctrl.Result\{RequeueAfter: requeue\}, r.patchBinding(ctx, rd)\<close>.\<close>

definition patch_round :: "'w AliyunCertificateBindingReconciler \<Rightarrow> bindingRound \<Rightarrow> duration \<Rightarrow> ('w, binding_result) io" where
  "patch_round r rd requeue = do {
     p \<leftarrow> patchBinding r rd;
     ret (requeue, err_of p)
   }"

abbreviation targetNotFoundRequeue :: duration where "targetNotFoundRequeue \<equiv> 5 * minute"
abbreviation credentialsRequeue :: duration where "credentialsRequeue \<equiv> 5 * minute"
abbreviation certificateGateRequeue :: duration where "certificateGateRequeue \<equiv> 30 * second"

section \<open>Observe\<close>

definition protocolSatisfied :: "ObservedState \<Rightarrow> bool \<Rightarrow> bool" where
  "protocolSatisfied obs ensureHTTPS =
     (if \<not> ensureHTTPS then True
      else (\<exists>part \<in> set (Split (o_Protocol obs) (CHR '','')). EqualFold (TrimSpace part) ''HTTPS''))"

definition eventOnReasonChange ::
  "'w AliyunCertificateBindingReconciler \<Rightarrow> bindingRound \<Rightarrow> string \<Rightarrow> string \<Rightarrow> event_type \<Rightarrow> string \<Rightarrow> message \<Rightarrow> ('w, unit) io" where
  "eventOnReasonChange r rd condType reason eventType eventReason msg =
     (if bindingCondReason (br_meta r) (rd_orig rd) condType = reason then ret ()
      else emit (Event eventType eventReason msg))"

fun mark_failed :: "condition list \<Rightarrow> condition list option" where
  "mark_failed [] = None"
| "mark_failed (c # cs) =
     (if c_Type c = ConditionApplied
      then Some (c\<lparr>c_Reason := ReasonObserveFailed, c_Message := Msg ''the last observation failed, verdict kept'' []\<rparr> # cs)
      else map_option (\<lambda>cs. c # cs) (mark_failed cs))"

text \<open>Whether a trace was left, and the Binding.\<close>

definition noteObserveFailed :: "AliyunCertificateBinding \<Rightarrow> bool \<times> AliyunCertificateBinding" where
  "noteObserveFailed b = (case mark_failed (bx_Conditions (b_Status b)) of
     Some cs \<Rightarrow> (True, upd_bstatus (\<lambda>x. x\<lparr>bx_Conditions := cs\<rparr>) b)
   | None \<Rightarrow> (False, b))"

definition observe_failed_round ::
  "'w AliyunCertificateBindingReconciler \<Rightarrow> bindingRound \<Rightarrow> gerror \<Rightarrow> bool \<Rightarrow> ('w, binding_result) io" where
  "observe_failed_round r rd err retryable =
     (let (noted, b) = noteObserveFailed (rd_b rd); rd = rd\<lparr>rd_b := b\<rparr> in do {
       (if noted
        then eventOnReasonChange r rd ConditionApplied ReasonObserveFailed EventTypeWarning ReasonObserveFailed
          (Msg ''failed to observe the binding target; the applied state is unchanged'' [])
        else ret ());
       p \<leftarrow> patchBinding r (upd_b (aggregateBindingReady (br_meta r)) rd);
       ret (case p of
          Inl perr \<Rightarrow> (0, Some perr)
        | Inr _ \<Rightarrow> if retryable then (0, Some err) else (br_DriftCheckInterval r, None))
     })"

definition handleObserveError ::
  "'w AliyunCertificateBindingReconciler \<Rightarrow> bindingRound \<Rightarrow> gerror \<Rightarrow> ('w, binding_result) io" where
  "handleObserveError r rd err = (case ErrorOf err of
     Some (code, retryable, reason) \<Rightarrow>
       if code = CodeTargetNotFound
       then patch_round r (upd_b (aggregateBindingReady (br_meta r) \<circ>
              setBindingCondition (br_meta r) ConditionApplied ConditionFalse reason (Msg ''the target does not exist'' [])) rd)
            targetNotFoundRequeue
       else if code = CodeAuth
       then patch_round r (upd_b (setBindingReadyFalse (br_meta r) reason (MsgErr [] (error_text err))) rd) credentialsRequeue
       else observe_failed_round r rd err retryable
   | None \<Rightarrow> observe_failed_round r rd err False)"

definition noteObserved :: "'w AliyunCertificateBindingReconciler \<Rightarrow> bindingRound \<Rightarrow> ('w, bindingRound) io" where
  "noteObserved r rd = do {
     t \<leftarrow> binding_now r;
     ret (if (case bx_LastObservedTime (b_Status (rd_orig rd)) of Some prev \<Rightarrow> prev div second = t div second | None \<Rightarrow> False)
          then rd
          else upd_b (upd_bstatus (\<lambda>x. x\<lparr>bx_LastObservedTime := Some t\<rparr>)) rd)
   }"

definition setFencedConflict :: "meta_api \<Rightarrow> bindingRound \<Rightarrow> bindingRound" where
  "setFencedConflict mt rd =
     (let cond = \<lparr> c_Type = ConditionConflict, c_Status = ConditionTrue, c_Reason = ReasonAccountMismatch,
            c_Message = Msg ''the account of the target differs from the bound one'' [],
            c_ObservedGeneration = b_Generation (rd_b rd), c_LastTransitionTime = None \<rparr>;
          cond = (case FindStatusCondition mt (bx_Conditions (b_Status (rd_orig rd))) ConditionConflict of
              Some prev \<Rightarrow>
                if c_Status prev = ConditionTrue \<and> c_Reason prev = ReasonAccountMismatch
                then cond\<lparr>c_LastTransitionTime := c_LastTransitionTime prev\<rparr> else cond
            | None \<Rightarrow> cond)
      in upd_b (upd_bstatus (\<lambda>x. x\<lparr>bx_Conditions := SetStatusCondition mt (bx_Conditions x) cond\<rparr>)) rd)"

text \<open>Whether the account stops the round, and the round.\<close>

definition fenceAccount :: "meta_api \<Rightarrow> bindingRound \<Rightarrow> ObservedState \<Rightarrow> bool \<times> bindingRound" where
  "fenceAccount mt rd obs =
     (let bound = bx_BoundAccountID (b_Status (rd_b rd)) in
      if bound = [] \<or> bound = o_AccountID obs then (False, rd) else (True, setFencedConflict mt rd))"

definition noteDrift ::
  "'w AliyunCertificateBindingReconciler \<Rightarrow> bindingRound \<Rightarrow> ObservedState \<Rightarrow> CertMaterial \<Rightarrow> ('w, bindingRound) io" where
  "noteDrift r rd obs m =
     (let id = identityOf (br_registry r) (rd_b rd) obs m; cur = current id in
      if cur = [] \<or> cur = applied id \<or> cur = want id
      then ret (upd_b (upd_bstatus (\<lambda>x. x\<lparr>bx_DriftedFingerprint := [], bx_DriftedCertRef := []\<rparr>)) rd)
      else let prev = (if byRef id then bx_DriftedCertRef (b_Status (rd_orig rd)) else bx_DriftedFingerprint (b_Status (rd_orig rd)));
               rd = upd_b (upd_bstatus (\<lambda>x. if byRef id then x\<lparr>bx_DriftedCertRef := cur\<rparr> else x\<lparr>bx_DriftedFingerprint := cur\<rparr>)) rd
           in if prev = cur then ret rd
              else do {
                emit (Metric (CounterInc ''aliyuncert_binding_drift_detected_total'' [rd_provider rd]));
                emit (Event EventTypeWarning ReasonDriftCorrected
                  (Msg ''target certificate was changed outside the operator; re-applying'' []));
                ret rd
              })"

section \<open>Apply\<close>

definition bindingApplyResult :: "gerror option \<Rightarrow> string" where
  "bindingApplyResult err = (case err of None \<Rightarrow> resultSuccess | Some e \<Rightarrow>
     (case ErrorOf e of
        Some (code, retryable, reason) \<Rightarrow> if code = CodeThrottled then resultThrottled else resultError
      | None \<Rightarrow> resultError))"

definition apply_failed_reason :: "gerror \<Rightarrow> string" where
  "apply_failed_reason err = (case ErrorOf err of
     Some (code, retryable, reason) \<Rightarrow> if reason \<noteq> [] then reason else ReasonApplyFailed
   | None \<Rightarrow> ReasonApplyFailed)"

definition apply_failed_result :: "'w AliyunCertificateBindingReconciler \<Rightarrow> gerror \<Rightarrow> binding_result" where
  "apply_failed_result r err = (case ErrorOf err of
     Some (code, retryable, reason) \<Rightarrow>
       if retryable then (0, Some err)
       else if code = CodeAuth then (credentialsRequeue, None)
       else (br_DriftCheckInterval r, None)
   | None \<Rightarrow> (br_DriftCheckInterval r, None))"

definition handleApplyError ::
  "'w AliyunCertificateBindingReconciler \<Rightarrow> bindingRound \<Rightarrow> gerror \<Rightarrow> ('w, binding_result) io" where
  "handleApplyError r rd err = do {
     let reason = apply_failed_reason err;
     eventOnReasonChange r rd ConditionApplied reason EventTypeWarning ReasonApplyFailed
       (Msg ''failed to apply the certificate to the binding target'' []);
     p \<leftarrow> patchBinding r (upd_b (aggregateBindingReady (br_meta r) \<circ>
       setBindingCondition (br_meta r) ConditionApplied ConditionFalse reason (Msg ''writing the target failed'' [])) rd);
     ret (case p of Inl perr \<Rightarrow> (0, Some perr) | Inr _ \<Rightarrow> apply_failed_result r err)
   }"

definition setApplied :: "'w AliyunCertificateBindingReconciler \<Rightarrow> bindingRound \<Rightarrow> ('w, bindingRound) io" where
  "setApplied r rd = do {
     let was = bindingCondTrue (br_meta r) (rd_b rd) ConditionApplied;
     let rd = upd_b (setBindingCondition (br_meta r) ConditionApplied ConditionTrue ReasonApplied NoMsg) rd;
     (if \<not> was
      then emit (Event EventTypeNormal ReasonApplied (Msg ''certificate applied to the binding target'' []))
      else ret ());
     ret rd
   }"

text \<open>The status a verified certificate is frozen into; \<open>at\<close> is the time of a write.\<close>

definition frozen ::
  "'w registry \<Rightarrow> ObservedState \<Rightarrow> CertMaterial \<Rightarrow> time option \<Rightarrow> AliyunCertificateBinding \<Rightarrow> AliyunCertificateBinding" where
  "frozen reg obs m at b =
     (let b = upd_bstatus (\<lambda>x. x\<lparr>bx_AppliedFingerprint := m_Fingerprint m\<rparr>) b;
          b = (if ReferencesCertByID (capabilitiesOf reg b) then upd_bstatus (\<lambda>x. x\<lparr>bx_AppliedCertRef := CASCertRef m\<rparr>) b else b);
          b = upd_bstatus (\<lambda>x. x\<lparr>bx_DriftedFingerprint := [], bx_DriftedCertRef := []\<rparr>) b;
          b = (case at of Some t \<Rightarrow> upd_bstatus (\<lambda>x. x\<lparr>bx_LastAppliedTime := Some t\<rparr>) b | None \<Rightarrow> b)
      in if bx_BoundAccountID (b_Status b) = [] \<and> o_AccountID obs \<noteq> []
         then upd_bstatus (\<lambda>x. x\<lparr>bx_BoundAccountID := o_AccountID obs\<rparr>) b else b)"

definition freezeApplied ::
  "'w AliyunCertificateBindingReconciler \<Rightarrow> bindingRound \<Rightarrow> ObservedState \<Rightarrow> CertMaterial \<Rightarrow> bool \<Rightarrow> ('w, bindingRound) io" where
  "freezeApplied r rd obs m wrote = do {
     at \<leftarrow> (if wrote then do { t \<leftarrow> binding_now r; ret (Some t) } else ret None);
     setApplied r (rd\<lparr>rd_b := frozen (br_registry r) obs m at (rd_b rd), rd_lag := 0\<rparr>)
   }"

end
