(* ===== verification/Binding_Conflict.thy ===== *)
theory Binding_Conflict
  imports Binding_Model
begin

text \<open>
  Which of the Bindings of one target may write it (\<open>internal/controller/binding_conflict.go\<close>):
  the oldest that is not being deleted, with the UID as the second key. The locale
  \<open>arbitration\<close> says what every replica relies on: the loop elects the least live
  candidate whatever order the listing has.
\<close>

section \<open>Definitions\<close>

definition lessBinding :: "AliyunCertificateBinding \<Rightarrow> AliyunCertificateBinding \<Rightarrow> bool" where
  "lessBinding a b =
     (if b_CreationTimestamp a \<noteq> b_CreationTimestamp b then b_CreationTimestamp a < b_CreationTimestamp b
      else b_UID a < b_UID b)"

fun pick_loop :: "AliyunCertificateBinding option \<Rightarrow> AliyunCertificateBinding list \<Rightarrow> AliyunCertificateBinding option" where
  "pick_loop winner [] = winner"
| "pick_loop winner (c # items) =
     (if b_DeletionTimestamp c \<noteq> None then pick_loop winner items
      else if (case winner of None \<Rightarrow> True | Some w \<Rightarrow> lessBinding c w) then pick_loop (Some c) items
      else pick_loop winner items)"

definition pickWinner :: "AliyunCertificateBinding list \<Rightarrow> AliyunCertificateBinding option" where
  "pickWinner items = pick_loop None items"

definition arbitrate ::
  "'w AliyunCertificateBindingReconciler \<Rightarrow> AliyunCertificateBinding \<Rightarrow> ('w, gerror + AliyunCertificateBinding) io" where
  "arbitrate r b =
     (let key = TargetKey b in
      if key = [] then ret (Inr b)
      else do {
        l \<leftarrow> perform (ListByTarget key) (k_ListByTarget (br_kube r) key);
        ret (case l of
           Inl err \<Rightarrow> Inl err
         | Inr items \<Rightarrow> (case pickWinner items of None \<Rightarrow> Inr b | Some w \<Rightarrow> Inr w))
      })"

text \<open>A request is a namespace and a name.\<close>

definition bindingRequests :: "AliyunCertificateBinding list \<Rightarrow> (string \<times> string) list" where
  "bindingRequests items = map (\<lambda>b. (b_Namespace b, b_Name b)) items"

definition bindingPeerRequests ::
  "'w AliyunCertificateBindingReconciler \<Rightarrow> AliyunCertificateBinding \<Rightarrow> ('w, (string \<times> string) list) io" where
  "bindingPeerRequests r b =
     (let key = TargetKey b in
      if key = [] then ret []
      else do {
        l \<leftarrow> perform (ListByTarget key) (k_ListByTarget (br_kube r) key);
        ret (case l of Inl err \<Rightarrow> [] | Inr items \<Rightarrow> bindingRequests items)
      })"

section \<open>Election by a total order\<close>

locale arbitration =
  fixes less :: "'b \<Rightarrow> 'b \<Rightarrow> bool"
    and live :: "'b \<Rightarrow> bool"
    and uid :: "'b \<Rightarrow> 'u"
  assumes irrefl: "\<not> less a a"
    and trans: "less a b \<Longrightarrow> less b c \<Longrightarrow> less a c"
    and total: "uid a \<noteq> uid b \<Longrightarrow> less a b \<or> less b a"
begin

fun elect :: "'b option \<Rightarrow> 'b list \<Rightarrow> 'b option" where
  "elect w [] = w"
| "elect w (c # cs) =
     (if \<not> live c then elect w cs
      else if (case w of None \<Rightarrow> True | Some w \<Rightarrow> less c w) then elect (Some c) cs
      else elect w cs)"

definition least :: "'b set \<Rightarrow> 'b \<Rightarrow> bool" where
  "least A w \<longleftrightarrow> w \<in> A \<and> live w \<and> (\<forall>x \<in> A. live x \<longrightarrow> x \<noteq> w \<longrightarrow> less w x)"

definition uids_distinct :: "'b set \<Rightarrow> bool" where
  "uids_distinct A \<longleftrightarrow> inj_on uid A"

lemma least_unique: "least A v \<Longrightarrow> least A w \<Longrightarrow> v = w"
  unfolding least_def using irrefl trans by blast

lemma elect_Some:
  "least A w \<Longrightarrow> uids_distinct (A \<union> set cs) \<Longrightarrow> \<exists>v. elect (Some w) cs = Some v \<and> least (A \<union> set cs) v"
proof (induction cs arbitrary: A w)
  case (Cons c cs)
  show ?case
  proof (cases "live c \<and> less c w")
    case True
    have "least (insert c A) c"
      using Cons.prems(1) True trans unfolding least_def by blast
    then show ?thesis using Cons.IH [of "insert c A" c] Cons.prems(2) True by simp
  next
    case False
    have "less w c" if "live c" "c \<noteq> w"
    proof -
      have "w \<in> A" using Cons.prems(1) by (simp add: least_def)
      then have "uid w \<noteq> uid c" using Cons.prems(2) that by (auto simp: uids_distinct_def inj_on_def)
      then show ?thesis using total [of w c] False that by blast
    qed
    then have "least (insert c A) w" using Cons.prems(1) unfolding least_def by blast
    then show ?thesis using Cons.IH [of "insert c A" w] Cons.prems(2) False by auto
  qed
qed simp

lemma elect_None:
  "uids_distinct (set cs) \<Longrightarrow> (case elect None cs of None \<Rightarrow> \<forall>x \<in> set cs. \<not> live x | Some v \<Rightarrow> least (set cs) v)"
proof (induction cs)
  case (Cons c cs)
  show ?case
  proof (cases "live c")
    case True
    then have "least {c} c" by (simp add: least_def)
    with elect_Some [of "{c}" c cs] Cons.prems True show ?thesis by auto
  next
    case False
    then have "least (set cs) v \<longleftrightarrow> least (set (c # cs)) v" for v by (auto simp: least_def)
    with Cons False show ?thesis by (auto simp: uids_distinct_def split: option.splits)
  qed
qed simp

lemma elect_iff:
  assumes "uids_distinct (set cs)"
  shows "elect None cs = Some v \<longleftrightarrow> least (set cs) v"
proof
  show "elect None cs = Some v \<Longrightarrow> least (set cs) v" using elect_None [OF assms] by simp
  assume v: "least (set cs) v"
  show "elect None cs = Some v"
  proof (cases "elect None cs")
    case None
    with elect_None [OF assms] v show ?thesis by (auto simp: least_def)
  next
    case (Some u)
    with elect_None [OF assms] v show ?thesis using least_unique by auto
  qed
qed

text \<open>Two replicas with the same candidates elect the same one.\<close>

lemma elect_agrees: "set cs = set ds \<Longrightarrow> uids_distinct (set cs) \<Longrightarrow> elect None cs = elect None ds"
  using elect_iff [of cs] elect_iff [of ds] by (metis option.exhaust)

end

interpretation arb: arbitration lessBinding "\<lambda>b. b_DeletionTimestamp b = None" b_UID
proof (unfold_locales, goal_cases)
  case (2 a b c)
  then show ?case by (auto simp: lessBinding_def split: if_splits)
next
  case (3 a b)
  then show ?case by (auto simp: lessBinding_def)
qed (simp add: lessBinding_def)

lemma pick_loop_elect: "pick_loop w items = arb.elect w items"
  by (induction w items rule: pick_loop.induct) (auto split: option.splits)

lemma pickWinner_iff:
  "inj_on b_UID (set items) \<Longrightarrow> pickWinner items = Some v \<longleftrightarrow> arb.least (set items) v"
  using arb.elect_iff by (simp add: pickWinner_def pick_loop_elect arb.uids_distinct_def)

lemma pickWinner_None_iff:
  "inj_on b_UID (set items) \<Longrightarrow> pickWinner items = None \<longleftrightarrow> (\<forall>x \<in> set items. b_DeletionTimestamp x \<noteq> None)"
proof -
  assume u: "inj_on b_UID (set items)"
  then show ?thesis
    using arb.elect_None [of items] pickWinner_iff [OF u]
    by (cases "pickWinner items") (auto simp: pickWinner_def pick_loop_elect arb.uids_distinct_def arb.least_def)
qed

section \<open>Properties\<close>

text \<open>
  C5. Arbitration elects one Binding, the same for every observer: among candidates with
  distinct UIDs the winner is the one that is not being deleted and older than every other
  such candidate, with the UID deciding between equal ages; there is none only if all are
  being deleted; and two replicas that see the same candidates in any order and multiplicity
  elect the same one, so at most one of the Bindings of a target may write it.
\<close>

theorem pickWinner_unique:
  assumes "inj_on b_UID (set items)" and "set items = set items'"
  shows "pickWinner items' = pickWinner items \<and>
    (case pickWinner items of
       None \<Rightarrow> list_all (\<lambda>x. b_DeletionTimestamp x \<noteq> None) items
     | Some w \<Rightarrow> w \<in> set items \<and> b_DeletionTimestamp w = None \<and>
         list_all (\<lambda>x. x = w \<or> b_DeletionTimestamp x \<noteq> None \<or> b_CreationTimestamp w < b_CreationTimestamp x \<or>
           b_CreationTimestamp w = b_CreationTimestamp x \<and> b_UID w < b_UID x) items)"
proof
  show "pickWinner items' = pickWinner items"
    using arb.elect_agrees [OF assms(2)] assms(1)
    by (simp add: pickWinner_def pick_loop_elect arb.uids_distinct_def)
  show "case pickWinner items of
       None \<Rightarrow> list_all (\<lambda>x. b_DeletionTimestamp x \<noteq> None) items
     | Some w \<Rightarrow> w \<in> set items \<and> b_DeletionTimestamp w = None \<and>
         list_all (\<lambda>x. x = w \<or> b_DeletionTimestamp x \<noteq> None \<or> b_CreationTimestamp w < b_CreationTimestamp x \<or>
           b_CreationTimestamp w = b_CreationTimestamp x \<and> b_UID w < b_UID x) items"
  proof (cases "pickWinner items")
    case None
    with pickWinner_None_iff [OF assms(1)] show ?thesis by (simp add: list_all_iff)
  next
    case (Some w)
    with pickWinner_iff [OF assms(1)] have l: "arb.least (set items) w" by blast
    have "x = w \<or> b_DeletionTimestamp x \<noteq> None \<or> b_CreationTimestamp w < b_CreationTimestamp x \<or>
        b_CreationTimestamp w = b_CreationTimestamp x \<and> b_UID w < b_UID x" if "x \<in> set items" for x
      using l that unfolding arb.least_def lessBinding_def by (metis (full_types))
    with Some l show ?thesis unfolding arb.least_def by (simp add: list_all_iff)
  qed
qed

section \<open>Witnesses\<close>

theorem pickWinner_unique_witness:
  "pickWinner [sample_binding ''two'' ''d'', sample_binding ''one'' ''d''] =
     pickWinner [sample_binding ''one'' ''d'', sample_binding ''two'' ''d''] \<and>
   map_option b_Name (pickWinner [sample_binding ''one'' ''d'', sample_binding ''two'' ''d'']) = Some ''one''"
proof
  have inj: "inj_on b_UID (set [sample_binding ''one'' ''d'', sample_binding ''two'' ''d''])"
    by (simp add: sample_binding_def)
  show "pickWinner [sample_binding ''two'' ''d'', sample_binding ''one'' ''d''] =
     pickWinner [sample_binding ''one'' ''d'', sample_binding ''two'' ''d'']"
    using pickWinner_unique [OF inj, of "[sample_binding ''two'' ''d'', sample_binding ''one'' ''d'']"]
    by (simp add: insert_commute)
  show "map_option b_Name (pickWinner [sample_binding ''one'' ''d'', sample_binding ''two'' ''d'']) = Some ''one''"
    by code_simp
qed

end
