(* ===== verification/Binding_Controller.thy ===== *)
theory Binding_Controller
  imports Binding_Steps Binding_Conflict
begin

text \<open>
  The reconcile of an AliyunCertificateBinding
  (\<open>internal/controller/aliyuncertificatebinding_controller.go\<close>) up to its deletion branch:
  arbitration, material, the gates, Observe, fencing, the idempotence test, Apply and the
  frozen state.
\<close>

section \<open>Definitions\<close>

definition providerClient ::
  "'w AliyunCertificateBindingReconciler \<Rightarrow> AliyunCertificateBinding \<Rightarrow> AliyunCertificate option \<Rightarrow>
     ('w, gerror + 'w Provider \<times> 'w Client) io" where
  "providerClient r b ac = (case br_ProviderFactory r of
     None \<Rightarrow> ret (Inl (Plain ''ProviderFactory is not configured''))
   | Some f \<Rightarrow> perform (\<lambda>c. BuildProvider (err_of c)) (f b ac))"

definition handleFactoryError ::
  "'w AliyunCertificateBindingReconciler \<Rightarrow> bindingRound \<Rightarrow> gerror \<Rightarrow> ('w, binding_result) io" where
  "handleFactoryError r rd err = (case as_credentials err of
     Some (reason, text) \<Rightarrow> patch_round r (upd_b (setBindingReadyFalse (br_meta r) reason (MsgErr [] text)) rd) credentialsRequeue
   | None \<Rightarrow> patch_round r (upd_b (setBindingReadyFalse (br_meta r) ReasonApplyFailed (MsgErr [] (error_text err))) rd) credentialsRequeue)"

text \<open>Steps 6 to 8 after the drift was noted.\<close>

definition applyTarget ::
  "'w AliyunCertificateBindingReconciler \<Rightarrow> bindingRound \<Rightarrow> 'w Provider \<Rightarrow> 'w Client \<Rightarrow> Target \<Rightarrow> ObservedState \<Rightarrow>
     CertMaterial \<Rightarrow> ('w, binding_result) io" where
  "applyTarget r rd p cl tg obs m = do {
     let ao = \<lparr> ao_EnsureHTTPSProtocol = ensureHTTPSOf (rd_b rd),
       ao_PreviousFingerprint = bx_AppliedFingerprint (b_Status (rd_b rd)) \<rparr>;
     aerr \<leftarrow> perform (TargetApply tg m ao) (pv_Apply p tg cl m ao);
     emit (Metric (CounterInc ''aliyuncert_binding_apply_total'' [rd_provider rd, bindingApplyResult aerr]));
     (case aerr of
        Some err \<Rightarrow> handleApplyError r rd err
      | None \<Rightarrow> do {
          rd \<leftarrow> freezeApplied r rd obs m True;
          patch_round r (upd_b (aggregateBindingReady (br_meta r)) rd) (br_DriftCheckInterval r)
        })
   }"

text \<open>Nothing to write: the target already serves what it should.\<close>

definition up_to_date :: "'w registry \<Rightarrow> AliyunCertificateBinding \<Rightarrow> ObservedState \<Rightarrow> CertMaterial \<Rightarrow> bool" where
  "up_to_date reg b obs m \<longleftrightarrow>
     (let id = identityOf reg b obs m in current id = want id) \<and> protocolSatisfied obs (ensureHTTPSOf b)"

text \<open>What follows a successful observation.\<close>

definition observedTarget ::
  "'w AliyunCertificateBindingReconciler \<Rightarrow> bindingRound \<Rightarrow> 'w Provider \<Rightarrow> 'w Client \<Rightarrow> Target \<Rightarrow> ObservedState \<Rightarrow>
     CertMaterial \<Rightarrow> ('w, binding_result) io" where
  "observedTarget r rd p cl tg obs m = do {
     rd \<leftarrow> noteObserved r rd;
     (case fenceAccount (br_meta r) rd obs of
        (True, rd) \<Rightarrow> patch_round r (upd_b (aggregateBindingReady (br_meta r)) rd) (br_DriftCheckInterval r)
      | (False, rd) \<Rightarrow>
          if up_to_date (br_registry r) (rd_b rd) obs m
          then do {
            rd \<leftarrow> freezeApplied r rd obs m False;
            patch_round r (upd_b (aggregateBindingReady (br_meta r)) rd) (br_DriftCheckInterval r)
          }
          else do {
            rd \<leftarrow> noteDrift r rd obs m;
            applyTarget r rd p cl tg obs m
          })
   }"

text \<open>Steps 4 and 5: the client and the observation.\<close>

definition reachTarget ::
  "'w AliyunCertificateBindingReconciler \<Rightarrow> bindingRound \<Rightarrow> AliyunCertificate \<Rightarrow> CertMaterial \<Rightarrow> ('w, binding_result) io" where
  "reachTarget r rd ac m = do {
     pc \<leftarrow> providerClient r (rd_b rd) (Some ac);
     (case pc of
        Inl err \<Rightarrow> handleFactoryError r rd err
      | Inr (p, cl) \<Rightarrow> (case targetOf (br_registry r) (rd_b rd) of
          Inl err \<Rightarrow> handleFactoryError r rd err
        | Inr tg \<Rightarrow> do {
            o' \<leftarrow> perform (TargetObserve tg) (pv_Observe p tg cl);
            (case o' of
               Inl oerr \<Rightarrow> handleObserveError r rd oerr
             | Inr obs \<Rightarrow> observedTarget r rd p cl tg obs m)
          }))
   }"

text \<open>Steps 3b and 3c, then the target.\<close>

definition gateMaterial ::
  "'w AliyunCertificateBindingReconciler \<Rightarrow> bindingRound \<Rightarrow> AliyunCertificate \<Rightarrow> CertMaterial \<Rightarrow> ('w, binding_result) io" where
  "gateMaterial r rd ac m =
     (if \<not> certificateGate m ac
      then patch_round r (upd_b (aggregateBindingReady (br_meta r) \<circ>
             setBindingCondition (br_meta r) ConditionApplied ConditionFalse ReasonCertificateNotReady
               (Msg ''the certificate has not accepted this generation yet'' [])) rd) certificateGateRequeue
      else case casUploadGate (capabilitiesOf (br_registry r) (rd_b rd)) ac m of
        Some (reason, msg) \<Rightarrow>
          patch_round r (upd_b (aggregateBindingReady (br_meta r) \<circ>
             setBindingCondition (br_meta r) ConditionApplied ConditionFalse reason msg) rd)
            (if reason = ReasonCertificateNotReady then certificateGateRequeue else br_DriftCheckInterval r)
      | None \<Rightarrow> reachTarget r rd ac m)"

text \<open>Step 3 with the check of the domains.\<close>

definition coveredMaterial ::
  "'w AliyunCertificateBindingReconciler \<Rightarrow> AliyunCertificateBinding \<Rightarrow> AliyunCertificate \<Rightarrow> ('w, materialError + CertMaterial) io" where
  "coveredMaterial r b ac = do {
     m \<leftarrow> loadBindingMaterial (br_crypto r) (br_kube r) ac;
     ret (case m of
        Inl me \<Rightarrow> Inl me
      | Inr m \<Rightarrow> (case checkDomainCoverage m b of Some me \<Rightarrow> Inl me | None \<Rightarrow> Inr m))
   }"

definition reconcileBindingReady ::
  "'w AliyunCertificateBindingReconciler \<Rightarrow> bindingRound \<Rightarrow> AliyunCertificate \<Rightarrow> ('w, binding_result) io" where
  "reconcileBindingReady r rd ac = do {
     win \<leftarrow> arbitrate r (rd_b rd);
     (case win of
        Inl err \<Rightarrow> ret (0, Some err)
      | Inr winner \<Rightarrow>
          if b_UID winner \<noteq> b_UID (rd_b rd)
          then patch_round r (upd_b (aggregateBindingReady (br_meta r) \<circ>
                 setBindingCondition (br_meta r) ConditionConflict ConditionTrue ReasonConflictingBinding
                   (Msg ''target already bound by'' [b_Namespace winner, b_Name winner])) rd) (br_DriftCheckInterval r)
          else do {
            let rd = upd_b (setBindingCondition (br_meta r) ConditionConflict ConditionFalse ReasonNoConflict NoMsg) rd;
            m \<leftarrow> coveredMaterial r (rd_b rd) ac;
            (case m of
               Inl me \<Rightarrow> patch_round r (upd_b (setBindingReadyFalse (br_meta r) (me_Reason me) (me_Message me)) rd) (br_DriftCheckInterval r)
             | Inr m \<Rightarrow> gateMaterial r rd ac m)
          })
   }"

text \<open>Step 1 to the end, once the finalizer is in place.\<close>

definition reconcileBound ::
  "'w AliyunCertificateBindingReconciler \<Rightarrow> bindingRound \<Rightarrow> ('w, binding_result) io" where
  "reconcileBound r rd = do {
     let rd = upd_b (\<lambda>b. upd_bstatus (\<lambda>x. x\<lparr>bx_ObservedGeneration := b_Generation b\<rparr>) b) rd;
     let b = rd_b rd;
     let name = bs_CertificateRef (b_Spec b);
     a \<leftarrow> perform (GetAC False (b_Namespace b) name) (k_GetAC (br_kube r) (b_Namespace b) name);
     (case (case a of Inr ac \<Rightarrow> Inr (Some ac) | Inl err \<Rightarrow> if IsNotFound err then Inr None else Inl err) of
        Inl err \<Rightarrow> ret (0, Some err)
      | Inr ac \<Rightarrow> do {
          lag \<leftarrow> appliedLag r b ac;
          let rd = rd\<lparr>rd_lag := lag\<rparr>;
          (case ac of
             None \<Rightarrow> patch_round r (upd_b (setBindingReadyFalse (br_meta r) ReasonCertificateNotFound
                 (Msg ''AliyunCertificate does not exist'' [name])) rd) (br_DriftCheckInterval r)
           | Some ac \<Rightarrow>
               if \<not> certIssued (br_meta r) ac
               then patch_round r (upd_b (setBindingReadyFalse (br_meta r) ReasonCertificateNotReady
                   (Msg ''the certificate has not been validated'' [])) rd) (br_DriftCheckInterval r)
               else reconcileBindingReady r rd ac)
        })
   }"

text \<open>The finalizer of a live Binding; a new round over the answer when it was added.\<close>

definition ensureFinalizer ::
  "'w AliyunCertificateBindingReconciler \<Rightarrow> bindingRound \<Rightarrow> ('w, gerror + bindingRound) io" where
  "ensureFinalizer r rd =
     (if ContainsFinalizer (br_meta r) (b_Finalizers (rd_b rd)) FinalizerName then ret (Inr rd)
      else do {
        let b = (rd_b rd)\<lparr>b_Finalizers := AddFinalizer (br_meta r) (b_Finalizers (rd_b rd)) FinalizerName\<rparr>;
        u \<leftarrow> perform (UpdateBinding b) (k_UpdateBinding (br_kube r) b);
        ret (map_sum id newBindingRound u)
      })"

end
