(* ===== verification/Binding_Deletion.thy ===== *)
theory Binding_Deletion
  imports Binding_Controller Deletion
begin

text \<open>
  The deletion of an AliyunCertificateBinding (\<open>internal/controller/binding_deletion.go\<close>) and
  with it the whole \<open>Reconcile\<close> of \<open>aliyuncertificatebinding_controller.go\<close>. The target is
  left alone unless the policy is Unbind, and the clean-up is bounded by the grace period.
\<close>

section \<open>Definitions\<close>

definition providerErrClass :: "gerror \<Rightarrow> string" where
  "providerErrClass err = (case ErrorOf err of Some (code, retryable, reason) \<Rightarrow> code | None \<Rightarrow> CodePermanent)"

definition no_material :: CertMaterial where
  "no_material = \<lparr> m_Fingerprint = [], m_CertPEM = [], m_KeyPEM = [], m_CertID = None, m_CASName = [],
     m_NotAfter = 0, m_DNSNames = [], m_CASRegion = [] \<rparr>"

text \<open>What the observation of the target allows: \<open>None\<close> is to leave it as it is.\<close>

definition unbindObserved ::
  "'w AliyunCertificateBindingReconciler \<Rightarrow> bindingRound \<Rightarrow> 'w Provider \<Rightarrow> 'w Client \<Rightarrow> Target \<Rightarrow>
     gerror + ObservedState \<Rightarrow> ('w, gerror option) io" where
  "unbindObserved r rd p cl tg o' = (case o' of
     Inl err \<Rightarrow> (case ErrorOf err of
         Some (code, retryable, reason) \<Rightarrow> if code = CodeTargetNotFound then ret None else ret (Some err)
       | None \<Rightarrow> ret (Some err))
   | Inr obs \<Rightarrow>
       (let bound = bx_BoundAccountID (b_Status (rd_b rd)) in
        if bound \<noteq> [] \<and> bound \<noteq> o_AccountID obs then ret None
        else (let id = identityOf (br_registry r) (rd_b rd) obs no_material in
          if current id \<noteq> applied id then ret None
          else perform (TargetCleanup tg DeletionPolicyUnbind) (pv_Cleanup p tg cl DeletionPolicyUnbind))))"

definition unbindTarget :: "'w AliyunCertificateBindingReconciler \<Rightarrow> bindingRound \<Rightarrow> ('w, gerror option) io" where
  "unbindTarget r rd = do {
     let b = rd_b rd;
     let name = bs_CertificateRef (b_Spec b);
     a \<leftarrow> perform (GetAC False (b_Namespace b) name) (k_GetAC (br_kube r) (b_Namespace b) name);
     (case (case a of Inr ac \<Rightarrow> Inr (Some ac) | Inl err \<Rightarrow> if IsNotFound err then Inr None else Inl err) of
        Inl err \<Rightarrow> ret (Some err)
      | Inr ac \<Rightarrow> do {
          pc \<leftarrow> providerClient r b ac;
          (case pc of
             Inl err \<Rightarrow> ret (Some err)
           | Inr (p, cl) \<Rightarrow> (case targetOf (br_registry r) b of
               Inl err \<Rightarrow> ret (Some err)
             | Inr tg \<Rightarrow> do {
                 o' \<leftarrow> perform (TargetObserve tg) (pv_Observe p tg cl);
                 unbindObserved r rd p cl tg o'
               }))
        })
   }"

definition finishBindingDeletion :: "'w AliyunCertificateBindingReconciler \<Rightarrow> bindingRound \<Rightarrow> ('w, binding_result) io" where
  "finishBindingDeletion r rd = do {
     let b = (rd_b rd)\<lparr>b_Finalizers := RemoveFinalizer (br_meta r) (b_Finalizers (rd_b rd)) FinalizerName\<rparr>;
     u \<leftarrow> perform (UpdateBinding b) (k_UpdateBinding (br_kube r) b);
     (case IgnoreNotFound (err_of u) of
        Some e \<Rightarrow> ret (0, Some e)
      | None \<Rightarrow> do {
          let b = (case u of Inr b \<Rightarrow> b | Inl _ \<Rightarrow> b);
          clearBindingMetrics (b_Namespace b) (b_Name b) (rd_provider rd);
          ret (0, None)
        })
   }"

text \<open>The start of the grace period is persisted before the first call; the answer of the
  patch is the Binding and the base of the next patch.\<close>

definition startBindingCleanup ::
  "'w AliyunCertificateBindingReconciler \<Rightarrow> bindingRound \<Rightarrow> ('w, gerror + bindingRound) io" where
  "startBindingCleanup r rd = (case bx_CleanupStartedAt (b_Status (rd_b rd)) of
     Some _ \<Rightarrow> ret (Inr rd)
   | None \<Rightarrow> do {
       t \<leftarrow> binding_now r;
       p \<leftarrow> patchBindingStatus r (upd_b (upd_bstatus (\<lambda>x. x\<lparr>bx_CleanupStartedAt := Some t\<rparr>)) rd);
       ret (map_sum id (\<lambda>b. rd\<lparr>rd_b := b, rd_orig := b\<rparr>) p)
     })"

text \<open>A failed unbind: retried, or (\<open>None\<close>) abandoned.\<close>

definition unbindFailed ::
  "'w AliyunCertificateBindingReconciler \<Rightarrow> bindingRound \<Rightarrow> gerror \<Rightarrow> ('w, binding_result option) io" where
  "unbindFailed r rd err = do {
     t \<leftarrow> binding_now r;
     (case bx_CleanupStartedAt (b_Status (rd_b rd)) of
        None \<Rightarrow> ret (Some (0, Some nil_dereference))
      | Some started \<Rightarrow>
          if \<not> shouldAbandonCleanup (br_CleanupFailurePolicy r) (t - started) (br_CleanupGracePeriod r)
          then do {
            let rd = upd_b (setBindingReadyFalse (br_meta r) ReasonCleanupFailed
              (MsgErr ''unbind failed, retrying: '' (error_text err))) rd;
            p \<leftarrow> patchBindingStatus r rd;
            (case p of
               Inl perr \<Rightarrow> ret (Some (0, Some perr))
             | Inr b \<Rightarrow> do {
                 recordBindingReadiness (br_meta r) (rd\<lparr>rd_b := b\<rparr>);
                 ret (Some (0, Some err))
               })
          }
          else do {
            emit (Event EventTypeWarning ReasonCleanupAbandoned
              (Msg ''gave up unbinding the certificate from the target after the cleanup grace period'' []));
            emit (Metric (CounterInc ''aliyuncert_cleanup_abandoned_total'' [targetRegion (rd_b rd), providerErrClass err]));
            ret None
          })
   }"

definition unbindAndFinish :: "'w AliyunCertificateBindingReconciler \<Rightarrow> bindingRound \<Rightarrow> ('w, binding_result) io" where
  "unbindAndFinish r rd = do {
     err \<leftarrow> unbindTarget r rd;
     stop \<leftarrow> (case err of Some e \<Rightarrow> unbindFailed r rd e | None \<Rightarrow> ret None);
     (case stop of Some res \<Rightarrow> ret res | None \<Rightarrow> finishBindingDeletion r rd)
   }"

definition reconcileBindingDelete :: "'w AliyunCertificateBindingReconciler \<Rightarrow> bindingRound \<Rightarrow> ('w, binding_result) io" where
  "reconcileBindingDelete r rd =
     (if \<not> ContainsFinalizer (br_meta r) (b_Finalizers (rd_b rd)) FinalizerName then ret (0, None)
      else if bs_DeletionPolicy (b_Spec (rd_b rd)) \<noteq> DeletionPolicyUnbind then finishBindingDeletion r rd
      else if bx_AppliedFingerprint (b_Status (rd_b rd)) = [] then finishBindingDeletion r rd
      else do {
        st \<leftarrow> startBindingCleanup r rd;
        (case st of Inl err \<Rightarrow> ret (0, Some err) | Inr rd \<Rightarrow> unbindAndFinish r rd)
      })"

text \<open>\<open>AliyunCertificateBindingReconciler.Reconcile\<close>.\<close>

definition Reconcile_binding ::
  "'w AliyunCertificateBindingReconciler \<Rightarrow> string \<Rightarrow> string \<Rightarrow> ('w, binding_result) io" where
  "Reconcile_binding r ns n = do {
     g \<leftarrow> perform (GetBinding ns n) (live_GetBinding (br_kube r) ns n);
     (case g of
        Inl err \<Rightarrow> ret (0, IgnoreNotFound (Some err))
      | Inr b \<Rightarrow>
          let rd = newBindingRound b in
          if b_DeletionTimestamp b \<noteq> None then reconcileBindingDelete r rd
          else do {
            f \<leftarrow> ensureFinalizer r rd;
            (case f of Inl err \<Rightarrow> ret (0, Some err) | Inr rd \<Rightarrow> reconcileBound r rd)
          })
   }"

end
