(* ===== verification/Binding_Guard.thy ===== *)
theory Binding_Guard
  imports Binding_Deletion
begin

text \<open>
  When a Binding may write its target and what it may record: the guards of a reconcile of
  an AliyunCertificateBinding and the proof that every effect passes them, whatever the
  world answers.
\<close>

section \<open>What a round keeps\<close>

text \<open>The part of the status that other controllers trust, and the part of a Binding that a
  round only changes by recording a certificate.\<close>

definition ledger :: "AliyunCertificateBinding \<Rightarrow> string \<times> string \<times> string" where
  "ledger b = (bx_AppliedFingerprint (b_Status b), bx_AppliedCertRef (b_Status b), bx_BoundAccountID (b_Status b))"

definition core :: "AliyunCertificateBinding \<Rightarrow> string \<times> string \<times> string \<times> AliyunCertificateBindingSpec" where
  "core b = (b_Namespace b, b_Name b, b_UID b, b_Spec b)"

lemma ledger_simps [simp]:
  "ledger (setBindingCondition mt ct st rs msg b) = ledger b"
  "ledger (aggregateBindingReady mt b) = ledger b"
  "ledger (setBindingReadyFalse mt rs msg b) = ledger b"
  "ledger (snd (noteObserveFailed b)) = ledger b"
  by (simp_all add: ledger_def setBindingCondition_def aggregateBindingReady_def setBindingReadyFalse_def
      noteObserveFailed_def split: option.split)

lemma core_simps [simp]:
  "core (setBindingCondition mt ct st rs msg b) = core b"
  "core (aggregateBindingReady mt b) = core b"
  "core (setBindingReadyFalse mt rs msg b) = core b"
  "core (snd (noteObserveFailed b)) = core b"
  by (simp_all add: core_def setBindingCondition_def aggregateBindingReady_def setBindingReadyFalse_def
      noteObserveFailed_def split: option.split)

definition keeps :: "bindingRound \<Rightarrow> bindingRound \<Rightarrow> bool" where
  "keeps rd rd' \<longleftrightarrow> core (rd_b rd') = core (rd_b rd) \<and> ledger (rd_b rd') = ledger (rd_b rd) \<and> rd_orig rd' = rd_orig rd"

lemma keeps_refl [simp]: "keeps rd rd" and keeps_trans: "keeps a b \<Longrightarrow> keeps b c \<Longrightarrow> keeps a c"
  by (simp_all add: keeps_def)

lemma keeps_simps [simp]:
  "keeps rd (upd_b (setBindingCondition mt ct st rs msg) rd)"
  "keeps rd (upd_b (aggregateBindingReady mt) rd)"
  "keeps rd (upd_b (setBindingReadyFalse mt rs msg) rd)"
  "keeps rd (rd\<lparr>rd_b := snd (noteObserveFailed (rd_b rd))\<rparr>)"
  by (simp_all add: keeps_def)

lemma keeps_fence: "keeps rd (snd (fenceAccount mt rd obs))"
  by (simp add: keeps_def fenceAccount_def setFencedConflict_def Let_def core_def ledger_def)

text \<open>A round whose patch would leave the ledger as it is.\<close>

definition tracks :: "bindingRound \<Rightarrow> bool" where
  "tracks rd \<longleftrightarrow> ledger (rd_b rd) = ledger (rd_orig rd)"

lemma tracks_keeps: "tracks rd \<Longrightarrow> keeps rd rd' \<Longrightarrow> tracks rd'"
  by (simp add: tracks_def keeps_def)

text \<open>Effects that write nothing but conditions, times and marks of the Binding itself.\<close>

definition mild :: "effect \<Rightarrow> bool" where
  "mild e \<longleftrightarrow> (case e of
     PatchBindingStatus t base a \<Rightarrow> ledger t = ledger base
   | GetAC l ns n a \<Rightarrow> True | GetSecret ns n a \<Rightarrow> True | ListByTarget k a \<Rightarrow> True | GetBinding ns n a \<Rightarrow> True
   | BuildProvider a \<Rightarrow> True | TargetObserve tg a \<Rightarrow> True | ReadClock t \<Rightarrow> True
   | Event k rs m \<Rightarrow> True | Metric m \<Rightarrow> True
   | _ \<Rightarrow> False)"

lemma binding_calm_simps [simp]:
  "mild (PatchBindingStatus t base a) \<longleftrightarrow> ledger t = ledger base"
  "mild (GetAC l ns n x1)" "mild (GetSecret ns n x2)" "mild (ListByTarget k x3)" "mild (GetBinding ns n x4)"
  "mild (BuildProvider x5)" "mild (TargetObserve tg x6)" "mild (ReadClock t')" "mild (Event et rs m)" "mild (Metric mt)"
  by (simp_all add: mild_def)

section \<open>Steps without a write\<close>

lemma only_metrics:
  "only mild (recordBindingReadiness mt rd)" "only mild (recordBindingMetrics mt rd)" "only mild (clearBindingMetrics ns n p)"
  unfolding recordBindingMetrics_def recordBindingReadiness_def clearBindingMetrics_def Let_def
  by (intro only_intro; simp)+

lemma only_patchBindingStatus: "tracks rd \<Longrightarrow> only mild (patchBindingStatus r rd)"
  unfolding patchBindingStatus_def tracks_def by (intro only_intro) simp

lemma only_patchBinding: "tracks rd \<Longrightarrow> only mild (patchBinding r rd)"
  unfolding patchBinding_def by (intro only_intro only_metrics only_patchBindingStatus)

lemma only_patch_round: "tracks rd \<Longrightarrow> only mild (patch_round r rd d)"
  unfolding patch_round_def by (intro only_intro only_patchBinding)

lemma only_patch_round_keeps: "tracks rd \<Longrightarrow> keeps rd rd' \<Longrightarrow> only mild (patch_round r rd' d)"
  by (rule only_patch_round) (rule tracks_keeps)

lemma only_event: "only mild (eventOnReasonChange r rd ct rs et er m)"
  unfolding eventOnReasonChange_def by (intro only_intro) simp

lemma tracks_upd [simp]: "tracks (rd\<lparr>rd_b := b\<rparr>) \<longleftrightarrow> ledger b = ledger (rd_orig rd)"
  by (simp add: tracks_def)

lemma only_observe_failed: "tracks rd \<Longrightarrow> only mild (observe_failed_round r rd err b)"
proof -
  assume t: "tracks rd"
  obtain noted b' where n: "noteObserveFailed (rd_b rd) = (noted, b')" by fastforce
  then have "ledger b' = ledger (rd_b rd)" using ledger_simps(4) [of "rd_b rd"] by simp
  with t have t': "ledger b' = ledger (rd_orig rd)" by (simp add: tracks_def)
  show ?thesis
    unfolding observe_failed_round_def Let_def n prod.case
    using t' by (intro only_intro only_event only_patchBinding) (simp_all add: tracks_def)
qed

lemma only_handleObserveError: "tracks rd \<Longrightarrow> only mild (handleObserveError r rd err)"
  unfolding handleObserveError_def
  by (intro only_intro only_observe_failed only_patch_round) (simp_all add: tracks_def)

lemma only_handleApplyError: "tracks rd \<Longrightarrow> only mild (handleApplyError r rd err)"
  unfolding handleApplyError_def Let_def
  by (intro only_intro only_event only_patchBinding) (simp_all add: tracks_def)

lemma only_handleFactoryError: "tracks rd \<Longrightarrow> only mild (handleFactoryError r rd err)"
  unfolding handleFactoryError_def by (intro only_intro only_patch_round) (simp_all add: tracks_def)

lemma only_providerClient: "only mild (providerClient r b ac)"
  unfolding providerClient_def by (intro only_intro) simp


lemma noteObserved_spec: "emits (\<lambda>es rd'. list_all mild es \<and> keeps rd rd') (noteObserved r rd)"
  unfolding noteObserved_def binding_now_def
  by (intro emits_intro) (simp add: keeps_def core_def ledger_def)

lemma noteDrift_spec: "emits (\<lambda>es rd'. list_all mild es \<and> keeps rd rd') (noteDrift r rd obs m)"
  unfolding noteDrift_def Let_def
  by (intro emits_intro) (simp_all add: keeps_def core_def ledger_def)

lemma arbitrate_spec:
  "emits (\<lambda>es win. list_all mild es \<and> (\<forall>w. win = Inr w \<longrightarrow>
      TargetKey b = [] \<and> w = b \<or>
      (\<exists>items. ListByTarget (TargetKey b) (Inr items) \<in> set es \<and>
         (case pickWinner items of None \<Rightarrow> w = b | Some v \<Rightarrow> w = v))))
     (arbitrate r b)"
  unfolding arbitrate_def Let_def by (intro emits_intro) (auto split: sum.splits option.splits)

section \<open>Recording a certificate\<close>

lemma core_frozen [simp]: "core (frozen reg obs m at b) = core b"
  by (simp add: frozen_def core_def Let_def split: option.split)

lemma capabilities_core: "core b = core b' \<Longrightarrow> capabilitiesOf reg b = capabilitiesOf reg b'"
  by (simp add: capabilitiesOf_def core_def)

text \<open>The ledger after a certificate was recorded.\<close>

definition recorded :: "'w registry \<Rightarrow> AliyunCertificateBinding \<Rightarrow> ObservedState \<Rightarrow> CertMaterial \<Rightarrow> string \<times> string \<times> string" where
  "recorded reg b obs m =
     (m_Fingerprint m,
      if ReferencesCertByID (capabilitiesOf reg b) then CASCertRef m else bx_AppliedCertRef (b_Status b),
      if bx_BoundAccountID (b_Status b) = [] then o_AccountID obs else bx_BoundAccountID (b_Status b))"

lemma ledger_frozen: "ledger (frozen reg obs m at b) = recorded reg b obs m"
  by (simp add: frozen_def ledger_def recorded_def Let_def capabilitiesOf_def split: option.split)

lemma recorded_eq: "core b = core b' \<Longrightarrow> ledger b = ledger b' \<Longrightarrow> recorded reg b obs m = recorded reg b' obs m"
  using capabilities_core [of b b' reg] by (simp add: recorded_def ledger_def)

lemma freezeApplied_spec:
  "emits (\<lambda>es rd'. list_all mild es \<and> core (rd_b rd') = core (rd_b rd) \<and> rd_orig rd' = rd_orig rd \<and>
     ledger (rd_b rd') = recorded (br_registry r) (rd_b rd) obs m) (freezeApplied r rd obs m wrote)"
  unfolding freezeApplied_def setApplied_def binding_now_def Let_def
  by (intro emits_intro) (simp_all add: ledger_frozen)

section \<open>The guard of a write\<close>

text \<open>\<open>b\<close> is the Binding as the reconcile read it, past the caches and not being deleted, or
  the answer of the update that added the finalizer.\<close>

definition read_live :: "string \<Rightarrow> string \<Rightarrow> effect list \<Rightarrow> AliyunCertificateBinding \<Rightarrow> bool" where
  "read_live ns n es b \<longleftrightarrow> (\<exists>b0. GetBinding ns n (Inr b0) \<in> set es \<and> b_DeletionTimestamp b0 = None \<and>
     (b = b0 \<or> (\<exists>t. UpdateBinding t (Inr b) \<in> set es)))"

definition elected :: "effect list \<Rightarrow> AliyunCertificateBinding \<Rightarrow> bool" where
  "elected es b \<longleftrightarrow> TargetKey b = [] \<or> (\<exists>items. ListByTarget (TargetKey b) (Inr items) \<in> set es \<and>
     (case pickWinner items of None \<Rightarrow> True | Some w \<Rightarrow> b_UID w = b_UID b))"

text \<open>The certificate in service of an issued AliyunCertificate, past every gate.\<close>

definition issued_as :: "'w AliyunCertificateBindingReconciler \<Rightarrow> effect list \<Rightarrow> AliyunCertificateBinding \<Rightarrow> AliyunCertificate \<Rightarrow> bool" where
  "issued_as r es b ac \<longleftrightarrow>
     GetAC False (b_Namespace b) (bs_CertificateRef (b_Spec b)) (Inr ac) \<in> set es \<and> certIssued (br_meta r) ac"

definition served :: "'w AliyunCertificateBindingReconciler \<Rightarrow> effect list \<Rightarrow> AliyunCertificate \<Rightarrow> CertMaterial \<Rightarrow> bool" where
  "served r es ac m \<longleftrightarrow> (\<exists>s bun key.
     GetSecret (ac_Namespace ac) (servingSecretName ac (x_SecretName (ac_Status ac))) (Inr s) \<in> set es \<and>
     ParseBundle (br_crypto r) (map_index (s_Data s) ''tls.crt'') (map_index (s_Data s) ''tls.key'') = Inr bun \<and>
     KeyPEM (br_crypto r) bun = Inr key \<and> m = material_of ac (br_crypto r) bun key)"

definition gated :: "'w AliyunCertificateBindingReconciler \<Rightarrow> effect list \<Rightarrow> AliyunCertificateBinding \<Rightarrow> CertMaterial \<Rightarrow> bool" where
  "gated r es b m \<longleftrightarrow> (\<exists>ac. issued_as r es b ac \<and> served r es ac m \<and> checkDomainCoverage m b = None \<and>
     certificateGate m ac \<and> casUploadGate (capabilitiesOf (br_registry r) b) ac m = None)"

definition permitted ::
  "'w AliyunCertificateBindingReconciler \<Rightarrow> string \<Rightarrow> string \<Rightarrow> effect list \<Rightarrow> AliyunCertificateBinding \<Rightarrow> Target \<Rightarrow>
     CertMaterial \<Rightarrow> ObservedState \<Rightarrow> bool" where
  "permitted r ns n es b tg m obs \<longleftrightarrow> read_live ns n es b \<and> elected es b \<and> gated r es b m \<and>
     targetOf (br_registry r) b = Inr tg \<and> TargetObserve tg (Inr obs) \<in> set es \<and>
     (bx_BoundAccountID (b_Status b) = [] \<or> bx_BoundAccountID (b_Status b) = o_AccountID obs)"

text \<open>\<open>b\<close> is the Binding the deletion works on: as it was read, or the answer of the patch
  that persisted the start of the grace period.\<close>

definition read_deleting ::
  "'w AliyunCertificateBindingReconciler \<Rightarrow> string \<Rightarrow> string \<Rightarrow> effect list \<Rightarrow> AliyunCertificateBinding \<Rightarrow> AliyunCertificateBinding \<Rightarrow> bool" where
  "read_deleting r ns n es b0 b \<longleftrightarrow> GetBinding ns n (Inr b0) \<in> set es \<and> b_DeletionTimestamp b0 \<noteq> None \<and>
     ContainsFinalizer (br_meta r) (b_Finalizers b0) FinalizerName \<and>
     (b = b0 \<or> (\<exists>t o' s. PatchBindingStatus t o' (Inr b) \<in> set es \<and> bx_CleanupStartedAt (b_Status t) = Some s))"

definition unbinds :: "AliyunCertificateBinding \<Rightarrow> bool" where
  "unbinds b \<longleftrightarrow> bs_DeletionPolicy (b_Spec b) = DeletionPolicyUnbind \<and> bx_AppliedFingerprint (b_Status b) \<noteq> []"

text \<open>The certificate on the target is the one this Binding wrote, in the account it is bound to.\<close>

definition own_certificate :: "'w registry \<Rightarrow> AliyunCertificateBinding \<Rightarrow> ObservedState \<Rightarrow> bool" where
  "own_certificate reg b obs \<longleftrightarrow>
     (bx_BoundAccountID (b_Status b) = [] \<or> bx_BoundAccountID (b_Status b) = o_AccountID obs) \<and>
     (if ReferencesCertByID (capabilitiesOf reg b) then o_CurrentCertRef obs = bx_AppliedCertRef (b_Status b)
      else o_CurrentFingerprint obs = bx_AppliedFingerprint (b_Status b))"

definition may_unbind ::
  "'w AliyunCertificateBindingReconciler \<Rightarrow> string \<Rightarrow> string \<Rightarrow> effect list \<Rightarrow> Target \<Rightarrow> string \<Rightarrow> bool" where
  "may_unbind r ns n es tg p \<longleftrightarrow> p = DeletionPolicyUnbind \<and> (\<exists>b0 b obs. read_deleting r ns n es b0 b \<and> unbinds b0 \<and>
     targetOf (br_registry r) b = Inr tg \<and> TargetObserve tg (Inr obs) \<in> set es \<and> own_certificate (br_registry r) b obs)"

text \<open>The target needs nothing more: it is gone, serves another certificate or was unbound.\<close>

definition unbound :: "'w AliyunCertificateBindingReconciler \<Rightarrow> effect list \<Rightarrow> AliyunCertificateBinding \<Rightarrow> bool" where
  "unbound r es b \<longleftrightarrow> (\<exists>tg x. targetOf (br_registry r) b = Inr tg \<and> TargetObserve tg x \<in> set es \<and>
     (case x of
        Inl err \<Rightarrow> (\<exists>rt rs. ErrorOf err = Some (CodeTargetNotFound, rt, rs))
      | Inr obs \<Rightarrow> \<not> own_certificate (br_registry r) b obs \<or> TargetCleanup tg DeletionPolicyUnbind None \<in> set es))"

definition given_up :: "'w AliyunCertificateBindingReconciler \<Rightarrow> effect list \<Rightarrow> AliyunCertificateBinding \<Rightarrow> bool" where
  "given_up r es b \<longleftrightarrow> br_CleanupFailurePolicy r \<noteq> CleanupPolicyBlock \<and>
     (\<exists>t s. ReadClock t \<in> set es \<and> bx_CleanupStartedAt (b_Status b) = Some s \<and> br_CleanupGracePeriod r \<le> t - s)"

definition may_update ::
  "'w AliyunCertificateBindingReconciler \<Rightarrow> string \<Rightarrow> string \<Rightarrow> effect list \<Rightarrow> AliyunCertificateBinding \<Rightarrow> bool" where
  "may_update r ns n es t \<longleftrightarrow>
     (\<exists>b0. GetBinding ns n (Inr b0) \<in> set es \<and> b_DeletionTimestamp b0 = None \<and>
        t = b0\<lparr>b_Finalizers := AddFinalizer (br_meta r) (b_Finalizers b0) FinalizerName\<rparr>) \<or>
     (\<exists>b0 b. read_deleting r ns n es b0 b \<and>
        t = b\<lparr>b_Finalizers := RemoveFinalizer (br_meta r) (b_Finalizers b) FinalizerName\<rparr> \<and>
        (\<not> unbinds b0 \<or> unbound r es b \<or> given_up r es b))"

fun binding_guard :: "'w AliyunCertificateBindingReconciler \<Rightarrow> string \<Rightarrow> string \<Rightarrow> effect list \<Rightarrow> effect \<Rightarrow> bool" where
  "binding_guard r ns n pre (TargetApply tg m ao a) \<longleftrightarrow>
     (\<exists>b obs. permitted r ns n pre b tg m obs \<and> \<not> up_to_date (br_registry r) b obs m)"
| "binding_guard r ns n pre (PatchBindingStatus t base a) \<longleftrightarrow> ledger t = ledger base \<or>
     (\<exists>tg m obs. permitted r ns n pre base tg m obs \<and> ledger t = recorded (br_registry r) base obs m \<and>
        (up_to_date (br_registry r) base obs m \<or> (\<exists>ao. TargetApply tg m ao None \<in> set pre)))"
| "binding_guard r ns n pre (TargetCleanup tg p b) \<longleftrightarrow> may_unbind r ns n pre tg p"
| "binding_guard r ns n pre (UpdateBinding t a) \<longleftrightarrow> may_update r ns n pre t"
| "binding_guard r ns n pre (UpdateAC x a) \<longleftrightarrow> False"
| "binding_guard r ns n pre (PatchACStatus x y a) \<longleftrightarrow> False"
| "binding_guard r ns n pre (SyncCert x a') \<longleftrightarrow> False"
| "binding_guard r ns n pre (DeleteCert x b) \<longleftrightarrow> False"
| "binding_guard r ns n pre (DeleteSecret x b) \<longleftrightarrow> False"
| "binding_guard r ns n pre (CASUpload u v w x a'') \<longleftrightarrow> False"
| "binding_guard r ns n pre (CASDelete i t b) \<longleftrightarrow> False"
| "binding_guard r ns n pre e \<longleftrightarrow> True"

lemma calm_guard: "mild e \<Longrightarrow> binding_guard r ns n pre e"
  by (cases e) (simp_all add: mild_def)

lemma calm_guarded: "list_all mild es \<Longrightarrow> guarded (binding_guard r ns n) pre es"
  by (intro guarded_all calm_guard) (simp add: list_all_iff)

lemma only_guarded: "only mild m \<Longrightarrow> emits (\<lambda>es x. guarded (binding_guard r ns n) pre es) m"
  by (rule emits_mono [OF onlyD]) (auto intro!: calm_guarded simp: list_all_iff)

lemma calm_bind:
  assumes "emits (\<lambda>es x. list_all mild es \<and> Q es x) m"
    and "\<And>es x. Q es x \<Longrightarrow> emits (\<lambda>es' y. guarded (binding_guard r ns n) (pre @ es) es') (f x)"
  shows "emits (\<lambda>es y. guarded (binding_guard r ns n) pre es) (State_Monad.bind m f)"
  using assms(1) by (rule emits_bind_mono) (use assms(2) in \<open>simp add: calm_guarded\<close>)

lemma calm_bind_perform:
  assumes "\<And>x. mild (ev x)"
    and "\<And>x. emits (\<lambda>es' y. guarded (binding_guard r ns n) (pre @ [ev x]) es') (f x)"
  shows "emits (\<lambda>es y. guarded (binding_guard r ns n) pre es) (State_Monad.bind (perform ev op) f)"
  by (rule calm_bind [where Q = "\<lambda>es x. es = [ev x]"]) (use assms in \<open>auto intro: emits_intro\<close>)

lemma permitted_mono: "permitted r ns n es b tg m obs \<Longrightarrow> permitted r ns n (es @ es') b tg m obs"
  unfolding permitted_def read_live_def elected_def gated_def issued_as_def served_def by (elim conjE exE, intro conjI) auto

section \<open>The live round\<close>

text \<open>A round that has not recorded anything yet.\<close>

definition steady :: "bindingRound \<Rightarrow> bool" where
  "steady rd \<longleftrightarrow> core (rd_b rd) = core (rd_orig rd) \<and> ledger (rd_b rd) = ledger (rd_orig rd)"

lemma steady_keeps: "steady rd \<Longrightarrow> keeps rd rd' \<Longrightarrow> steady rd'"
  by (simp add: steady_def keeps_def)

lemma steady_tracks: "steady rd \<Longrightarrow> tracks rd"
  by (simp add: steady_def tracks_def)

lemma steady_upd [simp]: "steady (rd\<lparr>rd_b := b\<rparr>) \<longleftrightarrow> core b = core (rd_orig rd) \<and> ledger b = ledger (rd_orig rd)"
  by (simp add: steady_def)

lemma coreD:
  assumes "core b = core b'"
  shows "b_Namespace b = b_Namespace b'" "b_Name b = b_Name b'" "b_UID b = b_UID b'" "b_Spec b = b_Spec b'"
    "TargetKey b = TargetKey b'" "targetOf reg b = targetOf reg b'" "checkDomainCoverage m b = checkDomainCoverage m b'"
    "capabilitiesOf reg b = capabilitiesOf reg b'" "ensureHTTPSOf b = ensureHTTPSOf b'"
    "up_to_date reg b obs m = up_to_date reg b' obs m"
  using assms
  by (simp_all add: core_def TargetKey_def targetOf_def checkDomainCoverage_def requiredDomainsOf_def capabilitiesOf_def
      ensureHTTPSOf_def up_to_date_def identityOf_def)

lemma ledgerD: "ledger b = ledger b' \<Longrightarrow> bx_BoundAccountID (b_Status b) = bx_BoundAccountID (b_Status b')"
  by (simp add: ledger_def)

lemma patch_round_spec:
  "emits (\<lambda>es x. \<exists>ms a. es = map Metric ms @ [PatchBindingStatus (rd_b rd) (rd_orig rd) a]) (patch_round r rd d)"
  unfolding patch_round_def patchBinding_def patchBindingStatus_def recordBindingMetrics_def recordBindingReadiness_def Let_def
  by (intro emits_intro) (auto intro!: exI [of _ "[_, _, _]"])

text \<open>The patch that records a certificate.\<close>

lemma record_guarded:
  assumes "permitted r ns n pre (rd_orig rd) tg m obs" "steady rd"
    and "up_to_date (br_registry r) (rd_orig rd) obs m \<or> (\<exists>ao. TargetApply tg m ao None \<in> set pre)"
  shows "emits (\<lambda>es x. guarded (binding_guard r ns n) pre es) (do {
     rd \<leftarrow> freezeApplied r rd obs m wrote;
     patch_round r (upd_b (aggregateBindingReady (br_meta r)) rd) d
   })"
proof (rule calm_bind [OF freezeApplied_spec], rule emits_mono [OF patch_round_spec], elim exE conjE, goal_cases)
  case (1 es rd' es' x ms a)
  have led: "ledger (rd_b rd') = recorded (br_registry r) (rd_orig rd) obs m"
    using 1 recorded_eq [of "rd_b rd" "rd_orig rd"] assms(2) by (simp add: steady_def)
  have "binding_guard r ns n (pre @ es @ map Metric ms)
      (PatchBindingStatus (aggregateBindingReady (br_meta r) (rd_b rd')) (rd_orig rd) a)"
    using permitted_mono [OF assms(1), of "es @ map Metric ms"] assms(3) led
    by simp blast
  then show ?case using 1 by (simp add: calm_guarded list_all_iff)
qed

lemma applyTarget_guarded:
  assumes "permitted r ns n pre (rd_orig rd) tg m obs" "steady rd" "\<not> up_to_date (br_registry r) (rd_orig rd) obs m"
  shows "emits (\<lambda>es x. guarded (binding_guard r ns n) pre es) (applyTarget r rd p cl tg obs m)"
  unfolding applyTarget_def Let_def
proof (rule emits_bind, rule emits_perform, rule emits_bind_emit, rule emits_case_option, goal_cases)
  case (1 a)
  let ?es = "[TargetApply tg m \<lparr> ao_EnsureHTTPSProtocol = ensureHTTPSOf (rd_b rd),
      ao_PreviousFingerprint = bx_AppliedFingerprint (b_Status (rd_b rd)) \<rparr> a,
    Metric (CounterInc ''aliyuncert_binding_apply_total'' [rd_provider rd, bindingApplyResult a])]"
  have g: "guarded (binding_guard r ns n) pre ?es" using assms by (simp add: permitted_def) blast
  have "emits (\<lambda>es x. guarded (binding_guard r ns n) (pre @ ?es) es) (do {
      rd \<leftarrow> freezeApplied r rd obs m True;
      patch_round r (upd_b (aggregateBindingReady (br_meta r)) rd) (br_DriftCheckInterval r) })"
    by (rule record_guarded [OF permitted_mono [OF assms(1)] assms(2)]) (use 1 in auto)
  then show ?case using g by (auto elim!: emits_mono)
next
  case (2 a err)
  let ?es = "[TargetApply tg m \<lparr> ao_EnsureHTTPSProtocol = ensureHTTPSOf (rd_b rd),
      ao_PreviousFingerprint = bx_AppliedFingerprint (b_Status (rd_b rd)) \<rparr> a,
    Metric (CounterInc ''aliyuncert_binding_apply_total'' [rd_provider rd, bindingApplyResult a])]"
  have g: "guarded (binding_guard r ns n) pre ?es" using assms by (simp add: permitted_def) blast
  have "emits (\<lambda>es x. guarded (binding_guard r ns n) (pre @ ?es) es) (handleApplyError r rd err)"
    by (rule only_guarded [OF only_handleApplyError [OF steady_tracks [OF assms(2)]]])
  then show ?case using g by (auto elim!: emits_mono)
qed

lemma observedTarget_guarded:
  assumes "read_live ns n pre (rd_orig rd)" "elected pre (rd_orig rd)" "gated r pre (rd_orig rd) m"
    and "targetOf (br_registry r) (rd_orig rd) = Inr tg" "TargetObserve tg (Inr obs) \<in> set pre" "steady rd"
  shows "emits (\<lambda>es x. guarded (binding_guard r ns n) pre es) (observedTarget r rd p cl tg obs m)"
  unfolding observedTarget_def
proof (rule calm_bind [OF noteObserved_spec], goal_cases)
  case (1 es rd')
  have steady': "steady rd'" and orig: "rd_orig rd' = rd_orig rd"
    using steady_keeps [OF assms(6)] 1 by (simp_all add: keeps_def)
  note led = ledgerD [of "rd_b rd'" "rd_orig rd"] and cor = coreD [of "rd_b rd'" "rd_orig rd"]
  have cl: "core (rd_b rd') = core (rd_orig rd)" "ledger (rd_b rd') = ledger (rd_orig rd)"
    using steady' orig by (simp_all add: steady_def)
  show ?case
  proof (cases "fst (fenceAccount (br_meta r) rd' obs)")
    case True
    then obtain rd'' where f: "fenceAccount (br_meta r) rd' obs = (True, rd'')" by (cases "fenceAccount (br_meta r) rd' obs") auto
    then have "keeps rd' rd''" using keeps_fence [of rd' "br_meta r" obs] by simp
    then have "steady rd''" by (rule steady_keeps [OF steady'])
    then have "only mild (patch_round r (upd_b (aggregateBindingReady (br_meta r)) rd'') (br_DriftCheckInterval r))"
      by (intro only_patch_round) (simp add: steady_def)
    then show ?thesis using f by (simp add: only_guarded)
  next
    case False
    then have f: "fenceAccount (br_meta r) rd' obs = (False, rd')"
      and acc: "bx_BoundAccountID (b_Status (rd_b rd')) = [] \<or> bx_BoundAccountID (b_Status (rd_b rd')) = o_AccountID obs"
      by (auto simp: fenceAccount_def Let_def split: if_splits)
    have perm: "permitted r ns n pre (rd_orig rd') tg m obs"
      unfolding permitted_def using assms acc led [OF cl(2)] orig by simp
    have utd: "up_to_date (br_registry r) (rd_b rd') obs m = up_to_date (br_registry r) (rd_orig rd') obs m"
      using cor(10) [OF cl(1)] orig by simp
    show ?thesis
    proof (cases "up_to_date (br_registry r) (rd_b rd') obs m")
      case True
      then show ?thesis using f utd
        by (simp add: record_guarded [OF permitted_mono [OF perm] steady'])
    next
      case nt: False
      have "emits (\<lambda>es' x. guarded (binding_guard r ns n) (pre @ es) es') (do {
          rd \<leftarrow> noteDrift r rd' obs m;
          applyTarget r rd p cl tg obs m })"
      proof (rule calm_bind [OF noteDrift_spec], goal_cases)
        case (1 es2 rd2)
        then have "steady rd2" "rd_orig rd2 = rd_orig rd'" using steady_keeps [OF steady'] by (simp_all add: keeps_def)
        then show ?case
          using applyTarget_guarded [OF _ \<open>steady rd2\<close>] permitted_mono [OF perm, of "es @ es2"] nt utd by simp
      qed
      then show ?thesis using f nt by simp
    qed
  qed
qed

lemma read_live_mono: "read_live ns n es b \<Longrightarrow> read_live ns n (es @ es') b"
  and elected_mono: "elected es b \<Longrightarrow> elected (es @ es') b"
  and issued_as_mono: "issued_as r es b ac \<Longrightarrow> issued_as r (es @ es') b ac"
  and served_mono: "served r es ac m \<Longrightarrow> served r (es @ es') ac m"
  by (auto simp: read_live_def elected_def issued_as_def served_def)

lemma gated_mono: "gated r es b m \<Longrightarrow> gated r (es @ es') b m"
  unfolding gated_def using issued_as_mono served_mono by blast

lemmas guard_mono = read_live_mono elected_mono issued_as_mono served_mono gated_mono

lemma reachTarget_guarded:
  assumes "read_live ns n pre (rd_orig rd)" "elected pre (rd_orig rd)" "gated r pre (rd_orig rd) m" "steady rd"
  shows "emits (\<lambda>es x. guarded (binding_guard r ns n) pre es) (reachTarget r rd ac m)"
proof -
  have tg: "targetOf (br_registry r) (rd_b rd) = targetOf (br_registry r) (rd_orig rd)"
    using coreD(6) assms(4) by (auto simp: steady_def)
  have fail: "emits (\<lambda>es x. guarded (binding_guard r ns n) pre' es) (handleFactoryError r rd err)"
    and fail': "emits (\<lambda>es x. guarded (binding_guard r ns n) pre' es) (handleObserveError r rd err)" for pre' err
    using steady_tracks [OF assms(4)] by (auto intro!: only_guarded only_handleFactoryError only_handleObserveError)
  have pc: "emits (\<lambda>es x. list_all mild es \<and> True) (providerClient r (rd_b rd) (Some ac))"
    by (rule emits_mono [OF onlyD [OF only_providerClient]]) (simp add: list_all_iff)
  show ?thesis
    unfolding reachTarget_def
    by (rule calm_bind [OF pc], intro emits_case_sum emits_case_prod fail calm_bind_perform fail')
      (use assms tg in \<open>auto intro!: observedTarget_guarded guard_mono\<close>)
qed

lemma gateMaterial_guarded:
  assumes "read_live ns n pre (rd_orig rd)" "elected pre (rd_orig rd)" "steady rd"
    and "issued_as r pre (rd_orig rd) ac" "served r pre ac m" "checkDomainCoverage m (rd_orig rd) = None"
  shows "emits (\<lambda>es x. guarded (binding_guard r ns n) pre es) (gateMaterial r rd ac m)"
proof -
  have cor: "core (rd_b rd) = core (rd_orig rd)" "ledger (rd_b rd) = ledger (rd_orig rd)" using assms(3) by (simp_all add: steady_def)
  note cap = coreD(8) [OF cor(1), of "br_registry r"]
  show ?thesis
    unfolding gateMaterial_def
  proof (rule emits_if, goal_cases)
    case 1
    show ?case by (intro only_guarded only_patch_round) (simp add: cor)
  next
    case passed: 2
    show ?case
    proof (rule emits_case_option, goal_cases)
      case 1
      then have "gated r pre (rd_orig rd) m" unfolding gated_def using passed assms(4-6) cap by auto
      with assms show ?case by (intro reachTarget_guarded)
    next
      case (2 y)
      show ?case by (intro emits_case_prod only_guarded only_patch_round) (simp add: cor)
    qed
  qed
qed

lemma coveredMaterial_spec:
  "emits (\<lambda>es x. list_all mild es \<and> (\<forall>m. x = Inr m \<longrightarrow> served r es ac m \<and> checkDomainCoverage m b = None))
     (coveredMaterial r b ac)"
  unfolding coveredMaterial_def loadBindingMaterial_def loadBundle_def Let_def
  by (intro emits_intro) (auto simp: served_def split: sum.splits option.splits)

lemma reconcileBindingReady_guarded:
  assumes "read_live ns n pre (rd_orig rd)" "steady rd" "issued_as r pre (rd_orig rd) ac"
  shows "emits (\<lambda>es x. guarded (binding_guard r ns n) pre es) (reconcileBindingReady r rd ac)"
  unfolding reconcileBindingReady_def Let_def
proof (rule calm_bind [OF arbitrate_spec], rule emits_case_sum, goal_cases)
  case (2 es win w)
  have cor: "core (rd_b rd) = core (rd_orig rd)" "ledger (rd_b rd) = ledger (rd_orig rd)" using assms(2) by (simp_all add: steady_def)
  note same = coreD [OF cor(1)]
  let ?rd = "upd_b (setBindingCondition (br_meta r) ConditionConflict ConditionFalse ReasonNoConflict NoMsg) rd"
  show ?case
  proof (cases "b_UID w = b_UID (rd_b rd)")
    case True
    then have el: "elected es (rd_orig rd)"
      unfolding elected_def using 2 same(3,5) by (auto split: option.splits)
    have el': "elected (pre @ es @ es') (rd_orig rd)" for es' using elected_mono [OF el, of es'] unfolding elected_def by auto
    have "emits (\<lambda>es' x. guarded (binding_guard r ns n) (pre @ es) es') (do {
        m \<leftarrow> coveredMaterial r (rd_b ?rd) ac;
        (case m of
           Inl me \<Rightarrow> patch_round r (upd_b (setBindingReadyFalse (br_meta r) (me_Reason me) (me_Message me)) ?rd) (br_DriftCheckInterval r)
         | Inr m \<Rightarrow> gateMaterial r ?rd ac m) })"
    proof (rule calm_bind [OF coveredMaterial_spec], rule emits_case_sum, goal_cases)
      case (1 es2 x me)
      show ?case by (rule only_guarded [OF only_patch_round]) (simp add: cor)
    next
      case (2 es2 x m)
      then have "checkDomainCoverage m (rd_orig rd) = None"
        using coreD(7) [of "rd_b ?rd" "rd_orig rd" m] cor(1) by simp
      moreover have "served r (pre @ es @ es2) ac m" using 2 by (auto simp: served_def)
      ultimately show ?case
        using assms(1,3) el' by (intro gateMaterial_guarded) (auto simp: cor intro: guard_mono)
    qed
    then show ?thesis by (simp only: True simp_thms if_False)
  next
    case False
    have "only mild (patch_round r (upd_b (aggregateBindingReady (br_meta r) \<circ>
        setBindingCondition (br_meta r) ConditionConflict ConditionTrue ReasonConflictingBinding
          (Msg ''target already bound by'' [b_Namespace w, b_Name w])) rd) (br_DriftCheckInterval r))"
      by (rule only_patch_round) (simp add: cor)
    with False show ?thesis by (simp add: only_guarded)
  qed
qed simp

lemma only_appliedLag: "only mild (appliedLag r b ac)"
  unfolding appliedLag_def binding_now_def Let_def by (intro only_intro) simp

lemma reconcileBound_guarded:
  assumes "read_live ns n pre (rd_orig rd)" "rd_b rd = rd_orig rd"
  shows "emits (\<lambda>es x. guarded (binding_guard r ns n) pre es) (reconcileBound r rd)"
proof -
  let ?b = "upd_bstatus (\<lambda>x. x\<lparr>bx_ObservedGeneration := b_Generation (rd_b rd)\<rparr>) (rd_b rd)"
  have b: "core ?b = core (rd_orig rd)" "ledger ?b = ledger (rd_orig rd)" by (simp_all add: core_def ledger_def assms(2))
  have lag: "emits (\<lambda>es x. list_all mild es \<and> True) (appliedLag r b' ac)" for b' ac
    by (rule emits_mono [OF onlyD [OF only_appliedLag]]) (simp add: list_all_iff)
  have patch: "emits (\<lambda>es x. guarded (binding_guard r ns n) pre' es)
      (patch_round r (upd_b (setBindingReadyFalse (br_meta r) rs msg) (rd\<lparr>rd_b := ?b, rd_lag := l\<rparr>)) d)" for pre' rs msg l d
    using b by (intro only_guarded only_patch_round) simp
  show ?thesis
    unfolding reconcileBound_def Let_def
  proof (rule calm_bind_perform, simp, rule emits_case_sum, simp, rule calm_bind [OF lag], goal_cases)
    case (1 x y es l)
    show ?case
    proof (rule emits_case_option, goal_cases)
      case 1
      show ?case using patch by simp
    next
      case (2 ac)
      show ?case
      proof (rule emits_if, goal_cases)
        case 1
        show ?case using patch by simp
      next
        case c: 2
        have "x = Inr ac" using \<open>_ = Inr y\<close> 2 by (cases x) (auto split: if_splits)
        then have "issued_as r (pre @ [GetAC False (b_Namespace (rd_b rd)) (bs_CertificateRef (b_Spec (rd_b rd))) x] @ es) (rd_orig rd) ac"
          using c assms(2) by (simp add: issued_as_def)
        then show ?case using assms(1) b
          by (auto intro!: reconcileBindingReady_guarded intro: read_live_mono simp: steady_def)
      qed
    qed
  qed
qed

section \<open>The deletion\<close>

definition unbind_answer :: "'w AliyunCertificateBindingReconciler \<Rightarrow> AliyunCertificateBinding \<Rightarrow> effect list \<Rightarrow> gerror option \<Rightarrow> bool" where
  "unbind_answer r b es err \<longleftrightarrow>
     list_all mild es \<and> (err = None \<longrightarrow> unbound r es b) \<or>
     (\<exists>es' tg obs. es = es' @ [TargetCleanup tg DeletionPolicyUnbind err] \<and> list_all mild es' \<and>
        targetOf (br_registry r) b = Inr tg \<and> TargetObserve tg (Inr obs) \<in> set es' \<and> own_certificate (br_registry r) b obs)"

lemma unbindObserved_spec:
  assumes "targetOf (br_registry r) (rd_b rd) = Inr tg" "list_all mild es0" "TargetObserve tg x \<in> set es0"
  shows "emits (\<lambda>es err. unbind_answer r (rd_b rd) (es0 @ es) err) (unbindObserved r rd p cl tg x)"
  unfolding unbindObserved_def Let_def
  using assms
  by (intro emits_intro)
    (auto simp: unbind_answer_def unbound_def own_certificate_def identityOf_def split: if_splits)

lemma providerClient_spec: "emits (\<lambda>es x. list_all mild es) (providerClient r b ac)"
  by (rule emits_mono [OF onlyD [OF only_providerClient]]) (simp add: list_all_iff)

lemma unbindTarget_spec: "emits (unbind_answer r (rd_b rd)) (unbindTarget r rd)"
  unfolding unbindTarget_def Let_def
proof (rule emits_bind, rule emits_perform, rule emits_case_sum, goal_cases)
  case (1 x err)
  then show ?case by (simp add: unbind_answer_def)
next
  case (2 x ac)
  show ?case
  proof (rule emits_bind_mono [OF providerClient_spec], rule emits_case_sum, goal_cases)
    case (1 es y err)
    then show ?case by (simp add: unbind_answer_def)
  next
    case (2 es y pc)
    show ?case
    proof (rule emits_case_prod, rule emits_case_sum, goal_cases)
      case (1 p cl err)
      with 2 show ?case by (simp add: unbind_answer_def)
    next
      case (2 p cl tg)
      show ?case
      proof (rule emits_bind, rule emits_perform, goal_cases)
        case (1 o')
        let ?es = "[GetAC False (b_Namespace (rd_b rd)) (bs_CertificateRef (b_Spec (rd_b rd))) x] @ es @ [TargetObserve tg o']"
        show ?case
          using unbindObserved_spec [OF 2(2), of ?es o' p cl] \<open>list_all mild es\<close>
          by (auto elim!: emits_mono)
      qed
    qed
  qed
qed

lemma unbindFailed_spec:
  assumes "tracks rd"
  shows "emits (\<lambda>es res. list_all mild es \<and> (res = None \<longrightarrow> given_up r es (rd_b rd))) (unbindFailed r rd err)"
proof -
  have patch: "emits (\<lambda>es x. list_all mild es) (patchBindingStatus r (upd_b (setBindingReadyFalse (br_meta r) rs msg) rd))" for rs msg
    by (rule emits_mono [OF onlyD [OF only_patchBindingStatus]]) (use assms in \<open>simp_all add: list_all_iff tracks_def\<close>)
  have gauge: "emits (\<lambda>es x. list_all mild es) (recordBindingReadiness (br_meta r) rd')" for rd' :: bindingRound
    by (rule emits_mono [OF onlyD [OF only_metrics(1)]]) (simp add: list_all_iff)
  show ?thesis
    unfolding unbindFailed_def binding_now_def Let_def
    by (intro emits_intro emits_mono [OF patch] emits_mono [OF gauge])
      (auto simp: given_up_def shouldAbandonCleanup_def)
qed

lemma startBindingCleanup_spec:
  "emits (\<lambda>es res. (es = [] \<and> res = Inr rd) \<or>
     (\<exists>t s a. es = [ReadClock s, PatchBindingStatus t (rd_orig rd) a] \<and> ledger t = ledger (rd_b rd) \<and>
        bx_CleanupStartedAt (b_Status t) = Some s \<and>
        (\<forall>rd'. res = Inr rd' \<longrightarrow> a = Inr (rd_b rd') \<and> rd_orig rd' = rd_b rd')))
   (startBindingCleanup r rd)"
  unfolding startBindingCleanup_def binding_now_def patchBindingStatus_def
  by (intro emits_intro) (auto simp: ledger_def)

lemma finishBindingDeletion_guarded:
  assumes "may_update r ns n pre ((rd_b rd)\<lparr>b_Finalizers := RemoveFinalizer (br_meta r) (b_Finalizers (rd_b rd)) FinalizerName\<rparr>)"
  shows "emits (\<lambda>es x. guarded (binding_guard r ns n) pre es) (finishBindingDeletion r rd)"
proof -
  have clear: "emits (\<lambda>es x. list_all mild es) (clearBindingMetrics ns' n' p)" for ns' n' p
    by (rule emits_mono [OF onlyD [OF only_metrics(3)]]) (simp add: list_all_iff)
  show ?thesis
    unfolding finishBindingDeletion_def Let_def
    by (intro emits_intro emits_mono [OF clear]) (use assms in \<open>simp_all add: calm_guarded\<close>)
qed

lemma read_deleting_mono: "read_deleting r ns n es b0 b \<Longrightarrow> read_deleting r ns n (es @ es') b0 b"
  unfolding read_deleting_def by auto

lemma unbound_later: "unbound r es b \<Longrightarrow> unbound r (pre @ es @ es') b"
  unfolding unbound_def by (fastforce split: sum.splits)

lemma given_up_later: "given_up r es b \<Longrightarrow> given_up r (pre @ es) b"
  unfolding given_up_def by auto

lemma unbind_answer_guarded:
  assumes "unbind_answer r b es err" "read_deleting r ns n pre b0 b" "unbinds b0"
  shows "guarded (binding_guard r ns n) pre es" "err = None \<Longrightarrow> unbound r es b"
proof -
  have "guarded (binding_guard r ns n) pre es \<and> (err = None \<longrightarrow> unbound r es b)"
    using assms(1) unfolding unbind_answer_def
  proof (elim disjE exE conjE, goal_cases)
    case (2 es' tg obs)
    then have "may_unbind r ns n (pre @ es') tg DeletionPolicyUnbind"
      unfolding may_unbind_def using read_deleting_mono [OF assms(2)] assms(3) by auto
    moreover have "unbound r es b" if "err = None"
      unfolding unbound_def using 2 that by (intro exI [of _ tg] exI [of _ "Inr obs"]) simp
    ultimately show ?case using 2 by (simp add: calm_guarded)
  qed (simp add: calm_guarded)
  then show "guarded (binding_guard r ns n) pre es" "err = None \<Longrightarrow> unbound r es b" by simp_all
qed

lemma unbindAndFinish_guarded:
  assumes "read_deleting r ns n pre b0 (rd_b rd)" "unbinds b0" "tracks rd"
  shows "emits (\<lambda>es x. guarded (binding_guard r ns n) pre es) (unbindAndFinish r rd)"
  unfolding unbindAndFinish_def
proof (rule emits_bind_mono [OF unbindTarget_spec], goal_cases)
  case (1 es err)
  note g = unbind_answer_guarded [OF 1 assms(1,2)]
  have stop: "emits (\<lambda>es' res. list_all mild es' \<and> (res = None \<longrightarrow> err = None \<or> given_up r es' (rd_b rd)))
      (case err of Some e \<Rightarrow> unbindFailed r rd e | None \<Rightarrow> ret None)"
    by (intro emits_intro emits_mono [OF unbindFailed_spec]) (use assms(3) in auto)
  show ?case
  proof (rule emits_bind_mono [OF stop], rule emits_case_option, goal_cases)
    case (1 es' res)
    then have "unbound r es (rd_b rd) \<or> given_up r es' (rd_b rd)" using g(2) by blast
    then have "unbound r (pre @ es @ es') (rd_b rd) \<or> given_up r (pre @ es @ es') (rd_b rd)"
      using unbound_later given_up_later [of r es' _ "pre @ es"] by auto
    then have "may_update r ns n (pre @ es @ es') ((rd_b rd)\<lparr>b_Finalizers := RemoveFinalizer (br_meta r) (b_Finalizers (rd_b rd)) FinalizerName\<rparr>)"
      unfolding may_update_def using read_deleting_mono [OF assms(1)] by blast
    from finishBindingDeletion_guarded [OF this] show ?case
      using g(1) 1 by (auto simp: calm_guarded elim!: emits_mono)
  next
    case (2 es' res y)
    then show ?case using g(1) by (simp add: calm_guarded)
  qed
qed

lemma reconcileBindingDelete_guarded:
  assumes "GetBinding ns n (Inr b) \<in> set pre" "b_DeletionTimestamp b \<noteq> None"
  shows "emits (\<lambda>es x. guarded (binding_guard r ns n) pre es) (reconcileBindingDelete r (newBindingRound b))"
proof (cases "ContainsFinalizer (br_meta r) (b_Finalizers b) FinalizerName")
  case True
  then have rd: "read_deleting r ns n pre b b" using assms by (simp add: read_deleting_def)
  show ?thesis
  proof (cases "unbinds b")
    case False
    then have "may_update r ns n pre (b\<lparr>b_Finalizers := RemoveFinalizer (br_meta r) (b_Finalizers b) FinalizerName\<rparr>)"
      unfolding may_update_def using rd by blast
    then have "emits (\<lambda>es x. guarded (binding_guard r ns n) pre es) (finishBindingDeletion r (newBindingRound b))"
      by (intro finishBindingDeletion_guarded) (simp add: newBindingRound_def)
    then show ?thesis using False True by (auto simp: reconcileBindingDelete_def newBindingRound_def unbinds_def)
  next
    case u: True
    have "emits (\<lambda>es x. guarded (binding_guard r ns n) pre es) (do {
        st \<leftarrow> startBindingCleanup r (newBindingRound b);
        (case st of Inl err \<Rightarrow> ret (0, Some err) | Inr rd \<Rightarrow> unbindAndFinish r rd) })"
    proof (rule emits_bind_mono [OF startBindingCleanup_spec], rule emits_case_sum, goal_cases)
      case (1 es x err)
      then show ?case by (auto simp: newBindingRound_def)
    next
      case (2 es x rd')
      then show ?case
      proof (elim disjE exE conjE, goal_cases)
        case 1
        moreover have "emits (\<lambda>es x. guarded (binding_guard r ns n) pre es) (unbindAndFinish r (newBindingRound b))"
          by (rule unbindAndFinish_guarded [OF _ u]) (simp_all add: newBindingRound_def tracks_def rd)
        ultimately show ?case by (auto elim!: emits_mono)
      next
        case (2 t s a)
        then have a: "a = Inr (rd_b rd')" "rd_orig rd' = rd_b rd'" by auto
        then have "read_deleting r ns n (pre @ es) b (rd_b rd')"
          using assms True 2 by (auto simp: read_deleting_def)
        from unbindAndFinish_guarded [OF this u] a 2 show ?case
          by (auto simp: tracks_def newBindingRound_def elim!: emits_mono)
      qed
    qed
    then show ?thesis using u True by (auto simp: reconcileBindingDelete_def newBindingRound_def unbinds_def)
  qed
qed (simp add: reconcileBindingDelete_def newBindingRound_def)

section \<open>Properties\<close>

lemma Reconcile_binding_all:
  "emits (\<lambda>es x. guarded (binding_guard r ns n) [] es) (Reconcile_binding r ns n)"
  unfolding Reconcile_binding_def Let_def
proof (rule calm_bind_perform, simp, rule emits_case_sum, simp, rule emits_if, goal_cases)
  case (1 x b)
  then show ?case by (intro reconcileBindingDelete_guarded) simp_all
next
  case (2 x b)
  then have x: "GetBinding ns n (Inr b) \<in> set ([] @ [GetBinding ns n x])" and dt: "b_DeletionTimestamp b = None" by simp_all
  have live: "emits (\<lambda>es y. guarded (binding_guard r ns n) pre es) (reconcileBound r (newBindingRound b'))"
    if "read_live ns n pre b'" for pre b'
    using that by (intro reconcileBound_guarded) (simp_all add: newBindingRound_def)
  have "may_update r ns n ([] @ [GetBinding ns n x]) (b\<lparr>b_Finalizers := AddFinalizer (br_meta r) (b_Finalizers b) FinalizerName\<rparr>)"
    unfolding may_update_def using x dt by blast
  then have add: "emits (\<lambda>es y. guarded (binding_guard r ns n) ([] @ [GetBinding ns n x]) es) (do {
      u \<leftarrow> perform (UpdateBinding (b\<lparr>b_Finalizers := AddFinalizer (br_meta r) (b_Finalizers b) FinalizerName\<rparr>)) up;
      (case map_sum id newBindingRound u of Inl err \<Rightarrow> ret (0, Some err) | Inr rd \<Rightarrow> reconcileBound r rd) })" for up
  proof (intro emits_bind emits_perform, goal_cases)
    case (1 u)
    show ?case
    proof (cases u)
      case (Inr b')
      then have "read_live ns n ([GetBinding ns n x] @ [UpdateBinding (b\<lparr>b_Finalizers := AddFinalizer (br_meta r) (b_Finalizers b) FinalizerName\<rparr>) u]) b'"
        using x dt by (auto simp: read_live_def)
      from live [OF this] show ?thesis using 1 Inr by (auto elim!: emits_mono)
    qed (use 1 in simp)
  qed
  show ?case
  proof (cases "ContainsFinalizer (br_meta r) (b_Finalizers b) FinalizerName")
    case True
    then have "ensureFinalizer r (newBindingRound b) = ret (Inr (newBindingRound b))"
      by (simp add: ensureFinalizer_def newBindingRound_def)
    then show ?thesis using live [of "[] @ [GetBinding ns n x]" b] x dt by (simp add: read_live_def)
  next
    case False
    then have "ensureFinalizer r (newBindingRound b) = do {
        u \<leftarrow> perform (UpdateBinding (b\<lparr>b_Finalizers := AddFinalizer (br_meta r) (b_Finalizers b) FinalizerName\<rparr>))
          (k_UpdateBinding (br_kube r) (b\<lparr>b_Finalizers := AddFinalizer (br_meta r) (b_Finalizers b) FinalizerName\<rparr>));
        ret (map_sum id newBindingRound u) }"
      by (simp add: ensureFinalizer_def newBindingRound_def Let_def)
    then show ?thesis using add by simp
  qed
qed

text \<open>
  C4. A Binding writes its target only when it may, and records only what is proved, whatever
  the world answers. A certificate is applied only for a Binding that a read past the caches
  showed alive, that won the election of its target among the listed Bindings, whose
  AliyunCertificate is issued; with the key and chain of the Secret in service, accepted by
  the AliyunCertificate, covering the domains of the target and, for a target by reference,
  uploaded; after an observation of this very target in the account the Binding is bound to,
  which showed that the target does not serve it yet. The applied fingerprint, the applied
  reference and the bound account change in the status only together, to the certificate
  just written or observed, and a bound account never changes again. A target is unbound only
  for a Binding being deleted with policy Unbind that has applied a certificate, after an
  observation showed its own certificate in its own account and after the start of the grace
  period was persisted. The finalizer is removed only if nothing is to be unbound, the target
  is settled, or the grace period has passed and the policy is not Block. Certificates, their
  status, Secrets and CAS are never written.
\<close>

theorem Reconcile_binding_guarded:
  "emits (\<lambda>es res. guarded (binding_guard r ns n) [] es) (Reconcile_binding r ns n)"
  by (rule Reconcile_binding_all)

end
