(* ===== verification/Binding_Outcome.thy ===== *)
theory Binding_Outcome
  imports Binding_Guard
begin

text \<open>
  What comes of the rounds of a Binding: Ready, the requeues, what a failure leaves alone, the
  bound on the deletion, and that a write is recognised by the next observation, so that
  rounds converge.
\<close>

section \<open>Protocols\<close>

lemma char_case_code:
  "(of_char (lower_char c) :: nat) = (if 65 \<le> (of_char c :: nat) \<and> (of_char c :: nat) \<le> 90 then of_char c + 32 else of_char c)"
  "(of_char (upper_char c) :: nat) = (if 97 \<le> (of_char c :: nat) \<and> (of_char c :: nat) \<le> 122 then of_char c - 32 else of_char c)"
  by (auto simp: lower_char_def upper_char_def less_eq_char_def)

lemma case_changes:
  "upper_char (lower_char c) = upper_char c" "lower_char (upper_char c) = lower_char c"
proof -
  have "(of_char (upper_char (lower_char c)) :: nat) = of_char (upper_char c)"
    "(of_char (lower_char (upper_char c)) :: nat) = of_char (lower_char c)"
    unfolding char_case_code by auto
  then show "upper_char (lower_char c) = upper_char c" "lower_char (upper_char c) = lower_char c"
    by (simp_all only: of_char_eq_iff)
qed

lemma EqualFold_upper: "EqualFold s t \<longleftrightarrow> ToUpper s = ToUpper t"
proof
  assume "EqualFold s t"
  then have "map lower_char s = map lower_char t" by (simp add: EqualFold_def ToLower_def)
  then have "map upper_char (map lower_char s) = map upper_char (map lower_char t)" by (rule arg_cong)
  then show "ToUpper s = ToUpper t" by (simp add: ToUpper_def case_changes comp_def)
next
  assume "ToUpper s = ToUpper t"
  then have "map upper_char s = map upper_char t" by (simp add: ToUpper_def)
  then have "map lower_char (map upper_char s) = map lower_char (map upper_char t)" by (rule arg_cong)
  then show "EqualFold s t" by (simp add: EqualFold_def ToLower_def case_changes comp_def)
qed

lemma protocolSatisfied_iff: "protocolSatisfied obs True \<longleftrightarrow> protocolHasHTTPS (o_Protocol obs)"
proof -
  have u: "ToUpper ''HTTPS'' = ''HTTPS''" by code_simp
  show ?thesis
    unfolding protocolSatisfied_def protocolHasHTTPS_def splitProtocol_def EqualFold_upper u by (auto simp: image_iff intro: sym)
qed

section \<open>Ready\<close>

lemma FindStatusCondition_other:
  "meta_laws mt \<Longrightarrow> t \<noteq> ct \<Longrightarrow>
   FindStatusCondition mt (bx_Conditions (b_Status (setBindingCondition mt ct st rs msg b))) t =
   FindStatusCondition mt (bx_Conditions (b_Status b)) t"
  by (simp add: meta_laws_def setBindingCondition_def)

lemma bindingCond_set:
  assumes "meta_laws mt"
  shows "bindingCondTrue mt (setBindingCondition mt ct st rs msg b) ct \<longleftrightarrow> st = ConditionTrue"
    and "bindingCondReason mt (setBindingCondition mt ct st rs msg b) ct = rs"
proof -
  let ?c = "\<lparr> c_Type = ct, c_Status = st, c_Reason = rs, c_Message = msg,
    c_ObservedGeneration = b_Generation b, c_LastTransitionTime = None \<rparr>"
  obtain c' where "FindStatusCondition mt (SetStatusCondition mt (bx_Conditions (b_Status b)) ?c) ct = Some c'"
    "c_Status c' = st" "c_Reason c' = rs"
    using assms [unfolded meta_laws_def, THEN conjunct1, rule_format, of "bx_Conditions (b_Status b)" ?c] by auto
  then show "bindingCondTrue mt (setBindingCondition mt ct st rs msg b) ct \<longleftrightarrow> st = ConditionTrue"
    and "bindingCondReason mt (setBindingCondition mt ct st rs msg b) ct = rs"
    using assms by (auto simp: bindingCondTrue_def bindingCondReason_def setBindingCondition_def meta_laws_def)
qed

lemma bindingCond_other:
  assumes "meta_laws mt" "t \<noteq> ct"
  shows "bindingCondTrue mt (setBindingCondition mt ct st rs msg b) t = bindingCondTrue mt b t"
    and "bindingCondReason mt (setBindingCondition mt ct st rs msg b) t = bindingCondReason mt b t"
  using FindStatusCondition_other [OF assms] assms(1)
  by (simp_all add: bindingCondTrue_def bindingCondReason_def meta_laws_def)

section \<open>Requeues\<close>

lemma yields_bind_any: "(\<And>x. yields P (f x)) \<Longrightarrow> yields P (State_Monad.bind m f)"
  by (rule yields_bind) (rule yields_triv)

lemma yields_case_prod: "(\<And>a b. x = (a, b) \<Longrightarrow> yields P (f a b)) \<Longrightarrow> yields P (case x of (a, b) \<Rightarrow> f a b)"
  by (cases x) simp

definition comes_back :: "'w AliyunCertificateBindingReconciler \<Rightarrow> binding_result \<Rightarrow> bool" where
  "comes_back r res \<longleftrightarrow> (case res of (d, err) \<Rightarrow>
     err = None \<longrightarrow> d \<in> {br_DriftCheckInterval r, 30 * second, 5 * minute})"

lemmas comes_back_rules = yields_bind_any yields_if yields_case_option yields_case_sum yields_case_prod yields_Let yields_ret

lemma patch_round_back:
  "d \<in> {br_DriftCheckInterval r, 30 * second, 5 * minute} \<Longrightarrow> yields (comes_back r) (patch_round r rd d)"
  unfolding patch_round_def by (intro comes_back_rules) (simp add: comes_back_def)

lemma handlers_back:
  "yields (comes_back r) (handleObserveError r rd err)"
  "yields (comes_back r) (handleApplyError r rd err)"
  "yields (comes_back r) (handleFactoryError r rd err)"
  unfolding handleObserveError_def observe_failed_round_def handleApplyError_def handleFactoryError_def apply_failed_result_def
  by (intro comes_back_rules patch_round_back; auto simp: comes_back_def split: option.splits sum.splits)+

lemma observedTarget_back: "yields (comes_back r) (observedTarget r rd p cl tg obs m)"
  unfolding observedTarget_def applyTarget_def
  by (intro yields_bind_any yields_case_prod)
    (auto split: bool.split intro!: comes_back_rules patch_round_back handlers_back)

lemma reconcileBindingReady_back: "yields (comes_back r) (reconcileBindingReady r rd ac)"
  unfolding reconcileBindingReady_def gateMaterial_def reachTarget_def
  by (intro comes_back_rules patch_round_back handlers_back observedTarget_back) (auto simp: comes_back_def)

lemma reconcileBound_back: "yields (comes_back r) (reconcileBound r rd)"
  unfolding reconcileBound_def
  by (intro comes_back_rules patch_round_back reconcileBindingReady_back) (auto simp: comes_back_def)

section \<open>Convergence\<close>

lemma fc3_registered: "registry_Get (production_registry env) TargetTypeFC3CustomDomain = Some (fc3_provider env)"
  by (simp add: production_registry_def Register_def registry_Get_def fc3_provider_def oss_provider_def)

lemma fc3_caps:
  "bt_Type (bs_Target (b_Spec b)) = TargetTypeFC3CustomDomain \<Longrightarrow>
   capabilitiesOf (production_registry env) b = fc3_Capabilities"
  by (simp add: capabilitiesOf_def fc3_registered fc3_provider_def)

lemma fp_of_CertPEM:
  assumes "crypto_laws env" "ParseBundle env certPEM keyPEM = Inr bun" "KeyPEM env bun = Inr key"
  shows "fp_of env (CertPEM env bun) = bn_Fingerprint bun"
proof -
  have l: "LeafFingerprint env (CertPEM env bun) = Inr (bn_Fingerprint bun)" using Bundle_reparses [OF assms] by blast
  have "parse_certs_loop env [] [] = Inr []"
    using assms(1) by (subst parse_certs_loop_step) (simp_all add: crypto_laws_def pem_round_trip_def)
  then have "LeafFingerprint env [] = Inl ErrNoCertificate" by (simp add: LeafFingerprint_def parseCertificates_def)
  with l have "CertPEM env bun \<noteq> []" by auto
  with l show ?thesis by (simp add: fp_of_def)
qed

lemma material_of_simps:
  "m_Fingerprint (material_of ac env bun key) = bn_Fingerprint bun" "m_CertPEM (material_of ac env bun key) = CertPEM env bun"
  by (simp_all add: material_of_def Let_def split: option.split)

lemma protocolBoth_HTTPS: "protocolHasHTTPS protocolBoth"
  by code_simp

lemma applied_up_to_date:
  assumes "crypto_laws env" "ParseBundle env certPEM keyPEM = Inr bun" "KeyPEM env bun = Inr key"
    and "bt_Type (bs_Target (b_Spec b)) = TargetTypeFC3CustomDomain"
    and "fc3_inv w" "run_state (fc3_Apply t (FC3Cl fake_fc3) (material_of ac env bun key) ao) w = (None, w1)"
    and "ao_EnsureHTTPSProtocol ao = ensureHTTPSOf b"
    and "run_state (fc3_Observe env t (FC3Cl fake_fc3)) w1 = (Inr obs, w2)"
  shows "up_to_date (production_registry env) b obs (material_of ac env bun key)"
proof -
  let ?m = "material_of ac env bun key"
  obtain dm where dm: "fc3_inv w1" "domains w1 (tg_Identifier t) = Some (updated dm (apply_input (domain_view w dm) ?m ao))"
    using fc3_Apply_spec [OF assms(6,5)] by auto
  then have obs: "obs = observed_of env (domain_view w1 (updated dm (apply_input (domain_view w dm) ?m ao)))"
    using fc3_Observe_spec [OF assms(8)] by auto
  have "o_CurrentFingerprint obs = m_Fingerprint ?m"
    unfolding obs observed_fp using fp_of_CertPEM [OF assms(1-3)] by (simp add: domain_view_def material_of_simps)
  moreover have "protocolSatisfied obs (ensureHTTPSOf b)"
  proof (cases "ensureHTTPSOf b")
    case True
    have "o_Protocol obs = dm_Protocol (updated dm (apply_input (domain_view w dm) ?m ao))"
      unfolding obs by (simp add: observed_of_def domain_view_def Let_def split: sum.split)
    then have "protocolHasHTTPS (o_Protocol obs)" using True assms(7) protocolBoth_HTTPS by (simp add: domain_view_def)
    with True show ?thesis by (simp add: protocolSatisfied_iff)
  qed (simp add: protocolSatisfied_def)
  ultimately show ?thesis by (simp add: up_to_date_def identityOf_def fc3_caps [OF assms(4)] fc3_Capabilities_def Let_def)
qed

lemma oss_caps:
  "bt_Type (bs_Target (b_Spec b)) = TargetTypeOSSCustomDomain \<Longrightarrow>
   capabilitiesOf (production_registry env) b = oss_Capabilities"
  by (simp add: capabilitiesOf_def production_registry_def Register_def registry_Get_def fc3_provider_def oss_provider_def)

lemma applied_up_to_date_ref:
  assumes "bt_Type (bs_Target (b_Spec b)) = TargetTypeOSSCustomDomain" "\<not> ensureHTTPSOf b"
    and "oss_inv w" "run_state (oss_Apply t (OSSCl fake_oss) m ao) w = (None, w1)"
    and "run_state (oss_Observe t (OSSCl fake_oss)) w1 = (Inr obs, w2)"
  shows "up_to_date (production_registry env) b obs m"
proof -
  have "oss_inv w1" "oss_view w1 t = Some (CASCertRef m)" using oss_Apply_spec [OF assms(4,3)] by auto
  then have "o_CurrentCertRef obs = CASCertRef m" using oss_Observe_spec [OF assms(5)] by simp
  then show ?thesis
    using assms(2) by (simp add: up_to_date_def identityOf_def oss_caps [OF assms(1)] oss_Capabilities_def protocolSatisfied_def Let_def)
qed

section \<open>Failures that say nothing about the target\<close>

text \<open>\<open>meta.FindStatusCondition\<close> returns the first condition of the type.\<close>

definition finds_first :: "meta_api \<Rightarrow> bool" where
  "finds_first mt \<longleftrightarrow> (\<forall>cs t. FindStatusCondition mt cs t = List.find (\<lambda>c. c_Type c = t) cs)"

lemma mark_failed_status:
  "mark_failed cs = Some cs' \<Longrightarrow>
   map_option c_Status (List.find (\<lambda>c. c_Type c = t) cs') = map_option c_Status (List.find (\<lambda>c. c_Type c = t) cs)"
  by (induction cs arbitrary: cs') (auto split: if_splits)

lemma bindingCondTrue_find:
  "meta_laws mt \<Longrightarrow> finds_first mt \<Longrightarrow> bindingCondTrue mt b t \<longleftrightarrow>
     map_option c_Status (List.find (\<lambda>c. c_Type c = t) (bx_Conditions (b_Status b))) = Some ConditionTrue"
  by (auto simp: bindingCondTrue_def meta_laws_def finds_first_def)

lemma noteObserveFailed_cond:
  assumes "meta_laws mt" "finds_first mt"
  shows "bindingCondTrue mt (snd (noteObserveFailed b)) t = bindingCondTrue mt b t"
proof (cases "mark_failed (bx_Conditions (b_Status b))")
  case (Some cs)
  from mark_failed_status [OF this, of t] show ?thesis
    using Some unfolding bindingCondTrue_find [OF assms] by (simp add: noteObserveFailed_def)
qed (simp add: noteObserveFailed_def)

lemma verdict_ready:
  assumes "meta_laws mt"
  shows "bindingCondTrue mt (setBindingReadyFalse mt rs msg b) ConditionApplied = bindingCondTrue mt b ConditionApplied"
    and "bindingCondTrue mt (aggregateBindingReady mt b) ConditionApplied = bindingCondTrue mt b ConditionApplied"
  using bindingCond_other [OF assms, of ConditionApplied ConditionReady]
  by (simp_all add: setBindingReadyFalse_def aggregateBindingReady_def)

section \<open>The bound on the deletion\<close>

lemma emits_perform_yields: "yields Q op \<Longrightarrow> (\<And>r. Q r \<Longrightarrow> C [ev r] r) \<Longrightarrow> emits C (perform ev op)"
  by (auto simp: emits_def perform_def yields_def split: prod.splits) (metis fst_conv)

lemma emits_any_bind:
  assumes "emits A m" "\<And>x. emits (\<lambda>es y. \<exists>e \<in> set es. P e) (f x)"
  shows "emits (\<lambda>es y. \<exists>e \<in> set es. P e) (State_Monad.bind m f)"
  by (rule emits_bind_mono [OF assms(1)], rule emits_mono [OF assms(2)]) auto

definition finalizer_released :: "'w AliyunCertificateBindingReconciler \<Rightarrow> AliyunCertificateBinding \<Rightarrow> effect \<Rightarrow> bool" where
  "finalizer_released r b e \<longleftrightarrow>
     (\<exists>a. e = UpdateBinding (b\<lparr>b_Finalizers := RemoveFinalizer (br_meta r) (b_Finalizers b) FinalizerName\<rparr>) a)"

lemma finishBindingDeletion_releases:
  "emits (\<lambda>es x. \<exists>e \<in> set es. finalizer_released r (rd_b rd) e) (finishBindingDeletion r rd)"
proof -
  have clear: "emits (\<lambda>es x. list_all mild es) (clearBindingMetrics ns' n' p)" for ns' n' p
    by (rule emits_mono [OF onlyD [OF only_metrics(3)]]) (simp add: list_all_iff)
  show ?thesis
    unfolding finishBindingDeletion_def Let_def
    by (intro emits_intro emits_mono [OF clear]) (simp_all add: finalizer_released_def)
qed

lemma unbindFailed_gives_up:
  assumes "br_CleanupFailurePolicy r \<noteq> CleanupPolicyBlock" "bx_CleanupStartedAt (b_Status (rd_b rd)) = Some s"
    and "yields (\<lambda>t. s + br_CleanupGracePeriod r \<le> t) (k_now (br_kube r))"
  shows "emits (\<lambda>es res. res = None) (unbindFailed r rd err)"
  unfolding unbindFailed_def binding_now_def
proof (rule emits_bind, rule emits_perform_yields [OF assms(3)], goal_cases)
  case (1 t)
  then show ?case using assms(1,2) by (auto simp: shouldAbandonCleanup_def intro!: emits_intro)
qed

lemma unbindAndFinish_releases:
  assumes "br_CleanupFailurePolicy r \<noteq> CleanupPolicyBlock" "bx_CleanupStartedAt (b_Status (rd_b rd)) = Some s"
    and "yields (\<lambda>t. s + br_CleanupGracePeriod r \<le> t) (k_now (br_kube r))"
  shows "emits (\<lambda>es x. \<exists>e \<in> set es. finalizer_released r (rd_b rd) e) (unbindAndFinish r rd)"
  unfolding unbindAndFinish_def
proof (rule emits_any_bind [OF unbindTarget_spec], goal_cases)
  case (1 err)
  have "emits (\<lambda>es res. res = None) (case err of Some e \<Rightarrow> unbindFailed r rd e | None \<Rightarrow> ret None)"
    by (intro emits_intro unbindFailed_gives_up [OF assms]) simp
  then show ?case
    by (rule emits_bind_mono) (auto intro: emits_mono [OF finishBindingDeletion_releases])
qed

lemma reconcileBindingDelete_releases:
  assumes "br_CleanupFailurePolicy r \<noteq> CleanupPolicyBlock" "bx_CleanupStartedAt (b_Status b) = Some s"
    and "yields (\<lambda>t. s + br_CleanupGracePeriod r \<le> t) (k_now (br_kube r))"
    and "ContainsFinalizer (br_meta r) (b_Finalizers b) FinalizerName"
  shows "emits (\<lambda>es x. \<exists>e \<in> set es. finalizer_released r b e) (reconcileBindingDelete r (newBindingRound b))"
  using assms finishBindingDeletion_releases [of r "newBindingRound b"] unbindAndFinish_releases [of r "newBindingRound b" s]
  by (auto simp: reconcileBindingDelete_def startBindingCleanup_def newBindingRound_def)

section \<open>Properties\<close>

text \<open>
  C7. The deletion of a Binding is bounded: once the grace period has passed since the clean-up
  started and the policy is not Block, a reconcile of a Binding being deleted always tries to
  remove the finalizer, whatever the API server, the provider and the cloud answer, so no
  broken cloud can hold the object forever.
\<close>

theorem binding_deletion_bounded:
  assumes "run_state (live_GetBinding (br_kube r) ns n) w = (Inr b, w')" "b_DeletionTimestamp b \<noteq> None"
    and "ContainsFinalizer (br_meta r) (b_Finalizers b) FinalizerName"
    and "br_CleanupFailurePolicy r \<noteq> CleanupPolicyBlock" "bx_CleanupStartedAt (b_Status b) = Some s"
    and "\<forall>v. s + br_CleanupGracePeriod r \<le> fst (run_state (k_now (br_kube r)) v)"
  shows "\<exists>a. UpdateBinding (b\<lparr>b_Finalizers := RemoveFinalizer (br_meta r) (b_Finalizers b) FinalizerName\<rparr>) a
    \<in> set (effects_of (Reconcile_binding r ns n) w)"
proof -
  have "yields (\<lambda>t. s + br_CleanupGracePeriod r \<le> t) (k_now (br_kube r))" using assms(6) by (simp add: yields_def)
  note all = reconcileBindingDelete_releases [OF assms(4,5) this assms(3), unfolded emits_def]
  obtain es where "trace (snd (run_state (reconcileBindingDelete r (newBindingRound b)) \<lparr> world = w', trace = [GetBinding ns n (Inr b)] \<rparr>))
      = [GetBinding ns n (Inr b)] @ es" "\<exists>e \<in> set es. finalizer_released r b e"
    using all [THEN spec, of "\<lparr> world = w', trace = [GetBinding ns n (Inr b)] \<rparr>"] by auto
  then show ?thesis
    using assms(1,2) by (auto simp: effects_of_def Reconcile_binding_def perform_def start_def finalizer_released_def)
qed

text \<open>
  C8. A live Binding is never forgotten: a reconcile that read it and ends without an error
  asks to be called again, after the interval of the drift check, after 30 seconds when it
  waits for the certificate, or after 5 minutes when it waits for credentials or the target.
\<close>

theorem live_binding_requeued:
  assumes "run_state (live_GetBinding (br_kube r) ns n) w = (Inr b, w')" "b_DeletionTimestamp b = None"
    and "result_of (Reconcile_binding r ns n) w = (d, None)"
  shows "d \<in> {br_DriftCheckInterval r, 30 * second, 5 * minute}"
proof -
  let ?m = "do { f \<leftarrow> ensureFinalizer r (newBindingRound b);
    (case f of Inl err \<Rightarrow> ret (0, Some err) | Inr rd \<Rightarrow> reconcileBound r rd) }"
  have "yields (comes_back r) ?m"
    by (intro comes_back_rules reconcileBound_back) (simp add: comes_back_def)
  moreover have "fst (run_state ?m \<lparr> world = w', trace = [GetBinding ns n (Inr b)] \<rparr>) = (d, None)"
    using assms by (simp add: result_of_def Reconcile_binding_def perform_def start_def)
  ultimately have "comes_back r (d, None)" unfolding yields_def by metis
  then show ?thesis by (simp add: comes_back_def)
qed

text \<open>
  C6. A write is final, on either in-memory cloud: after the material of a served bundle was
  applied to the target of a Binding, with the HTTPS option of that Binding, the next
  observation of the target makes the round up to date. For Function Compute this holds
  whatever the protocol of the domain was, so the fingerprint that the Secret side computes,
  the PEM that is written, the fingerprint that is read back and the two protocol tests of
  controller and provider agree; for OSS, whose Bindings have no HTTPS option, the reference
  to CAS that is written is the one that is read back and compared. So rounds that find
  nothing changed write nothing.
\<close>

theorem applied_is_up_to_date:
  assumes "crypto_laws env" "ParseBundle env certPEM keyPEM = Inr bun" "KeyPEM env bun = Inr key"
    and "m = material_of ac env bun key"
  shows "(bt_Type (bs_Target (b_Spec b)) = TargetTypeFC3CustomDomain \<and> fc3_inv w \<and>
      run_state (fc3_Apply t (FC3Cl fake_fc3) m ao) w = (None, w1) \<and> ao_EnsureHTTPSProtocol ao = ensureHTTPSOf b \<and>
      run_state (fc3_Observe env t (FC3Cl fake_fc3)) w1 = (Inr obs, w2) \<longrightarrow>
      up_to_date (production_registry env) b obs m) \<and>
    (bt_Type (bs_Target (b_Spec b)) = TargetTypeOSSCustomDomain \<and> \<not> ensureHTTPSOf b \<and> oss_inv v \<and>
      run_state (oss_Apply t (OSSCl fake_oss) m ao) v = (None, v1) \<and>
      run_state (oss_Observe t (OSSCl fake_oss)) v1 = (Inr obs', v2) \<longrightarrow>
      up_to_date (production_registry env) b obs' m)"
  unfolding assms(4) using applied_up_to_date [OF assms(1-3)] applied_up_to_date_ref by blast

text \<open>
  C11. Ready of a Binding is exactly Applied and not in Conflict: the aggregation leaves both
  conditions alone, and when it says no it repeats the reason of the conflict, else the reason
  of the missing Applied, and ObserveFailed for a Binding that has never been applied.
\<close>

theorem aggregateBindingReady_iff:
  assumes "meta_laws mt"
  shows "(bindingCondTrue mt (aggregateBindingReady mt b) ConditionReady \<longleftrightarrow>
      bindingCondTrue mt b ConditionApplied \<and> \<not> bindingCondTrue mt b ConditionConflict) \<and>
    bindingCondTrue mt (aggregateBindingReady mt b) ConditionApplied = bindingCondTrue mt b ConditionApplied \<and>
    bindingCondTrue mt (aggregateBindingReady mt b) ConditionConflict = bindingCondTrue mt b ConditionConflict \<and>
    bindingCondReason mt (aggregateBindingReady mt b) ConditionReady =
      (if bindingCondTrue mt b ConditionConflict then bindingCondReason mt b ConditionConflict
       else if bindingCondTrue mt b ConditionApplied then ReasonApplied
       else if bindingCondReason mt b ConditionApplied = [] then ReasonObserveFailed
       else bindingCondReason mt b ConditionApplied)"
  using bindingCond_other [OF assms, of ConditionApplied ConditionReady]
    bindingCond_other [OF assms, of ConditionConflict ConditionReady]
  by (simp add: aggregateBindingReady_def bindingCond_set [OF assms] not_ready_reason_def)

section \<open>Witnesses\<close>

definition sample_binding_reconciler :: "cluster AliyunCertificateBindingReconciler" where
  "sample_binding_reconciler = \<lparr> br_kube = sample_kube, br_meta = sample_meta, br_crypto = sample_env,
     br_registry = production_registry sample_env,
     br_ProviderFactory = Some (\<lambda>b ac. ret (Inr (fc3_provider sample_env, FC3Cl cluster_fc3))),
     br_DriftCheckInterval = hour, br_CleanupGracePeriod = hour, br_CleanupFailurePolicy = ''Abandon'' \<rparr>"

text \<open>An issued certificate whose current generation is the one of the Secret.\<close>

definition sample_issued_ac :: AliyunCertificate where
  "sample_issued_ac = setCondition sample_meta (sample_ac\<lparr>ac_Status := sample_status\<lparr>
     x_Current := Some (sample_gen (bn_Fingerprint (sample_bundle ''a.b.c'')) 7 0)\<rparr>\<rparr>)
     ConditionIssued ConditionTrue [] NoMsg"

definition sample_bound_cluster :: cluster where
  "sample_bound_cluster = (sample_cluster sample_issued_ac [sample_binding ''one'' ''a.b.c''])\<lparr>w_fc3 := sample_fc3\<rparr>"

text \<open>The reconcile of a new Binding on this cluster applies the certificate and asks to be
  called in an hour.\<close>

lemma sample_round:
  "result_of (Reconcile_binding sample_binding_reconciler ''ns'' ''one'') sample_bound_cluster = (hour, None)"
  by code_simp

lemma sample_round_applies:
  "list_ex (\<lambda>e. case e of TargetApply tg m ao a \<Rightarrow> a = None | _ \<Rightarrow> False)
     (effects_of (Reconcile_binding sample_binding_reconciler ''ns'' ''one'') sample_bound_cluster)"
  by code_simp

theorem live_binding_requeued_witness:
  "fst (result_of (Reconcile_binding sample_binding_reconciler ''ns'' ''one'') sample_bound_cluster) \<in>
     {br_DriftCheckInterval sample_binding_reconciler, 30 * second, 5 * minute}"
proof -
  have g: "run_state (live_GetBinding (br_kube sample_binding_reconciler) ''ns'' ''one'') sample_bound_cluster =
      (Inr (sample_binding ''one'' ''a.b.c''), sample_bound_cluster)"
    by (simp add: sample_binding_reconciler_def sample_kube_def sample_bound_cluster_def sample_cluster_def ask_def sample_binding_def)
  show ?thesis
    using live_binding_requeued [OF g _ sample_round] sample_round by (simp add: sample_binding_def)
qed

definition sample_late_reconciler :: "cluster AliyunCertificateBindingReconciler" where
  "sample_late_reconciler = sample_binding_reconciler\<lparr>br_kube := sample_kube\<lparr>k_now := ret (3 * hour)\<rparr>,
     br_ProviderFactory := None\<rparr>"

definition sample_stuck_binding :: AliyunCertificateBinding where
  "sample_stuck_binding = (let b = sample_binding ''one'' ''a.b.c'' in
     b\<lparr>b_DeletionTimestamp := Some 0, b_Spec := (b_Spec b)\<lparr>bs_DeletionPolicy := DeletionPolicyUnbind\<rparr>,
       b_Status := (b_Status b)\<lparr>bx_AppliedFingerprint := ''aa'', bx_CleanupStartedAt := Some hour\<rparr>\<rparr>)"

text \<open>A Binding that cannot be unbound, since no provider is configured, two hours later.\<close>

theorem binding_deletion_bounded_witness:
  "\<exists>a. UpdateBinding (sample_stuck_binding\<lparr>b_Finalizers := []\<rparr>) a
     \<in> set (effects_of (Reconcile_binding sample_late_reconciler ''ns'' ''one'') (sample_cluster sample_ac [sample_stuck_binding]))"
proof -
  have g: "run_state (live_GetBinding (br_kube sample_late_reconciler) ''ns'' ''one'') (sample_cluster sample_ac [sample_stuck_binding]) =
      (Inr sample_stuck_binding, sample_cluster sample_ac [sample_stuck_binding])"
    by (simp add: sample_late_reconciler_def sample_kube_def sample_cluster_def ask_def sample_stuck_binding_def sample_binding_def Let_def)
  have "RemoveFinalizer (br_meta sample_late_reconciler) (b_Finalizers sample_stuck_binding) FinalizerName = []" by code_simp
  moreover have "\<exists>a. UpdateBinding (sample_stuck_binding\<lparr>b_Finalizers :=
        RemoveFinalizer (br_meta sample_late_reconciler) (b_Finalizers sample_stuck_binding) FinalizerName\<rparr>) a
     \<in> set (effects_of (Reconcile_binding sample_late_reconciler ''ns'' ''one'') (sample_cluster sample_ac [sample_stuck_binding]))"
    by (rule binding_deletion_bounded [OF g, where s = hour])
      (simp_all add: sample_late_reconciler_def sample_binding_reconciler_def sample_meta_def sample_stuck_binding_def sample_binding_def Let_def)
  ultimately show ?thesis by simp
qed

theorem aggregateBindingReady_iff_witness:
  "\<not> bindingCondTrue sample_meta (aggregateBindingReady sample_meta (sample_binding ''one'' ''a.b.c'')) ConditionReady \<and>
   bindingCondReason sample_meta (aggregateBindingReady sample_meta (sample_binding ''one'' ''a.b.c'')) ConditionReady = ReasonObserveFailed"
  using aggregateBindingReady_iff [OF sample_meta_laws, of "sample_binding ''one'' ''a.b.c''"]
  by (simp add: bindingCondTrue_def bindingCondReason_def sample_binding_def sample_meta_def)

lemma sample_finds_first: "finds_first sample_meta"
  by (simp add: finds_first_def sample_meta_def)

text \<open>A bucket with a domain, its Binding, and a certificate that CAS knows as 7.\<close>

definition sample_bucket :: OSS where
  "sample_bucket = AddCname ''b'' \<lparr> rec_Domain = ''a.b.c'', rec_CertRef = ''old'', rec_CertType = ''CAS'' \<rparr> (AddBucket ''b'' NewOSS)"

definition sample_oss_spec :: OSSCustomDomainTarget where
  "sample_oss_spec = \<lparr> oss_Region = ''cn-hangzhou'', oss_Bucket = ''b'', oss_DomainName = ''a.b.c'' \<rparr>"

definition sample_oss_binding :: AliyunCertificateBinding where
  "sample_oss_binding = (let b = sample_binding ''one'' ''a.b.c'' in
     b\<lparr>b_Spec := (b_Spec b)\<lparr>bs_Target := \<lparr> bt_Type = TargetTypeOSSCustomDomain, bt_FC3CustomDomain = None,
       bt_OSSCustomDomain = Some sample_oss_spec \<rparr>\<rparr>\<rparr>)"

definition sample_bucket_target :: Target where
  "sample_bucket_target = sample_target\<lparr>tg_Type := TargetTypeOSSCustomDomain, tg_Spec := SpecOSS sample_oss_spec\<rparr>"

lemma sample_bucket_inv: "oss_inv sample_bucket"
  by (simp add: sample_bucket_def oss_inv_def AddCname_def AddBucket_def NewOSS_def)

definition sample_options :: ApplyOptions where
  "sample_options = \<lparr> ao_EnsureHTTPSProtocol = False, ao_PreviousFingerprint = [] \<rparr>"

lemma sample_apply_bundle:
  assumes "m = material_of sample_issued_ac sample_env (sample_bundle ''a.b.c'') sample_keyPEM"
  shows "\<exists>w1. run_state (fc3_Apply sample_target (FC3Cl fake_fc3) m sample_options) sample_fc3 = (None, w1)
    \<and> getErrs w1 = [] \<and> domains w1 ''a.b.c'' \<noteq> None"
proof -
  have "m_CASName m \<noteq> []" "m_KeyPEM m \<noteq> []" "m_CertPEM m \<noteq> []" unfolding assms by code_simp+
  then show ?thesis
    by (simp add: fc3_Apply_def fc3_clientOf_def fake_fc3_def fake_GetCustomDomain_def fake_UpdateCustomDomain_def
      sample_target_def sample_fc3_def sample_domain_def AddDomain_def NewFC3_def validateUpdate_def sample_options_def Let_def)
qed

theorem applied_is_up_to_date_witness:
  "\<exists>w1 obs v1 obs' v2 m. m = material_of sample_issued_ac sample_env (sample_bundle ''a.b.c'') sample_keyPEM \<and>
    run_state (fc3_Apply sample_target (FC3Cl fake_fc3) m sample_options) sample_fc3 = (None, w1) \<and>
    run_state (fc3_Observe sample_env sample_target (FC3Cl fake_fc3)) w1 = (Inr obs, w1) \<and>
    up_to_date (production_registry sample_env) (sample_binding ''one'' ''a.b.c'') obs m \<and>
    run_state (oss_Apply sample_bucket_target (OSSCl fake_oss) m sample_options) sample_bucket = (None, v1) \<and>
    run_state (oss_Observe sample_bucket_target (OSSCl fake_oss)) v1 = (Inr obs', v2) \<and>
    up_to_date (production_registry sample_env) sample_oss_binding obs' m"
proof -
  define m where m: "m = material_of sample_issued_ac sample_env (sample_bundle ''a.b.c'') sample_keyPEM"
  obtain w1 where w1: "run_state (fc3_Apply sample_target (FC3Cl fake_fc3) m sample_options) sample_fc3 = (None, w1)"
    "getErrs w1 = []" "domains w1 ''a.b.c'' \<noteq> None" using sample_apply_bundle [OF m] by blast
  then obtain obs where obs: "run_state (fc3_Observe sample_env sample_target (FC3Cl fake_fc3)) w1 = (Inr obs, w1)"
    by (auto simp: fc3_Observe_fake fake_GetCustomDomain_def sample_target_def)
  define a where "a = run_state (oss_Apply sample_bucket_target (OSSCl fake_oss) m sample_options) sample_bucket"
  define o2 where "o2 = run_state (oss_Observe sample_bucket_target (OSSCl fake_oss)) (snd a)"
  have "fst a = None" unfolding a_def m by code_simp
  then have a: "run_state (oss_Apply sample_bucket_target (OSSCl fake_oss) m sample_options) sample_bucket = (None, snd a)"
    unfolding a_def by (metis prod.collapse)
  have "\<not> isl (fst o2)" unfolding o2_def a_def m by code_simp
  then have o2: "run_state (oss_Observe sample_bucket_target (OSSCl fake_oss)) (snd a) = (Inr (projr (fst o2)), snd o2)"
    unfolding o2_def by (metis prod.collapse sum.collapse(2))
  have k: "KeyPEM sample_env (sample_bundle ''a.b.c'') = Inr sample_keyPEM" by code_simp
  note all = applied_is_up_to_date [OF sample_env_laws sample_ParseBundle k m]
  have "up_to_date (production_registry sample_env) (sample_binding ''one'' ''a.b.c'') obs m"
    by (rule conjunct1 [OF all, rule_format], intro conjI)
      (rule w1 obs sample_fc3_inv | simp add: sample_binding_def sample_fc3_target_def ensureHTTPSOf_def sample_options_def)+
  moreover have "up_to_date (production_registry sample_env) sample_oss_binding (projr (fst o2)) m"
    by (rule conjunct2 [OF all, rule_format], intro conjI)
      (rule a o2 sample_bucket_inv | simp add: sample_oss_binding_def ensureHTTPSOf_def Let_def)+
  ultimately show ?thesis using w1(1) obs a o2 m by blast
qed

end
