(* ===== verification/Watches.thy ===== *)
theory Watches
  imports Binding_Outcome
begin

text \<open>
  Who is woken by what: the watches of both controllers (\<open>SetupWithManager\<close> of
  \<open>aliyuncertificatebinding_controller.go\<close> and \<open>aliyuncertificate_controller.go\<close>) with their
  shared predicate, the maps from an event to requests and the indexes of \<open>indexes.go\<close>.

  The predicates of controller-runtime are a parameter with their documented behaviour
  (\<open>predicate_laws\<close>). A map function runs on both objects of an update, the handler of
  \<open>For\<close> enqueues the new one.
\<close>

section \<open>Definitions\<close>















section \<open>Listings by index\<close>








section \<open>Properties\<close>


section \<open>Witnesses\<close>





end
