(* ===== verification/Factories.thy ===== *)
theory Factories
  imports Binding_Model Upload
begin

text \<open>
  The factories of the cloud clients (\<open>internal/controller/cas_factory.go\<close>,
  \<open>provider_factory.go\<close>, \<open>aliyunAPICallRecorder\<close> of \<open>metrics.go\<close>): credentials from the Secret
  of the namespace, one client per key in the cache, the SDK client behind it.

  What the closures capture is the record \<open>factory_env\<close>: the reader, the limiters, the
  timeout, and the constructors of the SDKs, of \<open>credentials-go\<close> and of Prometheus. The cache
  is a variable of the process: a factory takes it and returns it with its result, and \<open>build\<close>
  runs while it is held.
\<close>

section \<open>Definitions\<close>

text \<open>\<open>ClientCache.GetOrBuild\<close> with a \<open>build\<close> that calls out.\<close>

definition getOrBuild ::
  "'c ClientCache \<Rightarrow> ClientKey \<Rightarrow> ('w, gerror + 'c) state \<Rightarrow> ('w, (gerror + 'c) \<times> 'c ClientCache) state" where
  "getOrBuild c key build = State (\<lambda>w.
     (GetOrBuild c key (\<lambda>_. fst (run_state build w)), if cache_slot c key = None then snd (run_state build w) else w))"

record 'w factory_env =
  fe_GetSecret :: "string \<Rightarrow> string \<Rightarrow> ('w, gerror + secret) state"
  fe_limiters :: "'w limiters_ref"
  fe_timeout :: duration
  fe_sdk :: "'w sdk_env"
  fe_NewCredential :: "credential_config \<Rightarrow> gerror + 'w credential"
  fe_cas :: "'w openapi_config \<Rightarrow> gerror + 'w cas_api"
  fe_fc3 :: "'w openapi_config \<Rightarrow> gerror + 'w fc3_api"
  fe_oss :: "'w oss_config \<Rightarrow> 'w oss_api"
  fe_Inc :: "string \<Rightarrow> string list \<Rightarrow> ('w, unit) state"
  fe_Observe :: "string \<Rightarrow> string list \<Rightarrow> duration \<Rightarrow> ('w, unit) state"

abbreviation serviceCAS :: string where "serviceCAS \<equiv> ''cas''"
abbreviation serviceFC3 :: string where "serviceFC3 \<equiv> ''fc''"
abbreviation serviceOSS :: string where "serviceOSS \<equiv> ''oss''"

definition aliyunAPICallRecorder :: "'w factory_env \<Rightarrow> string \<Rightarrow> 'w on_call" where
  "aliyunAPICallRecorder fe service = (\<lambda>action code d. do {
     fe_Inc fe ''aliyuncert_aliyun_api_requests_total'' [service, action, code];
     fe_Observe fe ''aliyuncert_aliyun_api_duration_seconds'' [service, action] d
   })"

definition credentials_missing :: "string \<Rightarrow> gerror" where
  "credentials_missing n = CredentialsError ReasonCredentialsNotFound (Plain (''credentials Secret does not exist: '' @ n))"

definition credentials_invalid :: "gerror \<Rightarrow> gerror" where
  "credentials_invalid err = CredentialsError ReasonCredentialsInvalid err"

text \<open>The credentials of the Secret \<open>ns/n\<close>, with the Secret.\<close>

definition readCredentials :: "'w factory_env \<Rightarrow> string \<Rightarrow> string \<Rightarrow> ('w, gerror + secret \<times> Credentials) state" where
  "readCredentials fe ns n = do {
     s \<leftarrow> fe_GetSecret fe ns n;
     ret (case s of
        Inl err \<Rightarrow> if IsNotFound err then Inl (credentials_missing n) else Inl err
      | Inr s \<Rightarrow> (case CredentialsFromSecret s of
          Inl err \<Rightarrow> Inl (credentials_invalid err)
        | Inr creds \<Rightarrow> Inr (s, creds)))
   }"

definition cas_key :: "AliyunCertificate \<Rightarrow> secret \<Rightarrow> ClientKey" where
  "cas_key ac s = \<lparr> k_Namespace = s_Namespace s, k_Name = s_Name s, k_ResourceVersion = s_ResourceVersion s,
     k_Region = EffectiveCASRegion (sp_Aliyun (ac_Spec ac)), k_Endpoint = a_EndpointOverride (sp_Aliyun (ac_Spec ac)),
     k_ResourceGroupID = a_ResourceGroupID (sp_Aliyun (ac_Spec ac)), k_Type = [] \<rparr>"

text \<open>The closures \<open>build\<close>: they read the key and the credentials only.\<close>

definition buildCASClient ::
  "'w factory_env \<Rightarrow> ClientKey \<Rightarrow> Credentials \<Rightarrow> ('w, gerror + 'w CASClient) state" where
  "buildCASClient fe key creds = (case fe_NewCredential fe (Build creds) of
     Inl err \<Rightarrow> ret (Inl (credentials_invalid err))
   | Inr cred \<Rightarrow> do {
       c \<leftarrow> NewCASClient (fe_sdk fe) (fe_cas fe) cred
         \<lparr> cf_Region = k_Region key, cf_Endpoint = k_Endpoint key, cf_ResourceGroupID = k_ResourceGroupID key,
           cf_Timeout = fe_timeout fe, cf_Limiters = Some (fe_limiters fe), cf_LimiterKey = LimiterKey creds,
           cf_OnCall = Some (aliyunAPICallRecorder fe serviceCAS) \<rparr>;
       ret (map_sum id (sdk_cas (fe_sdk fe)) c)
     })"

definition NewCASFactory ::
  "'w factory_env \<Rightarrow> 'w CASClient ClientCache \<Rightarrow> AliyunCertificate \<Rightarrow>
     ('w, (gerror + 'w CASClient) \<times> 'w CASClient ClientCache) state" where
  "NewCASFactory fe cache ac = do {
     r \<leftarrow> readCredentials fe (ac_Namespace ac) (a_CredentialsRef (sp_Aliyun (ac_Spec ac)));
     (case r of
        Inl err \<Rightarrow> ret (Inl err, cache)
      | Inr (s, creds) \<Rightarrow> getOrBuild cache (cas_key ac s) (buildCASClient fe (cas_key ac s) creds))
   }"

definition buildProviderClient ::
  "'w factory_env \<Rightarrow> string \<Rightarrow> string \<Rightarrow> 'w credential \<Rightarrow> string \<Rightarrow> ('w, gerror + 'w Client) state" where
  "buildProviderClient fe typeName region cred limiterKey =
     (if typeName = TargetTypeFC3CustomDomain then do {
        c \<leftarrow> NewFC3Client (fe_sdk fe) (fe_fc3 fe) cred
          \<lparr> ff_Region = region, ff_Endpoint = [], ff_Timeout = fe_timeout fe, ff_Limiters = Some (fe_limiters fe),
            ff_LimiterKey = limiterKey, ff_OnCall = Some (aliyunAPICallRecorder fe serviceFC3) \<rparr>;
        ret (map_sum id (\<lambda>s. FC3Cl (sdk_fc3 (fe_sdk fe) s)) c)
      }
      else if typeName = TargetTypeOSSCustomDomain then do {
        c \<leftarrow> NewOSSClient (fe_sdk fe) (fe_oss fe) cred
          \<lparr> of_Region = region, of_Timeout = fe_timeout fe, of_Limiters = Some (fe_limiters fe),
            of_LimiterKey = limiterKey, of_OnCall = Some (aliyunAPICallRecorder fe serviceOSS) \<rparr>;
        ret (map_sum id (\<lambda>s. OSSCl (sdk_oss (fe_sdk fe) s)) c)
      }
      else ret (Inl (Plain (''no client constructor for target.type '' @ typeName))))"

definition provider_key :: "Target \<Rightarrow> secret \<Rightarrow> ClientKey" where
  "provider_key tg s = \<lparr> k_Namespace = s_Namespace s, k_Name = s_Name s, k_ResourceVersion = s_ResourceVersion s,
     k_Region = tg_Region tg, k_Endpoint = [], k_ResourceGroupID = [], k_Type = tg_Type tg \<rparr>"

definition buildForKey ::
  "'w factory_env \<Rightarrow> ClientKey \<Rightarrow> Credentials \<Rightarrow> ('w, gerror + 'w Client) state" where
  "buildForKey fe key creds = (case fe_NewCredential fe (Build creds) of
     Inl err \<Rightarrow> ret (Inl (credentials_invalid err))
   | Inr cred \<Rightarrow> buildProviderClient fe (k_Type key) (k_Region key) cred (LimiterKey creds))"

definition NewProviderFactory ::
  "'w registry \<Rightarrow> 'w factory_env \<Rightarrow> 'w Client ClientCache \<Rightarrow> AliyunCertificateBinding \<Rightarrow> AliyunCertificate option \<Rightarrow>
     ('w, (gerror + 'w Provider \<times> 'w Client) \<times> 'w Client ClientCache) state" where
  "NewProviderFactory reg fe cache b ac = (case targetOf reg b of
     Inl err \<Rightarrow> ret (Inl err, cache)
   | Inr tg \<Rightarrow> (case registry_Get reg (tg_Type tg) of
       None \<Rightarrow> ret (Inl (Plain (''no provider registered for target.type '' @ tg_Type tg @ '', registered: '' @
         Join (registry_Names reg) '' '')), cache)
     | Some p \<Rightarrow>
         (let secretName = credentialsSecretNameFor b ac in
          if secretName = []
          then ret (Inl (CredentialsError ReasonCredentialsNotFound (Plain ''neither spec.credentialsRef nor aliyun.credentialsRef'')), cache)
          else do {
            r \<leftarrow> readCredentials fe (b_Namespace b) secretName;
            (case r of
               Inl err \<Rightarrow> ret (Inl err, cache)
             | Inr (s, creds) \<Rightarrow> do {
                 (c, cache) \<leftarrow> getOrBuild cache (provider_key tg s) (buildForKey fe (provider_key tg s) creds);
                 ret (map_sum id (\<lambda>cl. (p, cl)) c, cache)
               })
          })))"

section \<open>Lemmas\<close>

lemma getOrBuild_sound:
  assumes "cc.sound P c" "key_wf key" "yields (\<lambda>r. \<forall>v. r = Inr v \<longrightarrow> P key v) build"
  shows "yields (\<lambda>(r, c'). cc.sound P c' \<and> (\<forall>v. r = Inr v \<longrightarrow> P key v)) (getOrBuild c key build)"
  unfolding yields_def getOrBuild_def
proof
  fix w
  obtain r c' where g: "GetOrBuild c key (\<lambda>_. fst (run_state build w)) = (r, c')" by fastforce
  have "cc.sound P c' \<and> (\<forall>v. r = Inr v \<longrightarrow> P key v)"
    by (rule cc.get_sound [OF assms(1,2) _ g]) (use assms(3) in \<open>auto simp: yields_def\<close>)
  then show "case fst (run_state (State (\<lambda>w. (GetOrBuild c key (\<lambda>_. fst (run_state build w)),
      if cache_slot c key = None then snd (run_state build w) else w))) w) of
    (r, c') \<Rightarrow> cc.sound P c' \<and> (\<forall>v. r = Inr v \<longrightarrow> P key v)" by (simp add: g)
qed

text \<open>What a client of the cache was made of: some version of the Secret its key names.\<close>

definition made_for ::
  "(ClientKey \<Rightarrow> Credentials \<Rightarrow> ('w, gerror + 'c) state) \<Rightarrow> ClientKey \<Rightarrow> 'c \<Rightarrow> bool" where
  "made_for build key cl \<longleftrightarrow> (\<exists>s creds w w'. s_Namespace s = k_Namespace key \<and> s_Name s = k_Name key \<and>
     s_ResourceVersion s = k_ResourceVersion key \<and> CredentialsFromSecret s = Inr creds \<and>
     run_state (build key creds) w = (Inr cl, w'))"

lemma build_made_for:
  assumes "CredentialsFromSecret s = Inr creds" "s_Namespace s = k_Namespace key" "s_Name s = k_Name key"
    and "s_ResourceVersion s = k_ResourceVersion key"
  shows "yields (\<lambda>r. \<forall>v. r = Inr v \<longrightarrow> made_for build key v) (build key creds)"
  unfolding yields_def made_for_def using assms by (metis surjective_pairing)

lemma readCredentials_Inr:
  assumes "run_state (readCredentials fe ns n) w = (Inr (s, creds), w')"
  shows "run_state (fe_GetSecret fe ns n) w = (Inr s, w') \<and> CredentialsFromSecret s = Inr creds"
  using assms unfolding readCredentials_def
  by (cases "run_state (fe_GetSecret fe ns n) w") (auto split: sum.splits if_splits)

text \<open>The kind of client a key asks for.\<close>

lemma buildForKey_kind:
  "yields (\<lambda>r. \<forall>v. r = Inr v \<longrightarrow>
     (k_Type key = TargetTypeFC3CustomDomain \<and> (\<exists>c. v = FC3Cl c)) \<or>
     (k_Type key = TargetTypeOSSCustomDomain \<and> (\<exists>c. v = OSSCl c))) (buildForKey fe key creds)"
  unfolding buildForKey_def buildProviderClient_def
  by (intro yields_intro yields_bind yields_triv) (auto simp: map_sum_def split: sum.splits)

lemma made_for_kind:
  assumes "made_for (buildForKey fe) key cl"
  shows "(k_Type key = TargetTypeFC3CustomDomain \<and> (\<exists>c. cl = FC3Cl c)) \<or>
     (k_Type key = TargetTypeOSSCustomDomain \<and> (\<exists>c. cl = OSSCl c))"
  using assms buildForKey_kind [of key fe] unfolding made_for_def yields_def by (metis fst_conv)

lemma registered_providers:
  "registry_Get (production_registry env) n =
     (if n = TargetTypeFC3CustomDomain then Some (fc3_provider env)
      else if n = TargetTypeOSSCustomDomain then Some oss_provider else None)"
  by (simp add: production_registry_def Register_def registry_Get_def fc3_provider_def oss_provider_def)

section \<open>Properties\<close>

text \<open>A provider together with a client it accepts.\<close>

definition fits :: "crypto_env \<Rightarrow> string \<Rightarrow> 'w Provider \<Rightarrow> 'w Client \<Rightarrow> bool" where
  "fits env typeName p cl \<longleftrightarrow>
     (typeName = TargetTypeFC3CustomDomain \<and> p = fc3_provider env \<and> (\<exists>c. fc3_clientOf cl = Inr c)) \<or>
     (typeName = TargetTypeOSSCustomDomain \<and> p = oss_provider \<and> (\<exists>c. oss_clientOf cl = Inr c))"

definition own_client ::
  "crypto_env \<Rightarrow> 'w factory_env \<Rightarrow> AliyunCertificateBinding \<Rightarrow> AliyunCertificate option \<Rightarrow> 'w \<Rightarrow> 'w Provider \<Rightarrow> 'w Client \<Rightarrow> bool" where
  "own_client env fe b ac w p cl \<longleftrightarrow> (\<exists>tg s creds w1.
     targetOf (production_registry env :: 'w registry) b = Inr tg \<and> fits env (tg_Type tg) p cl \<and>
     run_state (fe_GetSecret fe (b_Namespace b) (credentialsSecretNameFor b ac)) w = (Inr s, w1) \<and>
     CredentialsFromSecret s = Inr creds \<and> made_for (buildForKey fe) (provider_key tg s) cl)"

text \<open>The part of a factory call after the checks: the Secret is read and the cache asked.\<close>

lemma served_own_client:
  fixes fe :: "'w factory_env"
  assumes tg: "targetOf (production_registry env :: 'w registry) b = Inr tg"
    and p: "registry_Get (production_registry env :: 'w registry) (tg_Type tg) = Some p"
    and rd: "run_state (readCredentials fe (b_Namespace b) (credentialsSecretNameFor b ac)) w = (Inr (s, creds), w1)"
    and g: "run_state (getOrBuild cache (provider_key tg s) (buildForKey fe (provider_key tg s) creds)) w1 = ((c, cache2), w2)"
    and sound: "cc.sound (made_for (buildForKey fe)) cache" and wf: "key_wf (provider_key tg s)"
  shows "cc.sound (made_for (buildForKey fe)) cache2 \<and> (\<forall>cl. c = Inr cl \<longrightarrow> own_client env fe b ac w p cl)"
proof -
  note rs = readCredentials_Inr [OF rd, THEN conjunct1] readCredentials_Inr [OF rd, THEN conjunct2]
  have "yields (\<lambda>r. \<forall>v. r = Inr v \<longrightarrow> made_for (buildForKey fe) (provider_key tg s) v) (buildForKey fe (provider_key tg s) creds)"
    by (rule build_made_for [OF rs(2)]) (simp_all add: provider_key_def)
  from yields_run [OF getOrBuild_sound [OF sound wf this] g]
  have made: "cc.sound (made_for (buildForKey fe)) cache2"
    "\<And>cl. c = Inr cl \<Longrightarrow> made_for (buildForKey fe) (provider_key tg s) cl" by auto
  have "fits env (tg_Type tg) p cl" if "c = Inr cl" for cl
    using made_for_kind [OF made(2) [OF that]] p
    by (auto simp: registered_providers fits_def provider_key_def fc3_clientOf_def oss_clientOf_def split: if_splits)
  then show ?thesis unfolding own_client_def using made tg rs by blast
qed

text \<open>
  C33. The client of a Binding is its own: whatever the cache went through, a factory call that
  succeeds read the credentials Secret of the Binding (its own reference before the one of the
  certificate, always in its namespace), found complete credentials in it, and hands out a
  client that was built from this very version of this Secret for the region and the type of
  this target, together with the provider of that type, which accepts it. The cache keeps the
  property for the next call, and starts with it.
\<close>

theorem NewProviderFactory_own_client:
  fixes fe :: "'w factory_env"
  assumes "cc.sound (made_for (buildForKey fe)) cache"
    and "run_state (NewProviderFactory (production_registry env) fe cache b ac) w = ((r, cache'), w')"
    and "\<forall>tg s w1. targetOf (production_registry env :: 'w registry) b = Inr tg \<longrightarrow>
       run_state (fe_GetSecret fe (b_Namespace b) (credentialsSecretNameFor b ac)) w = (Inr s, w1) \<longrightarrow> key_wf (provider_key tg s)"
  shows "cc.sound (made_for (buildForKey fe)) cache' \<and> (\<forall>p cl. r = Inr (p, cl) \<longrightarrow> own_client env fe b ac w p cl)
    \<and> cc.sound (made_for (buildForKey fe)) NewClientCache"
proof -
  note simps = NewProviderFactory_def Let_def
  let ?reg = "production_registry env :: 'w registry"
  have "cc.sound (made_for (buildForKey fe)) cache' \<and> (\<forall>p cl. r = Inr (p, cl) \<longrightarrow> own_client env fe b ac w p cl)"
  proof (cases "targetOf ?reg b")
    case (Inl err)
    then show ?thesis using assms(1,2) by (auto simp: simps)
  next
    case tg: (Inr tg)
    show ?thesis
    proof (cases "registry_Get ?reg (tg_Type tg) = None \<or> credentialsSecretNameFor b ac = []")
      case True
      then show ?thesis using assms(1,2) tg by (auto simp: simps split: option.splits)
    next
      case False
      then obtain p where p: "registry_Get ?reg (tg_Type tg) = Some p" and n: "credentialsSecretNameFor b ac \<noteq> []" by auto
      obtain x w1 where rd: "run_state (readCredentials fe (b_Namespace b) (credentialsSecretNameFor b ac)) w = (x, w1)" by fastforce
      show ?thesis
      proof (cases x)
        case (Inl err)
        then show ?thesis using assms(1,2) tg p n rd by (auto simp: simps)
      next
        case (Inr sc)
        obtain s creds where sc: "sc = (s, creds)" by (cases sc)
        have "run_state (readCredentials fe (b_Namespace b) (credentialsSecretNameFor b ac)) w = (Inr (s, creds), w1)"
          using rd Inr sc by simp
        note rs = this
        obtain c cache2 w2 where g: "run_state (getOrBuild cache (provider_key tg s) (buildForKey fe (provider_key tg s) creds)) w1
            = ((c, cache2), w2)" by (metis surjective_pairing)
        have "r = map_sum id (\<lambda>cl. (p, cl)) c" "cache' = cache2"
          using assms(2) tg p n rd Inr sc g by (auto simp: simps)
        then show ?thesis
          using served_own_client [OF tg p rs g assms(1)] assms(3) tg readCredentials_Inr [OF rs] by (cases c) auto
      qed
    qed
  qed
  then show ?thesis using cc.sound_new by blast
qed

section \<open>Witnesses\<close>

definition sample_fc3_api :: "unit fc3_api" where
  "sample_fc3_api = \<lparr> sdk_GetCustomDomain = (\<lambda>d. ret (Inr None)), sdk_UpdateCustomDomain = (\<lambda>d i. ret (Inr ())) \<rparr>"

definition sample_factory :: "unit factory_env" where
  "sample_factory = \<lparr> fe_GetSecret = (\<lambda>ns n. ret (Inr sample_credentials_secret)),
     fe_limiters = \<lparr> lr_get = (\<lambda>w. Map.empty), lr_set = (\<lambda>l w. w) \<rparr>, fe_timeout = 30 * second,
     fe_sdk = \<lparr> sv_now = ret 0, sv_bucket_wait = (\<lambda>k l. ret None),
       sv_NewLimiters = ret \<lparr> lr_get = (\<lambda>w. Map.empty), lr_set = (\<lambda>l w. w) \<rparr> \<rparr>,
     fe_NewCredential = (\<lambda>c. Inr \<lparr> GetCredential = ret (Inr None) \<rparr>),
     fe_cas = (\<lambda>c. Inl (Plain ''unused'')), fe_fc3 = (\<lambda>c. Inr sample_fc3_api),
     fe_oss = (\<lambda>c. \<lparr> sdk_ListCname = (\<lambda>b. ret (Inr None)), sdk_PutCname = (\<lambda>b d c. ret (Inr ())) \<rparr>),
     fe_Inc = (\<lambda>n l. ret ()), fe_Observe = (\<lambda>n l d. ret ()) \<rparr>"

text \<open>The first call for a Binding builds its client.\<close>

theorem NewProviderFactory_own_client_witness:
  "\<exists>p cl. fst (fst (run_state (NewProviderFactory (production_registry sample_env) sample_factory NewClientCache
       (sample_binding ''one'' ''a.b.c'') (Some sample_ac)) ())) = Inr (p, cl) \<and>
     own_client sample_env sample_factory (sample_binding ''one'' ''a.b.c'') (Some sample_ac) () p cl"
proof -
  let ?m = "NewProviderFactory (production_registry sample_env) sample_factory NewClientCache (sample_binding ''one'' ''a.b.c'') (Some sample_ac)"
  have new: "cc.sound (made_for (buildForKey sample_factory)) NewClientCache" by (rule cc.sound_new)
  have ok: "\<exists>p cl. fst (fst (run_state ?m ())) = Inr (p, cl)"
    by (simp add: NewProviderFactory_def targetOf_def registered_providers sample_binding_def sample_fc3_target_def
        credentialsSecretNameFor_def sample_ac_def readCredentials_def sample_credentials_ok sample_factory_def
        getOrBuild_def GetOrBuild_def NewClientCache_def cache_slot_def buildForKey_def buildProviderClient_def
        NewFC3Client_def limiters_or_new_def provider_key_def Let_def)
  then obtain p cl where r: "fst (fst (run_state ?m ())) = Inr (p, cl)" by blast
  obtain r' cache' w' where m: "run_state ?m () = ((r', cache'), w')" by (metis surjective_pairing)
  have wf: "\<forall>tg s w1. targetOf (production_registry sample_env :: unit registry) (sample_binding ''one'' ''a.b.c'') = Inr tg \<longrightarrow>
      run_state (fe_GetSecret sample_factory (b_Namespace (sample_binding ''one'' ''a.b.c''))
        (credentialsSecretNameFor (sample_binding ''one'' ''a.b.c'') (Some sample_ac))) () = (Inr s, w1) \<longrightarrow> key_wf (provider_key tg s)"
    by (auto simp: sample_factory_def targetOf_def sample_binding_def sample_fc3_target_def Let_def key_wf_def identity_parts_def
        provider_key_def sample_credentials_secret_def)
  have "own_client sample_env sample_factory (sample_binding ''one'' ''a.b.c'') (Some sample_ac) () p cl"
    using NewProviderFactory_own_client [OF new m wf] r m by simp
  with r show ?thesis by blast
qed

end
