(* ===== verification/Main_Flags.thy ===== *)
theory Main_Flags
  imports Factories Deletion
begin

text \<open>
  The flags of the operator and what \<open>main\<close> makes of them (\<open>cmd/main.go\<close>): the defaults, the
  validation after the parse, the reconcilers and the namespaces of the cache. Parsing itself
  is the \<open>flag\<close> package; the manager, its servers and probes are controller-runtime.
\<close>

section \<open>Definitions\<close>

record operatorOptions =
  DefaultIssuerName :: string
  DefaultIssuerKind :: string
  DefaultIssuerGroup :: string
  ResyncInterval :: duration
  DriftCheckInterval :: duration
  CASProbeInterval :: duration
  IssuanceStallThreshold :: duration
  CloudCallTimeout :: duration
  CleanupGracePeriod :: duration
  CleanupFailurePolicy :: string
  WatchNamespaces :: "string list"
  watchNamespacesRaw :: string

text \<open>The options before a parse: the defaults of the flags.\<close>

definition registerOperatorFlags :: operatorOptions where
  "registerOperatorFlags = \<lparr> DefaultIssuerName = [], DefaultIssuerKind = ''Issuer'', DefaultIssuerGroup = ''cert-manager.io'',
     ResyncInterval = hour, DriftCheckInterval = hour, CASProbeInterval = 12 * hour, IssuanceStallThreshold = 6 * hour,
     CloudCallTimeout = 30 * second, CleanupGracePeriod = 15 * minute, CleanupFailurePolicy = ''Abandon'',
     WatchNamespaces = [], watchNamespacesRaw = [] \<rparr>"

fun trimmed_parts :: "string list \<Rightarrow> string list" where
  "trimmed_parts [] = []"
| "trimmed_parts (n # ns) =
     (let n = TrimSpace n in if n \<noteq> [] then n # trimmed_parts ns else trimmed_parts ns)"

definition validate :: "operatorOptions \<Rightarrow> gerror + operatorOptions" where
  "validate o' =
     (if CleanupFailurePolicy o' \<noteq> CleanupPolicyAbandon \<and> CleanupFailurePolicy o' \<noteq> CleanupPolicyBlock
      then Inl (Plain (''--cleanup-failure-policy must be Abandon or Block, got '' @ CleanupFailurePolicy o'))
      else Inr (o'\<lparr>WatchNamespaces := trimmed_parts (Split (watchNamespacesRaw o') (CHR '',''))\<rparr>))"

text \<open>The parse is a parameter: \<open>FlagSet.Parse\<close> on the registered options.\<close>

definition parseOperatorFlags ::
  "(operatorOptions \<Rightarrow> string list \<Rightarrow> gerror + operatorOptions) \<Rightarrow> string list \<Rightarrow> gerror + operatorOptions" where
  "parseOperatorFlags parse args = (case parse registerOperatorFlags args of
     Inl err \<Rightarrow> Inl err
   | Inr o' \<Rightarrow> validate o')"

text \<open>The namespaces the cache is limited to; \<open>None\<close> is all of them.\<close>

definition cacheNamespaces :: "operatorOptions \<Rightarrow> string set option" where
  "cacheNamespaces o' = (if length (WatchNamespaces o') > 0 then Some (set (WatchNamespaces o')) else None)"

definition certReconciler ::
  "operatorOptions \<Rightarrow> 'w kube \<Rightarrow> meta_api \<Rightarrow> crypto_env \<Rightarrow> (AliyunCertificate \<Rightarrow> ('w, gerror + 'w CASClient) state) \<Rightarrow>
     'w AliyunCertificateReconciler" where
  "certReconciler o' kb mt env factory = \<lparr> r_kube = kb, r_meta = mt, r_crypto = env, r_CASFactory = Some factory,
     r_ResyncInterval = ResyncInterval o', r_CASProbeInterval = CASProbeInterval o',
     r_IssuanceStallThreshold = IssuanceStallThreshold o', r_CleanupGracePeriod = CleanupGracePeriod o',
     r_CleanupFailurePolicy = CleanupFailurePolicy o',
     r_defaults = \<lparr> d_Name = DefaultIssuerName o', d_Kind = DefaultIssuerKind o', d_Group = DefaultIssuerGroup o' \<rparr> \<rparr>"

definition bindingReconciler ::
  "operatorOptions \<Rightarrow> 'w kube \<Rightarrow> meta_api \<Rightarrow> crypto_env \<Rightarrow> 'w registry \<Rightarrow> 'w ProviderFactory \<Rightarrow>
     'w AliyunCertificateBindingReconciler" where
  "bindingReconciler o' kb mt env reg factory = \<lparr> br_kube = kb, br_meta = mt, br_crypto = env, br_registry = reg,
     br_ProviderFactory = Some factory, br_DriftCheckInterval = DriftCheckInterval o',
     br_CleanupGracePeriod = CleanupGracePeriod o', br_CleanupFailurePolicy = CleanupFailurePolicy o' \<rparr>"

section \<open>Lemmas\<close>

lemma trimmed_parts_filter: "trimmed_parts ns = filter (\<lambda>n. n \<noteq> []) (map TrimSpace ns)"
  by (induction ns) (simp_all add: Let_def)

lemma dropWhile_hd: "dropWhile P xs \<noteq> [] \<Longrightarrow> \<not> P (hd (dropWhile P xs))"
  by (rule hd_dropWhile)

lemma TrimSpace_ends:
  assumes "TrimSpace s \<noteq> []"
  shows "\<not> is_space (hd (TrimSpace s))" "\<not> is_space (last (TrimSpace s))"
proof -
  let ?t = "dropWhile is_space s"
  have r: "dropWhile is_space (rev ?t) \<noteq> []" using assms by (simp add: TrimSpace_def)
  then have "\<not> is_space (hd (dropWhile is_space (rev ?t)))" by (rule hd_dropWhile)
  then show "\<not> is_space (last (TrimSpace s))" using r by (simp add: TrimSpace_def last_rev)
  obtain ys where ys: "rev ?t = ys @ dropWhile is_space (rev ?t)" by (metis takeWhile_dropWhile_id)
  then have "?t = rev (dropWhile is_space (rev ?t)) @ rev ys" by (metis rev_append rev_rev_ident)
  then have t: "?t = TrimSpace s @ rev ys" by (simp add: TrimSpace_def)
  then have "?t \<noteq> []" using assms by auto
  then have "\<not> is_space (hd ?t)" by (rule hd_dropWhile)
  then show "\<not> is_space (hd (TrimSpace s))" using t assms by (metis hd_append2)
qed

section \<open>Properties\<close>

text \<open>
  An operator starts only with flags it can act on, and then acts on them: validation
  succeeds exactly for the policies Abandon and Block, so both controllers give up a clean-up
  exactly when the policy is Abandon and the grace period has passed; the namespaces are the
  parts of the flag between the commas, in order, without surrounding blanks and without empty
  ones, and the cache is limited to them if there is any. The flags as they are by default
  pass and watch everything.
\<close>

lemma validate_spec:
  "((\<exists>o2. validate o1 = Inr o2) \<longleftrightarrow> CleanupFailurePolicy o1 \<in> {''Abandon'', ''Block''}) \<and>
   (case validate o1 of Inl err \<Rightarrow> True | Inr o2 \<Rightarrow>
      (shouldAbandonCleanup (r_CleanupFailurePolicy (certReconciler o2 kb mt env cf)) elapsed grace \<longleftrightarrow>
         CleanupFailurePolicy o1 = ''Abandon'' \<and> grace \<le> elapsed) \<and>
      br_CleanupFailurePolicy (bindingReconciler o2 kb mt env reg pf) = r_CleanupFailurePolicy (certReconciler o2 kb mt env cf) \<and>
      WatchNamespaces o2 = filter (\<lambda>n. n \<noteq> []) (map TrimSpace (Split (watchNamespacesRaw o1) (CHR '',''))) \<and>
      list_all (\<lambda>n. \<not> is_space (hd n) \<and> \<not> is_space (last n)) (WatchNamespaces o2) \<and>
      (cacheNamespaces o2 = None \<longleftrightarrow> WatchNamespaces o2 = [])) \<and>
   map_sum id cacheNamespaces (validate registerOperatorFlags) = Inr None"
proof -
  have t: "list_all (\<lambda>n. \<not> is_space (hd n) \<and> \<not> is_space (last n)) (filter (\<lambda>n. n \<noteq> []) (map TrimSpace ps))" for ps
    by (auto simp: list_all_iff TrimSpace_ends)
  have d: "map_sum id cacheNamespaces (validate registerOperatorFlags) = Inr None" by code_simp
  show ?thesis
  proof (intro conjI d)
    show "(\<exists>o2. validate o1 = Inr o2) \<longleftrightarrow> CleanupFailurePolicy o1 \<in> {''Abandon'', ''Block''}"
      by (auto simp: validate_def)
    show "case validate o1 of Inl err \<Rightarrow> True | Inr o2 \<Rightarrow>
      (shouldAbandonCleanup (r_CleanupFailurePolicy (certReconciler o2 kb mt env cf)) elapsed grace \<longleftrightarrow>
         CleanupFailurePolicy o1 = ''Abandon'' \<and> grace \<le> elapsed) \<and>
      br_CleanupFailurePolicy (bindingReconciler o2 kb mt env reg pf) = r_CleanupFailurePolicy (certReconciler o2 kb mt env cf) \<and>
      WatchNamespaces o2 = filter (\<lambda>n. n \<noteq> []) (map TrimSpace (Split (watchNamespacesRaw o1) (CHR '',''))) \<and>
      list_all (\<lambda>n. \<not> is_space (hd n) \<and> \<not> is_space (last n)) (WatchNamespaces o2) \<and>
      (cacheNamespaces o2 = None \<longleftrightarrow> WatchNamespaces o2 = [])"
      unfolding trimmed_parts_filter [symmetric]
      using t [of "Split (watchNamespacesRaw o1) (CHR '','')", folded trimmed_parts_filter]
      by (auto simp: validate_def certReconciler_def bindingReconciler_def shouldAbandonCleanup_def cacheNamespaces_def)
  qed
qed

end
