(* ===== verification/Metrics.thy ===== *)
theory Metrics
  imports Cert_Controller Binding_Deletion Factories
begin

text \<open>
  The metric vectors of \<open>internal/controller/metrics.go\<close> and the typing of every metric the
  operator touches against them.

  \<open>WithLabelValues\<close> panics when the number of values is not the number of labels of the vector,
  and \<open>MustRegister\<close> panics when a name is taken. Neither is caught before it happens, in the
  middle of a reconcile or when the process starts.
\<close>

section \<open>Definitions\<close>

datatype vec_kind = GaugeVec | CounterVec | HistogramVec

record metric_vec =
  mv_kind :: vec_kind
  mv_name :: string
  mv_labels :: "string list"

abbreviation labelResult :: string where "labelResult \<equiv> ''result''"
abbreviation labelProvider :: string where "labelProvider \<equiv> ''provider''"
abbreviation labelNamespace :: string where "labelNamespace \<equiv> ''namespace''"

definition crLabels :: "string list" where
  "crLabels = [labelNamespace, ''name'']"

abbreviation vec :: "vec_kind \<Rightarrow> string \<Rightarrow> string list \<Rightarrow> metric_vec" where
  "vec k n ls \<equiv> \<lparr> mv_kind = k, mv_name = n, mv_labels = ls \<rparr>"

definition certNotAfter :: metric_vec where
  "certNotAfter = vec GaugeVec ''aliyuncert_certificate_not_after_timestamp_seconds'' crLabels"

definition certReadyGauge :: metric_vec where
  "certReadyGauge = vec GaugeVec ''aliyuncert_certificate_ready'' crLabels"

definition certIssuanceStalled :: metric_vec where
  "certIssuanceStalled = vec GaugeVec ''aliyuncert_certificate_issuance_stalled'' crLabels"

definition issuerDefaultDiverged :: metric_vec where
  "issuerDefaultDiverged = vec GaugeVec ''aliyuncert_issuer_default_diverged'' crLabels"

definition casUploadTotal :: metric_vec where
  "casUploadTotal = vec CounterVec ''aliyuncert_cas_upload_total'' [labelResult]"

definition casDeleteTotal :: metric_vec where
  "casDeleteTotal = vec CounterVec ''aliyuncert_cas_delete_total'' [labelResult]"

definition certManagerCertRecreatedTotal :: metric_vec where
  "certManagerCertRecreatedTotal = vec CounterVec ''aliyuncert_certmanager_certificate_recreated_total'' crLabels"

definition cleanupAbandonedTotal :: metric_vec where
  "cleanupAbandonedTotal = vec CounterVec ''aliyuncert_cleanup_abandoned_total'' [''region'', ''reason'']"

definition secretDeletionSkippedTotal :: metric_vec where
  "secretDeletionSkippedTotal = vec CounterVec ''aliyuncert_secret_deletion_skipped_total'' [labelNamespace]"

definition aliyunAPIRequestsTotal :: metric_vec where
  "aliyunAPIRequestsTotal = vec CounterVec ''aliyuncert_aliyun_api_requests_total'' [''service'', ''action'', ''code'']"

definition aliyunAPIDuration :: metric_vec where
  "aliyunAPIDuration = vec HistogramVec ''aliyuncert_aliyun_api_duration_seconds'' [''service'', ''action'']"

definition bindingReadyGauge :: metric_vec where
  "bindingReadyGauge = vec GaugeVec ''aliyuncert_binding_ready'' crLabels"

definition bindingConflictGauge :: metric_vec where
  "bindingConflictGauge = vec GaugeVec ''aliyuncert_binding_conflict'' crLabels"

definition bindingAppliedAge :: metric_vec where
  "bindingAppliedAge = vec GaugeVec ''aliyuncert_binding_applied_age_seconds'' [labelNamespace, ''name'', labelProvider]"

definition bindingApplyTotal :: metric_vec where
  "bindingApplyTotal = vec CounterVec ''aliyuncert_binding_apply_total'' [labelProvider, labelResult]"

definition bindingDriftTotal :: metric_vec where
  "bindingDriftTotal = vec CounterVec ''aliyuncert_binding_drift_detected_total'' [labelProvider]"

text \<open>\<open>MustRegister\<close> on a registry: \<open>None\<close> is the panic on a name that is taken.\<close>

fun MustRegister :: "metric_vec list \<Rightarrow> metric_vec list \<Rightarrow> metric_vec list option" where
  "MustRegister reg [] = Some reg"
| "MustRegister reg (v # vs) =
     (if mv_name v \<in> mv_name ` set reg then None else MustRegister (reg @ [v]) vs)"

definition metric_vecs :: "metric_vec list" where
  "metric_vecs = [certNotAfter, certReadyGauge, certIssuanceStalled, issuerDefaultDiverged,
     casUploadTotal, casDeleteTotal, certManagerCertRecreatedTotal, cleanupAbandonedTotal,
     secretDeletionSkippedTotal,
     aliyunAPIRequestsTotal, aliyunAPIDuration,
     bindingReadyGauge, bindingConflictGauge, bindingAppliedAge, bindingApplyTotal, bindingDriftTotal]"

text \<open>\<open>WithLabelValues\<close> and \<open>DeleteLabelValues\<close> on a vector, with \<open>None\<close> for the panic of the one and
  the missed series of the other: the pairs of label and value of the series.\<close>

definition WithLabelValues :: "metric_vec \<Rightarrow> string list \<Rightarrow> (string \<times> string) list option" where
  "WithLabelValues v vs = (if length vs = length (mv_labels v) then Some (zip (mv_labels v) vs) else None)"

text \<open>The series a use of a metric addresses among the registered vectors.\<close>

definition series_of :: "metric_vec list \<Rightarrow> vec_kind \<Rightarrow> string \<Rightarrow> string list \<Rightarrow> (string \<times> string) list option" where
  "series_of reg k n vs = (case List.find (\<lambda>v. mv_name v = n) reg of
     Some v \<Rightarrow> if mv_kind v = k then WithLabelValues v vs else None
   | None \<Rightarrow> None)"

text \<open>The use is well typed: there is a series, and a result label has one of the three values that
  keep its cardinality constant.\<close>

definition well_typed :: "vec_kind \<Rightarrow> string \<Rightarrow> string list \<Rightarrow> bool" where
  "well_typed k n vs \<longleftrightarrow> (case series_of metric_vecs k n vs of
     Some ls \<Rightarrow> list_all (\<lambda>(l, v). l = labelResult \<longrightarrow> v \<in> {resultSuccess, resultThrottled, resultError}) ls
   | None \<Rightarrow> False)"

fun metered :: "effect \<Rightarrow> bool" where
  "metered (Metric (CounterInc n vs)) \<longleftrightarrow> well_typed CounterVec n vs"
| "metered (Metric (GaugeSet n vs x)) \<longleftrightarrow> well_typed GaugeVec n vs"
| "metered (Metric (GaugeDelete n vs)) \<longleftrightarrow> well_typed GaugeVec n vs"
| "metered e \<longleftrightarrow> True"

section \<open>Lemmas\<close>

named_theorems metered \<open>computations whose metrics are well typed\<close>

lemmas vec_defs = certNotAfter_def certReadyGauge_def certIssuanceStalled_def issuerDefaultDiverged_def
  casUploadTotal_def casDeleteTotal_def certManagerCertRecreatedTotal_def cleanupAbandonedTotal_def
  secretDeletionSkippedTotal_def aliyunAPIRequestsTotal_def aliyunAPIDuration_def bindingReadyGauge_def
  bindingConflictGauge_def bindingAppliedAge_def bindingApplyTotal_def bindingDriftTotal_def crLabels_def

lemma result_cases [simp]:
  "casResult x = resultSuccess \<or> casResult x = resultThrottled \<or> casResult x = resultError"
  "bindingApplyResult x = resultSuccess \<or> bindingApplyResult x = resultThrottled \<or> bindingApplyResult x = resultError"
  by (auto simp: casResult_def bindingApplyResult_def split: option.splits)

text \<open>The vectors by name.\<close>

lemma well_typed_vecs [simp]:
  "well_typed GaugeVec ''aliyuncert_certificate_not_after_timestamp_seconds'' [x, y]"
  "well_typed GaugeVec ''aliyuncert_certificate_ready'' [x, y]"
  "well_typed GaugeVec ''aliyuncert_certificate_issuance_stalled'' [x, y]"
  "well_typed GaugeVec ''aliyuncert_issuer_default_diverged'' [x, y]"
  "well_typed CounterVec ''aliyuncert_cas_upload_total'' [x] \<longleftrightarrow> x = resultSuccess \<or> x = resultThrottled \<or> x = resultError"
  "well_typed CounterVec ''aliyuncert_cas_delete_total'' [x] \<longleftrightarrow> x = resultSuccess \<or> x = resultThrottled \<or> x = resultError"
  "well_typed CounterVec ''aliyuncert_certmanager_certificate_recreated_total'' [x, y]"
  "well_typed CounterVec ''aliyuncert_cleanup_abandoned_total'' [x, y]"
  "well_typed CounterVec ''aliyuncert_secret_deletion_skipped_total'' [x]"
  "well_typed CounterVec ''aliyuncert_aliyun_api_requests_total'' [x, y, z]"
  "well_typed HistogramVec ''aliyuncert_aliyun_api_duration_seconds'' [x, y]"
  "well_typed GaugeVec ''aliyuncert_binding_ready'' [x, y]"
  "well_typed GaugeVec ''aliyuncert_binding_conflict'' [x, y]"
  "well_typed GaugeVec ''aliyuncert_binding_applied_age_seconds'' [x, y, z]"
  "well_typed CounterVec ''aliyuncert_binding_apply_total'' [x, y] \<longleftrightarrow> y = resultSuccess \<or> y = resultThrottled \<or> y = resultError"
  "well_typed CounterVec ''aliyuncert_binding_drift_detected_total'' [x]"
  by (simp_all add: well_typed_def series_of_def metric_vecs_def vec_defs WithLabelValues_def)

lemma metered_case_ErrClass [metered]:
  "only P a \<Longrightarrow> only P b \<Longrightarrow> only P c \<Longrightarrow> only P d \<Longrightarrow>
     only P (case k of ClassPermanent \<Rightarrow> a | ClassRetryable \<Rightarrow> b | ClassAuth \<Rightarrow> c | ClassNotFound \<Rightarrow> d)"
  by (cases k) auto

lemma metered_cert_parts [metered]:
  "only metered (recordCASDelete a1)"
  "only metered (recordCertMetrics a2 b2)"
  "only metered (clearCertMetrics a3 b3)"
  "only metered (loadBundle a4 b4 c4 d4)"
  "only metered (loadMaterial a5 b5 c5 d5)"
  "only metered (now a6)"
  unfolding recordCASDelete_def recordCertMetrics_def clearCertMetrics_def loadBundle_def loadMaterial_def now_def
  by (intro only_intro metered; simp?)+

lemma metered_upload_parts [metered]:
  "only metered (patchStatus a1 b1 c1)"
  "only metered (refreshUploadState a2 b2 c2)"
  "only metered (patchPendingUpload a3 b3 c3 d3)"
  "only metered (casClient a4 b4)"
  "only metered (findByName a5 b5 c5)"
  unfolding patchStatus_def refreshUploadState_def patchPendingUpload_def casClient_def findByName_def
  by (intro only_intro metered; simp?)+

lemma metered_upload [metered]:
  "only metered (ensurePending a1 b1 c1 d1)"
  "only metered (uploadOrClaim a2 b2 c2 d2 e2)"
  "only metered (uploadGeneration a3 b3 c3 d3 e3 f3)"
  "only metered (ensureUploaded a4 b4 c4 d4)"
  unfolding ensurePending_def uploadOrClaim_def uploadGeneration_def ensureUploaded_def
  by (intro only_intro metered; simp?)+

lemma metered_retention_parts [metered]:
  "only metered (liveBindingsFor a1 b1)"
  "only metered (reclaimOne a2 b2 c2 d2)"
  unfolding liveBindingsFor_def reclaimOne_def
  by (intro only_intro metered; simp?)+

lemma metered_reclaim_loop [metered]: "only metered (reclaim_loop r at m bs cas n ac)"
proof (induction n arbitrary: cas ac)
  case (Suc n)
  show ?case unfolding reclaim_loop.simps by (intro only_intro metered Suc)
qed (simp add: only_return)

lemma metered_retention [metered]:
  "only metered (reclaimOldGenerations a1 b1)"
  "only metered (probe_throttled a2 b2)"
  "only metered (probeCAS a3 b3 c3)"
  "only metered (noteProbeFailure)"
  unfolding reclaimOldGenerations_def probe_throttled_def probeCAS_def noteProbeFailure_def
  by (intro only_intro metered; simp?)+

lemma metered_deletion_parts [metered]:
  "only metered (del_generation a1 b1 c1)"
  unfolding del_generation_def
  by (intro only_intro metered; simp?)+

lemma metered_del_history [metered]: "only metered (del_history cas uid h)"
proof (induction h)
  case (Cons g h)
  show ?case unfolding del_history.simps by (intro only_intro metered Cons)
qed (simp add: only_return)

lemma metered_deletion [metered]:
  "only metered (cleanupPendingUpload a1 b1)"
  "only metered (cleanupCAS a2 b2)"
  "only metered (patch_and_return a3 b3 c3 d3)"
  "only metered (startCleanup a4 b4 c4)"
  "only metered (cleanupFailed a5 b5 c5 d5)"
  "only metered (deleteCertificate a6 b6)"
  "only metered (deleteOwnedSecret a7 b7)"
  "only metered (removeFinalizer a8 b8 c8)"
  unfolding cleanupPendingUpload_def cleanupCAS_def patch_and_return_def startCleanup_def cleanupFailed_def deleteCertificate_def deleteOwnedSecret_def removeFinalizer_def
  by (intro only_intro metered; simp?)+

lemma metered_reconcileDelete [metered]:
  "only metered (afterCleanup a1 b1 c1 d1)"
  "only metered (deleteObjects a2 b2)"
  "only metered (cleanupAndDelete a3 b3 c3)"
  "only metered (reconcileDelete a4 b4 c4)"
  unfolding afterCleanup_def deleteObjects_def cleanupAndDelete_def reconcileDelete_def
  by (intro only_intro metered; simp?)+

lemma metered_cert_steps [metered]:
  "only metered (detectIssuerDivergence a1 b1 c1 d1)"
  "only metered (handleCloudError a2 b2 c2 d2 e2)"
  "only metered (handleNonFatalCloudError a3 b3 c3 d3 e3 f3)"
  "only metered (handleReclaimError a4 b4 c4 d4)"
  "only metered (secretNameConflict a5 b5)"
  "only metered (probeAndPersist a6 b6 c6 d6)"
  "only metered (uploadAndReclaim a7 b7 c7 d7)"
  "only metered (syncCertificate a8 b8 c8)"
  "only metered (noteStall a9 b9 c9)"
  unfolding detectIssuerDivergence_def handleCloudError_def handleNonFatalCloudError_def handleReclaimError_def secretNameConflict_def probeAndPersist_def uploadAndReclaim_def syncCertificate_def noteStall_def
  by (intro only_intro metered; simp?)+

lemma metered_Reconcile [metered]:
  "only metered (reconcileIssued a1 b1 c1 d1 e1)"
  "only metered (reconcileCertificate a2 b2 c2 d2)"
  "only metered (checkSecretName a3 b3 c3)"
  "only metered (reconcileResolved a4 b4 c4 d4 e4)"
  "only metered (reconcileLive a5 b5 c5)"
  "only metered (AliyunCertificate_Reconcile a6 b6 c6)"
  unfolding reconcileIssued_def reconcileCertificate_def checkSecretName_def reconcileResolved_def reconcileLive_def AliyunCertificate_Reconcile_def
  by (intro only_intro metered; simp?)+

lemma metered_binding_parts [metered]:
  "only metered (binding_now a1)"
  "only metered (appliedLag a2 b2 c2)"
  "only metered (recordBindingReadiness a3 b3)"
  "only metered (recordBindingMetrics a4 b4)"
  "only metered (clearBindingMetrics a5 b5 c5)"
  "only metered (patchBindingStatus a6 b6)"
  "only metered (patchBinding a7 b7)"
  "only metered (loadBindingMaterial a8 b8 c8)"
  "only metered (arbitrate a9 b9)"
  unfolding binding_now_def appliedLag_def recordBindingReadiness_def recordBindingMetrics_def clearBindingMetrics_def patchBindingStatus_def patchBinding_def loadBindingMaterial_def arbitrate_def
  by (intro only_intro metered; simp?)+

lemma metered_binding_steps [metered]:
  "only metered (patch_round a1 b1 c1)"
  "only metered (eventOnReasonChange a2 b2 c2 d2 e2 f2 g2)"
  "only metered (observe_failed_round a3 b3 c3 d3)"
  "only metered (handleObserveError a4 b4 c4)"
  "only metered (noteObserved a5 b5)"
  "only metered (noteDrift a6 b6 c6 d6)"
  "only metered (handleApplyError a7 b7 c7)"
  "only metered (setApplied a8 b8)"
  "only metered (freezeApplied a9 b9 c9 d9 e9)"
  "only metered (providerClient a10 b10 c10)"
  "only metered (handleFactoryError a11 b11 c11)"
  unfolding patch_round_def eventOnReasonChange_def observe_failed_round_def handleObserveError_def noteObserved_def noteDrift_def handleApplyError_def setApplied_def freezeApplied_def providerClient_def handleFactoryError_def
  by (intro only_intro metered; simp?)+

lemma metered_binding_ready [metered]:
  "only metered (applyTarget a1 b1 c1 d1 e1 f1 g1)"
  "only metered (observedTarget a2 b2 c2 d2 e2 f2 g2)"
  "only metered (reachTarget a3 b3 c3 d3)"
  "only metered (gateMaterial a4 b4 c4 d4)"
  "only metered (coveredMaterial a5 b5 c5)"
  "only metered (reconcileBindingReady a6 b6 c6)"
  unfolding applyTarget_def observedTarget_def reachTarget_def gateMaterial_def coveredMaterial_def reconcileBindingReady_def
  by (intro only_intro metered; simp?)+

lemma metered_binding_deletion [metered]:
  "only metered (unbindObserved a1 b1 c1 d1 e1 f1)"
  "only metered (unbindTarget a2 b2)"
  "only metered (finishBindingDeletion a3 b3)"
  "only metered (startBindingCleanup a4 b4)"
  "only metered (unbindFailed a5 b5 c5)"
  unfolding unbindObserved_def unbindTarget_def finishBindingDeletion_def startBindingCleanup_def unbindFailed_def
  by (intro only_intro metered; simp?)+

lemma metered_Reconcile_binding [metered]:
  "only metered (reconcileBound a1 b1)"
  "only metered (ensureFinalizer a2 b2)"
  "only metered (unbindAndFinish a3 b3)"
  "only metered (reconcileBindingDelete a4 b4)"
  "only metered (Reconcile_binding a5 b5 c5)"
  unfolding reconcileBound_def ensureFinalizer_def unbindAndFinish_def reconcileBindingDelete_def Reconcile_binding_def
  by (intro only_intro metered; simp?)+

section \<open>Properties\<close>

text \<open>A factory environment whose Prometheus calls are written down.\<close>

type_synonym metric_calls = "(vec_kind \<times> string \<times> string list) list"

definition noting :: "metric_calls factory_env \<Rightarrow> metric_calls factory_env" where
  "noting fe = fe\<lparr>fe_Inc := (\<lambda>n vs. State (\<lambda>w. ((), w @ [(CounterVec, n, vs)]))),
     fe_Observe := (\<lambda>n vs d. State (\<lambda>w. ((), w @ [(HistogramVec, n, vs)])))\<rparr>"

definition recorded_calls :: "metric_calls factory_env \<Rightarrow> string \<Rightarrow> string \<Rightarrow> string \<Rightarrow> duration \<Rightarrow> metric_calls" where
  "recorded_calls fe service action code d = snd (run_state (aliyunAPICallRecorder (noting fe) service action code d) [])"

lemma only_list_all: "only P m \<Longrightarrow> list_all P (effects_of m w)"
  unfolding only_def list_all_iff by (rule emits_run)

text \<open>
  C34. No use of a metric panics. The sixteen vectors have different names, so registering them
  when the process starts succeeds; and in a reconcile of either controller, whatever the
  API server, the clock and the clouds answer, every counter and gauge that is touched is a
  registered vector of that kind with as many values as it has labels, and likewise the two
  metrics of every cloud call. A result label only ever has one of three values, so its
  cardinality is constant.
\<close>

theorem metrics_well_typed:
  "MustRegister [] metric_vecs = Some metric_vecs \<and>
   list_all metered (effects_of (AliyunCertificate_Reconcile r ns n) w) \<and>
   list_all metered (effects_of (Reconcile_binding rb ns n) w') \<and>
   list_all (\<lambda>(k, name, vs). well_typed k name vs) (recorded_calls fe service action code d)"
proof (intro conjI)
  show "MustRegister [] metric_vecs = Some metric_vecs" by (simp add: metric_vecs_def vec_defs)
  show "list_all metered (effects_of (AliyunCertificate_Reconcile r ns n) w)" by (intro only_list_all metered)
  show "list_all metered (effects_of (Reconcile_binding rb ns n) w')" by (intro only_list_all metered)
  show "list_all (\<lambda>(k, name, vs). well_typed k name vs) (recorded_calls fe service action code d)"
    by (simp add: recorded_calls_def noting_def aliyunAPICallRecorder_def)
qed

end
