(* ===== verification/Go_Heap.thy ===== *)
theory Go_Heap
  imports Provider_Types
begin

text \<open>
  Pointers and slices as the generated deep copies see them.

  A heap is the list of the cells allocated so far and an address an index into it, so
  allocation appends and what was allocated before keeps its address. A cell holds one
  struct, one scalar or one backing array; what a pointer of static type \<open>*T\<close> points at is
  told by the partial inverse \<open>dest\<close> of the constructor \<open>mk\<close> of \<open>T\<close>.

  The contract of a deep copy is the locale \<open>deep_copier\<close>: the cells a value owns, the value
  it stands for, and the copy, which allocates, changes no cell that was there, and returns
  a value that stands for the same and owns new cells only. The combinators below give the
  contract of pointers, slices and structs from the contract of their parts.
\<close>

section \<open>Definitions\<close>

type_synonym addr = nat

type_synonym 'c heap = "'c list"

datatype slice = Slice (sl_array: addr) (sl_offset: nat) (sl_len: nat)

definition load :: "addr \<Rightarrow> ('c heap, 'c option) state" where
  "load a = State (\<lambda>h. (if a < length h then Some (h ! a) else None, h))"

definition new :: "'c \<Rightarrow> ('c heap, addr) state" where
  "new c = State (\<lambda>h. (length h, h @ [c]))"

text \<open>The type-correct content of an address.\<close>

definition deref :: "('c \<Rightarrow> 'a option) \<Rightarrow> 'c heap \<Rightarrow> addr \<Rightarrow> 'a option" where
  "deref dest h a = (if a < length h then dest (h ! a) else None)"

text \<open>A pointer: \<open>nil\<close> stays \<open>nil\<close>; otherwise \<open>new(T)\<close> is filled with a copy of what is pointed at.
  Go has no dangling pointers; in the model following one copies nothing.\<close>

definition ptr_copy :: "('a \<Rightarrow> 'c) \<Rightarrow> ('c \<Rightarrow> 'a option) \<Rightarrow> ('a \<Rightarrow> ('c heap, 'a) state) \<Rightarrow>
    addr option \<Rightarrow> ('c heap, addr option) state" where
  "ptr_copy mk dest copy p = (case p of
     None \<Rightarrow> ret None
   | Some a \<Rightarrow> do {
       c \<leftarrow> load a;
       (case Option.bind c dest of
          None \<Rightarrow> ret None
        | Some x \<Rightarrow> do { y \<leftarrow> copy x; b \<leftarrow> new (mk y); ret (Some b) })
     })"

definition ptr_own :: "('c \<Rightarrow> 'a option) \<Rightarrow> ('c heap \<Rightarrow> 'a \<Rightarrow> addr set) \<Rightarrow> 'c heap \<Rightarrow> addr option \<Rightarrow> addr set" where
  "ptr_own dest own h p = (case p of None \<Rightarrow> {}
   | Some a \<Rightarrow> insert a (case deref dest h a of None \<Rightarrow> {} | Some x \<Rightarrow> own h x))"

definition ptr_view :: "('c \<Rightarrow> 'a option) \<Rightarrow> ('c heap \<Rightarrow> 'a \<Rightarrow> 'v option) \<Rightarrow> 'c heap \<Rightarrow> addr option \<Rightarrow> 'v option option" where
  "ptr_view dest view h p = (case p of None \<Rightarrow> Some None
   | Some a \<Rightarrow> map_option Some (Option.bind (deref dest h a) (view h)))"

text \<open>The elements of an array, one after the other.\<close>

fun copy_each :: "('a \<Rightarrow> ('c heap, 'a) state) \<Rightarrow> 'a list \<Rightarrow> ('c heap, 'a list) state" where
  "copy_each copy [] = ret []"
| "copy_each copy (x # xs) = do { y \<leftarrow> copy x; ys \<leftarrow> copy_each copy xs; ret (y # ys) }"

fun view_each :: "('c heap \<Rightarrow> 'a \<Rightarrow> 'v option) \<Rightarrow> 'c heap \<Rightarrow> 'a list \<Rightarrow> 'v list option" where
  "view_each view h [] = Some []"
| "view_each view h (x # xs) = do { v \<leftarrow> view h x; vs \<leftarrow> view_each view h xs; Some (v # vs) }"

definition own_each :: "('c heap \<Rightarrow> 'a \<Rightarrow> addr set) \<Rightarrow> 'c heap \<Rightarrow> 'a list \<Rightarrow> addr set" where
  "own_each own h xs = (\<Union>x \<in> set xs. own h x)"

text \<open>A slice: \<open>nil\<close> stays \<open>nil\<close>; otherwise a new array of the length of the slice.\<close>

definition elements :: "nat \<Rightarrow> nat \<Rightarrow> 'a list \<Rightarrow> 'a list option" where
  "elements off n xs = (if off + n \<le> length xs then Some (take n (drop off xs)) else None)"

definition slice_elems :: "('c \<Rightarrow> 'a list option) \<Rightarrow> 'c heap \<Rightarrow> slice \<Rightarrow> 'a list option" where
  "slice_elems dest h s = Option.bind (deref dest h (sl_array s)) (elements (sl_offset s) (sl_len s))"

definition slice_copy :: "('a list \<Rightarrow> 'c) \<Rightarrow> ('c \<Rightarrow> 'a list option) \<Rightarrow> ('a \<Rightarrow> ('c heap, 'a) state) \<Rightarrow>
    slice option \<Rightarrow> ('c heap, slice option) state" where
  "slice_copy mk dest copy p = (case p of
     None \<Rightarrow> ret None
   | Some s \<Rightarrow> do {
       c \<leftarrow> load (sl_array s);
       (case Option.bind (Option.bind c dest) (elements (sl_offset s) (sl_len s)) of
          None \<Rightarrow> ret None
        | Some xs \<Rightarrow> do { ys \<leftarrow> copy_each copy xs; b \<leftarrow> new (mk ys); ret (Some (Slice b 0 (length ys))) })
     })"

definition slice_own :: "('c \<Rightarrow> 'a list option) \<Rightarrow> ('c heap \<Rightarrow> 'a \<Rightarrow> addr set) \<Rightarrow> 'c heap \<Rightarrow> slice option \<Rightarrow> addr set" where
  "slice_own dest own h p = (case p of None \<Rightarrow> {}
   | Some s \<Rightarrow> insert (sl_array s) (case slice_elems dest h s of None \<Rightarrow> {} | Some xs \<Rightarrow> own_each own h xs))"

definition slice_view :: "('c \<Rightarrow> 'a list option) \<Rightarrow> ('c heap \<Rightarrow> 'a \<Rightarrow> 'v option) \<Rightarrow> 'c heap \<Rightarrow> slice option \<Rightarrow> 'v list option option" where
  "slice_view dest view h p = (case p of None \<Rightarrow> Some None
   | Some s \<Rightarrow> map_option Some (Option.bind (slice_elems dest h s) (view_each view h)))"

text \<open>A struct without references is copied by the assignment.\<close>

abbreviation flat_own :: "'c heap \<Rightarrow> 'a \<Rightarrow> addr set" where
  "flat_own \<equiv> \<lambda>h x. {}"

abbreviation flat_view :: "'c heap \<Rightarrow> 'a \<Rightarrow> 'a option" where
  "flat_view \<equiv> \<lambda>h x. Some x"

text \<open>Two heaps agree on cells when both have them and their content is the same.\<close>

definition agree :: "addr set \<Rightarrow> 'c heap \<Rightarrow> 'c heap \<Rightarrow> bool" where
  "agree S h h' \<longleftrightarrow> (\<forall>a \<in> S. a < length h \<and> a < length h' \<and> h' ! a = h ! a)"

section \<open>The contract\<close>

locale deep_copier =
  fixes own :: "'c heap \<Rightarrow> 'a \<Rightarrow> addr set"
    and view :: "'c heap \<Rightarrow> 'a \<Rightarrow> 'v option"
    and copy :: "'a \<Rightarrow> ('c heap, 'a) state"
  assumes bounded: "view h x = Some v \<Longrightarrow> own h x \<subseteq> {..<length h}"
    and frame: "view h x = Some v \<Longrightarrow> agree (own h x) h h' \<Longrightarrow> view h' x = Some v \<and> own h' x = own h x"
    and copies: "view h x = Some v \<Longrightarrow> \<exists>y k. run_state (copy x) h = (y, h @ k) \<and>
       view (h @ k) y = Some v \<and> own (h @ k) y \<subseteq> {length h..<length h + length k}"
begin

lemma extend:
  assumes "view h x = Some v"
  shows "view (h @ k) x = Some v \<and> own (h @ k) x = own h x"
  using bounded [OF assms] by (intro frame [OF assms]) (auto simp: agree_def nth_append)

text \<open>After a copy, the original and the copy stand for the same value and share no cell: any
  change outside the cells of the one leaves it as it is.\<close>

lemma isolated:
  assumes "view h x = Some v" "run_state (copy x) h = (y, h')"
  shows "view h' x = Some v \<and> view h' y = Some v \<and> own h' x \<inter> own h' y = {} \<and> own h' y \<inter> {..<length h} = {}
    \<and> (\<forall>h2. agree (own h' x) h' h2 \<longrightarrow> view h2 x = Some v)
    \<and> (\<forall>h2. agree (own h' y) h' h2 \<longrightarrow> view h2 y = Some v)"
proof -
  from copies [OF assms(1)] assms(2) obtain k where k: "h' = h @ k" "view h' y = Some v"
    "own h' y \<subseteq> {length h..<length h + length k}" by auto
  moreover have x: "view h' x = Some v" "own h' x = own h x" using extend [OF assms(1)] k(1) by auto
  moreover have "own h' x \<inter> own h' y = {}" using bounded [OF assms(1)] k(3) x(2) by fastforce
  ultimately show ?thesis using frame [OF x(1)] frame [OF k(2)] by fastforce
qed

end

section \<open>Combinators\<close>

lemma run_load [simp]: "run_state (load a) h = (if a < length h then Some (h ! a) else None, h)"
  by (simp add: load_def)

lemma run_new [simp]: "run_state (new c) h = (length h, h @ [c])"
  by (simp add: new_def)

lemma deep_copier_flat: "deep_copier flat_own flat_view ret"
  by unfold_locales (auto simp: State_Monad.return_def)

definition pair_own where "pair_own o1 o2 h p = o1 h (fst p) \<union> o2 h (snd p)"

definition pair_view where "pair_view v1 v2 h p = do { a \<leftarrow> v1 h (fst p); b \<leftarrow> v2 h (snd p); Some (a, b) }"

definition pair_copy where "pair_copy c1 c2 p = do { x \<leftarrow> c1 (fst p); y \<leftarrow> c2 (snd p); ret (x, y) }"

lemma agree_Un [simp]: "agree (A \<union> B) h h' \<longleftrightarrow> agree A h h' \<and> agree B h h'"
  by (auto simp: agree_def)

lemma agree_insert: "agree (insert a A) h h' \<longleftrightarrow> a < length h \<and> a < length h' \<and> h' ! a = h ! a \<and> agree A h h'"
  by (auto simp: agree_def)

lemma deref_agree: "a < length h \<Longrightarrow> a < length h' \<Longrightarrow> h' ! a = h ! a \<Longrightarrow> deref dest h' a = deref dest h a"
  by (simp add: deref_def)

lemma deref_Some: "deref dest h a = Some x \<Longrightarrow> a < length h \<and> dest (h ! a) = Some x"
  by (simp add: deref_def split: if_splits)

lemma pair_view_Some: "pair_view v1 v2 h p = Some v \<longleftrightarrow>
    (\<exists>a b. v1 h (fst p) = Some a \<and> v2 h (snd p) = Some b \<and> v = (a, b))"
  by (auto simp: pair_view_def split: bind_splits)

lemma deep_copier_pair:
  assumes "deep_copier o1 v1 c1" "deep_copier o2 v2 c2"
  shows "deep_copier (pair_own o1 o2) (pair_view v1 v2) (pair_copy c1 c2)"
proof (unfold_locales, goal_cases)
  case (1 h p v)
  then obtain a b where "v1 h (fst p) = Some a" "v2 h (snd p) = Some b" by (auto simp: pair_view_Some)
  then show ?case
    using deep_copier.bounded [OF assms(1)] deep_copier.bounded [OF assms(2)] unfolding pair_own_def by blast
next
  case (2 h p v h')
  then obtain a b where v: "v1 h (fst p) = Some a" "v2 h (snd p) = Some b" "v = (a, b)" by (auto simp: pair_view_Some)
  have "v1 h' (fst p) = Some a \<and> o1 h' (fst p) = o1 h (fst p)" "v2 h' (snd p) = Some b \<and> o2 h' (snd p) = o2 h (snd p)"
    using 2(2) by (auto simp: pair_own_def deep_copier.frame [OF assms(1) v(1)] deep_copier.frame [OF assms(2) v(2)])
  then show ?case using v(3) by (simp add: pair_own_def pair_view_Some)
next
  case (3 h p v)
  then obtain a b where v: "v1 h (fst p) = Some a" "v2 h (snd p) = Some b" "v = (a, b)" by (auto simp: pair_view_Some)
  obtain x k where x: "run_state (c1 (fst p)) h = (x, h @ k)" "v1 (h @ k) x = Some a"
    "o1 (h @ k) x \<subseteq> {length h..<length h + length k}"
    using deep_copier.copies [OF assms(1) v(1)] by blast
  obtain y l where y: "run_state (c2 (snd p)) (h @ k) = (y, (h @ k) @ l)" "v2 ((h @ k) @ l) y = Some b"
    "o2 ((h @ k) @ l) y \<subseteq> {length (h @ k)..<length (h @ k) + length l}"
    using deep_copier.copies [OF assms(2) deep_copier.extend [OF assms(2) v(2), THEN conjunct1, of k]] by blast
  have x': "v1 ((h @ k) @ l) x = Some a" "o1 ((h @ k) @ l) x = o1 (h @ k) x"
    using deep_copier.extend [OF assms(1) x(2), of l] by auto
  have "run_state (pair_copy c1 c2 p) h = ((x, y), h @ k @ l)"
    using x(1) y(1) by (simp add: pair_copy_def)
  moreover have "pair_view v1 v2 (h @ k @ l) (x, y) = Some v" using x' y v(3) by (simp add: pair_view_def)
  moreover have "pair_own o1 o2 (h @ k @ l) (x, y) \<subseteq> {length h..<length h + length (k @ l)}"
    using x(3) x'(2) y(3) by (auto simp: pair_own_def)
  ultimately show ?case by blast
qed

text \<open>A struct \<open>s\<close> whose references are \<open>get s\<close> and whose other fields are copied with it.\<close>

lemma deep_copier_struct:
  assumes "deep_copier o' v' c'"
    and own: "\<And>h s. own h s = o' h (get s)" and view: "\<And>h s. view h s = map_option (mk s) (v' h (get s))"
    and copy: "\<And>s. copy s = do { x \<leftarrow> c' (get s); ret (put x s) }"
    and upd: "\<And>x s. get (put x s) = x" "\<And>x s. mk (put x s) = mk s"
  shows "deep_copier own view copy"
proof (unfold_locales, goal_cases)
  case (1 h s v)
  then show ?case using deep_copier.bounded [OF assms(1)] by (auto simp: own view)
next
  case (2 h s v h')
  then obtain u where "v' h (get s) = Some u" "v = mk s u" by (auto simp: view)
  then show ?case using deep_copier.frame [OF assms(1), of h "get s" u h'] 2(2) by (simp add: own view)
next
  case (3 h s v)
  then obtain u where "v' h (get s) = Some u" "v = mk s u" by (auto simp: view)
  then show ?case using deep_copier.copies [OF assms(1), of h "get s" u] by (auto simp: own view copy upd)
qed

text \<open>References in general: \<open>at p\<close> is the cell \<open>p\<close> points at, \<open>look h p\<close> what is read through it,
  and \<open>fresh y a\<close> the reference to \<open>y\<close> in the new cell \<open>a\<close>.\<close>

lemma deep_copier_ref:
  assumes C: "deep_copier own view copy"
    and nil: "\<And>h. own' h None = {}" "\<And>h. view' h None = Some None" "copy' None = ret None"
    and look: "\<And>h h' p. look h p \<noteq> None \<Longrightarrow> at p < length h \<and> (agree {at p} h h' \<longrightarrow> look h' p = look h p)"
    and fresh: "\<And>h y. look (h @ [mk y]) (fresh y (length h)) = Some y \<and> at (fresh y (length h)) = length h"
    and own: "\<And>h p x. look h p = Some x \<Longrightarrow> own' h (Some p) = insert (at p) (own h x)"
    and view: "\<And>h p. view' h (Some p) = map_option Some (Option.bind (look h p) (view h))"
    and run: "\<And>h p x. look h p = Some x \<Longrightarrow> run_state (copy' (Some p)) h =
       run_state (do { y \<leftarrow> copy x; b \<leftarrow> new (mk y); ret (Some (fresh y b)) }) h"
  shows "deep_copier own' view' copy'"
proof (unfold_locales, goal_cases)
  case (1 h q v)
  show ?case
  proof (cases q)
    case (Some p)
    then obtain x u where "look h p = Some x" "view h x = Some u" using 1 by (auto simp: view split: bind_splits)
    then show ?thesis using deep_copier.bounded [OF C] look [of h p] by (simp add: Some own)
  qed (simp add: nil)
next
  case (2 h q v h')
  show ?case
  proof (cases q)
    case (Some p)
    then obtain x u where x: "look h p = Some x" "view h x = Some u" "v = Some u"
      using 2 by (auto simp: view split: bind_splits)
    have a: "agree {at p} h h'" "agree (own h x) h h'" using 2(2) x(1) by (simp_all add: Some own agree_def)
    have "look h' p = Some x" using look [of h p h'] a(1) x(1) by simp
    then show ?thesis using deep_copier.frame [OF C x(2) a(2)] x by (simp add: Some own view)
  qed (use 2 in \<open>simp add: nil\<close>)
next
  case (3 h q v)
  show ?case
  proof (cases q)
    case None
    then show ?thesis using 3 by (auto simp: nil)
  next
    case (Some p)
    then obtain x u where x: "look h p = Some x" "view h x = Some u" "v = Some u"
      using 3 by (auto simp: view split: bind_splits)
    obtain y k where y: "run_state (copy x) h = (y, h @ k)" "view (h @ k) y = Some u"
      "own (h @ k) y \<subseteq> {length h..<length h + length k}"
      using deep_copier.copies [OF C x(2)] by blast
    have y': "view (h @ k @ [mk y]) y = Some u" "own (h @ k @ [mk y]) y = own (h @ k) y"
      using deep_copier.extend [OF C y(2), of "[mk y]"] by auto
    let ?p = "fresh y (length (h @ k))"
    have d: "look (h @ k @ [mk y]) ?p = Some y" "at ?p = length (h @ k)" using fresh [of "h @ k" y] by simp_all
    have "run_state (copy' q) h = (Some ?p, h @ k @ [mk y])" using y(1) by (simp add: Some run [OF x(1)])
    moreover have "view' (h @ k @ [mk y]) (Some ?p) = Some v" using y'(1) x(3) d(1) by (simp add: view del: length_append)
    moreover have "own' (h @ k @ [mk y]) (Some ?p) \<subseteq> {length h..<length h + length (k @ [mk y])}"
      unfolding own [OF d(1)] d(2) y'(2) using y(3) by auto
    ultimately show ?thesis by blast
  qed
qed

lemma deep_copier_ptr:
  assumes "deep_copier own view copy" and dest: "\<And>x. dest (mk x) = Some x"
  shows "deep_copier (ptr_own dest own) (ptr_view dest view) (ptr_copy mk dest copy)"
  by (rule deep_copier_ref [OF assms(1), where look = "deref dest" and at = "\<lambda>a. a" and mk = mk and fresh = "\<lambda>y a. a"])
    (auto simp: ptr_own_def ptr_view_def ptr_copy_def deref_def agree_def dest split: if_splits)

lemma view_each_Cons: "view_each view h (x # xs) = Some v \<longleftrightarrow>
    (\<exists>u us. view h x = Some u \<and> view_each view h xs = Some us \<and> v = u # us)"
  by (auto split: bind_splits)

lemma own_each_Cons: "own_each own h (x # xs) = own h x \<union> own_each own h xs"
  by (simp add: own_each_def)

lemma each_bounded:
  assumes "deep_copier own view copy" "view_each view h xs = Some v"
  shows "own_each own h xs \<subseteq> {..<length h}"
  using assms(2)
proof (induction xs arbitrary: v)
  case (Cons x xs)
  then obtain u us where "view h x = Some u" "view_each view h xs = Some us"
    by (auto simp: view_each_Cons simp del: view_each.simps)
  then show ?case using Cons.IH deep_copier.bounded [OF assms(1)] by (simp add: own_each_Cons)
qed (simp add: own_each_def)

lemma each_frame:
  assumes "deep_copier own view copy" "view_each view h xs = Some v" "agree (own_each own h xs) h h'"
  shows "view_each view h' xs = Some v \<and> own_each own h' xs = own_each own h xs"
  using assms(2,3)
proof (induction xs arbitrary: v)
  case (Cons x xs)
  then obtain u us where v: "view h x = Some u" "view_each view h xs = Some us" "v = u # us"
    by (auto simp: view_each_Cons simp del: view_each.simps)
  have "view h' x = Some u \<and> own h' x = own h x"
    using deep_copier.frame [OF assms(1) v(1)] Cons.prems(2) by (simp add: own_each_Cons)
  moreover have "view_each view h' xs = Some us \<and> own_each own h' xs = own_each own h xs"
    using Cons.IH [OF v(2)] Cons.prems(2) by (simp add: own_each_Cons)
  ultimately show ?case using v(3) by (simp add: own_each_Cons)
qed (simp add: own_each_def)

lemma each_copies:
  assumes "deep_copier own view copy" "view_each view h xs = Some v"
  shows "\<exists>ys k. run_state (copy_each copy xs) h = (ys, h @ k) \<and> view_each view (h @ k) ys = Some v \<and>
    own_each own (h @ k) ys \<subseteq> {length h..<length h + length k}"
  using assms(2)
proof (induction xs arbitrary: h v)
  case (Cons x xs)
  then obtain u us where v: "view h x = Some u" "view_each view h xs = Some us" "v = u # us"
    by (auto simp: view_each_Cons simp del: view_each.simps)
  obtain y k where y: "run_state (copy x) h = (y, h @ k)" "view (h @ k) y = Some u"
    "own (h @ k) y \<subseteq> {length h..<length h + length k}"
    using deep_copier.copies [OF assms(1) v(1)] by blast
  have "own_each own h xs \<subseteq> {..<length h}" by (rule each_bounded [OF assms(1) v(2)])
  then have "agree (own_each own h xs) h (h @ k)" by (auto simp: agree_def nth_append)
  then have "view_each view (h @ k) xs = Some us" using each_frame [OF assms(1) v(2)] by blast
  from Cons.IH [OF this] obtain ys l where ys: "run_state (copy_each copy xs) (h @ k) = (ys, (h @ k) @ l)"
    "view_each view ((h @ k) @ l) ys = Some us"
    "own_each own ((h @ k) @ l) ys \<subseteq> {length (h @ k)..<length (h @ k) + length l}" by blast
  have y': "view ((h @ k) @ l) y = Some u" "own ((h @ k) @ l) y = own (h @ k) y"
    using deep_copier.extend [OF assms(1) y(2), of l] by auto
  have "own_each own ((h @ k) @ l) (y # ys) \<subseteq> {length h..<length h + length (k @ l)}"
    using y(3) y'(2) ys(3) by (auto simp: own_each_Cons)
  moreover have "run_state (copy_each copy (x # xs)) h = (y # ys, (h @ k) @ l)" using y(1) ys(1) by simp
  moreover have "view_each view ((h @ k) @ l) (y # ys) = Some v" using y'(1) ys(2) v(3) by simp
  ultimately show ?case by (intro exI [of _ "y # ys"] exI [of _ "k @ l"]) simp
qed (simp add: own_each_def)

lemma deep_copier_each:
  assumes "deep_copier own view copy"
  shows "deep_copier (own_each own) (view_each view) (copy_each copy)"
  by unfold_locales (rule each_bounded [OF assms] each_frame [OF assms] each_copies [OF assms]; assumption)+

lemma deep_copier_slice:
  assumes "deep_copier own view copy" and dest: "\<And>xs. dest (mk xs) = Some xs"
  shows "deep_copier (slice_own dest own) (slice_view dest view) (slice_copy mk dest copy)"
  by (rule deep_copier_ref [OF deep_copier_each [OF assms(1)], where look = "slice_elems dest" and at = sl_array
        and mk = mk and fresh = "\<lambda>ys a. Slice a 0 (length ys)"])
    (auto simp: slice_own_def slice_view_def slice_copy_def slice_elems_def deref_def agree_def elements_def dest
      split: if_splits)

end
