(* ===== verification/Deep_Copy.thy ===== *)
theory Deep_Copy
  imports Go_Heap Api_Types
begin

text \<open>
  \<open>api/v1alpha1/zz_generated.deepcopy.go\<close>: the deep copies of the API types, on a heap.

  Elsewhere in the development an object is a value. Here it is what it is in the program: a
  struct whose optional fields are pointers and whose lists are slices (\<open>go_AliyunSpec\<close> and so on), in
  a heap that everything else in the process writes too. \<open>T_view\<close> is the value of
      \<open>Api_Types\<close> a
  struct stands for, \<open>T_own\<close> the cells it reaches. A struct that is filled in place is a result
  here. Structs of \<open>apimachinery\<close> and cert-manager that hold no references (times, durations,
  conditions, issuer references, private key settings) are values; those that do (\<open>ObjectMeta\<close>,
  \<open>ListMeta\<close>, \<open>X509Subject\<close>, \<open>CertificateSecretTemplate\<close>) are
      parameters \<open>'e\<close> with their own deep
  copies, of which the contract is assumed. A nil slice and an empty one have the same value.
\<close>

section \<open>Structs and cells\<close>

type_synonym type_meta = "string \<times> string"

record object_meta =
  om_Namespace :: string
  om_Name :: string
  om_UID :: string
  om_Generation :: int
  om_CreationTimestamp :: time
  om_DeletionTimestamp :: "time option"
  om_Finalizers :: "string list"
  om_Rest :: opaque

record go_AliyunSpec =
  ga_CredentialsRef :: string
  ga_Region :: string
  ga_CASRegion :: string
  ga_EndpointOverride :: string
  ga_ResourceGroupID :: string
  ga_UploadToCAS :: "addr option"

record go_RetentionSpec =
  gr_KeepLast :: int
  gr_MinAge :: "addr option"

record go_CertificateTemplate =
  gt_IssuerRef :: "addr option"
  gt_CommonName :: string
  gt_DNSNames :: "slice option"
  gt_IPAddresses :: "slice option"
  gt_Duration :: "addr option"
  gt_RenewBefore :: "addr option"
  gt_Subject :: "addr option"
  gt_Usages :: "slice option"
  gt_PrivateKey :: "addr option"
  gt_SecretTemplate :: "addr option"

record go_AliyunCertificateSpec =
  gsp_SecretName :: string
  gsp_CertificateTemplate :: go_CertificateTemplate
  gsp_Aliyun :: go_AliyunSpec
  gsp_Retention :: go_RetentionSpec

record go_CertificateGeneration =
  gg_Fingerprint :: string
  gg_CertID :: "addr option"
  gg_CASName :: string
  gg_NotBefore :: time
  gg_NotAfter :: time
  gg_UploadedAt :: time

record go_IssuanceStatus =
  gi_Revision :: "addr option"
  gi_RenewalTime :: "addr option"
  gi_FailedIssuanceAttempts :: "addr option"
  gi_LastFailureTime :: "addr option"

record go_AliyunCertificateStatus =
  gx_ObservedGeneration :: int
  gx_EffectiveIssuerRef :: "addr option"
  gx_SecretName :: string
  gx_CertManagerCertificateName :: string
  gx_Issuance :: "addr option"
  gx_Current :: "addr option"
  gx_History :: "slice option"
  gx_PendingUpload :: "addr option"
  gx_CASProbedAt :: "addr option"
  gx_CleanupStartedAt :: "addr option"
  gx_Conditions :: "slice option"

record go_BindingTarget =
  gbt_Type :: string
  gbt_FC3CustomDomain :: "addr option"
  gbt_OSSCustomDomain :: "addr option"

record go_AliyunCertificateBindingSpec =
  gbs_CertificateRef :: string
  gbs_Target :: go_BindingTarget
  gbs_CredentialsRef :: "addr option"
  gbs_DeletionPolicy :: string

record go_AliyunCertificateBindingStatus =
  gbx_ObservedGeneration :: int
  gbx_AppliedFingerprint :: string
  gbx_DriftedFingerprint :: string
  gbx_AppliedCertRef :: string
  gbx_DriftedCertRef :: string
  gbx_LastAppliedTime :: "addr option"
  gbx_LastObservedTime :: "addr option"
  gbx_BoundAccountID :: string
  gbx_CleanupStartedAt :: "addr option"
  gbx_Conditions :: "slice option"

record 'e go_AliyunCertificate =
  gac_TypeMeta :: type_meta
  gac_ObjectMeta :: 'e
  gac_Spec :: go_AliyunCertificateSpec
  gac_Status :: go_AliyunCertificateStatus

record 'e go_AliyunCertificateList =
  gacl_TypeMeta :: type_meta
  gacl_ListMeta :: 'e
  gacl_Items :: "slice option"

record 'e go_AliyunCertificateBinding =
  gb_TypeMeta :: type_meta
  gb_ObjectMeta :: 'e
  gb_Spec :: go_AliyunCertificateBindingSpec
  gb_Status :: go_AliyunCertificateBindingStatus

record 'e go_AliyunCertificateBindingList =
  gbl_TypeMeta :: type_meta
  gbl_ListMeta :: 'e
  gbl_Items :: "slice option"

datatype 'e cell =
    CBool bool
  | CInt int
  | CInt64 int
  | CTime time
  | CDuration duration
  | CIssuerReference IssuerReference
  | CLocalSecretReference string
  | CLocalObjectReference string
  | CFC3CustomDomainTarget FC3CustomDomainTarget
  | COSSCustomDomainTarget OSSCustomDomainTarget
  | CPrivateKey CertificatePrivateKey
  | CX509Subject 'e
  | CSecretTemplate 'e
  | CStrings "string list"
  | CUsages "string list"
  | CConditions "condition list"
  | CIssuanceStatus go_IssuanceStatus
  | CCertificateGeneration go_CertificateGeneration
  | CPendingUpload PendingUpload
  | CGenerations "go_CertificateGeneration list"
  | CAliyunSpec go_AliyunSpec
  | CRetentionSpec go_RetentionSpec
  | CCertificateTemplate go_CertificateTemplate
  | CAliyunCertificateSpec go_AliyunCertificateSpec
  | CAliyunCertificateStatus go_AliyunCertificateStatus
  | CAliyunCertificate "'e go_AliyunCertificate"
  | CAliyunCertificates "'e go_AliyunCertificate list"
  | CAliyunCertificateList "'e go_AliyunCertificateList"
  | CBindingTarget go_BindingTarget
  | CAliyunCertificateBindingSpec go_AliyunCertificateBindingSpec
  | CAliyunCertificateBindingStatus go_AliyunCertificateBindingStatus
  | CAliyunCertificateBinding "'e go_AliyunCertificateBinding"
  | CAliyunCertificateBindings "'e go_AliyunCertificateBinding list"
  | CAliyunCertificateBindingList "'e go_AliyunCertificateBindingList"

text \<open>Reading a cell at its type.\<close>

definition un_CBool :: "'e cell \<Rightarrow> (bool) option" where
  "un_CBool c = (case c of CBool x \<Rightarrow> Some x | _ \<Rightarrow> None)"

definition un_CInt :: "'e cell \<Rightarrow> (int) option" where
  "un_CInt c = (case c of CInt x \<Rightarrow> Some x | _ \<Rightarrow> None)"

definition un_CInt64 :: "'e cell \<Rightarrow> (int) option" where
  "un_CInt64 c = (case c of CInt64 x \<Rightarrow> Some x | _ \<Rightarrow> None)"

definition un_CTime :: "'e cell \<Rightarrow> (time) option" where
  "un_CTime c = (case c of CTime x \<Rightarrow> Some x | _ \<Rightarrow> None)"

definition un_CDuration :: "'e cell \<Rightarrow> (duration) option" where
  "un_CDuration c = (case c of CDuration x \<Rightarrow> Some x | _ \<Rightarrow> None)"

definition un_CIssuerReference :: "'e cell \<Rightarrow> (IssuerReference) option" where
  "un_CIssuerReference c = (case c of CIssuerReference x \<Rightarrow> Some x | _ \<Rightarrow> None)"

definition un_CLocalSecretReference :: "'e cell \<Rightarrow> (string) option" where
  "un_CLocalSecretReference c = (case c of CLocalSecretReference x \<Rightarrow> Some x | _ \<Rightarrow> None)"

definition un_CLocalObjectReference :: "'e cell \<Rightarrow> (string) option" where
  "un_CLocalObjectReference c = (case c of CLocalObjectReference x \<Rightarrow> Some x | _ \<Rightarrow> None)"

definition un_CFC3CustomDomainTarget :: "'e cell \<Rightarrow> (FC3CustomDomainTarget) option" where
  "un_CFC3CustomDomainTarget c = (case c of CFC3CustomDomainTarget x \<Rightarrow> Some x | _ \<Rightarrow> None)"

definition un_COSSCustomDomainTarget :: "'e cell \<Rightarrow> (OSSCustomDomainTarget) option" where
  "un_COSSCustomDomainTarget c = (case c of COSSCustomDomainTarget x \<Rightarrow> Some x | _ \<Rightarrow> None)"

definition un_CPrivateKey :: "'e cell \<Rightarrow> (CertificatePrivateKey) option" where
  "un_CPrivateKey c = (case c of CPrivateKey x \<Rightarrow> Some x | _ \<Rightarrow> None)"

definition un_CX509Subject :: "'e cell \<Rightarrow> ('e) option" where
  "un_CX509Subject c = (case c of CX509Subject x \<Rightarrow> Some x | _ \<Rightarrow> None)"

definition un_CSecretTemplate :: "'e cell \<Rightarrow> ('e) option" where
  "un_CSecretTemplate c = (case c of CSecretTemplate x \<Rightarrow> Some x | _ \<Rightarrow> None)"

definition un_CStrings :: "'e cell \<Rightarrow> (string list) option" where
  "un_CStrings c = (case c of CStrings x \<Rightarrow> Some x | _ \<Rightarrow> None)"

definition un_CUsages :: "'e cell \<Rightarrow> (string list) option" where
  "un_CUsages c = (case c of CUsages x \<Rightarrow> Some x | _ \<Rightarrow> None)"

definition un_CConditions :: "'e cell \<Rightarrow> (condition list) option" where
  "un_CConditions c = (case c of CConditions x \<Rightarrow> Some x | _ \<Rightarrow> None)"

definition un_CIssuanceStatus :: "'e cell \<Rightarrow> (go_IssuanceStatus) option" where
  "un_CIssuanceStatus c = (case c of CIssuanceStatus x \<Rightarrow> Some x | _ \<Rightarrow> None)"

definition un_CCertificateGeneration :: "'e cell \<Rightarrow> (go_CertificateGeneration) option" where
  "un_CCertificateGeneration c = (case c of CCertificateGeneration x \<Rightarrow> Some x | _ \<Rightarrow> None)"

definition un_CPendingUpload :: "'e cell \<Rightarrow> (PendingUpload) option" where
  "un_CPendingUpload c = (case c of CPendingUpload x \<Rightarrow> Some x | _ \<Rightarrow> None)"

definition un_CGenerations :: "'e cell \<Rightarrow> (go_CertificateGeneration list) option" where
  "un_CGenerations c = (case c of CGenerations x \<Rightarrow> Some x | _ \<Rightarrow> None)"

definition un_CAliyunSpec :: "'e cell \<Rightarrow> (go_AliyunSpec) option" where
  "un_CAliyunSpec c = (case c of CAliyunSpec x \<Rightarrow> Some x | _ \<Rightarrow> None)"

definition un_CRetentionSpec :: "'e cell \<Rightarrow> (go_RetentionSpec) option" where
  "un_CRetentionSpec c = (case c of CRetentionSpec x \<Rightarrow> Some x | _ \<Rightarrow> None)"

definition un_CCertificateTemplate :: "'e cell \<Rightarrow> (go_CertificateTemplate) option" where
  "un_CCertificateTemplate c = (case c of CCertificateTemplate x \<Rightarrow> Some x | _ \<Rightarrow> None)"

definition un_CAliyunCertificateSpec :: "'e cell \<Rightarrow> (go_AliyunCertificateSpec) option" where
  "un_CAliyunCertificateSpec c = (case c of CAliyunCertificateSpec x \<Rightarrow> Some x | _ \<Rightarrow> None)"

definition un_CAliyunCertificateStatus :: "'e cell \<Rightarrow> (go_AliyunCertificateStatus) option" where
  "un_CAliyunCertificateStatus c = (case c of CAliyunCertificateStatus x \<Rightarrow> Some x | _
      \<Rightarrow> None)"

definition un_CAliyunCertificate :: "'e cell \<Rightarrow> ('e go_AliyunCertificate) option" where
  "un_CAliyunCertificate c = (case c of CAliyunCertificate x \<Rightarrow> Some x | _ \<Rightarrow> None)"

definition un_CAliyunCertificates :: "'e cell \<Rightarrow> ('e go_AliyunCertificate list) option" where
  "un_CAliyunCertificates c = (case c of CAliyunCertificates x \<Rightarrow> Some x | _ \<Rightarrow> None)"

definition un_CAliyunCertificateList :: "'e cell \<Rightarrow> ('e go_AliyunCertificateList) option" where
  "un_CAliyunCertificateList c = (case c of CAliyunCertificateList x \<Rightarrow> Some x | _ \<Rightarrow> None)"

definition un_CBindingTarget :: "'e cell \<Rightarrow> (go_BindingTarget) option" where
  "un_CBindingTarget c = (case c of CBindingTarget x \<Rightarrow> Some x | _ \<Rightarrow> None)"

definition un_CAliyunCertificateBindingSpec :: "'e cell \<Rightarrow> (go_AliyunCertificateBindingSpec)
    option" where
  "un_CAliyunCertificateBindingSpec c = (case c of CAliyunCertificateBindingSpec x \<Rightarrow> Some x | _
      \<Rightarrow> None)"

definition un_CAliyunCertificateBindingStatus :: "'e cell \<Rightarrow> (go_AliyunCertificateBindingStatus)
    option" where
  "un_CAliyunCertificateBindingStatus c = (case c of CAliyunCertificateBindingStatus x \<Rightarrow> Some x
      | _ \<Rightarrow> None)"

definition un_CAliyunCertificateBinding :: "'e cell \<Rightarrow> ('e go_AliyunCertificateBinding) option" where
  "un_CAliyunCertificateBinding c = (case c of CAliyunCertificateBinding x \<Rightarrow> Some x | _
      \<Rightarrow> None)"

definition un_CAliyunCertificateBindings :: "'e cell \<Rightarrow> ('e go_AliyunCertificateBinding list)
    option" where
  "un_CAliyunCertificateBindings c = (case c of CAliyunCertificateBindings x \<Rightarrow> Some x | _
      \<Rightarrow> None)"

definition un_CAliyunCertificateBindingList :: "'e cell \<Rightarrow> ('e go_AliyunCertificateBindingList)
    option" where
  "un_CAliyunCertificateBindingList c = (case c of CAliyunCertificateBindingList x \<Rightarrow> Some x | _
      \<Rightarrow> None)"

lemma un_simps [simp]:
  "un_CBool (CBool x0) = Some x0"
  "un_CInt (CInt x1) = Some x1"
  "un_CInt64 (CInt64 x2) = Some x2"
  "un_CTime (CTime x3) = Some x3"
  "un_CDuration (CDuration x4) = Some x4"
  "un_CIssuerReference (CIssuerReference x5) = Some x5"
  "un_CLocalSecretReference (CLocalSecretReference x6) = Some x6"
  "un_CLocalObjectReference (CLocalObjectReference x7) = Some x7"
  "un_CFC3CustomDomainTarget (CFC3CustomDomainTarget x8) = Some x8"
  "un_COSSCustomDomainTarget (COSSCustomDomainTarget x9) = Some x9"
  "un_CPrivateKey (CPrivateKey x10) = Some x10"
  "un_CX509Subject (CX509Subject x11) = Some x11"
  "un_CSecretTemplate (CSecretTemplate x12) = Some x12"
  "un_CStrings (CStrings x13) = Some x13"
  "un_CUsages (CUsages x14) = Some x14"
  "un_CConditions (CConditions x15) = Some x15"
  "un_CIssuanceStatus (CIssuanceStatus x16) = Some x16"
  "un_CCertificateGeneration (CCertificateGeneration x17) = Some x17"
  "un_CPendingUpload (CPendingUpload x18) = Some x18"
  "un_CGenerations (CGenerations x19) = Some x19"
  "un_CAliyunSpec (CAliyunSpec x20) = Some x20"
  "un_CRetentionSpec (CRetentionSpec x21) = Some x21"
  "un_CCertificateTemplate (CCertificateTemplate x22) = Some x22"
  "un_CAliyunCertificateSpec (CAliyunCertificateSpec x23) = Some x23"
  "un_CAliyunCertificateStatus (CAliyunCertificateStatus x24) = Some x24"
  "un_CAliyunCertificate (CAliyunCertificate x25) = Some x25"
  "un_CAliyunCertificates (CAliyunCertificates x26) = Some x26"
  "un_CAliyunCertificateList (CAliyunCertificateList x27) = Some x27"
  "un_CBindingTarget (CBindingTarget x28) = Some x28"
  "un_CAliyunCertificateBindingSpec (CAliyunCertificateBindingSpec x29) = Some x29"
  "un_CAliyunCertificateBindingStatus (CAliyunCertificateBindingStatus x30) = Some x30"
  "un_CAliyunCertificateBinding (CAliyunCertificateBinding x31) = Some x31"
  "un_CAliyunCertificateBindings (CAliyunCertificateBindings x32) = Some x32"
  "un_CAliyunCertificateBindingList (CAliyunCertificateBindingList x33) = Some x33"
  by (simp_all add: un_CBool_def un_CInt_def un_CInt64_def un_CTime_def un_CDuration_def
      un_CIssuerReference_def un_CLocalSecretReference_def un_CLocalObjectReference_def
      un_CFC3CustomDomainTarget_def un_COSSCustomDomainTarget_def un_CPrivateKey_def un_CX509Subject_def
      un_CSecretTemplate_def un_CStrings_def un_CUsages_def un_CConditions_def un_CIssuanceStatus_def
      un_CCertificateGeneration_def un_CPendingUpload_def un_CGenerations_def un_CAliyunSpec_def
      un_CRetentionSpec_def un_CCertificateTemplate_def un_CAliyunCertificateSpec_def
      un_CAliyunCertificateStatus_def un_CAliyunCertificate_def un_CAliyunCertificates_def
      un_CAliyunCertificateList_def un_CBindingTarget_def un_CAliyunCertificateBindingSpec_def
      un_CAliyunCertificateBindingStatus_def un_CAliyunCertificateBinding_def
      un_CAliyunCertificateBindings_def un_CAliyunCertificateBindingList_def)



section \<open>The libraries\<close>

record ('e, 'v) lib_type =
  lt_own :: "'e cell heap \<Rightarrow> 'e \<Rightarrow> addr set"
  lt_view :: "'e cell heap \<Rightarrow> 'e \<Rightarrow> 'v option"
  lt_DeepCopyInto :: "'e \<Rightarrow> ('e cell heap, 'e) state"

record 'e lib =
  lib_ObjectMeta :: "('e, object_meta) lib_type"
  lib_ListMeta :: "('e, opaque) lib_type"
  lib_X509Subject :: "('e, opaque) lib_type"
  lib_SecretTemplate :: "('e, CertificateSecretTemplate) lib_type"

text \<open>The documented behaviour of the deep copies of the libraries.\<close>

definition lib_type_ok :: "('e, 'v) lib_type \<Rightarrow> bool" where
  "lib_type_ok T \<longleftrightarrow> deep_copier (lt_own T) (lt_view T) (lt_DeepCopyInto T)"

definition lib_ok :: "'e lib \<Rightarrow> bool" where
  "lib_ok L \<longleftrightarrow> lib_type_ok (lib_ObjectMeta L) \<and> lib_type_ok (lib_ListMeta L) \<and>
     lib_type_ok (lib_X509Subject L) \<and> lib_type_ok (lib_SecretTemplate L)"

definition items :: "'a list option \<Rightarrow> 'a list" where
  "items s = (case s of None \<Rightarrow> [] | Some xs \<Rightarrow> xs)"

section \<open>Structs without references\<close>

definition LocalSecretReference_DeepCopyInto :: "string \<Rightarrow> ('e cell heap, string) state" where
  "LocalSecretReference_DeepCopyInto s = ret s"

definition LocalSecretReference_DeepCopy :: "addr option \<Rightarrow> ('e cell heap, addr option) state" where
  "LocalSecretReference_DeepCopy = ptr_copy CLocalSecretReference un_CLocalSecretReference
      LocalSecretReference_DeepCopyInto"

definition LocalObjectReference_DeepCopyInto :: "string \<Rightarrow> ('e cell heap, string) state" where
  "LocalObjectReference_DeepCopyInto s = ret s"

definition LocalObjectReference_DeepCopy :: "addr option \<Rightarrow> ('e cell heap, addr option) state" where
  "LocalObjectReference_DeepCopy = ptr_copy CLocalObjectReference un_CLocalObjectReference
      LocalObjectReference_DeepCopyInto"

definition FC3CustomDomainTarget_DeepCopyInto :: "FC3CustomDomainTarget \<Rightarrow> ('e cell heap,
    FC3CustomDomainTarget) state" where
  "FC3CustomDomainTarget_DeepCopyInto s = ret s"

definition FC3CustomDomainTarget_DeepCopy :: "addr option \<Rightarrow> ('e cell heap, addr option) state" where
  "FC3CustomDomainTarget_DeepCopy = ptr_copy CFC3CustomDomainTarget un_CFC3CustomDomainTarget
      FC3CustomDomainTarget_DeepCopyInto"

definition OSSCustomDomainTarget_DeepCopyInto :: "OSSCustomDomainTarget \<Rightarrow> ('e cell heap,
    OSSCustomDomainTarget) state" where
  "OSSCustomDomainTarget_DeepCopyInto s = ret s"

definition OSSCustomDomainTarget_DeepCopy :: "addr option \<Rightarrow> ('e cell heap, addr option) state" where
  "OSSCustomDomainTarget_DeepCopy = ptr_copy COSSCustomDomainTarget un_COSSCustomDomainTarget
      OSSCustomDomainTarget_DeepCopyInto"

definition PendingUpload_DeepCopyInto :: "PendingUpload \<Rightarrow> ('e cell heap, PendingUpload) state" where
  "PendingUpload_DeepCopyInto s = ret (s\<lparr>p_StartedAt := p_StartedAt s\<rparr>)"

definition PendingUpload_DeepCopy :: "addr option \<Rightarrow> ('e cell heap, addr option) state" where
  "PendingUpload_DeepCopy = ptr_copy CPendingUpload un_CPendingUpload PendingUpload_DeepCopyInto"

section \<open>AliyunCertificate\<close>

definition AliyunSpec_own :: "'e cell heap \<Rightarrow> go_AliyunSpec \<Rightarrow> addr set" where
  "AliyunSpec_own h s =
     ptr_own un_CBool flat_own h (ga_UploadToCAS s)"

definition AliyunSpec_view :: "'e cell heap \<Rightarrow> go_AliyunSpec \<Rightarrow> (AliyunSpec) option" where
  "AliyunSpec_view h s = do {
     v1 \<leftarrow> ptr_view un_CBool flat_view h (ga_UploadToCAS s);
     Some (\<lparr> a_CredentialsRef = ga_CredentialsRef s, a_Region = ga_Region s, a_CASRegion =
         ga_CASRegion s, a_EndpointOverride = ga_EndpointOverride s, a_ResourceGroupID = ga_ResourceGroupID
         s, a_UploadToCAS = v1 \<rparr>)
   }"

definition AliyunSpec_DeepCopyInto :: "go_AliyunSpec \<Rightarrow> ('e cell heap, go_AliyunSpec) state" where
  "AliyunSpec_DeepCopyInto s = do {
     x1 \<leftarrow> ptr_copy CBool un_CBool ret (ga_UploadToCAS s);
     ret (s\<lparr>ga_UploadToCAS := x1\<rparr>)
   }"

definition AliyunSpec_DeepCopy :: "addr option \<Rightarrow> ('e cell heap, addr option) state" where
  "AliyunSpec_DeepCopy = ptr_copy CAliyunSpec un_CAliyunSpec AliyunSpec_DeepCopyInto"

definition RetentionSpec_own :: "'e cell heap \<Rightarrow> go_RetentionSpec \<Rightarrow> addr set" where
  "RetentionSpec_own h s =
     ptr_own un_CDuration flat_own h (gr_MinAge s)"

definition RetentionSpec_view :: "'e cell heap \<Rightarrow> go_RetentionSpec \<Rightarrow> (RetentionSpec)
    option" where
  "RetentionSpec_view h s = do {
     v1 \<leftarrow> ptr_view un_CDuration flat_view h (gr_MinAge s);
     Some (\<lparr> r_KeepLast = gr_KeepLast s, r_MinAge = v1 \<rparr>)
   }"

definition RetentionSpec_DeepCopyInto :: "go_RetentionSpec \<Rightarrow> ('e cell heap, go_RetentionSpec)
    state" where
  "RetentionSpec_DeepCopyInto s = do {
     x1 \<leftarrow> ptr_copy CDuration un_CDuration ret (gr_MinAge s);
     ret (s\<lparr>gr_MinAge := x1\<rparr>)
   }"

definition RetentionSpec_DeepCopy :: "addr option \<Rightarrow> ('e cell heap, addr option) state" where
  "RetentionSpec_DeepCopy = ptr_copy CRetentionSpec un_CRetentionSpec RetentionSpec_DeepCopyInto"

definition CertificateTemplate_own :: "'e lib \<Rightarrow> 'e cell heap \<Rightarrow>
    go_CertificateTemplate \<Rightarrow> addr set" where
  "CertificateTemplate_own L h s =
     ptr_own un_CIssuerReference flat_own h (gt_IssuerRef s) \<union>
     (slice_own un_CStrings flat_own h (gt_DNSNames s) \<union>
     (slice_own un_CStrings flat_own h (gt_IPAddresses s) \<union>
     (ptr_own un_CDuration flat_own h (gt_Duration s) \<union>
     (ptr_own un_CDuration flat_own h (gt_RenewBefore s) \<union>
     (ptr_own un_CX509Subject (lt_own (lib_X509Subject L)) h (gt_Subject s) \<union>
     (slice_own un_CUsages flat_own h (gt_Usages s) \<union>
     (ptr_own un_CPrivateKey flat_own h (gt_PrivateKey s) \<union>
     (ptr_own un_CSecretTemplate (lt_own (lib_SecretTemplate L)) h (gt_SecretTemplate s)))))))))"

definition CertificateTemplate_view :: "'e lib \<Rightarrow> 'e cell heap \<Rightarrow>
    go_CertificateTemplate \<Rightarrow> (CertificateTemplate) option" where
  "CertificateTemplate_view L h s = do {
     v1 \<leftarrow> ptr_view un_CIssuerReference flat_view h (gt_IssuerRef s);
     v2 \<leftarrow> slice_view un_CStrings flat_view h (gt_DNSNames s);
     v3 \<leftarrow> slice_view un_CStrings flat_view h (gt_IPAddresses s);
     v4 \<leftarrow> ptr_view un_CDuration flat_view h (gt_Duration s);
     v5 \<leftarrow> ptr_view un_CDuration flat_view h (gt_RenewBefore s);
     v6 \<leftarrow> ptr_view un_CX509Subject (lt_view (lib_X509Subject L)) h (gt_Subject s);
     v7 \<leftarrow> slice_view un_CUsages flat_view h (gt_Usages s);
     v8 \<leftarrow> ptr_view un_CPrivateKey flat_view h (gt_PrivateKey s);
     v9 \<leftarrow> ptr_view un_CSecretTemplate (lt_view (lib_SecretTemplate L)) h (gt_SecretTemplate s);
     Some (\<lparr> t_IssuerRef = v1, t_CommonName = gt_CommonName s, t_DNSNames = items v2, t_IPAddresses =
         items v3, t_Duration = v4, t_RenewBefore = v5, t_Subject = v6, t_Usages = items v7, t_PrivateKey =
         v8, t_SecretTemplate = v9 \<rparr>)
   }"

definition CertificateTemplate_DeepCopyInto :: "'e lib \<Rightarrow> go_CertificateTemplate \<Rightarrow>
    ('e cell heap, go_CertificateTemplate) state" where
  "CertificateTemplate_DeepCopyInto L s = do {
     x1 \<leftarrow> ptr_copy CIssuerReference un_CIssuerReference ret (gt_IssuerRef s);
     x2 \<leftarrow> slice_copy CStrings un_CStrings ret (gt_DNSNames s);
     x3 \<leftarrow> slice_copy CStrings un_CStrings ret (gt_IPAddresses s);
     x4 \<leftarrow> ptr_copy CDuration un_CDuration ret (gt_Duration s);
     x5 \<leftarrow> ptr_copy CDuration un_CDuration ret (gt_RenewBefore s);
     x6 \<leftarrow> ptr_copy CX509Subject un_CX509Subject (lt_DeepCopyInto (lib_X509Subject L)) (gt_Subject s);
     x7 \<leftarrow> slice_copy CUsages un_CUsages ret (gt_Usages s);
     x8 \<leftarrow> ptr_copy CPrivateKey un_CPrivateKey ret (gt_PrivateKey s);
     x9 \<leftarrow> ptr_copy CSecretTemplate un_CSecretTemplate (lt_DeepCopyInto (lib_SecretTemplate L))
         (gt_SecretTemplate s);
     ret (s\<lparr>gt_IssuerRef := x1, gt_DNSNames := x2, gt_IPAddresses := x3, gt_Duration := x4,
         gt_RenewBefore := x5, gt_Subject := x6, gt_Usages := x7, gt_PrivateKey := x8, gt_SecretTemplate :=
         x9\<rparr>)
   }"

definition CertificateTemplate_DeepCopy :: "'e lib \<Rightarrow> addr option \<Rightarrow> ('e cell heap,
    addr option) state" where
  "CertificateTemplate_DeepCopy L = ptr_copy CCertificateTemplate un_CCertificateTemplate
      (CertificateTemplate_DeepCopyInto L)"

definition AliyunCertificateSpec_own :: "'e lib \<Rightarrow> 'e cell heap \<Rightarrow>
    go_AliyunCertificateSpec \<Rightarrow> addr set" where
  "AliyunCertificateSpec_own L h s =
     CertificateTemplate_own L h (gsp_CertificateTemplate s) \<union>
     (AliyunSpec_own h (gsp_Aliyun s) \<union>
     (RetentionSpec_own h (gsp_Retention s)))"

definition AliyunCertificateSpec_view :: "'e lib \<Rightarrow> 'e cell heap \<Rightarrow>
    go_AliyunCertificateSpec \<Rightarrow> (AliyunCertificateSpec) option" where
  "AliyunCertificateSpec_view L h s = do {
     v1 \<leftarrow> CertificateTemplate_view L h (gsp_CertificateTemplate s);
     v2 \<leftarrow> AliyunSpec_view h (gsp_Aliyun s);
     v3 \<leftarrow> RetentionSpec_view h (gsp_Retention s);
     Some (\<lparr> sp_SecretName = gsp_SecretName s, sp_CertificateTemplate = v1, sp_Aliyun = v2,
         sp_Retention = v3 \<rparr>)
   }"

definition AliyunCertificateSpec_DeepCopyInto :: "'e lib \<Rightarrow> go_AliyunCertificateSpec
    \<Rightarrow> ('e cell heap, go_AliyunCertificateSpec) state" where
  "AliyunCertificateSpec_DeepCopyInto L s = do {
     x1 \<leftarrow> CertificateTemplate_DeepCopyInto L (gsp_CertificateTemplate s);
     x2 \<leftarrow> AliyunSpec_DeepCopyInto (gsp_Aliyun s);
     x3 \<leftarrow> RetentionSpec_DeepCopyInto (gsp_Retention s);
     ret (s\<lparr>gsp_CertificateTemplate := x1, gsp_Aliyun := x2, gsp_Retention := x3\<rparr>)
   }"

definition AliyunCertificateSpec_DeepCopy :: "'e lib \<Rightarrow> addr option \<Rightarrow> ('e cell heap,
    addr option) state" where
  "AliyunCertificateSpec_DeepCopy L = ptr_copy CAliyunCertificateSpec un_CAliyunCertificateSpec
      (AliyunCertificateSpec_DeepCopyInto L)"

definition CertificateGeneration_own :: "'e cell heap \<Rightarrow> go_CertificateGeneration \<Rightarrow>
    addr set" where
  "CertificateGeneration_own h s =
     ptr_own un_CInt64 flat_own h (gg_CertID s)"

definition CertificateGeneration_view :: "'e cell heap \<Rightarrow> go_CertificateGeneration \<Rightarrow>
    (CertificateGeneration) option" where
  "CertificateGeneration_view h s = do {
     v1 \<leftarrow> ptr_view un_CInt64 flat_view h (gg_CertID s);
     Some (\<lparr> g_Fingerprint = gg_Fingerprint s, g_CertID = v1, g_CASName = gg_CASName s, g_NotBefore =
         gg_NotBefore s, g_NotAfter = gg_NotAfter s, g_UploadedAt = gg_UploadedAt s \<rparr>)
   }"

definition CertificateGeneration_DeepCopyInto :: "go_CertificateGeneration \<Rightarrow> ('e cell heap,
    go_CertificateGeneration) state" where
  "CertificateGeneration_DeepCopyInto s = do {
     x1 \<leftarrow> ptr_copy CInt64 un_CInt64 ret (gg_CertID s);
     ret (s\<lparr>gg_CertID := x1\<rparr>)
   }"

definition CertificateGeneration_DeepCopy :: "addr option \<Rightarrow> ('e cell heap, addr option) state" where
  "CertificateGeneration_DeepCopy = ptr_copy CCertificateGeneration un_CCertificateGeneration
      CertificateGeneration_DeepCopyInto"

definition IssuanceStatus_own :: "'e cell heap \<Rightarrow> go_IssuanceStatus \<Rightarrow> addr set" where
  "IssuanceStatus_own h s =
     ptr_own un_CInt flat_own h (gi_Revision s) \<union>
     (ptr_own un_CTime flat_own h (gi_RenewalTime s) \<union>
     (ptr_own un_CInt flat_own h (gi_FailedIssuanceAttempts s) \<union>
     (ptr_own un_CTime flat_own h (gi_LastFailureTime s))))"

definition IssuanceStatus_view :: "'e cell heap \<Rightarrow> go_IssuanceStatus \<Rightarrow>
    (IssuanceStatus) option" where
  "IssuanceStatus_view h s = do {
     v1 \<leftarrow> ptr_view un_CInt flat_view h (gi_Revision s);
     v2 \<leftarrow> ptr_view un_CTime flat_view h (gi_RenewalTime s);
     v3 \<leftarrow> ptr_view un_CInt flat_view h (gi_FailedIssuanceAttempts s);
     v4 \<leftarrow> ptr_view un_CTime flat_view h (gi_LastFailureTime s);
     Some (\<lparr> i_Revision = v1, i_RenewalTime = v2, i_FailedIssuanceAttempts = v3, i_LastFailureTime =
         v4 \<rparr>)
   }"

definition IssuanceStatus_DeepCopyInto :: "go_IssuanceStatus \<Rightarrow> ('e cell heap, go_IssuanceStatus)
    state" where
  "IssuanceStatus_DeepCopyInto s = do {
     x1 \<leftarrow> ptr_copy CInt un_CInt ret (gi_Revision s);
     x2 \<leftarrow> ptr_copy CTime un_CTime ret (gi_RenewalTime s);
     x3 \<leftarrow> ptr_copy CInt un_CInt ret (gi_FailedIssuanceAttempts s);
     x4 \<leftarrow> ptr_copy CTime un_CTime ret (gi_LastFailureTime s);
     ret (s\<lparr>gi_Revision := x1, gi_RenewalTime := x2, gi_FailedIssuanceAttempts := x3,
         gi_LastFailureTime := x4\<rparr>)
   }"

definition IssuanceStatus_DeepCopy :: "addr option \<Rightarrow> ('e cell heap, addr option) state" where
  "IssuanceStatus_DeepCopy = ptr_copy CIssuanceStatus un_CIssuanceStatus IssuanceStatus_DeepCopyInto"

definition AliyunCertificateStatus_own :: "'e cell heap \<Rightarrow> go_AliyunCertificateStatus
    \<Rightarrow> addr set" where
  "AliyunCertificateStatus_own h s =
     ptr_own un_CIssuerReference flat_own h (gx_EffectiveIssuerRef s) \<union>
     (ptr_own un_CIssuanceStatus IssuanceStatus_own h (gx_Issuance s) \<union>
     (ptr_own un_CCertificateGeneration CertificateGeneration_own h (gx_Current s) \<union>
     (slice_own un_CGenerations CertificateGeneration_own h (gx_History s) \<union>
     (ptr_own un_CPendingUpload flat_own h (gx_PendingUpload s) \<union>
     (ptr_own un_CTime flat_own h (gx_CASProbedAt s) \<union>
     (ptr_own un_CTime flat_own h (gx_CleanupStartedAt s) \<union>
     (slice_own un_CConditions flat_own h (gx_Conditions s))))))))"

definition AliyunCertificateStatus_view :: "'e cell heap \<Rightarrow> go_AliyunCertificateStatus
    \<Rightarrow> (AliyunCertificateStatus) option" where
  "AliyunCertificateStatus_view h s = do {
     v1 \<leftarrow> ptr_view un_CIssuerReference flat_view h (gx_EffectiveIssuerRef s);
     v2 \<leftarrow> ptr_view un_CIssuanceStatus IssuanceStatus_view h (gx_Issuance s);
     v3 \<leftarrow> ptr_view un_CCertificateGeneration CertificateGeneration_view h (gx_Current s);
     v4 \<leftarrow> slice_view un_CGenerations CertificateGeneration_view h (gx_History s);
     v5 \<leftarrow> ptr_view un_CPendingUpload flat_view h (gx_PendingUpload s);
     v6 \<leftarrow> ptr_view un_CTime flat_view h (gx_CASProbedAt s);
     v7 \<leftarrow> ptr_view un_CTime flat_view h (gx_CleanupStartedAt s);
     v8 \<leftarrow> slice_view un_CConditions flat_view h (gx_Conditions s);
     Some (\<lparr> x_ObservedGeneration = gx_ObservedGeneration s, x_EffectiveIssuerRef = v1, x_SecretName
         = gx_SecretName s, x_CertManagerCertificateName = gx_CertManagerCertificateName s, x_Issuance = v2,
         x_Current = v3, x_History = items v4, x_PendingUpload = v5, x_CASProbedAt = v6, x_CleanupStartedAt
         = v7, x_Conditions = items v8 \<rparr>)
   }"

definition AliyunCertificateStatus_DeepCopyInto :: "go_AliyunCertificateStatus \<Rightarrow> ('e cell heap,
    go_AliyunCertificateStatus) state" where
  "AliyunCertificateStatus_DeepCopyInto s = do {
     x1 \<leftarrow> ptr_copy CIssuerReference un_CIssuerReference ret (gx_EffectiveIssuerRef s);
     x2 \<leftarrow> ptr_copy CIssuanceStatus un_CIssuanceStatus IssuanceStatus_DeepCopyInto (gx_Issuance s);
     x3 \<leftarrow> ptr_copy CCertificateGeneration un_CCertificateGeneration
         CertificateGeneration_DeepCopyInto (gx_Current s);
     x4 \<leftarrow> slice_copy CGenerations un_CGenerations CertificateGeneration_DeepCopyInto (gx_History s);
     x5 \<leftarrow> ptr_copy CPendingUpload un_CPendingUpload PendingUpload_DeepCopyInto (gx_PendingUpload s);
     x6 \<leftarrow> ptr_copy CTime un_CTime ret (gx_CASProbedAt s);
     x7 \<leftarrow> ptr_copy CTime un_CTime ret (gx_CleanupStartedAt s);
     x8 \<leftarrow> slice_copy CConditions un_CConditions ret (gx_Conditions s);
     ret (s\<lparr>gx_EffectiveIssuerRef := x1, gx_Issuance := x2, gx_Current := x3, gx_History := x4,
         gx_PendingUpload := x5, gx_CASProbedAt := x6, gx_CleanupStartedAt := x7, gx_Conditions :=
         x8\<rparr>)
   }"

definition AliyunCertificateStatus_DeepCopy :: "addr option \<Rightarrow> ('e cell heap, addr option) state" where
  "AliyunCertificateStatus_DeepCopy = ptr_copy CAliyunCertificateStatus un_CAliyunCertificateStatus
      AliyunCertificateStatus_DeepCopyInto"

definition AliyunCertificate_own :: "'e lib \<Rightarrow> 'e cell heap \<Rightarrow> 'e go_AliyunCertificate
    \<Rightarrow> addr set" where
  "AliyunCertificate_own L h s =
     lt_own (lib_ObjectMeta L) h (gac_ObjectMeta s) \<union>
     (AliyunCertificateSpec_own L h (gac_Spec s) \<union>
     (AliyunCertificateStatus_own h (gac_Status s)))"

definition AliyunCertificate_view :: "'e lib \<Rightarrow> 'e cell heap \<Rightarrow> 'e
    go_AliyunCertificate \<Rightarrow> ((type_meta \<times> object_meta) \<times> AliyunCertificate) option"
    where
  "AliyunCertificate_view L h s = do {
     v1 \<leftarrow> lt_view (lib_ObjectMeta L) h (gac_ObjectMeta s);
     v2 \<leftarrow> AliyunCertificateSpec_view L h (gac_Spec s);
     v3 \<leftarrow> AliyunCertificateStatus_view h (gac_Status s);
     Some (((gac_TypeMeta s, v1), \<lparr> ac_Namespace = om_Namespace v1, ac_Name = om_Name v1, ac_UID =
         om_UID v1,
       ac_Generation = om_Generation v1, ac_DeletionTimestamp = om_DeletionTimestamp v1, ac_Finalizers =
           om_Finalizers v1,
       ac_Spec = v2, ac_Status = v3 \<rparr>))
   }"

definition AliyunCertificate_DeepCopyInto :: "'e lib \<Rightarrow> 'e go_AliyunCertificate \<Rightarrow> ('e
    cell heap, 'e go_AliyunCertificate) state" where
  "AliyunCertificate_DeepCopyInto L s = do {
     x1 \<leftarrow> lt_DeepCopyInto (lib_ObjectMeta L) (gac_ObjectMeta s);
     x2 \<leftarrow> AliyunCertificateSpec_DeepCopyInto L (gac_Spec s);
     x3 \<leftarrow> AliyunCertificateStatus_DeepCopyInto (gac_Status s);
     ret (s\<lparr>gac_ObjectMeta := x1, gac_Spec := x2, gac_Status := x3\<rparr>)
   }"

definition AliyunCertificate_DeepCopy :: "'e lib \<Rightarrow> addr option \<Rightarrow> ('e cell heap, addr
    option) state" where
  "AliyunCertificate_DeepCopy L = ptr_copy CAliyunCertificate un_CAliyunCertificate
      (AliyunCertificate_DeepCopyInto L)"

definition AliyunCertificateList_own :: "'e lib \<Rightarrow> 'e cell heap \<Rightarrow> 'e
    go_AliyunCertificateList \<Rightarrow> addr set" where
  "AliyunCertificateList_own L h s =
     lt_own (lib_ListMeta L) h (gacl_ListMeta s) \<union>
     (slice_own un_CAliyunCertificates (AliyunCertificate_own L) h (gacl_Items s))"

definition AliyunCertificateList_view :: "'e lib \<Rightarrow> 'e cell heap \<Rightarrow> 'e
    go_AliyunCertificateList \<Rightarrow> ((type_meta \<times> opaque) \<times> ((type_meta \<times>
    object_meta) \<times> AliyunCertificate) list) option" where
  "AliyunCertificateList_view L h s = do {
     v1 \<leftarrow> lt_view (lib_ListMeta L) h (gacl_ListMeta s);
     v2 \<leftarrow> slice_view un_CAliyunCertificates (AliyunCertificate_view L) h (gacl_Items s);
     Some (((gacl_TypeMeta s, v1), items v2))
   }"

definition AliyunCertificateList_DeepCopyInto :: "'e lib \<Rightarrow> 'e go_AliyunCertificateList
    \<Rightarrow> ('e cell heap, 'e go_AliyunCertificateList) state" where
  "AliyunCertificateList_DeepCopyInto L s = do {
     x1 \<leftarrow> lt_DeepCopyInto (lib_ListMeta L) (gacl_ListMeta s);
     x2 \<leftarrow> slice_copy CAliyunCertificates un_CAliyunCertificates (AliyunCertificate_DeepCopyInto
         L) (gacl_Items s);
     ret (s\<lparr>gacl_ListMeta := x1, gacl_Items := x2\<rparr>)
   }"

definition AliyunCertificateList_DeepCopy :: "'e lib \<Rightarrow> addr option \<Rightarrow> ('e cell heap,
    addr option) state" where
  "AliyunCertificateList_DeepCopy L = ptr_copy CAliyunCertificateList un_CAliyunCertificateList
      (AliyunCertificateList_DeepCopyInto L)"

section \<open>AliyunCertificateBinding\<close>

definition BindingTarget_own :: "'e cell heap \<Rightarrow> go_BindingTarget \<Rightarrow> addr set" where
  "BindingTarget_own h s =
     ptr_own un_CFC3CustomDomainTarget flat_own h (gbt_FC3CustomDomain s) \<union>
     (ptr_own un_COSSCustomDomainTarget flat_own h (gbt_OSSCustomDomain s))"

definition BindingTarget_view :: "'e cell heap \<Rightarrow> go_BindingTarget \<Rightarrow> (BindingTarget)
    option" where
  "BindingTarget_view h s = do {
     v1 \<leftarrow> ptr_view un_CFC3CustomDomainTarget flat_view h (gbt_FC3CustomDomain s);
     v2 \<leftarrow> ptr_view un_COSSCustomDomainTarget flat_view h (gbt_OSSCustomDomain s);
     Some (\<lparr> bt_Type = gbt_Type s, bt_FC3CustomDomain = v1, bt_OSSCustomDomain = v2 \<rparr>)
   }"

definition BindingTarget_DeepCopyInto :: "go_BindingTarget \<Rightarrow> ('e cell heap, go_BindingTarget)
    state" where
  "BindingTarget_DeepCopyInto s = do {
     x1 \<leftarrow> ptr_copy CFC3CustomDomainTarget un_CFC3CustomDomainTarget ret (gbt_FC3CustomDomain s);
     x2 \<leftarrow> ptr_copy COSSCustomDomainTarget un_COSSCustomDomainTarget ret (gbt_OSSCustomDomain s);
     ret (s\<lparr>gbt_FC3CustomDomain := x1, gbt_OSSCustomDomain := x2\<rparr>)
   }"

definition BindingTarget_DeepCopy :: "addr option \<Rightarrow> ('e cell heap, addr option) state" where
  "BindingTarget_DeepCopy = ptr_copy CBindingTarget un_CBindingTarget BindingTarget_DeepCopyInto"

definition AliyunCertificateBindingSpec_own :: "'e cell heap \<Rightarrow> go_AliyunCertificateBindingSpec
    \<Rightarrow> addr set" where
  "AliyunCertificateBindingSpec_own h s =
     BindingTarget_own h (gbs_Target s) \<union>
     (ptr_own un_CLocalSecretReference flat_own h (gbs_CredentialsRef s))"

definition AliyunCertificateBindingSpec_view :: "'e cell heap \<Rightarrow> go_AliyunCertificateBindingSpec
    \<Rightarrow> (AliyunCertificateBindingSpec) option" where
  "AliyunCertificateBindingSpec_view h s = do {
     v1 \<leftarrow> BindingTarget_view h (gbs_Target s);
     v2 \<leftarrow> ptr_view un_CLocalSecretReference flat_view h (gbs_CredentialsRef s);
     Some (\<lparr> bs_CertificateRef = gbs_CertificateRef s, bs_Target = v1, bs_CredentialsRef = v2,
         bs_DeletionPolicy = gbs_DeletionPolicy s \<rparr>)
   }"

definition AliyunCertificateBindingSpec_DeepCopyInto :: "go_AliyunCertificateBindingSpec \<Rightarrow> ('e
    cell heap, go_AliyunCertificateBindingSpec) state" where
  "AliyunCertificateBindingSpec_DeepCopyInto s = do {
     x1 \<leftarrow> BindingTarget_DeepCopyInto (gbs_Target s);
     x2 \<leftarrow> ptr_copy CLocalSecretReference un_CLocalSecretReference ret (gbs_CredentialsRef s);
     ret (s\<lparr>gbs_Target := x1, gbs_CredentialsRef := x2\<rparr>)
   }"

definition AliyunCertificateBindingSpec_DeepCopy :: "addr option \<Rightarrow> ('e cell heap, addr option)
    state" where
  "AliyunCertificateBindingSpec_DeepCopy = ptr_copy CAliyunCertificateBindingSpec
      un_CAliyunCertificateBindingSpec AliyunCertificateBindingSpec_DeepCopyInto"

definition AliyunCertificateBindingStatus_own :: "'e cell heap \<Rightarrow>
    go_AliyunCertificateBindingStatus \<Rightarrow> addr set" where
  "AliyunCertificateBindingStatus_own h s =
     ptr_own un_CTime flat_own h (gbx_LastAppliedTime s) \<union>
     (ptr_own un_CTime flat_own h (gbx_LastObservedTime s) \<union>
     (ptr_own un_CTime flat_own h (gbx_CleanupStartedAt s) \<union>
     (slice_own un_CConditions flat_own h (gbx_Conditions s))))"

definition AliyunCertificateBindingStatus_view :: "'e cell heap \<Rightarrow>
    go_AliyunCertificateBindingStatus \<Rightarrow> (AliyunCertificateBindingStatus) option" where
  "AliyunCertificateBindingStatus_view h s = do {
     v1 \<leftarrow> ptr_view un_CTime flat_view h (gbx_LastAppliedTime s);
     v2 \<leftarrow> ptr_view un_CTime flat_view h (gbx_LastObservedTime s);
     v3 \<leftarrow> ptr_view un_CTime flat_view h (gbx_CleanupStartedAt s);
     v4 \<leftarrow> slice_view un_CConditions flat_view h (gbx_Conditions s);
     Some (\<lparr> bx_ObservedGeneration = gbx_ObservedGeneration s, bx_AppliedFingerprint =
         gbx_AppliedFingerprint s, bx_DriftedFingerprint = gbx_DriftedFingerprint s, bx_AppliedCertRef =
         gbx_AppliedCertRef s, bx_DriftedCertRef = gbx_DriftedCertRef s, bx_LastAppliedTime = v1,
         bx_LastObservedTime = v2, bx_BoundAccountID = gbx_BoundAccountID s, bx_CleanupStartedAt = v3,
         bx_Conditions = items v4 \<rparr>)
   }"

definition AliyunCertificateBindingStatus_DeepCopyInto :: "go_AliyunCertificateBindingStatus \<Rightarrow>
    ('e cell heap, go_AliyunCertificateBindingStatus) state" where
  "AliyunCertificateBindingStatus_DeepCopyInto s = do {
     x1 \<leftarrow> ptr_copy CTime un_CTime ret (gbx_LastAppliedTime s);
     x2 \<leftarrow> ptr_copy CTime un_CTime ret (gbx_LastObservedTime s);
     x3 \<leftarrow> ptr_copy CTime un_CTime ret (gbx_CleanupStartedAt s);
     x4 \<leftarrow> slice_copy CConditions un_CConditions ret (gbx_Conditions s);
     ret (s\<lparr>gbx_LastAppliedTime := x1, gbx_LastObservedTime := x2, gbx_CleanupStartedAt := x3,
         gbx_Conditions := x4\<rparr>)
   }"

definition AliyunCertificateBindingStatus_DeepCopy :: "addr option \<Rightarrow> ('e cell heap, addr option)
    state" where
  "AliyunCertificateBindingStatus_DeepCopy = ptr_copy CAliyunCertificateBindingStatus
      un_CAliyunCertificateBindingStatus AliyunCertificateBindingStatus_DeepCopyInto"

definition AliyunCertificateBinding_own :: "'e lib \<Rightarrow> 'e cell heap \<Rightarrow> 'e
    go_AliyunCertificateBinding \<Rightarrow> addr set" where
  "AliyunCertificateBinding_own L h s =
     lt_own (lib_ObjectMeta L) h (gb_ObjectMeta s) \<union>
     (AliyunCertificateBindingSpec_own h (gb_Spec s) \<union>
     (AliyunCertificateBindingStatus_own h (gb_Status s)))"

definition AliyunCertificateBinding_view :: "'e lib \<Rightarrow> 'e cell heap \<Rightarrow> 'e
    go_AliyunCertificateBinding \<Rightarrow> ((type_meta \<times> object_meta) \<times>
    AliyunCertificateBinding) option" where
  "AliyunCertificateBinding_view L h s = do {
     v1 \<leftarrow> lt_view (lib_ObjectMeta L) h (gb_ObjectMeta s);
     v2 \<leftarrow> AliyunCertificateBindingSpec_view h (gb_Spec s);
     v3 \<leftarrow> AliyunCertificateBindingStatus_view h (gb_Status s);
     Some (((gb_TypeMeta s, v1), \<lparr> b_Namespace = om_Namespace v1, b_Name = om_Name v1, b_UID = om_UID v1,
       b_Generation = om_Generation v1, b_CreationTimestamp = om_CreationTimestamp v1,
       b_DeletionTimestamp = om_DeletionTimestamp v1, b_Finalizers = om_Finalizers v1, b_Spec = v2, b_Status
           = v3 \<rparr>))
   }"

definition AliyunCertificateBinding_DeepCopyInto :: "'e lib \<Rightarrow> 'e go_AliyunCertificateBinding
    \<Rightarrow> ('e cell heap, 'e go_AliyunCertificateBinding) state" where
  "AliyunCertificateBinding_DeepCopyInto L s = do {
     x1 \<leftarrow> lt_DeepCopyInto (lib_ObjectMeta L) (gb_ObjectMeta s);
     x2 \<leftarrow> AliyunCertificateBindingSpec_DeepCopyInto (gb_Spec s);
     x3 \<leftarrow> AliyunCertificateBindingStatus_DeepCopyInto (gb_Status s);
     ret (s\<lparr>gb_ObjectMeta := x1, gb_Spec := x2, gb_Status := x3\<rparr>)
   }"

definition AliyunCertificateBinding_DeepCopy :: "'e lib \<Rightarrow> addr option \<Rightarrow> ('e cell
    heap, addr option) state" where
  "AliyunCertificateBinding_DeepCopy L = ptr_copy CAliyunCertificateBinding un_CAliyunCertificateBinding
      (AliyunCertificateBinding_DeepCopyInto L)"

definition AliyunCertificateBindingList_own :: "'e lib \<Rightarrow> 'e cell heap \<Rightarrow> 'e
    go_AliyunCertificateBindingList \<Rightarrow> addr set" where
  "AliyunCertificateBindingList_own L h s =
     lt_own (lib_ListMeta L) h (gbl_ListMeta s) \<union>
     (slice_own un_CAliyunCertificateBindings (AliyunCertificateBinding_own L) h (gbl_Items s))"

definition AliyunCertificateBindingList_view :: "'e lib \<Rightarrow> 'e cell heap \<Rightarrow> 'e
    go_AliyunCertificateBindingList \<Rightarrow> ((type_meta \<times> opaque) \<times> ((type_meta \<times>
    object_meta) \<times> AliyunCertificateBinding) list) option" where
  "AliyunCertificateBindingList_view L h s = do {
     v1 \<leftarrow> lt_view (lib_ListMeta L) h (gbl_ListMeta s);
     v2 \<leftarrow> slice_view un_CAliyunCertificateBindings (AliyunCertificateBinding_view L) h (gbl_Items s);
     Some (((gbl_TypeMeta s, v1), items v2))
   }"

definition AliyunCertificateBindingList_DeepCopyInto :: "'e lib \<Rightarrow> 'e
    go_AliyunCertificateBindingList \<Rightarrow> ('e cell heap, 'e go_AliyunCertificateBindingList) state"
    where
  "AliyunCertificateBindingList_DeepCopyInto L s = do {
     x1 \<leftarrow> lt_DeepCopyInto (lib_ListMeta L) (gbl_ListMeta s);
     x2 \<leftarrow> slice_copy CAliyunCertificateBindings un_CAliyunCertificateBindings
         (AliyunCertificateBinding_DeepCopyInto L) (gbl_Items s);
     ret (s\<lparr>gbl_ListMeta := x1, gbl_Items := x2\<rparr>)
   }"

definition AliyunCertificateBindingList_DeepCopy :: "'e lib \<Rightarrow> addr option \<Rightarrow> ('e cell
    heap, addr option) state" where
  "AliyunCertificateBindingList_DeepCopy L = ptr_copy CAliyunCertificateBindingList
      un_CAliyunCertificateBindingList (AliyunCertificateBindingList_DeepCopyInto L)"

section \<open>Objects behind an interface\<close>

text \<open>A \<open>runtime.Object\<close>: the nil interface, or the type of the object with the pointer. The
  interface of a nil pointer would not be nil, which is why the code tests the pointer.\<close>

datatype runtime_object = NilObject | ObjectOf string addr

definition DeepCopyObject :: "string \<Rightarrow> (addr option \<Rightarrow> ('e cell heap, addr option)
    state) \<Rightarrow>
    addr option \<Rightarrow> ('e cell heap, runtime_object) state" where
  "DeepCopyObject typ copy p = do {
     c \<leftarrow> copy p;
     ret (case c of Some a \<Rightarrow> ObjectOf typ a | None \<Rightarrow> NilObject)
   }"

definition AliyunCertificate_DeepCopyObject :: "'e lib \<Rightarrow> addr option \<Rightarrow> ('e cell
    heap, runtime_object) state" where
  "AliyunCertificate_DeepCopyObject L = DeepCopyObject ''*AliyunCertificate'' (AliyunCertificate_DeepCopy L)"

definition AliyunCertificateList_DeepCopyObject :: "'e lib \<Rightarrow> addr option \<Rightarrow> ('e cell
    heap, runtime_object) state" where
  "AliyunCertificateList_DeepCopyObject L = DeepCopyObject ''*AliyunCertificateList''
      (AliyunCertificateList_DeepCopy L)"

definition AliyunCertificateBinding_DeepCopyObject :: "'e lib \<Rightarrow> addr option \<Rightarrow> ('e
    cell heap, runtime_object) state" where
  "AliyunCertificateBinding_DeepCopyObject L = DeepCopyObject ''*AliyunCertificateBinding''
      (AliyunCertificateBinding_DeepCopy L)"

definition AliyunCertificateBindingList_DeepCopyObject :: "'e lib \<Rightarrow> addr option \<Rightarrow>
    ('e cell heap, runtime_object) state" where
  "AliyunCertificateBindingList_DeepCopyObject L = DeepCopyObject ''*AliyunCertificateBindingList''
      (AliyunCertificateBindingList_DeepCopy L)"

section \<open>Lemmas\<close>

lemma deep_copier_PendingUpload: "deep_copier flat_own flat_view PendingUpload_DeepCopyInto"
  by (simp add: PendingUpload_DeepCopyInto_def [abs_def] deep_copier_flat)

lemma lib_ObjectMeta_ok: "lib_ok L \<Longrightarrow> deep_copier (lt_own (lib_ObjectMeta L)) (lt_view
    (lib_ObjectMeta L)) (lt_DeepCopyInto (lib_ObjectMeta L))"
  and lib_ListMeta_ok: "lib_ok L \<Longrightarrow> deep_copier (lt_own (lib_ListMeta L)) (lt_view
      (lib_ListMeta L)) (lt_DeepCopyInto (lib_ListMeta L))"
  and lib_X509Subject_ok: "lib_ok L \<Longrightarrow> deep_copier (lt_own (lib_X509Subject L)) (lt_view
      (lib_X509Subject L)) (lt_DeepCopyInto (lib_X509Subject L))"
  and lib_SecretTemplate_ok: "lib_ok L \<Longrightarrow> deep_copier (lt_own (lib_SecretTemplate L))
      (lt_view (lib_SecretTemplate L)) (lt_DeepCopyInto (lib_SecretTemplate L))"
  by (simp_all add: lib_ok_def lib_type_ok_def)

lemma map_option_bind: "map_option f (Option.bind m g) = Option.bind m (\<lambda>x. map_option f (g x))"
  by (cases m) auto

lemma bind_Some: "Option.bind m (\<lambda>x. Some (f x)) = map_option f m"
  by (cases m) auto

lemmas struct_simps = bind_Some option.map_comp comp_def pair_own_def pair_view_def pair_copy_def
    map_option_bind Option.bind_assoc State_Monad.bind_assoc

text \<open>Pointers to values and slices of values.\<close>

lemmas copier_CBool = deep_copier_ptr [OF deep_copier_flat, where dest = un_CBool and mk = CBool, OF
    un_simps(1)]
lemmas copier_CInt = deep_copier_ptr [OF deep_copier_flat, where dest = un_CInt and mk = CInt, OF un_simps(2)]
lemmas copier_CInt64 = deep_copier_ptr [OF deep_copier_flat, where dest = un_CInt64 and mk = CInt64, OF
    un_simps(3)]
lemmas copier_CTime = deep_copier_ptr [OF deep_copier_flat, where dest = un_CTime and mk = CTime, OF
    un_simps(4)]
lemmas copier_CDuration = deep_copier_ptr [OF deep_copier_flat, where dest = un_CDuration and mk =
    CDuration, OF un_simps(5)]
lemmas copier_CIssuerReference = deep_copier_ptr [OF deep_copier_flat, where dest = un_CIssuerReference and
    mk = CIssuerReference, OF un_simps(6)]
lemmas copier_CLocalSecretReference = deep_copier_ptr [OF deep_copier_flat, where dest =
    un_CLocalSecretReference and mk = CLocalSecretReference, OF un_simps(7)]
lemmas copier_CFC3CustomDomainTarget = deep_copier_ptr [OF deep_copier_flat, where dest =
    un_CFC3CustomDomainTarget and mk = CFC3CustomDomainTarget, OF un_simps(9)]
lemmas copier_COSSCustomDomainTarget = deep_copier_ptr [OF deep_copier_flat, where dest =
    un_COSSCustomDomainTarget and mk = COSSCustomDomainTarget, OF un_simps(10)]
lemmas copier_CPrivateKey = deep_copier_ptr [OF deep_copier_flat, where dest = un_CPrivateKey and mk =
    CPrivateKey, OF un_simps(11)]
lemmas copier_CStrings = deep_copier_slice [OF deep_copier_flat, where dest = un_CStrings and mk = CStrings,
    OF un_simps(14)]
lemmas copier_CUsages = deep_copier_slice [OF deep_copier_flat, where dest = un_CUsages and mk = CUsages, OF
    un_simps(15)]
lemmas copier_CConditions = deep_copier_slice [OF deep_copier_flat, where dest = un_CConditions and mk =
    CConditions, OF un_simps(16)]

text \<open>The contract of every generated \<open>DeepCopyInto\<close>.\<close>

lemma deep_copier_AliyunSpec:
  "deep_copier AliyunSpec_own AliyunSpec_view AliyunSpec_DeepCopyInto"
proof -
  note c1 = copier_CBool
  show ?thesis
    by (rule deep_copier_struct [OF c1, where get = "\<lambda>s. ga_UploadToCAS s"
        and put = "\<lambda>x1 s. s\<lparr>ga_UploadToCAS := x1\<rparr>"
        and mk = "\<lambda>s v1. \<lparr> a_CredentialsRef = ga_CredentialsRef s, a_Region = ga_Region s,
            a_CASRegion = ga_CASRegion s, a_EndpointOverride = ga_EndpointOverride s, a_ResourceGroupID =
            ga_ResourceGroupID s, a_UploadToCAS = v1 \<rparr>"])
      (auto simp: struct_simps AliyunSpec_own_def AliyunSpec_view_def AliyunSpec_DeepCopyInto_def)
qed

lemma deep_copier_RetentionSpec:
  "deep_copier RetentionSpec_own RetentionSpec_view RetentionSpec_DeepCopyInto"
proof -
  note c1 = copier_CDuration
  show ?thesis
    by (rule deep_copier_struct [OF c1, where get = "\<lambda>s. gr_MinAge s"
        and put = "\<lambda>x1 s. s\<lparr>gr_MinAge := x1\<rparr>"
        and mk = "\<lambda>s v1. \<lparr> r_KeepLast = gr_KeepLast s, r_MinAge = v1 \<rparr>"])
      (auto simp: struct_simps RetentionSpec_own_def RetentionSpec_view_def RetentionSpec_DeepCopyInto_def)
qed

lemma deep_copier_CertificateTemplate:
  assumes L: "lib_ok L"
  shows "deep_copier (CertificateTemplate_own L) (CertificateTemplate_view L)
      (CertificateTemplate_DeepCopyInto L)"
proof -
  note c1 = copier_CIssuerReference
  note c2 = copier_CStrings
  note c3 = copier_CStrings
  note c4 = copier_CDuration
  note c5 = copier_CDuration
  note c6 = deep_copier_ptr [OF lib_X509Subject_ok [OF L], where dest = un_CX509Subject and mk =
      CX509Subject, OF un_simps(12)]
  note c7 = copier_CUsages
  note c8 = copier_CPrivateKey
  note c9 = deep_copier_ptr [OF lib_SecretTemplate_ok [OF L], where dest = un_CSecretTemplate and mk =
      CSecretTemplate, OF un_simps(13)]
  note p8 = deep_copier_pair [OF c8 c9]
  note p7 = deep_copier_pair [OF c7 p8]
  note p6 = deep_copier_pair [OF c6 p7]
  note p5 = deep_copier_pair [OF c5 p6]
  note p4 = deep_copier_pair [OF c4 p5]
  note p3 = deep_copier_pair [OF c3 p4]
  note p2 = deep_copier_pair [OF c2 p3]
  note p1 = deep_copier_pair [OF c1 p2]
  show ?thesis
    by (rule deep_copier_struct [OF p1, where get = "\<lambda>s. (gt_IssuerRef s, (gt_DNSNames s,
        (gt_IPAddresses s, (gt_Duration s, (gt_RenewBefore s, (gt_Subject s, (gt_Usages s, (gt_PrivateKey s,
        gt_SecretTemplate s))))))))"
        and put = "\<lambda>(x1, (x2, (x3, (x4, (x5, (x6, (x7, (x8, x9)))))))) s. s\<lparr>gt_IssuerRef :=
            x1, gt_DNSNames := x2, gt_IPAddresses := x3, gt_Duration := x4, gt_RenewBefore := x5, gt_Subject
            := x6, gt_Usages := x7, gt_PrivateKey := x8, gt_SecretTemplate := x9\<rparr>"
        and mk = "\<lambda>s (v1, (v2, (v3, (v4, (v5, (v6, (v7, (v8, v9)))))))). \<lparr> t_IssuerRef = v1,
            t_CommonName = gt_CommonName s, t_DNSNames = items v2, t_IPAddresses = items v3, t_Duration =
            v4, t_RenewBefore = v5, t_Subject = v6, t_Usages = items v7, t_PrivateKey = v8, t_SecretTemplate
            = v9 \<rparr>"])
      (auto simp: struct_simps CertificateTemplate_own_def CertificateTemplate_view_def
          CertificateTemplate_DeepCopyInto_def split: prod.splits)
qed

lemma deep_copier_AliyunCertificateSpec:
  assumes L: "lib_ok L"
  shows "deep_copier (AliyunCertificateSpec_own L) (AliyunCertificateSpec_view L)
      (AliyunCertificateSpec_DeepCopyInto L)"
proof -
  note c1 = deep_copier_CertificateTemplate [OF L]
  note c2 = deep_copier_AliyunSpec
  note c3 = deep_copier_RetentionSpec
  note p2 = deep_copier_pair [OF c2 c3]
  note p1 = deep_copier_pair [OF c1 p2]
  show ?thesis
    by (rule deep_copier_struct [OF p1, where get = "\<lambda>s. (gsp_CertificateTemplate s, (gsp_Aliyun s,
        gsp_Retention s))"
        and put = "\<lambda>(x1, (x2, x3)) s. s\<lparr>gsp_CertificateTemplate := x1, gsp_Aliyun := x2,
            gsp_Retention := x3\<rparr>"
        and mk = "\<lambda>s (v1, (v2, v3)). \<lparr> sp_SecretName = gsp_SecretName s,
            sp_CertificateTemplate = v1, sp_Aliyun = v2, sp_Retention = v3 \<rparr>"])
      (auto simp: struct_simps AliyunCertificateSpec_own_def AliyunCertificateSpec_view_def
          AliyunCertificateSpec_DeepCopyInto_def split: prod.splits)
qed

lemma deep_copier_CertificateGeneration:
  "deep_copier CertificateGeneration_own CertificateGeneration_view CertificateGeneration_DeepCopyInto"
proof -
  note c1 = copier_CInt64
  show ?thesis
    by (rule deep_copier_struct [OF c1, where get = "\<lambda>s. gg_CertID s"
        and put = "\<lambda>x1 s. s\<lparr>gg_CertID := x1\<rparr>"
        and mk = "\<lambda>s v1. \<lparr> g_Fingerprint = gg_Fingerprint s, g_CertID = v1, g_CASName =
            gg_CASName s, g_NotBefore = gg_NotBefore s, g_NotAfter = gg_NotAfter s, g_UploadedAt =
            gg_UploadedAt s \<rparr>"])
      (auto simp: struct_simps CertificateGeneration_own_def CertificateGeneration_view_def
          CertificateGeneration_DeepCopyInto_def)
qed

lemma deep_copier_IssuanceStatus:
  "deep_copier IssuanceStatus_own IssuanceStatus_view IssuanceStatus_DeepCopyInto"
proof -
  note c1 = copier_CInt
  note c2 = copier_CTime
  note c3 = copier_CInt
  note c4 = copier_CTime
  note p3 = deep_copier_pair [OF c3 c4]
  note p2 = deep_copier_pair [OF c2 p3]
  note p1 = deep_copier_pair [OF c1 p2]
  show ?thesis
    by (rule deep_copier_struct [OF p1, where get = "\<lambda>s. (gi_Revision s, (gi_RenewalTime s,
        (gi_FailedIssuanceAttempts s, gi_LastFailureTime s)))"
        and put = "\<lambda>(x1, (x2, (x3, x4))) s. s\<lparr>gi_Revision := x1, gi_RenewalTime := x2,
            gi_FailedIssuanceAttempts := x3, gi_LastFailureTime := x4\<rparr>"
        and mk = "\<lambda>s (v1, (v2, (v3, v4))). \<lparr> i_Revision = v1, i_RenewalTime = v2,
            i_FailedIssuanceAttempts = v3, i_LastFailureTime = v4 \<rparr>"])
      (auto simp: struct_simps IssuanceStatus_own_def IssuanceStatus_view_def
          IssuanceStatus_DeepCopyInto_def split: prod.splits)
qed

lemma deep_copier_AliyunCertificateStatus:
  "deep_copier AliyunCertificateStatus_own AliyunCertificateStatus_view AliyunCertificateStatus_DeepCopyInto"
proof -
  note c1 = copier_CIssuerReference
  note c2 = deep_copier_ptr [OF deep_copier_IssuanceStatus, where dest = un_CIssuanceStatus and mk =
      CIssuanceStatus, OF un_simps(17)]
  note c3 = deep_copier_ptr [OF deep_copier_CertificateGeneration, where dest = un_CCertificateGeneration
      and mk = CCertificateGeneration, OF un_simps(18)]
  note c4 = deep_copier_slice [OF deep_copier_CertificateGeneration, where dest = un_CGenerations and mk =
      CGenerations, OF un_simps(20)]
  note c5 = deep_copier_ptr [OF deep_copier_PendingUpload, where dest = un_CPendingUpload and mk =
      CPendingUpload, OF un_simps(19)]
  note c6 = copier_CTime
  note c7 = copier_CTime
  note c8 = copier_CConditions
  note p7 = deep_copier_pair [OF c7 c8]
  note p6 = deep_copier_pair [OF c6 p7]
  note p5 = deep_copier_pair [OF c5 p6]
  note p4 = deep_copier_pair [OF c4 p5]
  note p3 = deep_copier_pair [OF c3 p4]
  note p2 = deep_copier_pair [OF c2 p3]
  note p1 = deep_copier_pair [OF c1 p2]
  show ?thesis
    by (rule deep_copier_struct [OF p1, where get = "\<lambda>s. (gx_EffectiveIssuerRef s, (gx_Issuance s,
        (gx_Current s, (gx_History s, (gx_PendingUpload s, (gx_CASProbedAt s, (gx_CleanupStartedAt s,
        gx_Conditions s)))))))"
        and put = "\<lambda>(x1, (x2, (x3, (x4, (x5, (x6, (x7, x8))))))) s. s\<lparr>gx_EffectiveIssuerRef
            := x1, gx_Issuance := x2, gx_Current := x3, gx_History := x4, gx_PendingUpload := x5,
            gx_CASProbedAt := x6, gx_CleanupStartedAt := x7, gx_Conditions := x8\<rparr>"
        and mk = "\<lambda>s (v1, (v2, (v3, (v4, (v5, (v6, (v7, v8))))))). \<lparr> x_ObservedGeneration =
            gx_ObservedGeneration s, x_EffectiveIssuerRef = v1, x_SecretName = gx_SecretName s,
            x_CertManagerCertificateName = gx_CertManagerCertificateName s, x_Issuance = v2, x_Current = v3,
            x_History = items v4, x_PendingUpload = v5, x_CASProbedAt = v6, x_CleanupStartedAt = v7,
            x_Conditions = items v8 \<rparr>"])
      (auto simp: struct_simps AliyunCertificateStatus_own_def AliyunCertificateStatus_view_def
          AliyunCertificateStatus_DeepCopyInto_def split: prod.splits)
qed

lemma deep_copier_BindingTarget:
  "deep_copier BindingTarget_own BindingTarget_view BindingTarget_DeepCopyInto"
proof -
  note c1 = copier_CFC3CustomDomainTarget
  note c2 = copier_COSSCustomDomainTarget
  note p1 = deep_copier_pair [OF c1 c2]
  show ?thesis
    by (rule deep_copier_struct [OF p1, where get = "\<lambda>s. (gbt_FC3CustomDomain s, gbt_OSSCustomDomain s)"
        and put = "\<lambda>(x1, x2) s. s\<lparr>gbt_FC3CustomDomain := x1, gbt_OSSCustomDomain := x2\<rparr>"
        and mk = "\<lambda>s (v1, v2). \<lparr> bt_Type = gbt_Type s, bt_FC3CustomDomain = v1,
            bt_OSSCustomDomain = v2 \<rparr>"])
      (auto simp: struct_simps BindingTarget_own_def BindingTarget_view_def BindingTarget_DeepCopyInto_def
          split: prod.splits)
qed

lemma deep_copier_AliyunCertificateBindingSpec:
  "deep_copier AliyunCertificateBindingSpec_own AliyunCertificateBindingSpec_view
      AliyunCertificateBindingSpec_DeepCopyInto"
proof -
  note c1 = deep_copier_BindingTarget
  note c2 = copier_CLocalSecretReference
  note p1 = deep_copier_pair [OF c1 c2]
  show ?thesis
    by (rule deep_copier_struct [OF p1, where get = "\<lambda>s. (gbs_Target s, gbs_CredentialsRef s)"
        and put = "\<lambda>(x1, x2) s. s\<lparr>gbs_Target := x1, gbs_CredentialsRef := x2\<rparr>"
        and mk = "\<lambda>s (v1, v2). \<lparr> bs_CertificateRef = gbs_CertificateRef s, bs_Target = v1,
            bs_CredentialsRef = v2, bs_DeletionPolicy = gbs_DeletionPolicy s \<rparr>"])
      (auto simp: struct_simps AliyunCertificateBindingSpec_own_def AliyunCertificateBindingSpec_view_def
          AliyunCertificateBindingSpec_DeepCopyInto_def split: prod.splits)
qed

lemma deep_copier_AliyunCertificateBindingStatus:
  "deep_copier AliyunCertificateBindingStatus_own AliyunCertificateBindingStatus_view
      AliyunCertificateBindingStatus_DeepCopyInto"
proof -
  note c1 = copier_CTime
  note c2 = copier_CTime
  note c3 = copier_CTime
  note c4 = copier_CConditions
  note p3 = deep_copier_pair [OF c3 c4]
  note p2 = deep_copier_pair [OF c2 p3]
  note p1 = deep_copier_pair [OF c1 p2]
  show ?thesis
    by (rule deep_copier_struct [OF p1, where get = "\<lambda>s. (gbx_LastAppliedTime s,
        (gbx_LastObservedTime s, (gbx_CleanupStartedAt s, gbx_Conditions s)))"
        and put = "\<lambda>(x1, (x2, (x3, x4))) s. s\<lparr>gbx_LastAppliedTime := x1, gbx_LastObservedTime
            := x2, gbx_CleanupStartedAt := x3, gbx_Conditions := x4\<rparr>"
        and mk = "\<lambda>s (v1, (v2, (v3, v4))). \<lparr> bx_ObservedGeneration = gbx_ObservedGeneration
            s, bx_AppliedFingerprint = gbx_AppliedFingerprint s, bx_DriftedFingerprint =
            gbx_DriftedFingerprint s, bx_AppliedCertRef = gbx_AppliedCertRef s, bx_DriftedCertRef =
            gbx_DriftedCertRef s, bx_LastAppliedTime = v1, bx_LastObservedTime = v2, bx_BoundAccountID =
            gbx_BoundAccountID s, bx_CleanupStartedAt = v3, bx_Conditions = items v4 \<rparr>"])
      (auto simp: struct_simps AliyunCertificateBindingStatus_own_def
          AliyunCertificateBindingStatus_view_def AliyunCertificateBindingStatus_DeepCopyInto_def split:
          prod.splits)
qed

lemma deep_copier_AliyunCertificate:
  assumes L: "lib_ok L"
  shows "deep_copier (AliyunCertificate_own L) (AliyunCertificate_view L) (AliyunCertificate_DeepCopyInto L)"
proof -
  note c1 = lib_ObjectMeta_ok [OF L]
  note c2 = deep_copier_AliyunCertificateSpec [OF L]
  note c3 = deep_copier_AliyunCertificateStatus
  note p2 = deep_copier_pair [OF c2 c3]
  note p1 = deep_copier_pair [OF c1 p2]
  show ?thesis
    by (rule deep_copier_struct [OF p1, where get = "\<lambda>s. (gac_ObjectMeta s, (gac_Spec s, gac_Status s))"
        and put = "\<lambda>(x1, (x2, x3)) s. s\<lparr>gac_ObjectMeta := x1, gac_Spec := x2, gac_Status := x3\<rparr>"
        and mk = "\<lambda>s (v1, (v2, v3)). ((gac_TypeMeta s, v1), \<lparr> ac_Namespace = om_Namespace v1,
            ac_Name = om_Name v1, ac_UID = om_UID v1, ac_Generation = om_Generation v1, ac_DeletionTimestamp
            = om_DeletionTimestamp v1, ac_Finalizers = om_Finalizers v1, ac_Spec = v2, ac_Status = v3
            \<rparr>)"])
      (auto simp: struct_simps AliyunCertificate_own_def AliyunCertificate_view_def
          AliyunCertificate_DeepCopyInto_def split: prod.splits)
qed

lemma deep_copier_AliyunCertificateList:
  assumes L: "lib_ok L"
  shows "deep_copier (AliyunCertificateList_own L) (AliyunCertificateList_view L)
      (AliyunCertificateList_DeepCopyInto L)"
proof -
  note c1 = lib_ListMeta_ok [OF L]
  note c2 = deep_copier_slice [OF deep_copier_AliyunCertificate [OF L], where dest = un_CAliyunCertificates
      and mk = CAliyunCertificates, OF un_simps(27)]
  note p1 = deep_copier_pair [OF c1 c2]
  show ?thesis
    by (rule deep_copier_struct [OF p1, where get = "\<lambda>s. (gacl_ListMeta s, gacl_Items s)"
        and put = "\<lambda>(x1, x2) s. s\<lparr>gacl_ListMeta := x1, gacl_Items := x2\<rparr>"
        and mk = "\<lambda>s (v1, v2). ((gacl_TypeMeta s, v1), items v2)"])
      (auto simp: struct_simps AliyunCertificateList_own_def AliyunCertificateList_view_def
          AliyunCertificateList_DeepCopyInto_def split: prod.splits)
qed

lemma deep_copier_AliyunCertificateBinding:
  assumes L: "lib_ok L"
  shows "deep_copier (AliyunCertificateBinding_own L) (AliyunCertificateBinding_view L)
      (AliyunCertificateBinding_DeepCopyInto L)"
proof -
  note c1 = lib_ObjectMeta_ok [OF L]
  note c2 = deep_copier_AliyunCertificateBindingSpec
  note c3 = deep_copier_AliyunCertificateBindingStatus
  note p2 = deep_copier_pair [OF c2 c3]
  note p1 = deep_copier_pair [OF c1 p2]
  show ?thesis
    by (rule deep_copier_struct [OF p1, where get = "\<lambda>s. (gb_ObjectMeta s, (gb_Spec s, gb_Status s))"
        and put = "\<lambda>(x1, (x2, x3)) s. s\<lparr>gb_ObjectMeta := x1, gb_Spec := x2, gb_Status := x3\<rparr>"
        and mk = "\<lambda>s (v1, (v2, v3)). ((gb_TypeMeta s, v1), \<lparr> b_Namespace = om_Namespace v1,
            b_Name = om_Name v1, b_UID = om_UID v1, b_Generation = om_Generation v1, b_CreationTimestamp =
            om_CreationTimestamp v1, b_DeletionTimestamp = om_DeletionTimestamp v1, b_Finalizers =
            om_Finalizers v1, b_Spec = v2, b_Status = v3 \<rparr>)"])
      (auto simp: struct_simps AliyunCertificateBinding_own_def AliyunCertificateBinding_view_def
          AliyunCertificateBinding_DeepCopyInto_def split: prod.splits)
qed

lemma deep_copier_AliyunCertificateBindingList:
  assumes L: "lib_ok L"
  shows "deep_copier (AliyunCertificateBindingList_own L) (AliyunCertificateBindingList_view L)
      (AliyunCertificateBindingList_DeepCopyInto L)"
proof -
  note c1 = lib_ListMeta_ok [OF L]
  note c2 = deep_copier_slice [OF deep_copier_AliyunCertificateBinding [OF L], where dest =
      un_CAliyunCertificateBindings and mk = CAliyunCertificateBindings, OF un_simps(33)]
  note p1 = deep_copier_pair [OF c1 c2]
  show ?thesis
    by (rule deep_copier_struct [OF p1, where get = "\<lambda>s. (gbl_ListMeta s, gbl_Items s)"
        and put = "\<lambda>(x1, x2) s. s\<lparr>gbl_ListMeta := x1, gbl_Items := x2\<rparr>"
        and mk = "\<lambda>s (v1, v2). ((gbl_TypeMeta s, v1), items v2)"])
      (auto simp: struct_simps AliyunCertificateBindingList_own_def AliyunCertificateBindingList_view_def
          AliyunCertificateBindingList_DeepCopyInto_def split: prod.splits)
qed

text \<open>The contract of the pointers: \<open>DeepCopy\<close>.\<close>

abbreviation certificate_own where
  "certificate_own L \<equiv> ptr_own un_CAliyunCertificate (AliyunCertificate_own L)"
abbreviation certificate_view where
  "certificate_view L \<equiv> ptr_view un_CAliyunCertificate (AliyunCertificate_view L)"
abbreviation binding_own where
  "binding_own L \<equiv> ptr_own un_CAliyunCertificateBinding (AliyunCertificateBinding_own L)"
abbreviation binding_view where
  "binding_view L \<equiv> ptr_view un_CAliyunCertificateBinding (AliyunCertificateBinding_view L)"
abbreviation bindings_own where
  "bindings_own L \<equiv> ptr_own un_CAliyunCertificateBindingList (AliyunCertificateBindingList_own L)"
abbreviation bindings_view where
  "bindings_view L \<equiv> ptr_view un_CAliyunCertificateBindingList (AliyunCertificateBindingList_view L)"

lemma DeepCopy_contracts:
  assumes "lib_ok L"
  shows "deep_copier (certificate_own L) (certificate_view L) (AliyunCertificate_DeepCopy L)"
    and "deep_copier (binding_own L) (binding_view L) (AliyunCertificateBinding_DeepCopy L)"
    and "deep_copier (bindings_own L) (bindings_view L) (AliyunCertificateBindingList_DeepCopy L)"
  unfolding AliyunCertificate_DeepCopy_def AliyunCertificateBinding_DeepCopy_def
      AliyunCertificateBindingList_DeepCopy_def
  by (rule deep_copier_ptr deep_copier_AliyunCertificate deep_copier_AliyunCertificateBinding
      deep_copier_AliyunCertificateBindingList assms un_simps)+

text \<open>The parts that hold no library structs have the contract outright.\<close>

interpretation cert_status: deep_copier AliyunCertificateStatus_own AliyunCertificateStatus_view
    AliyunCertificateStatus_DeepCopyInto
  by (rule deep_copier_AliyunCertificateStatus)

interpretation binding_spec: deep_copier AliyunCertificateBindingSpec_own AliyunCertificateBindingSpec_view
    AliyunCertificateBindingSpec_DeepCopyInto
  by (rule deep_copier_AliyunCertificateBindingSpec)

interpretation binding_status: deep_copier AliyunCertificateBindingStatus_own
    AliyunCertificateBindingStatus_view AliyunCertificateBindingStatus_DeepCopyInto
  by (rule deep_copier_AliyunCertificateBindingStatus)

section \<open>Properties\<close>

text \<open>Two references that stand for \<open>v\<close> and stay so under any change outside their own cells.\<close>

definition separate ::
  "('e cell heap \<Rightarrow> 'p \<Rightarrow> addr set) \<Rightarrow> ('e cell heap \<Rightarrow> 'p
      \<Rightarrow> 'v option) \<Rightarrow> 'e cell heap \<Rightarrow> 'p \<Rightarrow> 'p \<Rightarrow> 'v
      \<Rightarrow> bool" where
  "separate own view h p q v \<longleftrightarrow> view h p = Some v \<and> view h q = Some v \<and> own h p
      \<inter> own h q = {} \<and>
     (\<forall>h'. agree (own h p) h h' \<longrightarrow> view h' p = Some v) \<and> (\<forall>h'. agree
         (own h q) h h' \<longrightarrow> view h' q = Some v)"

lemma separateI: "deep_copier own view copy \<Longrightarrow> view h p = Some v \<Longrightarrow> run_state
    (copy p) h = (q, h') \<Longrightarrow>
    separate own view h' p q v"
  unfolding separate_def by (drule (2) deep_copier.isolated) simp

text \<open>
  C36. A deep copy is a snapshot. Provided the deep copies of apimachinery and cert-manager do what
  they say, copying an AliyunCertificate, a Binding or a list of Bindings through a pointer
  gives a pointer to a different object with the same value, the two share no cell, and
  neither sees what is later written through the other: every heap that agrees on the cells of
  the one, whatever it changed elsewhere, still has its value. So the object a reconcile
  compares with at the end is the one it read, although conditions and history are updated
  in place, and the records of the rest of the model stand for what the code holds.
\<close>

theorem DeepCopy_isolated:
  assumes "lib_ok L"
  shows "(certificate_view L h p = Some v \<longrightarrow> run_state (AliyunCertificate_DeepCopy L p) h =
      (q, h') \<longrightarrow>
        separate (certificate_own L) (certificate_view L) h' p q v)
    \<and> (binding_view L h p = Some b \<longrightarrow> run_state (AliyunCertificateBinding_DeepCopy L p)
        h = (q, h') \<longrightarrow>
        separate (binding_own L) (binding_view L) h' p q b)
    \<and> (bindings_view L h p = Some bs \<longrightarrow> run_state (AliyunCertificateBindingList_DeepCopy
        L p) h = (q, h') \<longrightarrow>
        separate (bindings_own L) (bindings_view L) h' p q bs)"
  by (intro conjI impI) (erule (1) separateI [OF DeepCopy_contracts(1) [OF assms]]
    separateI [OF DeepCopy_contracts(2) [OF assms]] separateI [OF DeepCopy_contracts(3) [OF assms]])+

section \<open>Witnesses\<close>

text \<open>Library structs of an example: metadata without references, a subject with a slice of
  organizations.\<close>

datatype lib_struct = MetaStruct object_meta | SubjectStruct "slice option"

definition flat_type :: "(lib_struct \<Rightarrow> 'v) \<Rightarrow> (lib_struct, 'v) lib_type" where
  "flat_type f = \<lparr> lt_own = flat_own, lt_view = (\<lambda>h e. Some (f e)), lt_DeepCopyInto = ret \<rparr>"

fun organizations :: "lib_struct \<Rightarrow> slice option" where
  "organizations (SubjectStruct s) = s"
| "organizations e = None"

definition subject_type :: "(lib_struct, opaque) lib_type" where
  "subject_type = \<lparr> lt_own = (\<lambda>h e. slice_own un_CStrings flat_own h (organizations e)),
     lt_view = (\<lambda>h e. map_option (\<lambda>xs. Opaque (concat (items xs))) (slice_view un_CStrings
         flat_view h (organizations e))),
     lt_DeepCopyInto = (\<lambda>e. do { s \<leftarrow> slice_copy CStrings un_CStrings ret (organizations
         e); ret (SubjectStruct s) }) \<rparr>"

definition stored_meta :: object_meta where
  "stored_meta = \<lparr> om_Namespace = ''web'', om_Name = ''site'', om_UID = ''u1'', om_Generation = 3,
      om_CreationTimestamp = 0,
     om_DeletionTimestamp = None, om_Finalizers = [FinalizerName], om_Rest = Opaque [] \<rparr>"

definition stored_lib :: "lib_struct lib" where
  "stored_lib = \<lparr> lib_ObjectMeta = flat_type (\<lambda>e. case e of MetaStruct m \<Rightarrow> m | _
      \<Rightarrow> stored_meta),
     lib_ListMeta = flat_type (\<lambda>e. Opaque []), lib_X509Subject = subject_type,
     lib_SecretTemplate = flat_type (\<lambda>e. \<lparr> st_Labels = [], st_Annotations = [] \<rparr>) \<rparr>"

lemma flat_type_ok: "lib_type_ok (flat_type f)"
  unfolding lib_type_ok_def flat_type_def by unfold_locales (auto simp: State_Monad.return_def)

lemma stored_lib_ok: "lib_ok stored_lib"
proof -
  have "lib_type_ok subject_type"
    unfolding lib_type_ok_def subject_type_def lib_type.simps
    by (rule deep_copier_struct [OF copier_CStrings, where get = organizations and put = "\<lambda>x e.
        SubjectStruct x"
          and mk = "\<lambda>e xs. Opaque (concat (items xs))"]) simp_all
  then show ?thesis by (simp add: lib_ok_def stored_lib_def flat_type_ok)
qed

definition stored_generation :: go_CertificateGeneration where
  "stored_generation = \<lparr> gg_Fingerprint = ''ab'', gg_CertID = Some 1, gg_CASName = ''n'', gg_NotBefore = 0,
     gg_NotAfter = 90 * 24 * hour, gg_UploadedAt = 0 \<rparr>"

definition stored_template :: go_CertificateTemplate where
  "stored_template = \<lparr> gt_IssuerRef = None, gt_CommonName = [], gt_DNSNames = Some (Slice 2 0 1),
      gt_IPAddresses = None,
     gt_Duration = None, gt_RenewBefore = None, gt_Subject = Some 3, gt_Usages = None, gt_PrivateKey = None,
     gt_SecretTemplate = None \<rparr>"

definition stored_spec :: go_AliyunCertificateSpec where
  "stored_spec = \<lparr> gsp_SecretName = ''tls'', gsp_CertificateTemplate = stored_template,
     gsp_Aliyun = \<lparr> ga_CredentialsRef = ''ram'', ga_Region = ''cn-hangzhou'', ga_CASRegion = [],
         ga_EndpointOverride = [],
       ga_ResourceGroupID = [], ga_UploadToCAS = Some 0 \<rparr>,
     gsp_Retention = \<lparr> gr_KeepLast = 2, gr_MinAge = None \<rparr> \<rparr>"

text \<open>A certificate in service with one older generation; the history is a slice of a longer array.\<close>

definition stored_status :: go_AliyunCertificateStatus where
  "stored_status = \<lparr> gx_ObservedGeneration = 3, gx_EffectiveIssuerRef = None, gx_SecretName = ''tls'',
     gx_CertManagerCertificateName = ''site'', gx_Issuance = None, gx_Current = Some 5, gx_History = Some
         (Slice 4 0 1),
     gx_PendingUpload = None, gx_CASProbedAt = None, gx_CleanupStartedAt = None, gx_Conditions = Some (Slice
         6 0 0) \<rparr>"

definition stored_target :: go_BindingTarget where
  "stored_target = \<lparr> gbt_Type = TargetTypeOSSCustomDomain, gbt_FC3CustomDomain = None,
      gbt_OSSCustomDomain = Some 8 \<rparr>"

definition stored_go_binding :: "lib_struct go_AliyunCertificateBinding" where
  "stored_go_binding = \<lparr> gb_TypeMeta = ([], []), gb_ObjectMeta = MetaStruct stored_meta,
     gb_Spec = \<lparr> gbs_CertificateRef = ''site'', gbs_Target = stored_target, gbs_CredentialsRef = None,
       gbs_DeletionPolicy = DeletionPolicyUnbind \<rparr>,
     gb_Status = \<lparr> gbx_ObservedGeneration = 3, gbx_AppliedFingerprint = ''ab'',
         gbx_DriftedFingerprint = [],
       gbx_AppliedCertRef = [], gbx_DriftedCertRef = [], gbx_LastAppliedTime = Some 9, gbx_LastObservedTime
           = None,
       gbx_BoundAccountID = [], gbx_CleanupStartedAt = None, gbx_Conditions = None \<rparr> \<rparr>"

definition stored_heap :: "lib_struct cell heap" where
  "stored_heap = [CBool True, CInt64 7, CStrings [''a.example''], CX509Subject (SubjectStruct (Some (Slice 2
      0 1))),
     CGenerations [stored_generation, stored_generation], CCertificateGeneration stored_generation,
         CConditions [],
     CAliyunCertificate \<lparr> gac_TypeMeta = ([], []), gac_ObjectMeta = MetaStruct stored_meta, gac_Spec
         = stored_spec,
       gac_Status = stored_status \<rparr>,
     COSSCustomDomainTarget \<lparr> oss_Region = ''cn-hangzhou'', oss_Bucket = ''b'', oss_DomainName =
         ''a.example'' \<rparr>,
     CTime 5, CAliyunCertificateBinding stored_go_binding, CAliyunCertificateBindings [stored_go_binding],
     CAliyunCertificateBindingList \<lparr> gbl_TypeMeta = ([], []), gbl_ListMeta = MetaStruct stored_meta,
       gbl_Items = Some (Slice 11 0 1) \<rparr>]"

lemmas stored_defs = stored_lib_def flat_type_def subject_type_def stored_heap_def stored_spec_def
    stored_status_def
  stored_template_def stored_generation_def stored_target_def stored_go_binding_def

lemmas view_defs = ptr_view_def slice_view_def slice_elems_def deref_def elements_def items_def
  AliyunCertificate_view_def AliyunCertificateSpec_view_def AliyunCertificateStatus_view_def
      CertificateTemplate_view_def
  AliyunSpec_view_def RetentionSpec_view_def CertificateGeneration_view_def AliyunCertificateBinding_view_def
  AliyunCertificateBindingSpec_view_def AliyunCertificateBindingStatus_view_def BindingTarget_view_def
  AliyunCertificateBindingList_view_def

lemma stored_views:
  "\<exists>v. certificate_view stored_lib stored_heap (Some 7) = Some (Some v)"
  "\<exists>v. binding_view stored_lib stored_heap (Some 10) = Some (Some v)"
  "\<exists>v. bindings_view stored_lib stored_heap (Some 12) = Some (Some v)"
  by (simp_all add: stored_defs view_defs)

theorem DeepCopy_isolated_witness:
  "lib_ok stored_lib \<and>
   (\<exists>v q h'. certificate_view stored_lib stored_heap (Some 7) = Some (Some v) \<and>
      run_state (AliyunCertificate_DeepCopy stored_lib (Some 7)) stored_heap = (q, h') \<and>
      separate (certificate_own stored_lib) (certificate_view stored_lib) h' (Some 7) q (Some v)) \<and>
   (\<exists>v q h'. binding_view stored_lib stored_heap (Some 10) = Some (Some v) \<and>
      run_state (AliyunCertificateBinding_DeepCopy stored_lib (Some 10)) stored_heap = (q, h') \<and>
      separate (binding_own stored_lib) (binding_view stored_lib) h' (Some 10) q (Some v)) \<and>
   (\<exists>v q h'. bindings_view stored_lib stored_heap (Some 12) = Some (Some v) \<and>
      run_state (AliyunCertificateBindingList_DeepCopy stored_lib (Some 12)) stored_heap = (q, h') \<and>
      separate (bindings_own stored_lib) (bindings_view stored_lib) h' (Some 12) q (Some v))"
  using DeepCopy_isolated [OF stored_lib_ok, of stored_heap] stored_lib_ok stored_views
  by (metis surj_pair)

end
