(* ===== verification/Startup.thy ===== *)
theory Startup
  imports Main_Flags Go_Heap
begin

text \<open>
  \<open>main\<close> of \<open>cmd/main.go\<close> after the parse of the flags, and \<open>RegisterIndexes\<close> of
  \<open>internal/controller/indexes.go\<close>: the TLS options of the two servers, their certificate
  watchers, the options of the manager and the steps up to its start.

  Every call of controller-runtime is an event on the trace of the process, with its answer
  from \<open>start_env\<close>; an error ends the process with code 1. A certificate watcher is named by
  the directory and the two file names it joins. The TLS options are Go slices: \<open>append\<close> writes
  in place as long as the array has room, and how much room a new array gets beyond what is
  asked for is up to the runtime (\<open>spare\<close>). The servers read their options when they start.
\<close>

section \<open>Definitions\<close>

record server_flags =
  metricsAddr :: string
  probeAddr :: string
  enableLeaderElection :: bool
  secureMetrics :: bool
  webhookCertPath :: string
  webhookCertName :: string
  webhookCertKey :: string
  metricsCertPath :: string
  metricsCertName :: string
  metricsCertKey :: string
  enableHTTP2 :: bool

definition default_server_flags :: server_flags where
  "default_server_flags = \<lparr> metricsAddr = ''0'', probeAddr = '':8081'', enableLeaderElection = False, secureMetrics = True,
     webhookCertPath = [], webhookCertName = ''tls.crt'', webhookCertKey = ''tls.key'',
     metricsCertPath = [], metricsCertName = ''tls.crt'', metricsCertKey = ''tls.key'', enableHTTP2 = False \<rparr>"

datatype cert_watcher = CertWatcher string string string

text \<open>An option and what it does to the configuration of a server.\<close>

datatype tls_opt = DisableHTTP2 | GetCertificateOf cert_watcher

record tls_config =
  tc_NextProtos :: "string list"
  tc_GetCertificate :: "cert_watcher option"

fun apply_opt :: "tls_opt \<Rightarrow> tls_config \<Rightarrow> tls_config" where
  "apply_opt DisableHTTP2 c = c\<lparr>tc_NextProtos := [''http/1.1'']\<rparr>"
| "apply_opt (GetCertificateOf w) c = c\<lparr>tc_GetCertificate := Some w\<rparr>"

text \<open>Slices of options: \<open>None\<close> is nil; an array is the options written so far and its free places.\<close>

type_synonym opts_heap = "tls_opt option list heap"

type_synonym opts_slice = "(addr \<times> nat) option"

fun append_opt :: "(nat \<Rightarrow> nat) \<Rightarrow> opts_slice \<Rightarrow> tls_opt \<Rightarrow> opts_heap \<Rightarrow> opts_slice \<times> opts_heap" where
  "append_opt spare None x h = (Some (length h, 1), h @ [Some x # replicate (spare 0) None])"
| "append_opt spare (Some (a, n)) x h =
     (if n < length (h ! a) then (Some (a, n + 1), h[a := (h ! a)[n := Some x]])
      else (Some (length h, n + 1), h @ [take n (h ! a) @ Some x # replicate (spare n) None]))"

fun opts_of :: "opts_heap \<Rightarrow> opts_slice \<Rightarrow> tls_opt list" where
  "opts_of h None = []"
| "opts_of h (Some (a, n)) = List.map_filter id (take n (h ! a))"

text \<open>The options of the manager but the TLS options of its servers, which a start shows.\<close>

record metrics_options =
  me_BindAddress :: string
  me_SecureServing :: bool
  me_AuthFilter :: bool

record mgr_options =
  mo_Metrics :: metrics_options
  mo_HealthProbeBindAddress :: string
  mo_LeaderElection :: bool
  mo_LeaderElectionID :: string
  mo_LeaderElectionReleaseOnCancel :: bool
  mo_CacheDisableFor :: "string list"
  mo_DefaultNamespaces :: "string set option"

text \<open>\<open>LoadConfig\<close> is \<open>ctrl.GetConfigOrDie\<close>, which exits with code 1 by itself; a start shows what
  the webhook and the metrics server apply at that moment.\<close>

datatype startup_event =
    NewCertWatcher cert_watcher
  | LoadConfig
  | NewManager mgr_options
  | IndexField string
  | SetupController string
  | AddRunnable cert_watcher
  | AddHealthzCheck
  | AddReadyzCheck
  | StartManager "tls_opt list" "tls_opt list"

record process =
  pr_trace :: "startup_event list"
  pr_heap :: opts_heap

type_synonym answers = "startup_event \<Rightarrow> gerror option"

text \<open>One fallible call; after an error the process logs it and exits.\<close>

definition attempt :: "answers \<Rightarrow> startup_event \<Rightarrow> (process, int) state \<Rightarrow> (process, int) state" where
  "attempt ans e rest = State (\<lambda>p.
     let p = p\<lparr>pr_trace := pr_trace p @ [e]\<rparr> in
     (case ans e of Some err \<Rightarrow> (1, p) | None \<Rightarrow> run_state rest p))"

definition appendTLS :: "(nat \<Rightarrow> nat) \<Rightarrow> opts_slice \<Rightarrow> tls_opt \<Rightarrow> (process, opts_slice) state" where
  "appendTLS spare s x = State (\<lambda>p. case append_opt spare s x (pr_heap p) of (s', h) \<Rightarrow> (s', p\<lparr>pr_heap := h\<rparr>))"

definition watchedCert ::
  "answers \<Rightarrow> (nat \<Rightarrow> nat) \<Rightarrow> string \<Rightarrow> string \<Rightarrow> string \<Rightarrow> opts_slice \<Rightarrow>
     (cert_watcher option \<Rightarrow> opts_slice \<Rightarrow> (process, int) state) \<Rightarrow> (process, int) state" where
  "watchedCert ans spare path name key tls rest =
     (if length path > 0 then
        attempt ans (NewCertWatcher (CertWatcher path name key)) (do {
          tls \<leftarrow> appendTLS spare tls (GetCertificateOf (CertWatcher path name key));
          rest (Some (CertWatcher path name key)) tls
        })
      else rest None tls)"

definition addWatcher :: "answers \<Rightarrow> cert_watcher option \<Rightarrow> (process, int) state \<Rightarrow> (process, int) state" where
  "addWatcher ans w rest = (case w of Some x \<Rightarrow> attempt ans (AddRunnable x) rest | None \<Rightarrow> rest)"

abbreviation IndexBindingByCertificate :: string where "IndexBindingByCertificate \<equiv> ''spec.certificateRef.name''"
abbreviation IndexBindingByTarget :: string where "IndexBindingByTarget \<equiv> ''spec.target''"

definition RegisterIndexes :: "answers \<Rightarrow> (process, int) state \<Rightarrow> (process, int) state" where
  "RegisterIndexes ans rest =
     attempt ans (IndexField IndexBindingByCertificate) (attempt ans (IndexField IndexBindingByTarget) rest)"

definition metricsServerOptions :: "server_flags \<Rightarrow> metrics_options" where
  "metricsServerOptions f = \<lparr> me_BindAddress = metricsAddr f, me_SecureServing = secureMetrics f,
     me_AuthFilter = secureMetrics f \<rparr>"

definition mgrOpts :: "server_flags \<Rightarrow> operatorOptions \<Rightarrow> mgr_options" where
  "mgrOpts f o' = \<lparr> mo_Metrics = metricsServerOptions f,
     mo_HealthProbeBindAddress = probeAddr f, mo_LeaderElection = enableLeaderElection f,
     mo_LeaderElectionID = ''certs.bestheme.ac.cn'', mo_LeaderElectionReleaseOnCancel = True,
     mo_CacheDisableFor = [''Secret''], mo_DefaultNamespaces = cacheNamespaces o' \<rparr>"

definition startServers :: "answers \<Rightarrow> opts_slice \<Rightarrow> opts_slice \<Rightarrow> (process, int) state" where
  "startServers ans webhookTLS metricsTLS = State (\<lambda>p.
     run_state (attempt ans (StartManager (opts_of (pr_heap p) webhookTLS) (opts_of (pr_heap p) metricsTLS)) (ret 0)) p)"

definition runManager :: "answers \<Rightarrow> server_flags \<Rightarrow> operatorOptions \<Rightarrow> cert_watcher option \<Rightarrow> opts_slice \<Rightarrow>
    cert_watcher option \<Rightarrow> opts_slice \<Rightarrow> (process, int) state" where
  "runManager ans f o' webhookWatcher webhookTLS metricsWatcher metricsTLS =
     attempt ans LoadConfig
     (attempt ans (NewManager (mgrOpts f o'))
     (RegisterIndexes ans
     (attempt ans (SetupController ''aliyuncertificate'')
     (attempt ans (SetupController ''aliyuncertificatebinding'')
     (addWatcher ans metricsWatcher
     (addWatcher ans webhookWatcher
     (attempt ans AddHealthzCheck
     (attempt ans AddReadyzCheck
     (startServers ans webhookTLS metricsTLS)))))))))"

definition main_process :: "(nat \<Rightarrow> nat) \<Rightarrow> answers \<Rightarrow> server_flags \<Rightarrow> operatorOptions \<Rightarrow> (process, int) state" where
  "main_process spare ans f o' = (case validate o' of
     Inl err \<Rightarrow> ret 1
   | Inr o' \<Rightarrow> do {
       tlsOpts \<leftarrow> (if \<not> enableHTTP2 f then appendTLS spare None DisableHTTP2 else ret None);
       let webhookTLSOpts = tlsOpts;
       watchedCert ans spare (webhookCertPath f) (webhookCertName f) (webhookCertKey f) webhookTLSOpts
         (\<lambda>webhookWatcher webhookTLSOpts.
           watchedCert ans spare (metricsCertPath f) (metricsCertName f) (metricsCertKey f) tlsOpts
             (\<lambda>metricsWatcher metricsTLSOpts.
               runManager ans f o' webhookWatcher webhookTLSOpts metricsWatcher metricsTLSOpts))
     })"

definition boot :: "(nat \<Rightarrow> nat) \<Rightarrow> answers \<Rightarrow> server_flags \<Rightarrow> operatorOptions \<Rightarrow> int \<times> startup_event list" where
  "boot spare ans f o' = (case run_state (main_process spare ans f o') \<lparr> pr_trace = [], pr_heap = [] \<rparr> of
     (code, p) \<Rightarrow> (code, pr_trace p))"

section \<open>The reference\<close>

text \<open>The calls of a start in order, and how far a list of calls gets.\<close>

definition watcher_of :: "string \<Rightarrow> string \<Rightarrow> string \<Rightarrow> cert_watcher list" where
  "watcher_of path name key = (if path = [] then [] else [CertWatcher path name key])"

definition tls_opts :: "server_flags \<Rightarrow> cert_watcher list \<Rightarrow> tls_opt list" where
  "tls_opts f ws = (if enableHTTP2 f then [] else [DisableHTTP2]) @ map GetCertificateOf ws"

definition until_failure :: "answers \<Rightarrow> startup_event list \<Rightarrow> startup_event list" where
  "until_failure ans es = takeWhile (\<lambda>e. ans e = None) es @ take 1 (dropWhile (\<lambda>e. ans e = None) es)"

definition startup_calls :: "server_flags \<Rightarrow> operatorOptions \<Rightarrow> tls_opt list \<Rightarrow> startup_event list" where
  "startup_calls f o' wt = (let
     web = watcher_of (webhookCertPath f) (webhookCertName f) (webhookCertKey f);
     met = watcher_of (metricsCertPath f) (metricsCertName f) (metricsCertKey f) in
     map NewCertWatcher (web @ met) @
     [LoadConfig, NewManager (mgrOpts f o'), IndexField IndexBindingByCertificate, IndexField IndexBindingByTarget,
      SetupController ''aliyuncertificate'', SetupController ''aliyuncertificatebinding''] @
     map AddRunnable (met @ web) @
     [AddHealthzCheck, AddReadyzCheck, StartManager wt (tls_opts f met)])"

text \<open>The options of the webhook server: when the array of \<open>tlsOpts\<close> has room, both certificates
  are appended to the same place, and the second one stays.\<close>

definition webhook_tls :: "(nat \<Rightarrow> nat) \<Rightarrow> server_flags \<Rightarrow> tls_opt list" where
  "webhook_tls spare f = tls_opts f
     (if \<not> enableHTTP2 f \<and> 0 < spare 0 \<and> webhookCertPath f \<noteq> [] \<and> metricsCertPath f \<noteq> []
      then watcher_of (metricsCertPath f) (metricsCertName f) (metricsCertKey f)
      else watcher_of (webhookCertPath f) (webhookCertName f) (webhookCertKey f))"

section \<open>Lemmas\<close>

lemma until_failure_Nil [simp]: "until_failure ans [] = []"
  by (simp add: until_failure_def)

lemma until_failure_Cons [simp]:
  "until_failure ans (e # es) = e # (if ans e = None then until_failure ans es else [])"
  by (simp add: until_failure_def)

text \<open>What a computation appends to the trace and returns, given the heap.\<close>

definition gives :: "(process, int) state \<Rightarrow> opts_heap \<Rightarrow> answers \<Rightarrow> startup_event list \<Rightarrow> bool" where
  "gives m h ans es \<longleftrightarrow> (\<forall>p. pr_heap p = h \<longrightarrow>
     pr_trace (snd (run_state m p)) = pr_trace p @ until_failure ans es \<and>
     fst (run_state m p) = (if list_all (\<lambda>e. ans e = None) es then 0 else 1))"

lemma gives_ret: "gives (ret 0) h ans []"
  by (simp add: gives_def)

lemma gives_attempt: "gives rest h ans es \<Longrightarrow> gives (attempt ans e rest) h ans (e # es)"
  by (auto simp: gives_def attempt_def Let_def split: option.split prod.splits)

lemma gives_append:
  "append_opt spare s x h = (s', h') \<Longrightarrow> gives (k s') h' ans es \<Longrightarrow> gives (do { t \<leftarrow> appendTLS spare s x; k t }) h ans es"
  by (simp add: gives_def appendTLS_def)

lemma gives_addWatchers:
  "gives rest h ans es \<Longrightarrow> gives (addWatcher ans w rest) h ans (map AddRunnable (case w of None \<Rightarrow> [] | Some x \<Rightarrow> [x]) @ es)"
  by (cases w) (simp_all add: addWatcher_def gives_attempt)

lemma gives_runManager:
  "gives (runManager ans f o' ww wt mw mt) h ans
     ([LoadConfig, NewManager (mgrOpts f o'), IndexField IndexBindingByCertificate, IndexField IndexBindingByTarget,
       SetupController ''aliyuncertificate'', SetupController ''aliyuncertificatebinding''] @
      map AddRunnable (case mw of None \<Rightarrow> [] | Some x \<Rightarrow> [x]) @ map AddRunnable (case ww of None \<Rightarrow> [] | Some x \<Rightarrow> [x]) @
      [AddHealthzCheck, AddReadyzCheck, StartManager (opts_of h wt) (opts_of h mt)])"
proof -
  have "gives (startServers ans wt mt) h ans [StartManager (opts_of h wt) (opts_of h mt)]"
    using gives_attempt [OF gives_ret [of h ans], of "StartManager (opts_of h wt) (opts_of h mt)"]
    by (auto simp: startServers_def gives_def)
  then show ?thesis
    unfolding runManager_def RegisterIndexes_def append.simps by (intro gives_attempt gives_addWatchers)
qed

lemma gives_watchedCert:
  assumes "path = [] \<Longrightarrow> gives (rest None tls) h ans es"
    and "\<And>tls' h'. path \<noteq> [] \<Longrightarrow> append_opt spare tls (GetCertificateOf (CertWatcher path name key)) h = (tls', h') \<Longrightarrow>
       gives (rest (Some (CertWatcher path name key)) tls') h' ans es"
  shows "gives (watchedCert ans spare path name key tls rest) h ans (map NewCertWatcher (watcher_of path name key) @ es)"
proof (cases "path = []")
  case False
  obtain tls' h' where "append_opt spare tls (GetCertificateOf (CertWatcher path name key)) h = (tls', h')" by fastforce
  with assms(2) [OF False this] False show ?thesis
    by (simp add: watchedCert_def watcher_of_def gives_attempt gives_append)
qed (use assms(1) in \<open>simp add: watchedCert_def watcher_of_def\<close>)

text \<open>A slice whose array has no room: appending to it leaves every slice as it is.\<close>

definition full :: "opts_heap \<Rightarrow> opts_slice \<Rightarrow> tls_opt list \<Rightarrow> bool" where
  "full h s os \<longleftrightarrow> (case s of None \<Rightarrow> os = []
   | Some (a, n) \<Rightarrow> a < length h \<and> n = length (h ! a) \<and> List.map_filter id (h ! a) = os)"

lemma full_opts: "full h s os \<Longrightarrow> opts_of h s = os"
  by (cases s) (auto simp: full_def)

lemma map_filter_append: "List.map_filter f (xs @ ys) = List.map_filter f xs @ List.map_filter f ys"
  by (simp add: List.map_filter_def)

lemma map_filter_None: "List.map_filter id (replicate n None) = []"
  by (induction n) (simp_all add: List.map_filter_simps)

lemma full_valid: "full h s os \<Longrightarrow> s = None \<or> fst (the s) < length h"
  by (cases s) (auto simp: full_def)

lemma opts_of_extend: "t = None \<or> fst (the t) < length h \<Longrightarrow> opts_of (h @ k) t = opts_of h t"
  by (cases t) (auto simp: nth_append)

lemma full_append:
  assumes "full h s os" "append_opt spare s x h = (s', h')"
  shows "(\<exists>c. h' = h @ [c]) \<and> full h' s os \<and> opts_of h' s' = os @ [x] \<and> (s' = None \<or> fst (the s') < length h')"
proof (cases s)
  case None
  then show ?thesis using assms by (auto simp: full_def map_filter_None List.map_filter_simps nth_append)
next
  case (Some q)
  obtain a n where "q = (a, n)" by (cases q)
  then show ?thesis using Some assms
    by (auto simp: full_def map_filter_append map_filter_None List.map_filter_simps nth_append)
qed

text \<open>The second certificate, when the slice of the first server is \<open>wt\<close>.\<close>

lemma gives_metrics:
  fixes f ww
  defines "met \<equiv> watcher_of (metricsCertPath f) (metricsCertName f) (metricsCertKey f)"
  assumes "full h tls (tls_opts f [])" "wt = None \<or> fst (the wt) < length h"
    and "opts_of h wt = tls_opts f web" "(case ww of None \<Rightarrow> [] | Some x \<Rightarrow> [x]) = web"
  shows "gives (watchedCert ans spare (metricsCertPath f) (metricsCertName f) (metricsCertKey f) tls
         (\<lambda>mw mt. runManager ans f o' ww wt mw mt)) h ans
     (map NewCertWatcher met @ [LoadConfig, NewManager (mgrOpts f o'), IndexField IndexBindingByCertificate, IndexField IndexBindingByTarget,
      SetupController ''aliyuncertificate'', SetupController ''aliyuncertificatebinding''] @
      map AddRunnable (met @ web) @ [AddHealthzCheck, AddReadyzCheck, StartManager (tls_opts f web) (tls_opts f met)])"
  unfolding met_def
proof (rule gives_watchedCert, goal_cases)
  case 1
  then show ?case
    using gives_runManager [of ans f o' ww wt None tls h] full_opts [OF assms(2)] assms(4,5)
    by (simp add: watcher_of_def)
next
  case (2 mt h')
  let ?w = "CertWatcher (metricsCertPath f) (metricsCertName f) (metricsCertKey f)"
  obtain c where h': "h' = h @ [c]" "opts_of h' mt = tls_opts f [] @ [GetCertificateOf ?w]"
    using full_append [OF assms(2) 2(2)] by blast
  then show ?case
    using gives_runManager [of ans f o' ww wt "Some ?w" mt h'] opts_of_extend [OF assms(3), of "[c]"] assms(4,5) 2(1)
    by (simp add: watcher_of_def tls_opts_def)
qed

lemma gives_servers:
  assumes "full h tls (tls_opts f [])"
  shows "gives (watchedCert ans spare (webhookCertPath f) (webhookCertName f) (webhookCertKey f) tls
      (\<lambda>ww wt. watchedCert ans spare (metricsCertPath f) (metricsCertName f) (metricsCertKey f) tls
         (\<lambda>mw mt. runManager ans f o' ww wt mw mt))) h ans
      (startup_calls f o' (tls_opts f (watcher_of (webhookCertPath f) (webhookCertName f) (webhookCertKey f))))"
  unfolding startup_calls_def Let_def map_append [of NewCertWatcher] append.assoc
proof (rule gives_watchedCert, goal_cases)
  case 1
  then show ?case
    using gives_metrics [OF assms full_valid [OF assms], of "[]" None ans spare o'] full_opts [OF assms]
    by (simp add: watcher_of_def)
next
  case (2 wt h')
  note a = full_append [OF assms 2(2)]
  show ?case
    using gives_metrics [of h' tls f wt "watcher_of (webhookCertPath f) (webhookCertName f) (webhookCertKey f)"
        "Some (CertWatcher (webhookCertPath f) (webhookCertName f) (webhookCertKey f))" ans spare o'] a 2(1)
    by (simp add: watcher_of_def tls_opts_def)
qed

text \<open>Both certificates with an array that has room: the webhook server keeps the second.\<close>

lemma gives_roomy:
  assumes "\<not> enableHTTP2 f" "0 < spare 0"
  shows "gives (watchedCert ans spare (webhookCertPath f) (webhookCertName f) (webhookCertKey f) (Some (0, 1))
      (\<lambda>ww wt. watchedCert ans spare (metricsCertPath f) (metricsCertName f) (metricsCertKey f) (Some (0, 1))
         (\<lambda>mw mt. runManager ans f o' ww wt mw mt))) [Some DisableHTTP2 # replicate (spare 0) None] ans
      (startup_calls f o' (webhook_tls spare f))"
  unfolding startup_calls_def Let_def map_append [of NewCertWatcher] append.assoc
proof (rule gives_watchedCert, goal_cases)
  case 1
  show ?case
  proof (rule gives_watchedCert, goal_cases)
    case 1
    show ?case
      using gives_runManager [of ans f o' None "Some (0, 1)" None "Some (0, 1)" "[Some DisableHTTP2 # replicate (spare 0) None]"]
        assms(1) \<open>webhookCertPath f = []\<close> \<open>metricsCertPath f = []\<close>
      by (simp add: watcher_of_def webhook_tls_def tls_opts_def List.map_filter_simps)
  next
    case (2 mt h')
    then show ?case
      using gives_runManager [of ans f o' None "Some (0, 1)" "Some (CertWatcher (metricsCertPath f) (metricsCertName f) (metricsCertKey f))" mt h']
        assms \<open>webhookCertPath f = []\<close>
      by (auto simp: watcher_of_def webhook_tls_def tls_opts_def List.map_filter_simps numeral_2_eq_2 gr0_conv_Suc)
  qed
next
  case (2 wt h1)
  then have h1: "wt = Some (0, 2)" "h1 = [Some DisableHTTP2 #
      Some (GetCertificateOf (CertWatcher (webhookCertPath f) (webhookCertName f) (webhookCertKey f))) # replicate (spare 0 - 1) None]"
    using assms(2) by (auto simp: gr0_conv_Suc)
  show ?case
  proof (rule gives_watchedCert, goal_cases)
    case 1
    show ?case
      using gives_runManager [of ans f o' "Some (CertWatcher (webhookCertPath f) (webhookCertName f) (webhookCertKey f))" wt None "Some (0, 1)" h1]
        assms(1) \<open>webhookCertPath f \<noteq> []\<close> \<open>metricsCertPath f = []\<close>
      by (simp add: h1 watcher_of_def webhook_tls_def tls_opts_def List.map_filter_simps numeral_2_eq_2)
  next
    case (2 mt h')
    then show ?case
      using gives_runManager [of ans f o' "Some (CertWatcher (webhookCertPath f) (webhookCertName f) (webhookCertKey f))" wt
          "Some (CertWatcher (metricsCertPath f) (metricsCertName f) (metricsCertKey f))" mt h']
        assms \<open>webhookCertPath f \<noteq> []\<close>
      by (auto simp: h1 watcher_of_def webhook_tls_def tls_opts_def List.map_filter_simps numeral_2_eq_2)
  qed
qed

text \<open>The calls of a start are those of the list, up to the first that fails.\<close>

lemma boot_calls:
  "boot spare ans f o1 = (case validate o1 of
     Inl err \<Rightarrow> (1, [])
   | Inr o2 \<Rightarrow> (let es = startup_calls f o2 (webhook_tls spare f) in
       (if list_all (\<lambda>e. ans e = None) es then 0 else 1, until_failure ans es)))"
proof (cases "validate o1")
  case (Inr o2)
  have "gives (main_process spare ans f o1) [] ans (startup_calls f o2 (webhook_tls spare f))"
  proof (cases "enableHTTP2 f")
    case True
    then show ?thesis using gives_servers [of "[]" None f ans spare o2] Inr
      by (simp add: main_process_def full_def tls_opts_def webhook_tls_def)
  next
    case False
    have h: "append_opt spare None DisableHTTP2 [] = (Some (0, 1), [Some DisableHTTP2 # replicate (spare 0) None])" by simp
    have "gives (watchedCert ans spare (webhookCertPath f) (webhookCertName f) (webhookCertKey f) (Some (0, 1))
        (\<lambda>ww wt. watchedCert ans spare (metricsCertPath f) (metricsCertName f) (metricsCertKey f) (Some (0, 1))
           (\<lambda>mw mt. runManager ans f o2 ww wt mw mt))) [Some DisableHTTP2 # replicate (spare 0) None] ans
        (startup_calls f o2 (webhook_tls spare f))"
    proof (cases "spare 0 = 0")
      case True
      have "full [[Some DisableHTTP2]] (Some (0, 1)) (tls_opts f [])"
        using False by (simp add: full_def tls_opts_def List.map_filter_simps)
      then show ?thesis using gives_servers [of "[[Some DisableHTTP2]]" "Some (0, 1)" f ans spare o2] True
        by (simp add: webhook_tls_def)
    qed (use gives_roomy False in simp)
    then show ?thesis
      using False Inr by (simp add: main_process_def Let_def gives_append [OF h])
  qed
  then show ?thesis using Inr unfolding boot_def gives_def by (simp add: case_prod_beta Let_def)
qed (simp add: boot_def main_process_def)

section \<open>Calls up to a failure\<close>

lemma until_failure_set: "set (until_failure ans es) \<subseteq> set es"
  by (induction es) auto

lemma until_failure_all: "list_all (\<lambda>e. ans e = None) es \<Longrightarrow> until_failure ans es = es"
  by (induction es) simp_all

lemma until_failure_butlast: "\<forall>e \<in> set (butlast (until_failure ans es)). ans e = None"
  by (induction es) auto

lemma until_failure_last:
  "\<not> list_all (\<lambda>e. ans e = None) es \<Longrightarrow> until_failure ans es \<noteq> [] \<and> ans (last (until_failure ans es)) \<noteq> None"
  by (induction es) auto

lemma until_failure_snoc:
  "until_failure ans (es @ [e]) = (if list_all (\<lambda>e. ans e = None) es then es @ [e] else until_failure ans es)"
  by (induction es) auto

lemma until_failure_sorted: "sorted (map g es) \<Longrightarrow> sorted (map g (until_failure ans es))"
  using until_failure_set by (induction es) fastforce+

section \<open>Properties\<close>

text \<open>The order of the calls: certificates, the configuration of the cluster, the manager, the
  indexes, the controllers, what else the manager runs, the start.\<close>

fun phase :: "startup_event \<Rightarrow> nat" where
  "phase (NewCertWatcher c) = 0"
| "phase LoadConfig = 1"
| "phase (NewManager o') = 2"
| "phase (IndexField i) = 3"
| "phase (SetupController c) = 4"
| "phase (AddRunnable c) = 5"
| "phase AddHealthzCheck = 5"
| "phase AddReadyzCheck = 5"
| "phase (StartManager w m) = 6"

text \<open>A server's configuration: HTTP/2 is off unless asked for, and its certificate is the one of
  the three file flags.\<close>

definition served_config :: "server_flags \<Rightarrow> string \<Rightarrow> string \<Rightarrow> string \<Rightarrow> tls_config \<Rightarrow> tls_config" where
  "served_config f path name key c = c\<lparr>
     tc_NextProtos := (if enableHTTP2 f then tc_NextProtos c else [''http/1.1'']),
     tc_GetCertificate := (if path = [] then tc_GetCertificate c else Some (CertWatcher path name key))\<rparr>"

text \<open>What must have been called before the manager starts.\<close>

definition prerequisites :: "server_flags \<Rightarrow> operatorOptions \<Rightarrow> startup_event set" where
  "prerequisites f o' = {LoadConfig, NewManager (mgrOpts f o'), IndexField IndexBindingByCertificate, IndexField IndexBindingByTarget,
     SetupController ''aliyuncertificate'', SetupController ''aliyuncertificatebinding'', AddHealthzCheck, AddReadyzCheck}"

lemma apply_opts_config:
  "fold apply_opt (tls_opts f (watcher_of path name key)) c = served_config f path name key c"
  by (simp add: tls_opts_def watcher_of_def served_config_def)

lemma startup_calls_shape:
  fixes f o' wt
  defines "mt \<equiv> tls_opts f (watcher_of (metricsCertPath f) (metricsCertName f) (metricsCertKey f))"
  obtains D where "startup_calls f o' wt = D @ [StartManager wt mt]" "\<And>w m. StartManager w m \<notin> set D"
    "prerequisites f o' \<subseteq> set D" "\<And>c. AddRunnable c \<in> set D \<longleftrightarrow> NewCertWatcher c \<in> set D"
    "sorted (map phase (D @ [StartManager wt mt]))"
proof
  let ?D = "butlast (startup_calls f o' wt)"
  show shape: "startup_calls f o' wt = ?D @ [StartManager wt mt]"
    by (simp add: startup_calls_def Let_def mt_def butlast_append)
  show "StartManager w m \<notin> set ?D" for w m
    by (auto simp: startup_calls_def Let_def butlast_append)
  show "prerequisites f o' \<subseteq> set ?D"
    by (simp add: startup_calls_def Let_def butlast_append prerequisites_def)
  show "AddRunnable c \<in> set ?D \<longleftrightarrow> NewCertWatcher c \<in> set ?D" for c
    by (auto simp: startup_calls_def Let_def butlast_append)
  show "sorted (map phase (?D @ [StartManager wt mt]))"
    unfolding shape [symmetric] by (simp add: startup_calls_def watcher_of_def Let_def)
qed

text \<open>
  C35. Starting the operator, whatever each call answers. The process ends with code 0 exactly
  when the manager was started and its run ended without an error, and with code 1 otherwise;
  it ends at the first call that fails. Flags that do not validate end it before any call.
  Calls keep to the order of \<open>phase\<close>, so no controller is set up before both indexes are
  registered. When the manager starts, which is the last call, all prerequisites have
  succeeded, with the options of the flags, and exactly the certificate watchers that were
  created run under it. Then HTTP/2 is off on both servers unless asked for, the metrics
  server presents the certificate of its own flags, and so does the webhook server, except in
  one case: both certificates are given, HTTP/2 is off and the runtime gave the array of the
  first \<open>append\<close> room for a second element (the language leaves it free to); then both
  servers present the certificate of the metrics server.
\<close>

theorem boot_safe:
  assumes "boot spare ans f o1 = (code, es)"
  shows "(code = 0 \<or> code = 1) \<and>
    (code = 0 \<longleftrightarrow> (\<exists>wt mt. StartManager wt mt \<in> set es \<and> ans (StartManager wt mt) = None)) \<and>
    (\<forall>e \<in> set (butlast es). ans e = None) \<and> (code = 1 \<and> es \<noteq> [] \<longrightarrow> ans (last es) \<noteq> None) \<and>
    (es = [] \<longleftrightarrow> (\<exists>err. validate o1 = Inl err)) \<and> sorted (map phase es) \<and>
    (\<forall>wt mt. StartManager wt mt \<in> set es \<longrightarrow>
       last es = StartManager wt mt \<and> (\<exists>o2. validate o1 = Inr o2 \<and> prerequisites f o2 \<subseteq> set (butlast es)) \<and>
       (\<forall>c. AddRunnable c \<in> set es \<longleftrightarrow> NewCertWatcher c \<in> set es) \<and>
       fold apply_opt mt cfg = served_config f (metricsCertPath f) (metricsCertName f) (metricsCertKey f) cfg \<and>
       fold apply_opt wt cfg =
         (if \<not> enableHTTP2 f \<and> 0 < spare 0 \<and> webhookCertPath f \<noteq> [] \<and> metricsCertPath f \<noteq> []
          then served_config f (metricsCertPath f) (metricsCertName f) (metricsCertKey f) cfg
          else served_config f (webhookCertPath f) (webhookCertName f) (webhookCertKey f) cfg))"
proof (cases "validate o1")
  case (Inl err)
  then show ?thesis using assms by (simp add: boot_calls)
next
  case (Inr o2)
  obtain D where D: "startup_calls f o2 (webhook_tls spare f) = D @ [StartManager (webhook_tls spare f)
        (tls_opts f (watcher_of (metricsCertPath f) (metricsCertName f) (metricsCertKey f)))]"
      "\<And>w m. StartManager w m \<notin> set D" "prerequisites f o2 \<subseteq> set D"
      "\<And>c. AddRunnable c \<in> set D \<longleftrightarrow> NewCertWatcher c \<in> set D"
      "sorted (map phase (D @ [StartManager (webhook_tls spare f)
        (tls_opts f (watcher_of (metricsCertPath f) (metricsCertName f) (metricsCertKey f)))]))"
    using that by (rule startup_calls_shape [of f o2 "webhook_tls spare f"])
  let ?S = "StartManager (webhook_tls spare f) (tls_opts f (watcher_of (metricsCertPath f) (metricsCertName f) (metricsCertKey f)))"
  have b: "code = (if list_all (\<lambda>e. ans e = None) (D @ [?S]) then 0 else 1)" "es = until_failure ans (D @ [?S])"
    using assms Inr D(1) by (simp_all add: boot_calls Let_def split: if_splits)
  show ?thesis
  proof (cases "list_all (\<lambda>e. ans e = None) D")
    case True
    then have es: "es = D @ [?S]" "code = (if ans ?S = None then 0 else 1)"
      using b by (simp_all add: until_failure_snoc)
    have starts: "StartManager w m \<in> set es \<longleftrightarrow> StartManager w m = ?S" for w m using D(2) es by auto
    show ?thesis
      unfolding starts
      using True D(3-5) Inr es by (auto simp: list_all_iff apply_opts_config webhook_tls_def)
  next
    case False
    then have es: "es = until_failure ans D" "code = 1" using b by (auto simp: until_failure_snoc)
    have "StartManager w m \<notin> set es" for w m using D(2) until_failure_set es(1) by fastforce
    then show ?thesis
      using False until_failure_butlast [of ans D] until_failure_last [OF False] until_failure_sorted [of phase D ans] D(5) Inr es
      by (simp add: sorted_append)
  qed
qed

text \<open>With room for a second option the webhook server presents the certificate of the metrics
  server.\<close>

definition both_certs :: server_flags where
  "both_certs = default_server_flags\<lparr>webhookCertPath := ''/web'', metricsCertPath := ''/met''\<rparr>"

lemma shared_room_swaps_certificate:
  "last (snd (boot (\<lambda>n. 1) (\<lambda>e. None) both_certs registerOperatorFlags)) =
     (let m = GetCertificateOf (CertWatcher ''/met'' ''tls.crt'' ''tls.key'') in StartManager [DisableHTTP2, m] [DisableHTTP2, m])"
  by code_simp

section \<open>Witnesses\<close>

text \<open>A start with both certificates in arrays without room: each server presents its own.\<close>

theorem boot_safe_witness:
  "\<exists>wt mt. StartManager wt mt \<in> set (snd (boot (\<lambda>n. n) (\<lambda>e. None) both_certs registerOperatorFlags)) \<and>
     tc_GetCertificate (fold apply_opt wt \<lparr> tc_NextProtos = [''h2''], tc_GetCertificate = None \<rparr>) =
       Some (CertWatcher ''/web'' ''tls.crt'' ''tls.key'') \<and>
     tc_NextProtos (fold apply_opt mt \<lparr> tc_NextProtos = [''h2''], tc_GetCertificate = None \<rparr>) = [''http/1.1'']"
proof -
  have "fst (boot (\<lambda>n. n) (\<lambda>e. None) both_certs registerOperatorFlags) = 0" by code_simp
  then obtain es where b: "boot (\<lambda>n. n) (\<lambda>e. None) both_certs registerOperatorFlags = (0, es)" by (metis prod.collapse)
  note safe = boot_safe [OF b, where cfg = "\<lparr> tc_NextProtos = [''h2''], tc_GetCertificate = None \<rparr>"]
  then obtain wt mt where "StartManager wt mt \<in> set es" by auto
  with safe b show ?thesis
    by (intro exI [of _ wt] exI [of _ mt]) (simp add: served_config_def both_certs_def default_server_flags_def)
qed

end
