(* ===== verification/Crash_Plant.thy ===== *)
theory Crash_Plant
  imports Upload Cas_Service
begin

text \<open>
  Uploads under faults: the upload step of the certificate controller against an API server
  that merges status patches and the fake CAS, where every call may be refused or lose its
  answer after it took effect. A crash is a round all of whose later calls are refused. The
  rounds of a certificate, with copies from a stale cache, renewals and rollbacks of the
  Secret in any order, are the relation \<open>plant_step\<close>. Retention and deletion are not part of it.
  Here are the relation, its invariant, and what every single call does under faults.
\<close>

section \<open>The plant\<close>

datatype fault = Fine | Refused gerror | Unanswered gerror

record plant =
  pl_obj :: AliyunCertificate
  pl_cas :: CAS
  pl_clock :: time
  pl_faults :: "fault list"

text \<open>A call under the next fault; once they are used up, calls go well.\<close>

definition faulty :: "(gerror \<Rightarrow> 'r) \<Rightarrow> (plant, 'r) state \<Rightarrow> (plant, 'r) state" where
  "faulty fail op = State (\<lambda>p. case pl_faults p of
     [] \<Rightarrow> run_state op p
   | f # fs \<Rightarrow> (let p = p\<lparr>pl_faults := fs\<rparr> in
       (case f of
          Fine \<Rightarrow> run_state op p
        | Refused e \<Rightarrow> (fail e, p)
        | Unanswered e \<Rightarrow> (fail e, snd (run_state op p)))))"

text \<open>A merge patch sends the fields in which the new status differs from the base. A field is taken
  as a whole: a real one also merges the parts of \<open>current\<close>, with the same result in the two
  cases that occur, a field equal to its base and a base equal to what the server holds.\<close>

definition pick :: "('s \<Rightarrow> 'a) \<Rightarrow> 's \<Rightarrow> 's \<Rightarrow> 's \<Rightarrow> 'a" where
  "pick f base new cur = (if f new = f base then f cur else f new)"

definition merge_status ::
  "AliyunCertificateStatus \<Rightarrow> AliyunCertificateStatus \<Rightarrow> AliyunCertificateStatus \<Rightarrow> AliyunCertificateStatus" where
  "merge_status b t c = \<lparr> x_ObservedGeneration = pick x_ObservedGeneration b t c,
     x_EffectiveIssuerRef = pick x_EffectiveIssuerRef b t c, x_SecretName = pick x_SecretName b t c,
     x_CertManagerCertificateName = pick x_CertManagerCertificateName b t c, x_Issuance = pick x_Issuance b t c,
     x_Current = pick x_Current b t c, x_History = pick x_History b t c, x_PendingUpload = pick x_PendingUpload b t c,
     x_CASProbedAt = pick x_CASProbedAt b t c, x_CleanupStartedAt = pick x_CleanupStartedAt b t c,
     x_Conditions = pick x_Conditions b t c \<rparr>"

definition plant_get :: "string \<Rightarrow> string \<Rightarrow> (plant, gerror + AliyunCertificate) state" where
  "plant_get ns n = faulty Inl (State (\<lambda>p.
     (if ac_Namespace (pl_obj p) = ns \<and> ac_Name (pl_obj p) = n then Inr (pl_obj p) else Inl not_found, p)))"

definition plant_patch :: "AliyunCertificate \<Rightarrow> AliyunCertificate \<Rightarrow> (plant, gerror + AliyunCertificate) state" where
  "plant_patch t base = faulty Inl (State (\<lambda>p.
     let x = (pl_obj p)\<lparr>ac_Status := merge_status (ac_Status base) (ac_Status t) (ac_Status (pl_obj p))\<rparr>
     in (Inr x, p\<lparr>pl_obj := x\<rparr>)))"

definition on_service :: "(CAS, 'a) state \<Rightarrow> (plant, 'a) state" where
  "on_service m = State (\<lambda>p. case run_state m (pl_cas p) of (x, f) \<Rightarrow> (x, p\<lparr>pl_cas := f\<rparr>))"

definition plant_cas :: "plant CASClient" where
  "plant_cas = \<lparr> cas_Upload = (\<lambda>n c k t. faulty Inl (on_service (fake_Upload n c k t))),
     cas_Delete = (\<lambda>i t. faulty Some (on_service (fake_Delete i t))),
     cas_FindUploaded = (\<lambda>h. faulty Inl (on_service (fake_FindUploaded h))) \<rparr>"

text \<open>The other calls of the API server are not made by an upload.\<close>

abbreviation unused :: "(plant, gerror + 'a) state" where
  "unused \<equiv> ret (Inl not_found)"

definition plant_kube :: "plant kube" where
  "plant_kube = \<lparr> k_GetAC = plant_get, k_UpdateAC = (\<lambda>a. unused), k_PatchACStatus = plant_patch,
     k_GetCert = (\<lambda>ns n. unused), k_CreateOrUpdateCert = (\<lambda>c f. unused), k_DeleteCert = (\<lambda>c. ret (Some not_found)),
     k_GetSecret = (\<lambda>ns n. unused), k_DeleteSecret = (\<lambda>s. ret (Some not_found)), k_ListByTarget = (\<lambda>key. unused),
     k_UpdateBinding = (\<lambda>b. unused), k_PatchBindingStatus = (\<lambda>t b. unused), live_GetAC = Some plant_get,
     live_ListBindings = (\<lambda>ns. unused), live_GetBinding = (\<lambda>ns n. unused), k_now = State (\<lambda>p. (pl_clock p, p)) \<rparr>"

definition plant_reconciler :: "meta_api \<Rightarrow> crypto_env \<Rightarrow> plant AliyunCertificateReconciler" where
  "plant_reconciler mt env = \<lparr> r_kube = plant_kube, r_meta = mt, r_crypto = env,
     r_CASFactory = Some (\<lambda>ac. faulty Inl (ret (Inr plant_cas))), r_ResyncInterval = hour, r_CASProbeInterval = 12 * hour,
     r_IssuanceStallThreshold = hour, r_CleanupGracePeriod = hour, r_CleanupFailurePolicy = ''Abandon'',
     r_defaults = \<lparr> d_Name = [], d_Kind = [], d_Group = [] \<rparr> \<rparr>"

text \<open>The upload step and the patch at the end of the round; what the round does to the conditions
  in between does not matter here.\<close>

definition upload_round ::
  "meta_api \<Rightarrow> crypto_env \<Rightarrow> AliyunCertificate \<Rightarrow> AliyunCertificate \<Rightarrow> Bundle \<Rightarrow> (plant, gerror + AliyunCertificate) io" where
  "upload_round mt env ac orig b = do {
     (res, ac, orig) \<leftarrow> ensureUploaded (plant_reconciler mt env) ac orig b;
     patchStatus (plant_reconciler mt env) ac orig
   }"

definition run_round ::
  "meta_api \<Rightarrow> crypto_env \<Rightarrow> fault list \<Rightarrow> AliyunCertificate \<Rightarrow> AliyunCertificate \<Rightarrow> Bundle \<Rightarrow> plant \<Rightarrow> plant" where
  "run_round mt env fs ac orig b p = world (snd (run_state (upload_round mt env ac orig b) (start (p\<lparr>pl_faults := fs\<rparr>))))"

text \<open>The fields of the status an upload owns.\<close>

definition upload_state where
  "upload_state ac = (let x = ac_Status ac in (x_Current x, x_History x, x_PendingUpload x, x_CASProbedAt x))"

definition same_object :: "AliyunCertificate \<Rightarrow> AliyunCertificate \<Rightarrow> bool" where
  "same_object a b \<longleftrightarrow> ac_Namespace a = ac_Namespace b \<and> ac_Name a = ac_Name b \<and> ac_UID a = ac_UID b"

inductive plant_step :: "meta_api \<Rightarrow> crypto_env \<Rightarrow> string set \<Rightarrow> plant \<Rightarrow> plant \<Rightarrow> bool" for mt env F where
  round: "same_object ac (pl_obj p) \<Longrightarrow> upload_state ac = upload_state orig \<Longrightarrow> bn_Fingerprint b \<in> F \<Longrightarrow>
    plant_step mt env F p (run_round mt env fs ac orig b p)"
| tick: "pl_clock p \<le> t \<Longrightarrow> plant_step mt env F p (p\<lparr>pl_clock := t\<rparr>)"
| edit: "same_object x (pl_obj p) \<Longrightarrow> upload_state x = upload_state (pl_obj p) \<Longrightarrow> plant_step mt env F p (p\<lparr>pl_obj := x\<rparr>)"

section \<open>The invariant\<close>

definition generations :: "AliyunCertificate \<Rightarrow> CertificateGeneration list" where
  "generations ac = (case x_Current (ac_Status ac) of None \<Rightarrow> [] | Some c \<Rightarrow> [c]) @ x_History (ac_Status ac)"

text \<open>The service keeps names apart, and a token it knows was made for the name of its certificate.\<close>

definition named_apart :: "string set \<Rightarrow> CAS \<Rightarrow> bool" where
  "named_apart N f \<longleftrightarrow> distinct (map f_Name (certs f)) \<and> 0 \<le> nextID f \<and>
     (\<forall>c \<in> set (certs f). f_ID c \<noteq> 0 \<and> f_Name c \<in> N)"

definition service_ok :: "string \<Rightarrow> string \<Rightarrow> string set \<Rightarrow> CAS \<Rightarrow> bool" where
  "service_ok uid name F f \<longleftrightarrow> fake_inv f \<and> uploadErrs f = [] \<and> findErrs f = [] \<and> failAfterCommit f = None \<and>
     named_apart (CASName name ` F) f \<and>
     (\<forall>t i. fake_tok f t = Some i \<longrightarrow> (\<exists>fp \<in> F. \<exists>s. t = uploadToken uid fp s \<and> fake_view f i = Some (CASName name fp)))"

definition record_ok :: "string \<Rightarrow> string \<Rightarrow> string set \<Rightarrow> PendingUpload \<Rightarrow> bool" where
  "record_ok uid name F q \<longleftrightarrow> p_Fingerprint q \<in> F \<and> p_CASName q = CASName name (p_Fingerprint q) \<and>
     (\<exists>s. p_ClientToken q = uploadToken uid (p_Fingerprint q) s)"

definition pending_ok :: "string \<Rightarrow> string \<Rightarrow> string set \<Rightarrow> AliyunCertificate \<Rightarrow> bool" where
  "pending_ok uid name F ac \<longleftrightarrow> (case x_PendingUpload (ac_Status ac) of None \<Rightarrow> True | Some q \<Rightarrow> record_ok uid name F q)"

definition generations_ok :: "string \<Rightarrow> CAS \<Rightarrow> AliyunCertificate \<Rightarrow> bool" where
  "generations_ok name f ac \<longleftrightarrow> (\<forall>g \<in> set (generations ac). \<forall>i. g_CertID g = Some i \<longrightarrow>
     fake_view f i = Some (CASName name (g_Fingerprint g)))"

definition plant_inv :: "string \<Rightarrow> string \<Rightarrow> string \<Rightarrow> string set \<Rightarrow> plant \<Rightarrow> bool" where
  "plant_inv ns name uid F p \<longleftrightarrow> ac_Namespace (pl_obj p) = ns \<and> ac_Name (pl_obj p) = name \<and> ac_UID (pl_obj p) = uid \<and>
     service_ok uid name F (pl_cas p) \<and> pending_ok uid name F (pl_obj p) \<and> generations_ok name (pl_cas p) (pl_obj p)"

text \<open>Fingerprints that the tokens of one object tell apart.\<close>

definition apart :: "string \<Rightarrow> string set \<Rightarrow> bool" where
  "apart uid F \<longleftrightarrow> tokenUIDLen \<le> length (RemoveAll uid (CHR ''-'')) \<and> (\<forall>fp \<in> F. tokenFPLen \<le> length fp) \<and> inj_on (take 24) F"

section \<open>Lemmas\<close>

text \<open>Triples over the world of a computation.\<close>

definition triple :: "('w \<Rightarrow> bool) \<Rightarrow> ('w, 'a) io \<Rightarrow> ('a \<Rightarrow> 'w \<Rightarrow> bool) \<Rightarrow> bool" where
  "triple P m Q \<longleftrightarrow> (\<forall>s. P (world s) \<longrightarrow> Q (fst (run_state m s)) (world (snd (run_state m s))))"

named_theorems triple_intro \<open>rules of the triples, applied backwards\<close>

lemma triple_ret [triple_intro]: "(\<And>w. P w \<Longrightarrow> Q x w) \<Longrightarrow> triple P (ret x) Q"
  by (simp add: triple_def)

lemma triple_bind: "triple P m R \<Longrightarrow> (\<And>x. triple (R x) (f x) Q) \<Longrightarrow> triple P (State_Monad.bind m f) Q"
  by (auto simp: triple_def split: prod.split)

lemma triple_emit [triple_intro]: "(\<And>w. P w \<Longrightarrow> Q () w) \<Longrightarrow> triple P (emit e) Q"
  by (simp add: triple_def emit_def)

lemma triple_perform: "(\<And>w r w'. P w \<Longrightarrow> run_state op w = (r, w') \<Longrightarrow> Q r w') \<Longrightarrow> triple P (perform ev op) Q"
  by (auto simp: triple_def perform_def split: prod.splits)

lemma triple_weaken: "triple P m Q \<Longrightarrow> (\<And>w. P' w \<Longrightarrow> P w) \<Longrightarrow> (\<And>x w. Q x w \<Longrightarrow> Q' x w) \<Longrightarrow> triple P' m Q'"
  unfolding triple_def by blast

lemma triple_pre: "(\<And>w. P w \<Longrightarrow> triple (\<lambda>v. v = w) m Q) \<Longrightarrow> triple P m Q"
  unfolding triple_def by blast

lemma triple_if [triple_intro]:
  "(c \<Longrightarrow> triple P m Q) \<Longrightarrow> (\<not> c \<Longrightarrow> triple P n Q) \<Longrightarrow> triple P (if c then m else n) Q"
  by simp

lemma triple_case_sum [triple_intro]:
  "(\<And>e. x = Inl e \<Longrightarrow> triple P (f e) Q) \<Longrightarrow> (\<And>y. x = Inr y \<Longrightarrow> triple P (g y) Q) \<Longrightarrow>
   triple P (case x of Inl e \<Rightarrow> f e | Inr y \<Rightarrow> g y) Q"
  by (cases x) auto

lemma triple_case_prod [triple_intro]:
  "(\<And>a b. x = (a, b) \<Longrightarrow> triple P (f a b) Q) \<Longrightarrow> triple P (case x of (a, b) \<Rightarrow> f a b) Q"
  by (cases x) auto

text \<open>A faulty call: refused it changes nothing but the faults, unanswered it has taken effect.\<close>

lemma faulty_cases:
  assumes "run_state (faulty fail op) p = (r, p')"
  obtains (answered) fs where "run_state op (p\<lparr>pl_faults := fs\<rparr>) = (r, p')" "pl_faults p = [] \<longrightarrow> fs = []"
  | (refused) e fs where "r = fail e" "p' = p\<lparr>pl_faults := fs\<rparr>" "pl_faults p \<noteq> []"
  | (unanswered) e x fs where "r = fail e" "run_state op (p\<lparr>pl_faults := fs\<rparr>) = (x, p')" "pl_faults p \<noteq> []"
proof (cases "pl_faults p")
  case Nil
  then have "p\<lparr>pl_faults := []\<rparr> = p" by simp
  with Nil assms answered [of "[]"] show thesis by (simp add: faulty_def)
next
  case (Cons f fs)
  obtain x q where q: "run_state op (p\<lparr>pl_faults := fs\<rparr>) = (x, q)" by fastforce
  show thesis
    using assms Cons answered [of fs] refused [of _ fs] unanswered [of _ fs] q
    by (cases f) (auto simp: faulty_def Let_def)
qed

text \<open>The service.\<close>

lemma uploadToken_not_Nil [simp]: "uploadToken uid fp s \<noteq> []"
  by (simp add: uploadToken_def hex8_def)

lemma uploadToken_apart:
  assumes "apart uid F" "fp \<in> F" "fp' \<in> F" "uploadToken uid fp s = uploadToken uid fp' s'"
  shows "fp = fp'"
proof -
  have len: "tokenUIDLen \<le> length (RemoveAll uid (CHR ''-''))" "tokenFPLen \<le> length fp" "tokenFPLen \<le> length fp'"
    using assms(1-3) by (simp_all add: apart_def)
  have "length (hex8 x) = 8" for x by (simp add: hex8_def)
  then have "slice_to tokenPrefixLen (ClientToken uid fp) = slice_to tokenPrefixLen (ClientToken uid fp')"
    using assms(4) by (simp add: uploadToken_def append_eq_append_conv)
  then have "take 24 fp = take 24 fp'"
    using len by (simp add: ClientToken_def tokenPrefixLen_def Let_def slice_to_take min.absorb1 min.absorb2)
  with assms(1-3) show ?thesis by (auto simp: apart_def inj_on_def)
qed

lemma fake_Upload_rest:
  assumes "run_state (fake_Upload n c k t) f = (r, f')" "uploadErrs f = []" "findErrs f = []" "failAfterCommit f = None"
    "named_apart N f" "n \<in> N"
  shows "uploadErrs f' = [] \<and> findErrs f' = [] \<and> failAfterCommit f' = None \<and> named_apart N f' \<and>
    (\<forall>e. r = Inl e \<longrightarrow> e = ErrDuplicateName \<and> (\<exists>x \<in> set (certs f'). f_Name x = n))"
proof (cases "(map_of (byToken f) t \<noteq> None \<and> t \<noteq> []) \<or> (\<exists>x \<in> set (certs f). f_Name x = n)")
  case True
  then show ?thesis using assms by (auto simp: fake_Upload_def Let_def named_apart_def split: if_splits)
next
  case False
  then have "f_Name x \<noteq> n" if "x \<in> set (certs f)" for x using that by blast
  then have d: "n \<notin> f_Name ` set (certs f)" by blast
  have "uploadErrs f' = [] \<and> findErrs f' = [] \<and> failAfterCommit f' = None \<and> (\<exists>i. r = Inr i) \<and> nextID f' = nextID f + 1 \<and>
      certs f' = certs f @ [\<lparr> f_ID = nextID f + 1, f_Name = n, f_CertPEM = c, f_KeyPEM = k, f_Token = t \<rparr>]"
    using assms(1-4) False by (cases "t = []") (auto simp: fake_Upload_def Let_def)
  with assms(5,6) d show ?thesis by (auto simp: named_apart_def)
qed

lemma fake_Upload_service:
  assumes "apart uid F" "service_ok uid name F f" "record_ok uid name F q"
    and run: "run_state (fake_Upload (p_CASName q) c k (p_ClientToken q)) f = (r, f')"
  shows "service_ok uid name F f' \<and> fake_view f \<subseteq>\<^sub>m fake_view f' \<and> (\<forall>i. r = Inr i \<longrightarrow> fake_view f' i = Some (p_CASName q)) \<and>
    (\<forall>e. r = Inl e \<longrightarrow> e = ErrDuplicateName \<and> (\<exists>x \<in> set (certs f'). f_Name x = p_CASName q))"
proof -
  let ?tok = "\<lambda>g. \<forall>t i. fake_tok g t = Some i \<longrightarrow> (\<exists>fp \<in> F. \<exists>s. t = uploadToken uid fp s \<and> fake_view g i = Some (CASName name fp))"
  obtain s where q: "p_Fingerprint q \<in> F" "p_CASName q = CASName name (p_Fingerprint q)"
    "p_ClientToken q = uploadToken uid (p_Fingerprint q) s" using assms(3) by (auto simp: record_ok_def)
  have ok: "fake_inv f" "?tok f" using assms(2) by (simp_all add: service_ok_def)
  have rest: "uploadErrs f' = [] \<and> findErrs f' = [] \<and> failAfterCommit f' = None \<and> named_apart (CASName name ` F) f' \<and>
      (\<forall>e. r = Inl e \<longrightarrow> e = ErrDuplicateName \<and> (\<exists>x \<in> set (certs f'). f_Name x = p_CASName q))"
    using fake_Upload_rest [OF run] assms(2) q(1,2) by (auto simp: service_ok_def)
  have "fake_inv f' \<and> ?tok f' \<and> fake_view f \<subseteq>\<^sub>m fake_view f' \<and> (\<forall>i. r = Inr i \<longrightarrow> fake_view f' i = Some (p_CASName q))"
    using ok(1) run
  proof (cases rule: fake_Upload_cases)
    case (known i)
    then obtain fp s' where fp: "fp \<in> F" "p_ClientToken q = uploadToken uid fp s'" "fake_view f i = Some (CASName name fp)"
      using ok(2) by blast
    then have "fp = p_Fingerprint q" using uploadToken_apart [OF assms(1) fp(1) q(1), of s' s] q(3) by simp
    with known ok(2) fp(3) q(2) show ?thesis by simp
  next
    case (new i)
    then have "fake_view f' j = fake_view f j" if "fake_view f j \<noteq> None" for j using that by auto
    moreover have "fake_view f' i = Some (p_CASName q)" using new(2) by simp
    moreover have "?tok f'"
      using ok(2) new(1-3) q by auto (metis option.distinct(1))
    ultimately show ?thesis using new(5,6) by (auto simp: map_le_def dom_def)
  qed (use ok(2) in simp_all)
  with rest show ?thesis by (simp add: service_ok_def)
qed

text \<open>A listing that is asked for a part of the name finds the certificate of that name.\<close>

definition hint_fits :: "string \<Rightarrow> string \<Rightarrow> bool" where
  "hint_fits h n \<longleftrightarrow> h = [] \<or> Contains n (sanitizeHint h)"

lemma fake_Find_service:
  assumes "service_ok uid name F f" "run_state (fake_FindUploaded h) f = (r, f')"
  shows "service_ok uid name F f' \<and> fake_view f' = fake_view f \<and>
    (\<exists>l. r = Inr l \<and> (\<forall>s \<in> set l. sm_CertID s \<noteq> 0 \<and> fake_view f (sm_CertID s) = Some (sm_Name s)) \<and>
       (\<forall>x \<in> set (certs f). hint_fits h (f_Name x) \<longrightarrow> f_Name x \<in> sm_Name ` set l))"
proof -
  have e: "findErrs f = []" "named_apart (CASName name ` F) f" and i: "fake_inv f" using assms(1) by (simp_all add: service_ok_def)
  have run: "run_state (cas_FindUploaded fake_cas h) f = (r, f')" using assms(2) by (simp add: fake_cas_def)
  obtain l where l: "r = Inr l" and "l = map (\<lambda>c. \<lparr> sm_CertID = f_ID c, sm_Name = f_Name c, sm_SANs = [], sm_EndDate = [] \<rparr>)
      (filter (\<lambda>c. h = [] \<or> Contains (f_Name c) (sanitizeHint h)) (certs f))"
    using assms(2) e(1) by (auto simp: fake_FindUploaded_def Let_def)
  then have "\<forall>x \<in> set (certs f). hint_fits h (f_Name x) \<longrightarrow> f_Name x \<in> sm_Name ` set l" "\<forall>s \<in> set l. sm_CertID s \<noteq> 0"
    using e(2) by (force simp: hint_fits_def named_apart_def)+
  moreover have "\<forall>s \<in> set l. fake_view f (sm_CertID s) = Some (sm_Name s)"
    using fk.find_sound [OF i] run l by blast
  moreover have "f' = f\<lparr>findCalls := findCalls f + 1\<rparr>"
    using assms(2) e(1) by (auto simp: fake_FindUploaded_def Let_def)
  then have "service_ok uid name F f'" "fake_view f' = fake_view f"
    using assms(1) by (simp_all add: service_ok_def named_apart_def fake_inv_def fake_view_def fake_tok_def)
  ultimately show ?thesis using l by blast
qed

section \<open>The calls\<close>

text \<open>Calls that only read; without faults they answer.\<close>

definition harmless :: "plant \<Rightarrow> plant \<Rightarrow> bool" where
  "harmless p p' \<longleftrightarrow> pl_obj p' = pl_obj p \<and> pl_cas p' = pl_cas p \<and> (pl_faults p = [] \<longrightarrow> pl_faults p' = [])"

lemma harmless_inv: "harmless p p' \<Longrightarrow> plant_inv ns name uid F p \<Longrightarrow> plant_inv ns name uid F p'"
  by (simp add: harmless_def plant_inv_def)

lemma plant_get_spec:
  assumes "run_state (plant_get (ac_Namespace ac) (ac_Name ac)) p = (r, p')" "same_object ac (pl_obj p)"
  shows "harmless p p' \<and> (\<forall>x. r = Inr x \<longrightarrow> x = pl_obj p) \<and> (pl_faults p = [] \<longrightarrow> r = Inr (pl_obj p))"
  using assms(1) unfolding plant_get_def
  by (rule faulty_cases) (use assms(2) in \<open>auto simp: harmless_def same_object_def\<close>)

abbreviation patched :: "AliyunCertificate \<Rightarrow> AliyunCertificate \<Rightarrow> AliyunCertificate \<Rightarrow> AliyunCertificate" where
  "patched t base x \<equiv> x\<lparr>ac_Status := merge_status (ac_Status base) (ac_Status t) (ac_Status x)\<rparr>"

lemma plant_patch_spec:
  assumes "run_state (plant_patch t base) p = (r, p')"
  shows "pl_cas p' = pl_cas p \<and> (pl_faults p = [] \<longrightarrow> pl_faults p' = [] \<and> (\<exists>x. r = Inr x)) \<and>
    (pl_obj p' = pl_obj p \<or> pl_obj p' = patched t base (pl_obj p)) \<and>
    (\<forall>x. r = Inr x \<longrightarrow> pl_obj p' = patched t base (pl_obj p))"
  using assms unfolding plant_patch_def by (rule faulty_cases) (auto simp: Let_def)

text \<open>The service through the plant: whatever happens to the call, it keeps its laws and loses
  nothing.\<close>

definition supplies :: "string \<Rightarrow> string \<Rightarrow> string set \<Rightarrow> plant \<Rightarrow> plant \<Rightarrow> bool" where
  "supplies uid name F p p' \<longleftrightarrow> pl_obj p' = pl_obj p \<and> service_ok uid name F (pl_cas p') \<and>
     fake_view (pl_cas p) \<subseteq>\<^sub>m fake_view (pl_cas p') \<and> (pl_faults p = [] \<longrightarrow> pl_faults p' = [])"

lemma supplies_inv:
  assumes "supplies uid name F p p'" "plant_inv ns name uid F p"
  shows "plant_inv ns name uid F p'"
proof -
  have "fake_view (pl_cas p') i = Some n" if "fake_view (pl_cas p) i = Some n" for i n
    using that assms(1) by (auto simp: supplies_def map_le_def dom_def)
  then show ?thesis using assms by (simp add: supplies_def plant_inv_def generations_ok_def)
qed

lemma on_service_cases:
  assumes "run_state (faulty fail (on_service m)) p = (r, p')"
  obtains (none) e where "r = fail e" "pl_obj p' = pl_obj p" "pl_cas p' = pl_cas p" "pl_faults p \<noteq> []"
  | (ran) x where "run_state m (pl_cas p) = (x, pl_cas p')" "pl_obj p' = pl_obj p" "pl_faults p = [] \<longrightarrow> pl_faults p' = []"
      "r = x \<or> pl_faults p \<noteq> [] \<and> (\<exists>e. r = fail e)"
  using assms
proof (cases rule: faulty_cases)
  case (answered fs)
  then show thesis by (intro ran [of r]) (auto simp: on_service_def split: prod.splits)
next
  case (refused e fs)
  then show thesis by (intro none [of e]) simp_all
next
  case (unanswered e x fs)
  then show thesis by (intro ran [of x]) (auto simp: on_service_def split: prod.splits)
qed

lemma plant_upload_spec:
  assumes "apart uid F" "service_ok uid name F (pl_cas p)" "record_ok uid name F q"
    and "run_state (cas_Upload plant_cas (p_CASName q) c k (p_ClientToken q)) p = (r, p')"
  shows "supplies uid name F p p' \<and> (\<forall>i. r = Inr i \<longrightarrow> fake_view (pl_cas p') i = Some (p_CASName q)) \<and>
    (pl_faults p = [] \<longrightarrow> (\<forall>e. r = Inl e \<longrightarrow> e = ErrDuplicateName \<and> (\<exists>x \<in> set (certs (pl_cas p')). f_Name x = p_CASName q)))"
proof -
  have "run_state (faulty Inl (on_service (fake_Upload (p_CASName q) c k (p_ClientToken q)))) p = (r, p')"
    using assms(4) by (simp add: plant_cas_def)
  then show ?thesis
  proof (cases rule: on_service_cases)
    case (ran x)
    show ?thesis using fake_Upload_service [OF assms(1-3) ran(1)] ran(2-4) by (auto simp: supplies_def)
  qed (use assms(2) in \<open>auto simp: supplies_def\<close>)
qed

lemma plant_find_spec:
  assumes "service_ok uid name F (pl_cas p)" "run_state (cas_FindUploaded plant_cas h) p = (r, p')"
  shows "supplies uid name F p p' \<and> fake_view (pl_cas p') = fake_view (pl_cas p) \<and>
    (\<forall>l. r = Inr l \<longrightarrow> (\<forall>s \<in> set l. sm_CertID s \<noteq> 0 \<and> fake_view (pl_cas p) (sm_CertID s) = Some (sm_Name s)) \<and>
       (\<forall>x \<in> set (certs (pl_cas p)). hint_fits h (f_Name x) \<longrightarrow> f_Name x \<in> sm_Name ` set l)) \<and>
    (pl_faults p = [] \<longrightarrow> (\<exists>l. r = Inr l))"
proof -
  have "run_state (faulty Inl (on_service (fake_FindUploaded h))) p = (r, p')"
    using assms(2) by (simp add: plant_cas_def)
  then show ?thesis
  proof (cases rule: on_service_cases)
    case (ran x)
    from fake_Find_service [OF assms(1) ran(1)] ran(2-4) show ?thesis by (auto simp: supplies_def)
  qed (use assms(1) in \<open>auto simp: supplies_def\<close>)
qed

end
