(* ===== verification/Crash_Safety.thy ===== *)
theory Crash_Safety
  imports Crash_Plant
begin

text \<open>
  The upload step in the plant of \<open>Crash_Plant\<close>: a triple for each of its parts, the invariant of
  a round under any faults and what a round without faults reaches; then, by induction over
  the reachable plants, that uploads survive crashes and recover from them.
\<close>

section \<open>The steps of an upload\<close>

lemma merge_follows:
  "upload_state base = upload_state x \<Longrightarrow> upload_state (patched t base x) = upload_state t"
  by (auto simp: upload_state_def merge_status_def pick_def Let_def)

lemma merge_keeps:
  "upload_state t = upload_state base \<Longrightarrow> upload_state (patched t base x) = upload_state x"
  by (auto simp: upload_state_def merge_status_def pick_def Let_def)

lemma upload_state_cong:
  assumes "upload_state a = upload_state b"
  shows "generations_ok name f a = generations_ok name f b" "pending_ok uid name F a = pending_ok uid name F b"
    "x_Current (ac_Status a) = x_Current (ac_Status b)" "x_PendingUpload (ac_Status a) = x_PendingUpload (ac_Status b)"
  using assms by (simp_all add: upload_state_def generations_ok_def generations_def pending_ok_def Let_def)

lemma same_object_simps [simp]:
  "same_object a a" "same_object (a\<lparr>ac_Status := x\<rparr>) b = same_object a b" "same_object a (b\<lparr>ac_Status := x\<rparr>) = same_object a b"
  "same_object (adoptUploadState a c) b = same_object a b" "ac_Spec (adoptUploadState a c) = ac_Spec a"
  by (simp_all add: same_object_def adoptUploadState_def)

lemma same_object_trans: "same_object a b \<Longrightarrow> same_object c b \<Longrightarrow> same_object a c"
  by (simp add: same_object_def)

lemma upload_state_adopt [simp]: "upload_state (adoptUploadState a b) = upload_state b"
  by (simp add: adoptUploadState_def upload_state_def Let_def)

lemma plant_inv_new_object:
  assumes "plant_inv ns name uid F p" "pl_cas p' = pl_cas p" "same_object (pl_obj p) (pl_obj p')"
    and "upload_state (pl_obj p') = upload_state a" "generations_ok name (pl_cas p) a" "pending_ok uid name F a"
  shows "plant_inv ns name uid F p'"
  using assms upload_state_cong(1,2) [OF assms(4)] by (simp add: plant_inv_def same_object_def)

lemma plant_inv_parts:
  assumes "plant_inv ns name uid F p"
  shows "service_ok uid name F (pl_cas p)" "generations_ok name (pl_cas p) (pl_obj p)" "pending_ok uid name F (pl_obj p)"
  using assms by (simp_all add: plant_inv_def)

text \<open>A copy and its patch base that agree with the server on what an upload owns.\<close>

definition in_step :: "plant \<Rightarrow> AliyunCertificate \<Rightarrow> AliyunCertificate \<Rightarrow> bool" where
  "in_step p ac orig \<longleftrightarrow> same_object ac (pl_obj p) \<and> upload_state ac = upload_state (pl_obj p) \<and>
     upload_state orig = upload_state (pl_obj p)"

lemma in_step_harmless: "harmless p p' \<Longrightarrow> in_step p ac orig \<Longrightarrow> in_step p' ac orig"
  by (simp add: in_step_def harmless_def)

lemma triple_now: "triple P (now (plant_reconciler mt env)) (\<lambda>_. P)"
  unfolding now_def by (rule triple_perform) (auto simp: plant_reconciler_def plant_kube_def)

lemma triple_refresh:
  assumes "same_object ac (pl_obj p)"
  shows "triple (\<lambda>w. w = p) (refreshUploadState (plant_reconciler mt env) ac orig)
    (\<lambda>res w. harmless p w \<and> (\<forall>a o'. res = Inr (a, o') \<longrightarrow> in_step w a o' \<and> ac_Spec a = ac_Spec ac) \<and>
       (pl_faults p = [] \<longrightarrow> (\<exists>y. res = Inr y)))"
proof -
  have "triple (\<lambda>w. w = p) (perform (GetAC True (ac_Namespace ac) (ac_Name ac)) (plant_get (ac_Namespace ac) (ac_Name ac)))
     (\<lambda>r w. harmless p w \<and> (\<forall>x. r = Inr x \<longrightarrow> x = pl_obj p) \<and> (pl_faults p = [] \<longrightarrow> r = Inr (pl_obj p)))"
    by (rule triple_perform) (use plant_get_spec [OF _ assms] in blast)
  then show ?thesis
    unfolding refreshUploadState_def plant_reconciler_def plant_kube_def
    by (simp, elim triple_bind, intro triple_intro) (use assms in \<open>auto simp: in_step_def harmless_def\<close>)
qed

lemma triple_casClient:
  "triple (\<lambda>w. w = p) (casClient (plant_reconciler mt env) ac)
    (\<lambda>res w. harmless p w \<and> (\<forall>c. res = Inr c \<longrightarrow> c = plant_cas) \<and> (pl_faults p = [] \<longrightarrow> (\<exists>y. res = Inr y)))"
  unfolding casClient_def plant_reconciler_def
  by simp (rule triple_perform, erule faulty_cases, auto simp: harmless_def)

text \<open>The write-ahead record.\<close>

definition has_record :: "string \<Rightarrow> string \<Rightarrow> string set \<Rightarrow> string \<Rightarrow> AliyunCertificate \<Rightarrow> bool" where
  "has_record uid name F fp a \<longleftrightarrow> (\<exists>q. x_PendingUpload (ac_Status a) = Some q \<and> record_ok uid name F q \<and> p_Fingerprint q = fp)"

lemma triple_patchPending:
  assumes inv: "plant_inv ns name uid F p" and step: "in_step p ac orig" and q: "record_ok uid name F q" "p_Fingerprint q = fp"
  shows "triple (\<lambda>w. w = p) (patchPendingUpload (plant_reconciler mt env) ac orig q)
    (\<lambda>res w. plant_inv ns name uid F w \<and> (pl_faults p = [] \<longrightarrow> pl_faults w = [] \<and> (\<exists>y. res = Inr y)) \<and> same_object ac (pl_obj w) \<and>
       (\<forall>a o'. res = Inr (a, o') \<longrightarrow> in_step w a o' \<and> ac_Spec a = ac_Spec ac \<and> has_record uid name F fp a))"
proof -
  let ?t = "with_pending (Some q) ac"
  have up: "upload_state ?t = upload_state (with_pending (Some q) (pl_obj p))" "upload_state (with_pending (Some q) orig) = upload_state ?t"
    using step by (simp_all add: in_step_def upload_state_def Let_def)
  have t: "upload_state (patched ?t ac (pl_obj p)) = upload_state ?t"
    using step by (intro merge_follows) (simp add: in_step_def)
  have g: "generations_ok name (pl_cas p) ?t" "pending_ok uid name F ?t"
    using plant_inv_parts(2) [OF inv] q(1) upload_state_cong(1,2) [OF up(1)]
    by (simp_all add: generations_ok_def generations_def pending_ok_def)
  have "triple (\<lambda>w. w = p) (perform (PatchACStatus ?t ac) (plant_patch ?t ac))
     (\<lambda>r w. plant_inv ns name uid F w \<and> (pl_faults p = [] \<longrightarrow> pl_faults w = [] \<and> (\<exists>y. r = Inr y)) \<and> same_object ac (pl_obj w) \<and>
        (\<forall>x. r = Inr x \<longrightarrow> upload_state (pl_obj w) = upload_state ?t))"
  proof (rule triple_perform)
    fix w r w' assume "w = p" "run_state (plant_patch ?t ac) w = (r, w')"
    note sp = plant_patch_spec [OF this(2) [unfolded this(1)]]
    have same: "same_object ac (pl_obj w')" using sp step by (auto simp: in_step_def)
    have "plant_inv ns name uid F w'"
    proof (cases "pl_obj w' = pl_obj p")
      case False
      then have o': "pl_obj w' = patched ?t ac (pl_obj p)" using sp by blast
      show ?thesis by (rule plant_inv_new_object [OF inv _ _ _ g]) (use sp t in \<open>simp_all add: o'\<close>)
    qed (use inv sp in \<open>simp add: plant_inv_def\<close>)
    then show "plant_inv ns name uid F w' \<and> (pl_faults p = [] \<longrightarrow> pl_faults w' = [] \<and> (\<exists>y. r = Inr y)) \<and> same_object ac (pl_obj w') \<and>
        (\<forall>x. r = Inr x \<longrightarrow> upload_state (pl_obj w') = upload_state ?t)"
      using sp t same by auto
  qed
  then show ?thesis
    unfolding patchPendingUpload_def plant_reconciler_def plant_kube_def
    by (simp add: Let_def, elim triple_bind, intro triple_intro)
      (use q up(2) in \<open>auto simp: in_step_def has_record_def\<close>)
qed

lemma triple_ensurePending:
  assumes inv: "plant_inv ns name uid F p" and step: "in_step p ac orig" and fp: "fp \<in> F"
  shows "triple (\<lambda>w. w = p) (ensurePending (plant_reconciler mt env) ac orig fp)
    (\<lambda>res w. plant_inv ns name uid F w \<and> (pl_faults p = [] \<longrightarrow> pl_faults w = [] \<and> (\<exists>y. res = Inr y)) \<and> same_object ac (pl_obj w) \<and>
       (\<forall>a o'. res = Inr (a, o') \<longrightarrow> in_step w a o' \<and> ac_Spec a = ac_Spec ac \<and> has_record uid name F fp a))"
proof -
  have id: "ac_Name ac = name" "ac_UID ac = uid" using inv step by (simp_all add: plant_inv_def in_step_def same_object_def)
  have new: "record_ok uid name F (new_pending ac fp t)" "p_Fingerprint (new_pending ac fp t) = fp" for t
    using fp by (auto simp: record_ok_def new_pending_def id)
  have old: "has_record uid name F fp ac" if "x_PendingUpload (ac_Status ac) = Some q" "p_Fingerprint q = fp" for q
    using that plant_inv_parts(3) [OF inv] upload_state_cong(2) [of ac "pl_obj p"] step
    by (simp add: has_record_def pending_ok_def in_step_def)
  show ?thesis
  proof (cases "pending_for fp (x_PendingUpload (ac_Status ac))")
    case True
    then have c: "(case x_PendingUpload (ac_Status ac) of None \<Rightarrow> True | Some p \<Rightarrow> p_Fingerprint p \<noteq> fp) = False"
      by (simp add: pending_for_def split: option.splits)
    have "has_record uid name F fp ac" using True old by (auto simp: pending_for_def split: option.splits)
    then show ?thesis
      unfolding ensurePending_def c using inv step by (auto simp: in_step_def intro!: triple_intro)
  next
    case False
    then have c: "(case x_PendingUpload (ac_Status ac) of None \<Rightarrow> True | Some p \<Rightarrow> p_Fingerprint p \<noteq> fp) = True"
      by (simp add: pending_for_def split: option.splits)
    show ?thesis
      unfolding ensurePending_def c
      by simp (rule triple_bind [OF triple_now], use triple_patchPending [OF inv step new] in \<open>simp add: new_pending_def\<close>)
  qed
qed

text \<open>The upload.\<close>

definition find_hint :: "Bundle \<Rightarrow> string" where
  "find_hint b = (case DNSNames b of n # _ \<Rightarrow> n | [] \<Rightarrow> [])"

lemma supplies_trans: "supplies uid name F p p' \<Longrightarrow> supplies uid name F p' p'' \<Longrightarrow> supplies uid name F p p''"
  by (auto simp: supplies_def intro: map_le_trans)

lemma supplies_view: "supplies uid name F p p' \<Longrightarrow> fake_view (pl_cas p) i = Some n \<Longrightarrow> fake_view (pl_cas p') i = Some n"
  by (auto simp: supplies_def map_le_def dom_def)

lemma supplies_refl: "service_ok uid name F (pl_cas p) \<Longrightarrow> supplies uid name F p p"
  by (simp add: supplies_def)

lemma find_name: "List.find (\<lambda>c. sm_Name c = n) l = Some c \<Longrightarrow> c \<in> set l \<and> sm_Name c = n"
  by (auto simp: find_Some_iff)

lemma triple_findByName:
  assumes "service_ok uid name F (pl_cas p)"
  shows "triple (\<lambda>w. w = p) (findByName plant_cas b n)
    (\<lambda>res w. supplies uid name F p w \<and> (\<forall>i. res = Inr i \<longrightarrow> i \<noteq> 0 \<and> fake_view (pl_cas w) i = Some n) \<and>
       (pl_faults p = [] \<longrightarrow> hint_fits (find_hint b) n \<longrightarrow> n \<in> f_Name ` set (certs (pl_cas p)) \<longrightarrow> (\<exists>i. res = Inr i)))"
proof -
  let ?h = "find_hint b"
  have "triple (\<lambda>w. w = p) (perform (CASFind ?h) (cas_FindUploaded plant_cas ?h))
     (\<lambda>r w. supplies uid name F p w \<and> fake_view (pl_cas w) = fake_view (pl_cas p) \<and>
       (\<forall>l. r = Inr l \<longrightarrow> (\<forall>s \<in> set l. sm_CertID s \<noteq> 0 \<and> fake_view (pl_cas p) (sm_CertID s) = Some (sm_Name s)) \<and>
          (\<forall>x \<in> set (certs (pl_cas p)). hint_fits ?h (f_Name x) \<longrightarrow> f_Name x \<in> sm_Name ` set l)) \<and>
       (pl_faults p = [] \<longrightarrow> (\<exists>l. r = Inr l)))"
    by (rule triple_perform) (use plant_find_spec [OF assms] in blast)
  note asked = this
  show ?thesis
    unfolding findByName_def Let_def find_hint_def [symmetric]
  proof (rule triple_bind [OF asked], intro triple_intro, goal_cases)
    case (2 x l)
    show ?case
    proof (cases "List.find (\<lambda>c. sm_Name c = n) l")
      case None
      then have "n \<notin> sm_Name ` set l" by (auto simp: find_None_iff)
      with 2 show ?thesis unfolding None by (simp, intro triple_ret) force
    next
      case (Some c)
      then have "c \<in> set l" "sm_Name c = n" using find_name by auto
      with 2 show ?thesis unfolding Some by (simp, intro triple_ret) force
    qed
  qed auto
qed

lemma uploadOrClaim_errors: "ClassOf ErrDuplicateName = ClassPermanent" "isDuplicateName ErrDuplicateName"
  by code_simp+

lemma triple_uploadOrClaim:
  assumes "apart uid F" "service_ok uid name F (pl_cas p)" "record_ok uid name F q"
  shows "triple (\<lambda>w. w = p) (uploadOrClaim plant_cas b c k q)
    (\<lambda>res w. supplies uid name F p w \<and> (\<forall>i. res = Inr i \<longrightarrow> fake_view (pl_cas w) i = Some (p_CASName q)) \<and>
       (pl_faults p = [] \<longrightarrow> hint_fits (find_hint b) (p_CASName q) \<longrightarrow> (\<exists>i. res = Inr i)))"
    (is "triple _ _ ?post")
proof -
  have up: "triple (\<lambda>w. w = p) (perform (CASUpload (p_CASName q) c k (p_ClientToken q)) (cas_Upload plant_cas (p_CASName q) c k (p_ClientToken q)))
    (\<lambda>r w. supplies uid name F p w \<and> (\<forall>i. r = Inr i \<longrightarrow> fake_view (pl_cas w) i = Some (p_CASName q)) \<and>
       (pl_faults p = [] \<longrightarrow> (\<forall>e. r = Inl e \<longrightarrow> e = ErrDuplicateName \<and> (\<exists>x \<in> set (certs (pl_cas w)). f_Name x = p_CASName q))))"
    by (rule triple_perform) (simp add: plant_upload_spec [OF assms])
  have claim: "triple (\<lambda>w. w = w1) (findByName plant_cas b (p_CASName q) \<bind>
        (\<lambda>f. ret (case f of Inl x \<Rightarrow> Inl err | Inr found \<Rightarrow> if found \<noteq> 0 then Inr found else Inl err))) ?post"
    if "supplies uid name F p w1" "pl_faults p = [] \<longrightarrow> p_CASName q \<in> f_Name ` set (certs (pl_cas w1))" for w1 err
  proof (rule triple_bind [OF triple_findByName [of uid name F w1 b "p_CASName q"]], goal_cases)
    case 1
    then show ?case using that(1) by (simp add: supplies_def)
  next
    case (2 f)
    show ?case
    proof (rule triple_ret, elim conjE, goal_cases)
      case (1 w)
      have "pl_faults p = [] \<longrightarrow> pl_faults w1 = []" using that(1) by (simp add: supplies_def)
      then show ?case
        using supplies_trans [OF that(1) 1(1)] 1(2,3) that(2) by (cases f) (simp_all, blast?)
    qed
  qed
  show ?thesis
    unfolding uploadOrClaim_def
  proof (rule triple_bind [OF up], rule triple_bind [where R = ?post], goal_cases)
    case (1 r1)
    show ?case
    proof (cases r1)
      case (Inl err)
      show ?thesis
      proof (cases "ClassOf err = ClassPermanent \<and> isDuplicateName err")
        case True
        then show ?thesis using Inl by simp (rule triple_pre, rule claim, (force simp: image_iff)+)
      next
        case False
        then have "err \<noteq> ErrDuplicateName" using uploadOrClaim_errors by blast
        with False Inl show ?thesis by (auto intro!: triple_intro)
      qed
    qed (auto intro!: triple_intro)
  next
    case (2 r1 r2)
    show ?case by (rule triple_bind [OF triple_emit triple_ret])
  qed
qed

text \<open>What a round hands to its last patch: a status it did not touch, or one that fits the server.\<close>

definition round_ok :: "string \<Rightarrow> string \<Rightarrow> string set \<Rightarrow> plant \<Rightarrow> AliyunCertificate \<Rightarrow> AliyunCertificate \<Rightarrow> bool" where
  "round_ok uid name F p ac orig \<longleftrightarrow> same_object ac (pl_obj p) \<and>
     (upload_state ac = upload_state orig \<or>
      upload_state orig = upload_state (pl_obj p) \<and> generations_ok name (pl_cas p) ac \<and> pending_ok uid name F ac)"

definition has_uploaded :: "string \<Rightarrow> string \<Rightarrow> AliyunCertificate \<Rightarrow> bool" where
  "has_uploaded name fp ac \<longleftrightarrow> (\<exists>g i. x_Current (ac_Status ac) = Some g \<and> g_Fingerprint g = fp \<and> g_CertID g = Some i \<and>
     g_CASName g = CASName name fp) \<and> x_PendingUpload (ac_Status ac) = None"

definition can_upload :: "crypto_env \<Rightarrow> string \<Rightarrow> Bundle \<Rightarrow> bool" where
  "can_upload env name b \<longleftrightarrow> hint_fits (find_hint b) (CASName name (bn_Fingerprint b)) \<and> (\<exists>k. KeyPEM env b = Inr k)"

definition finishes :: "string \<Rightarrow> string \<Rightarrow> plant \<Rightarrow> AliyunCertificate \<Rightarrow> AliyunCertificate \<Rightarrow> bool" where
  "finishes name fp p ac orig \<longleftrightarrow> pl_faults p = [] \<and> upload_state orig = upload_state (pl_obj p) \<and> has_uploaded name fp ac"

lemma in_step_round_ok: "in_step p ac orig \<Longrightarrow> round_ok uid name F p ac orig"
  by (simp add: in_step_def round_ok_def)

lemma same_upload_round_ok: "same_object ac (pl_obj p) \<Longrightarrow> upload_state ac = upload_state orig \<Longrightarrow> round_ok uid name F p ac orig"
  by (simp add: round_ok_def)

lemma advance_current [simp]:
  "x_Current (ac_Status (advance ac gen)) = Some gen" "x_PendingUpload (ac_Status (advance ac gen)) = x_PendingUpload (ac_Status ac)"
  "same_object (advance ac gen) p = same_object ac p"
  by (simp_all add: advance_def)

lemma advance_generations: "set (generations (advance ac gen)) \<subseteq> insert gen (set (generations ac))"
  by (auto simp: advance_def generations_def split: option.splits if_splits)

lemma generations_ok_advance:
  assumes "generations_ok name f ac" "\<forall>i. g_CertID gen = Some i \<longrightarrow> fake_view f i = Some (CASName name (g_Fingerprint gen))"
  shows "generations_ok name f (advance ac gen)"
  using assms advance_generations [of ac gen] unfolding generations_ok_def by blast

lemma generations_upd [simp]:
  "generations (ac\<lparr>ac_Status := ac_Status ac\<lparr>x_CASProbedAt := t, x_PendingUpload := q\<rparr>\<rparr>) = generations ac"
  by (simp add: generations_def)

lemma triple_uploadGeneration:
  assumes apart: "apart uid F" and inv: "plant_inv ns name uid F p" and step: "in_step p ac orig" and fp: "bn_Fingerprint b \<in> F"
    and gen: "g_Fingerprint gen = bn_Fingerprint b"
  shows "triple (\<lambda>w. w = p) (uploadGeneration (plant_reconciler mt env) ac orig b at gen)
    (\<lambda>(res, a, o') w. plant_inv ns name uid F w \<and> round_ok uid name F w a o' \<and>
       (pl_faults p = [] \<longrightarrow> can_upload env name b \<longrightarrow> finishes name (bn_Fingerprint b) w a o'))"
    (is "triple _ _ ?post")
proof -
  have upload: "triple (\<lambda>w. w = w2) (uploadOrClaim plant_cas b c k (the (x_PendingUpload (ac_Status a))) \<bind>
      (\<lambda>res. case res of
           Inl err \<Rightarrow> ret (Inl err, a, o')
         | Inr certID \<Rightarrow> do {
             emit ev;
             ret (Inr True, advance (upd_status (\<lambda>x. x\<lparr>x_CASProbedAt := Some at, x_PendingUpload := None\<rparr>) a)
               (gen\<lparr>g_CertID := Some certID, g_CASName := p_CASName (the (x_PendingUpload (ac_Status a)))\<rparr>), o') })) ?post"
    if w2: "plant_inv ns name uid F w2" "in_step w2 a o'" "has_record uid name F (bn_Fingerprint b) a" "pl_faults p = [] \<longrightarrow> pl_faults w2 = []"
    for w2 a o' c k ev
  proof -
    obtain q where q: "x_PendingUpload (ac_Status a) = Some q" "record_ok uid name F q" "p_Fingerprint q = bn_Fingerprint b"
      using w2(3) by (auto simp: has_record_def)
    then have n: "p_CASName q = CASName name (bn_Fingerprint b)" by (simp add: record_ok_def)
    have ga: "generations_ok name (pl_cas w2) a"
      using plant_inv_parts(2) [OF w2(1)] upload_state_cong(1) [of a "pl_obj w2"] w2(2) by (simp add: in_step_def)
    have ga': "generations_ok name (pl_cas w) a" if "supplies uid name F w2 w" for w
      using ga supplies_view [OF that] unfolding generations_ok_def by blast
    show ?thesis
      unfolding q(1) option.sel
    proof (rule triple_bind [OF triple_uploadOrClaim [OF apart plant_inv_parts(1) [OF w2(1)] q(2)]], goal_cases)
      case (1 res)
      show ?case
      proof (cases res)
        case (Inl err)
        then show ?thesis
          using w2 supplies_inv [OF _ w2(1)] in_step_round_ok
          by (auto intro!: triple_ret simp: can_upload_def n) (auto simp: supplies_def in_step_def round_ok_def)
      next
        case (Inr i)
        let ?a = "advance (upd_status (\<lambda>x. x\<lparr>x_CASProbedAt := Some at, x_PendingUpload := None\<rparr>) a) (gen\<lparr>g_CertID := Some i, g_CASName := p_CASName q\<rparr>)"
        have "round_ok uid name F w ?a o' \<and> (pl_faults p = [] \<longrightarrow> finishes name (bn_Fingerprint b) w ?a o')"
          if "supplies uid name F w2 w" "fake_view (pl_cas w) i = Some (p_CASName q)" for w
        proof -
          have "generations_ok name (pl_cas w) ?a"
            by (rule generations_ok_advance) (use ga' [OF that(1)] that(2) gen n in \<open>auto simp: generations_ok_def\<close>)
          then show ?thesis
            using that(1) w2(2,4) n gen by (simp add: round_ok_def finishes_def has_uploaded_def supplies_def in_step_def pending_ok_def)
        qed
        then show ?thesis
          unfolding Inr by (simp, intro triple_bind [OF triple_emit triple_ret]) (use supplies_inv [OF _ w2(1)] in auto)
      qed
    qed
  qed
  have client: "triple (\<lambda>w. w = w1) (casClient (plant_reconciler mt env) a \<bind> (\<lambda>cl. case cl of
      Inl err \<Rightarrow> ret (Inl err, a, o')
    | Inr cas \<Rightarrow> (case KeyPEM (r_crypto (plant_reconciler mt env)) b of
        Inl err \<Rightarrow> ret (Inl err, a, o')
      | Inr keyPEM \<Rightarrow> f cas keyPEM))) ?post"
    if w1: "plant_inv ns name uid F w1" "in_step w1 a o'" "pl_faults p = [] \<longrightarrow> pl_faults w1 = []"
      and f: "\<And>w2 k. harmless w1 w2 \<Longrightarrow> triple (\<lambda>w. w = w2) (f plant_cas k) ?post" for w1 a o' f
  proof (rule triple_bind [OF triple_casClient [of w1]], intro triple_intro, goal_cases)
    case (3 cl cas k)
    show ?case by (rule triple_pre) (use f 3 in auto)
  qed (use harmless_inv [OF _ w1(1)] in_step_harmless [OF _ w1(2)] in_step_round_ok w1(3) in
        \<open>auto simp: harmless_def can_upload_def plant_reconciler_def\<close>)
  show ?thesis
    unfolding uploadGeneration_def
  proof (rule triple_bind [OF triple_ensurePending [OF inv step fp]], intro triple_intro, goal_cases)
    case (1 pend err w)
    then show ?case using step by (auto simp: round_ok_def in_step_def)
  next
    case (2 pend y a o')
    show ?case
    proof (rule triple_pre, rule client, goal_cases)
      case (4 w w2 k)
      show ?case
        unfolding Let_def by (rule upload) (use 2 4 in \<open>auto simp: harmless_def plant_inv_def in_step_def\<close>)
    qed (use 2 in auto)
  qed
qed

lemma triple_ensureUploaded:
  assumes apart: "apart uid F" and inv: "plant_inv ns name uid F p" and same: "same_object ac (pl_obj p)"
    and copy: "upload_state ac = upload_state orig" and fp: "bn_Fingerprint b \<in> F"
  shows "triple (\<lambda>w. w = p) (ensureUploaded (plant_reconciler mt env) ac orig b)
    (\<lambda>(res, a, o') w. plant_inv ns name uid F w \<and> round_ok uid name F w a o' \<and>
       (pl_faults p = [] \<longrightarrow> can_upload env name b \<longrightarrow> UploadEnabled (sp_Aliyun (ac_Spec ac)) \<longrightarrow>
        \<not> current_is ac (bn_Fingerprint b) \<longrightarrow> \<not> current_is (pl_obj p) (bn_Fingerprint b) \<longrightarrow>
        finishes name (bn_Fingerprint b) w a o'))"
    (is "triple _ _ ?post")
proof -
  have cur: "current_is a fp' = current_is c fp'" if "upload_state a = upload_state c" for a c fp'
    by (simp add: current_is_def upload_state_cong(3) [OF that])
  have new: "triple (\<lambda>w. w = w1) (if UploadEnabled (sp_Aliyun (ac_Spec a)) then uploadGeneration (plant_reconciler mt env) a o' b at gen
       else ret (Inr True, advance a gen, o')) ?post"
    if w1: "harmless p w1" "in_step w1 a o'" "ac_Spec a = ac_Spec ac" "g_Fingerprint gen = bn_Fingerprint b" "g_CertID gen = None"
    for w1 a o' at gen
  proof -
    have inv1: "plant_inv ns name uid F w1" by (rule harmless_inv [OF w1(1) inv])
    have f: "pl_faults p = [] \<longrightarrow> pl_faults w1 = []" using w1(1) by (simp add: harmless_def)
    show ?thesis
    proof (intro triple_if, goal_cases)
      case 1
      show ?case
        by (rule triple_weaken [OF triple_uploadGeneration [OF apart inv1 w1(2) fp w1(4)]]) (use f in auto)
    next
      case 2
      have "generations_ok name (pl_cas w1) (advance a gen)" "pending_ok uid name F (advance a gen)"
        using plant_inv_parts(2,3) [OF inv1] upload_state_cong(1,2) [of a "pl_obj w1"] w1(2,5)
        by (simp_all add: in_step_def generations_ok_advance pending_ok_def)
      with 2 inv1 w1(2,3) show ?case by (auto intro!: triple_ret simp: round_ok_def in_step_def)
    qed
  qed
  show ?thesis
    unfolding ensureUploaded_def
  proof (intro triple_if, goal_cases)
    case 1
    then show ?case using inv same copy by (auto intro!: triple_ret simp: round_ok_def)
  next
    case 2
    show ?case
    proof (rule triple_bind [OF triple_refresh [OF same]], intro triple_intro, goal_cases)
      case (1 x err w)
      then show ?case using harmless_inv [OF _ inv] same copy by (auto simp: round_ok_def harmless_def)
    next
      case (2 x y a o' w)
      then have "harmless p w" "in_step w a o'" "current_is (pl_obj p) (bn_Fingerprint b)"
        using cur [of a "pl_obj w"] by (auto simp: harmless_def in_step_def)
      then show ?case using harmless_inv [OF _ inv] in_step_round_ok by auto
    next
      case (3 x y a o')
      show ?case
        by (rule triple_bind [OF triple_now]) (rule triple_pre, unfold Let_def, rule new, use 3 in auto)
    qed
  qed
qed

section \<open>Rounds\<close>

lemma triple_recordCertMetrics: "triple P (recordCertMetrics mt ac) (\<lambda>_. P)"
  unfolding recordCertMetrics_def Let_def
  by (intro triple_bind [where R = "\<lambda>_. P"]) (auto split: option.split intro!: triple_intro)

lemma triple_patchStatus:
  assumes "plant_inv ns name uid F p" "round_ok uid name F p ac orig"
  shows "triple (\<lambda>w. w = p) (patchStatus (plant_reconciler mt env) ac orig)
    (\<lambda>res w. plant_inv ns name uid F w \<and> (finishes name fp p ac orig \<longrightarrow> has_uploaded name fp (pl_obj w)))"
proof -
  have "plant_inv ns name uid F w \<and> (finishes name fp p ac orig \<longrightarrow> has_uploaded name fp (pl_obj w))"
    if "run_state (plant_patch ac orig) p = (r, w)" for r w
  proof -
    note sp = plant_patch_spec [OF that]
    let ?x = "patched ac orig (pl_obj p)"
    have u: "upload_state ?x = upload_state (pl_obj p) \<or>
        upload_state ?x = upload_state ac \<and> generations_ok name (pl_cas p) ac \<and> pending_ok uid name F ac"
      using assms(2) merge_follows [of orig "pl_obj p" ac] merge_keeps [of ac orig "pl_obj p"] by (auto simp: round_ok_def)
    have "plant_inv ns name uid F w"
    proof (cases "pl_obj w = pl_obj p")
      case False
      then have o': "pl_obj w = ?x" using sp by blast
      from u show ?thesis
      proof (elim disjE conjE, goal_cases)
        case 1
        then show ?case
          by (intro plant_inv_new_object [OF assms(1) _ _ _ plant_inv_parts(2,3) [OF assms(1)]]) (use sp o' in simp_all)
      next
        case 2
        then show ?case by (intro plant_inv_new_object [OF assms(1) _ _ _ 2(2,3)]) (use sp o' in simp_all)
      qed
    qed (use assms(1) sp in \<open>simp add: plant_inv_def\<close>)
    moreover have "has_uploaded name fp (pl_obj w)" if f: "finishes name fp p ac orig"
    proof -
      have "pl_obj w = ?x" using sp f by (auto simp: finishes_def)
      moreover have "upload_state ?x = upload_state ac" using f merge_follows [of orig "pl_obj p" ac] by (simp add: finishes_def)
      ultimately show ?thesis
        using f upload_state_cong(3,4) [of ?x ac] unfolding has_uploaded_def finishes_def by simp
    qed
    ultimately show ?thesis by blast
  qed
  then show ?thesis
    unfolding patchStatus_def plant_reconciler_def plant_kube_def
    by simp (rule triple_bind [OF triple_recordCertMetrics], rule triple_perform, blast)
qed

lemma run_round_ok:
  assumes "apart uid F" "plant_inv ns name uid F p" "same_object ac (pl_obj p)" "upload_state ac = upload_state orig"
    "bn_Fingerprint b \<in> F"
  shows "plant_inv ns name uid F (run_round mt env fs ac orig b p) \<and>
    (fs = [] \<longrightarrow> can_upload env name b \<longrightarrow> UploadEnabled (sp_Aliyun (ac_Spec ac)) \<longrightarrow>
     \<not> current_is ac (bn_Fingerprint b) \<longrightarrow> \<not> current_is (pl_obj p) (bn_Fingerprint b) \<longrightarrow>
     has_uploaded name (bn_Fingerprint b) (pl_obj (run_round mt env fs ac orig b p)))"
proof -
  let ?p = "p\<lparr>pl_faults := fs\<rparr>"
  let ?now = "pl_faults ?p = [] \<longrightarrow> can_upload env name b \<longrightarrow> UploadEnabled (sp_Aliyun (ac_Spec ac)) \<longrightarrow>
        \<not> current_is ac (bn_Fingerprint b) \<longrightarrow> \<not> current_is (pl_obj ?p) (bn_Fingerprint b)"
  have inv: "plant_inv ns name uid F ?p" "same_object ac (pl_obj ?p)" using assms(2,3) by (simp_all add: plant_inv_def)
  have "triple (\<lambda>w. w = ?p) (upload_round mt env ac orig b)
    (\<lambda>res w. plant_inv ns name uid F w \<and>
      (pl_faults ?p = [] \<longrightarrow> can_upload env name b \<longrightarrow> UploadEnabled (sp_Aliyun (ac_Spec ac)) \<longrightarrow>
        \<not> current_is ac (bn_Fingerprint b) \<longrightarrow> \<not> current_is (pl_obj ?p) (bn_Fingerprint b) \<longrightarrow>
        has_uploaded name (bn_Fingerprint b) (pl_obj w)))"
    unfolding upload_round_def
    by (rule triple_bind [OF triple_ensureUploaded [OF assms(1) inv assms(4,5)]], intro triple_intro, rule triple_pre,
        rule triple_weaken [OF triple_patchStatus]) auto
  then show ?thesis
    unfolding triple_def run_round_def by (auto dest: spec [of _ "start ?p"] simp: start_def)
qed

text \<open>A plant before its first upload.\<close>

definition fresh :: "plant \<Rightarrow> bool" where
  "fresh p \<longleftrightarrow> pl_cas p = NewCAS \<and> generations (pl_obj p) = [] \<and> x_PendingUpload (ac_Status (pl_obj p)) = None"

abbreviation inv_of :: "AliyunCertificate \<Rightarrow> string set \<Rightarrow> plant \<Rightarrow> bool" where
  "inv_of ac \<equiv> plant_inv (ac_Namespace ac) (ac_Name ac) (ac_UID ac)"

lemma plant_step_inv:
  assumes "plant_step mt env F p p'" "apart uid F" "plant_inv ns name uid F p"
  shows "plant_inv ns name uid F p'"
  using assms(1)
proof cases
  case (round ac orig b fs)
  then show ?thesis using run_round_ok [OF assms(2,3)] by simp
next
  case (tick t)
  then show ?thesis using assms(3) by (simp add: plant_inv_def)
next
  case (edit x)
  then show ?thesis
    using plant_inv_new_object [OF assms(3), of p' "pl_obj p"] plant_inv_parts(2,3) [OF assms(3)]
    by (simp add: same_object_def)
qed

lemma fresh_inv: "fresh p \<Longrightarrow> inv_of (pl_obj p) F p"
  by (simp add: fresh_def plant_inv_def service_ok_def named_apart_def pending_ok_def generations_ok_def fake_inv_def
      fake_tok_def NewCAS_def)

lemma reachable_inv:
  assumes "(plant_step mt env F)\<^sup>*\<^sup>* p0 p" "apart (ac_UID (pl_obj p0)) F" "fresh p0"
  shows "inv_of (pl_obj p0) F p"
  using assms(1) by induction (auto intro: fresh_inv [OF assms(3)] plant_step_inv [OF _ assms(2)])

lemma named_apart_bound: "named_apart N f \<Longrightarrow> finite N \<Longrightarrow> length (certs f) \<le> card N"
  unfolding named_apart_def by (metis card_mono distinct_card image_subsetI length_map list.set_map)

lemma plant_inv_bound:
  assumes "plant_inv ns name uid F p" "finite F"
  shows "length (certs (pl_cas p)) \<le> card F"
  using named_apart_bound [of "CASName name ` F" "pl_cas p"] assms card_image_le [OF assms(2), of "CASName name"]
  by (auto simp: plant_inv_def service_ok_def)

section \<open>Properties\<close>

text \<open>
  C18. Uploads survive crashes. Start with an empty CAS and a certificate without generations, and
  let rounds of the upload step run in any order: for any of the fingerprints of \<open>F\<close>, forth and
  back, from cached copies of any age, with every call to the API server and to CAS refused
  or executed without an answer at will, crashes at any point included, and anyone editing
  the rest of the object in between. Then in every state that can be reached each generation
  of the status that names a certificate names one that is in CAS under the name of that
  generation, and CAS never holds more certificates than there are fingerprints. The tokens
  of one object have to tell its fingerprints apart.
\<close>

theorem upload_crash_safe:
  assumes "(plant_step mt env F)\<^sup>*\<^sup>* p0 p" "fresh p0" "apart (ac_UID (pl_obj p0)) F" "finite F"
  shows "(\<forall>g \<in> set (generations (pl_obj p)). \<forall>i. g_CertID g = Some i \<longrightarrow>
       fake_view (pl_cas p) i = Some (CASName (ac_Name (pl_obj p)) (g_Fingerprint g))) \<and>
     length (certs (pl_cas p)) \<le> card F"
proof -
  note inv = reachable_inv [OF assms(1,3,2)]
  then have "ac_Name (pl_obj p0) = ac_Name (pl_obj p)" by (simp add: plant_inv_def)
  with plant_inv_parts(2) [OF inv] plant_inv_bound [OF inv assms(4)] show ?thesis by (simp add: generations_ok_def)
qed

text \<open>
  C19. Uploads recover. From every state reached in that way, whatever was lost before, one round
  in which all calls succeed ends with the certificate of the round in service: the status
  names it as current with an identifier that is in CAS under its name, the write-ahead
  record is gone, and still CAS holds at most one certificate per fingerprint, since an
  upload that had gone through unnoticed is found again by its token or claimed by its name.
  The domain of the certificate has to be a part of that name, which is how the in-memory CAS
  searches.
\<close>

theorem upload_recovers:
  assumes "(plant_step mt env F)\<^sup>*\<^sup>* p0 p" "fresh p0" "apart (ac_UID (pl_obj p0)) F" "finite F"
    and "same_object ac (pl_obj p)" "upload_state ac = upload_state orig" "bn_Fingerprint b \<in> F"
    and "UploadEnabled (sp_Aliyun (ac_Spec ac))" "can_upload env (ac_Name ac) b"
    and "\<not> current_is ac (bn_Fingerprint b)" "\<not> current_is (pl_obj p) (bn_Fingerprint b)"
    and "p' = run_round mt env [] ac orig b p"
  shows "(\<exists>g i. x_Current (ac_Status (pl_obj p')) = Some g \<and> g_Fingerprint g = bn_Fingerprint b \<and> g_CertID g = Some i \<and>
       fake_view (pl_cas p') i = Some (CASName (ac_Name ac) (bn_Fingerprint b))) \<and>
     x_PendingUpload (ac_Status (pl_obj p')) = None \<and> length (certs (pl_cas p')) \<le> card F"
proof -
  note inv = reachable_inv [OF assms(1,3,2)]
  have n: "ac_Name ac = ac_Name (pl_obj p0)" using inv assms(5) by (simp add: plant_inv_def same_object_def)
  have r: "inv_of (pl_obj p0) F p'" "has_uploaded (ac_Name ac) (bn_Fingerprint b) (pl_obj p')"
    using run_round_ok [OF assms(3) inv assms(5-7), of mt env "[]"] assms(8-12) n by simp_all
  then obtain g i where g: "x_Current (ac_Status (pl_obj p')) = Some g" "g_Fingerprint g = bn_Fingerprint b" "g_CertID g = Some i"
    by (auto simp: has_uploaded_def)
  then have "g \<in> set (generations (pl_obj p'))" by (simp add: generations_def)
  then have "fake_view (pl_cas p') i = Some (CASName (ac_Name ac) (bn_Fingerprint b))"
    using plant_inv_parts(2) [OF r(1)] g(2,3) n by (auto simp: generations_ok_def)
  with g r(2) plant_inv_bound [OF r(1) assms(4)] show ?thesis by (auto simp: has_uploaded_def)
qed

section \<open>Witnesses\<close>

text \<open>The answer of an upload is lost and the process dies; a minute later the Secret holds another
  certificate, whose record replaces the first before its upload is refused. The next round
  is for the first certificate again, from a copy made before all this, and claims it by name.\<close>

definition sample_plant :: plant where
  "sample_plant = \<lparr> pl_obj = sample_ac, pl_cas = NewCAS, pl_clock = minute, pl_faults = [] \<rparr>"

definition other_fp :: string where
  "other_fp = replicate 64 (CHR ''b'')"

definition upload_bundle :: "string \<Rightarrow> Bundle" where
  "upload_bundle fp = (sample_bundle ''web.b.c'')\<lparr>bn_Fingerprint := fp\<rparr>"

definition lost_answer :: plant where
  "lost_answer = run_round sample_meta sample_env [Fine, Fine, Fine, Unanswered DeadlineExceeded, Refused DeadlineExceeded]
     sample_ac sample_ac (upload_bundle sample_fp) sample_plant"

definition later :: plant where
  "later = lost_answer\<lparr>pl_clock := 2 * minute\<rparr>"

definition record_replaced :: plant where
  "record_replaced = run_round sample_meta sample_env [Fine, Fine, Fine, Refused DeadlineExceeded]
     (pl_obj later) (pl_obj later) (upload_bundle other_fp) later"

definition recovered :: plant where
  "recovered = run_round sample_meta sample_env [] sample_ac sample_ac (upload_bundle sample_fp) record_replaced"

abbreviation sample_fps :: "string set" where "sample_fps \<equiv> {sample_fp, other_fp}"

definition summary where
  "summary p = (map f_ID (certs (pl_cas p)), map_option (\<lambda>g. (g_Fingerprint g, g_CertID g)) (x_Current (ac_Status (pl_obj p))),
     map_option p_Fingerprint (x_PendingUpload (ac_Status (pl_obj p))),
     ac_Namespace (pl_obj p), ac_Name (pl_obj p), ac_UID (pl_obj p), pl_clock p)"

lemma summary_lost_answer: "summary lost_answer = ([1001], None, Some sample_fp, ''ns'', ''web'', sample_uid, minute)"
  by code_simp

lemma summary_record_replaced:
  "summary record_replaced = ([1001], None, Some other_fp, ''ns'', ''web'', sample_uid, 2 * minute)"
  by code_simp

lemma summary_recovered:
  "summary recovered = ([1001], Some (sample_fp, Some 1001), None, ''ns'', ''web'', sample_uid, 2 * minute)"
  by code_simp

lemmas summaries = summary_lost_answer summary_record_replaced summary_recovered

lemma lost_answer_facts:
  "map f_ID (certs (pl_cas lost_answer)) = [1001] \<and> x_Current (ac_Status (pl_obj lost_answer)) = None \<and> pl_clock lost_answer = minute"
  using summaries(1) by (simp add: summary_def)

lemma record_replaced_facts:
  "map_option p_Fingerprint (x_PendingUpload (ac_Status (pl_obj record_replaced))) = Some other_fp \<and>
   same_object sample_ac (pl_obj record_replaced) \<and> \<not> current_is (pl_obj record_replaced) sample_fp"
  using summaries(2) by (simp add: summary_def current_is_def same_object_def sample_ac_def)

lemma recovered_facts: "map_option g_CertID (x_Current (ac_Status (pl_obj recovered))) = Some (Some 1001)"
  using summaries(3) by (auto simp: summary_def)

lemma sample_can_upload: "can_upload sample_env (ac_Name sample_ac) (upload_bundle sample_fp)"
  unfolding can_upload_def by (intro conjI exI [of _ sample_keyPEM]) code_simp+

lemma sample_apart: "apart (ac_UID (pl_obj sample_plant)) sample_fps"
proof -
  have "tokenUIDLen \<le> length (RemoveAll (ac_UID (pl_obj sample_plant)) (CHR ''-''))" by code_simp
  moreover have "take 24 sample_fp \<noteq> take 24 other_fp" by code_simp
  ultimately show ?thesis by (auto simp: apart_def sample_fp_def other_fp_def)
qed

lemma sample_fresh: "fresh sample_plant"
  by (simp add: fresh_def sample_plant_def generations_def sample_ac_def sample_status_def)

lemma sample_steps:
  "(plant_step sample_meta sample_env sample_fps)\<^sup>*\<^sup>* sample_plant record_replaced"
  "(plant_step sample_meta sample_env sample_fps)\<^sup>*\<^sup>* sample_plant recovered"
proof -
  let ?step = "plant_step sample_meta sample_env sample_fps"
  have "?step sample_plant lost_answer"
    unfolding lost_answer_def by (rule plant_step.round) (simp_all add: sample_plant_def upload_bundle_def)
  moreover have "?step lost_answer later"
    unfolding later_def by (rule plant_step.tick) (simp add: lost_answer_facts)
  moreover have "?step later record_replaced"
    unfolding record_replaced_def by (rule plant_step.round) (simp_all add: upload_bundle_def)
  ultimately show r: "?step\<^sup>*\<^sup>* sample_plant record_replaced" by (meson rtranclp.rtrancl_into_rtrancl rtranclp.rtrancl_refl)
  have "?step record_replaced recovered"
    unfolding recovered_def by (rule plant_step.round) (simp_all add: record_replaced_facts upload_bundle_def)
  with r show "?step\<^sup>*\<^sup>* sample_plant recovered" by simp
qed

theorem upload_crash_safe_witness:
  "\<exists>g. x_Current (ac_Status (pl_obj recovered)) = Some g \<and>
     fake_view (pl_cas recovered) 1001 = Some (CASName (ac_Name (pl_obj recovered)) (g_Fingerprint g)) \<and>
     length (certs (pl_cas recovered)) \<le> card sample_fps"
proof -
  obtain g where g: "x_Current (ac_Status (pl_obj recovered)) = Some g" "g_CertID g = Some 1001"
    using recovered_facts by auto
  then have "g \<in> set (generations (pl_obj recovered))" by (simp add: generations_def)
  with g upload_crash_safe [OF sample_steps(2) sample_fresh sample_apart] show ?thesis by auto
qed

theorem upload_recovers_witness:
  "map f_ID (certs (pl_cas lost_answer)) = [1001] \<and> x_Current (ac_Status (pl_obj lost_answer)) = None \<and>
   map_option p_Fingerprint (x_PendingUpload (ac_Status (pl_obj record_replaced))) = Some other_fp \<and>
   (\<exists>g. x_Current (ac_Status (pl_obj recovered)) = Some g \<and> g_Fingerprint g = sample_fp \<and> g_CertID g = Some 1001)"
proof -
  have fp: "bn_Fingerprint (upload_bundle sample_fp) = sample_fp" by (simp add: upload_bundle_def)
  have e: "UploadEnabled (sp_Aliyun (ac_Spec sample_ac))" "\<not> current_is sample_ac sample_fp" by code_simp+
  obtain g where "x_Current (ac_Status (pl_obj recovered)) = Some g" "g_Fingerprint g = sample_fp"
    using upload_recovers [OF sample_steps(1) sample_fresh sample_apart _ _ _ _ e(1) sample_can_upload, of sample_ac recovered]
      record_replaced_facts e(2) fp unfolding recovered_def by auto
  with recovered_facts lost_answer_facts record_replaced_facts show ?thesis by auto
qed

end
