(* ===== verification/Binding_Verdict.thy ===== *)
theory Binding_Verdict
  imports Binding_Outcome
begin

text \<open>
  The verdict Applied of a Binding over a whole reconcile: what a patch of the status may say
  of the target, given the calls made before it. The verdict is raised only on evidence that
  the target serves the certificate and lowered only on evidence against it; every other
  failure of a round leaves the verdict that was read.
\<close>

section \<open>The guard of a verdict\<close>

definition verdict :: "meta_api \<Rightarrow> AliyunCertificateBinding \<Rightarrow> bool" where
  "verdict mt b = bindingCondTrue mt b ConditionApplied"

text \<open>The target of \<open>b\<close> serves a permitted certificate: observed in place, or written.\<close>

definition raised ::
  "'w AliyunCertificateBindingReconciler \<Rightarrow> string \<Rightarrow> string \<Rightarrow> effect list \<Rightarrow> AliyunCertificateBinding \<Rightarrow> bool" where
  "raised r ns n es b \<longleftrightarrow> (\<exists>tg m obs. permitted r ns n es b tg m obs \<and>
     (up_to_date (br_registry r) b obs m \<or> (\<exists>ao. TargetApply tg m ao None \<in> set es)))"

text \<open>The certificate in service is one the AliyunCertificate has not accepted, or one the
  target references by an identifier that CAS has not given yet.\<close>

definition gate_closed ::
  "'w AliyunCertificateBindingReconciler \<Rightarrow> effect list \<Rightarrow> AliyunCertificateBinding \<Rightarrow> bool" where
  "gate_closed r es b \<longleftrightarrow> (\<exists>ac m. issued_as r es b ac \<and> served r es ac m \<and>
     \<not> (certificateGate m ac \<and> casUploadGate (capabilitiesOf (br_registry r) b) ac m = None))"

definition target_missing ::
  "'w AliyunCertificateBindingReconciler \<Rightarrow> effect list \<Rightarrow> AliyunCertificateBinding \<Rightarrow> bool" where
  "target_missing r es b \<longleftrightarrow> (\<exists>tg err rt rs. targetOf (br_registry r) b = Inr tg \<and>
     TargetObserve tg (Inl err) \<in> set es \<and> ErrorOf err = Some (CodeTargetNotFound, rt, rs))"

definition write_failed ::
  "'w AliyunCertificateBindingReconciler \<Rightarrow> effect list \<Rightarrow> AliyunCertificateBinding \<Rightarrow> bool" where
  "write_failed r es b \<longleftrightarrow> (\<exists>tg m ao err. targetOf (br_registry r) b = Inr tg \<and> TargetApply tg m ao (Some err) \<in> set es)"

definition lowered ::
  "'w AliyunCertificateBindingReconciler \<Rightarrow> effect list \<Rightarrow> AliyunCertificateBinding \<Rightarrow> bool" where
  "lowered r es b \<longleftrightarrow> gate_closed r es b \<or> target_missing r es b \<or> write_failed r es b"

definition verdict_guard ::
  "'w AliyunCertificateBindingReconciler \<Rightarrow> string \<Rightarrow> string \<Rightarrow> effect list \<Rightarrow> effect \<Rightarrow> bool" where
  "verdict_guard r ns n pre e \<longleftrightarrow> (case e of
     PatchBindingStatus t base a \<Rightarrow>
       if verdict (br_meta r) t = verdict (br_meta r) base then True
       else if verdict (br_meta r) t then raised r ns n pre base
       else lowered r pre base
   | _ \<Rightarrow> True)"

lemma raised_mono: "raised r ns n es b \<Longrightarrow> raised r ns n (es @ es') b"
  unfolding raised_def using permitted_mono by fastforce

lemma gate_closed_mono: "gate_closed r es b \<Longrightarrow> gate_closed r (es @ es') b"
  unfolding gate_closed_def using issued_as_mono served_mono by blast

lemma lowered_mono: "lowered r es b \<Longrightarrow> lowered r (es @ es') b"
  unfolding lowered_def using gate_closed_mono [of r es b es']
  by (elim disjE) (simp_all add: target_missing_def write_failed_def, blast+)

section \<open>Patches and the verdict they carry\<close>

text \<open>Effects whose patches, if any, are based on \<open>base\<close> and carry the verdict \<open>v\<close>.\<close>

definition patches :: "meta_api \<Rightarrow> AliyunCertificateBinding \<Rightarrow> bool \<Rightarrow> effect \<Rightarrow> bool" where
  "patches mt base v e \<longleftrightarrow> (case e of PatchBindingStatus t b a \<Rightarrow> b = base \<and> verdict mt t = v | _ \<Rightarrow> True)"

definition no_patch :: "effect \<Rightarrow> bool" where
  "no_patch e \<longleftrightarrow> (case e of PatchBindingStatus t b a \<Rightarrow> False | _ \<Rightarrow> True)"

lemma no_patch_guard: "no_patch e \<Longrightarrow> verdict_guard r ns n pre e"
  by (cases e) (simp_all add: no_patch_def verdict_guard_def)

lemma patches_guarded:
  assumes "only (patches (br_meta r) base v) m"
    and "v = verdict (br_meta r) base \<or> v \<and> raised r ns n pre base \<or> \<not> v \<and> lowered r pre base"
  shows "emits (\<lambda>es x. guarded (verdict_guard r ns n) pre es) m"
proof (rule emits_mono [OF onlyD [OF assms(1)]], rule guarded_all)
  fix es pre' e assume "\<forall>e \<in> set es. patches (br_meta r) base v e" "e \<in> set es"
  then have "patches (br_meta r) base v e" by simp
  then show "verdict_guard r ns n (pre @ pre') e"
    using assms(2) raised_mono [of r ns n pre base pre'] lowered_mono [of r pre base pre']
    by (cases e) (auto simp: patches_def verdict_guard_def)
qed

text \<open>A step without a patch: what it ensures is known to the rest.\<close>

lemma no_patch_bind:
  assumes "only no_patch m" "emits Q m"
    and "\<And>es x. Q es x \<Longrightarrow> emits (\<lambda>es' y. guarded (verdict_guard r ns n) (pre @ es) es') (f x)"
  shows "emits (\<lambda>es y. guarded (verdict_guard r ns n) pre es) (State_Monad.bind m f)"
proof (rule emits_bind_mono [OF emits_conj [OF onlyD [OF assms(1)] assms(2)]], elim conjE)
  fix es x assume "\<forall>e \<in> set es. no_patch e" "Q es x"
  then have "guarded (verdict_guard r ns n) pre es" by (intro guarded_all no_patch_guard) simp
  then show "emits (\<lambda>es' y. guarded (verdict_guard r ns n) pre (es @ es')) (f x)"
    using assms(3) [OF \<open>Q es x\<close>] by simp
qed

lemma no_patch_bind_perform:
  assumes "\<And>x. no_patch (ev x)"
    and "\<And>x. emits (\<lambda>es' y. guarded (verdict_guard r ns n) (pre @ [ev x]) es') (f x)"
  shows "emits (\<lambda>es y. guarded (verdict_guard r ns n) pre es) (State_Monad.bind (perform ev op) f)"
  by (rule no_patch_bind [where Q = "\<lambda>es x. es = [ev x]"])
    (use assms in \<open>auto intro: emits_perform only_perform\<close>)

lemma no_patch_simps [simp]:
  "no_patch (GetAC l ns n x1)" "no_patch (GetSecret ns n x2)" "no_patch (ListByTarget k x3)" "no_patch (GetBinding ns n x4)"
  "no_patch (BuildProvider x5)" "no_patch (TargetObserve tg x6)" "no_patch (TargetApply tg m ao x7)" "no_patch (ReadClock t)"
  "no_patch (TargetCleanup tg p x8)" "no_patch (UpdateBinding b x9)" "no_patch (Event et rs ms)" "no_patch (Metric me)"
  by (simp_all add: no_patch_def)

lemma no_patch_patches: "only no_patch m \<Longrightarrow> only (patches mt base v) m"
  by (erule only_mono) (auto simp: no_patch_def patches_def split: effect.splits)

lemma only_no_patch:
  "only no_patch (recordBindingReadiness mt rd)" "only no_patch (recordBindingMetrics mt rd)"
  "only no_patch (clearBindingMetrics s1 s2 s3)" "only no_patch (providerClient r b oac)"
  "only no_patch (arbitrate r b)" "only no_patch (coveredMaterial r b ac)" "only no_patch (appliedLag r b oac)"
  "only no_patch (noteObserved r rd)" "only no_patch (noteDrift r rd obs m)" "only no_patch (freezeApplied r rd obs m w)"
  "only no_patch (eventOnReasonChange r rd ct rs et er msg)" "only no_patch (unbindTarget r rd)" "only no_patch (finishBindingDeletion r rd)"
  unfolding recordBindingMetrics_def recordBindingReadiness_def clearBindingMetrics_def providerClient_def arbitrate_def
    coveredMaterial_def loadBindingMaterial_def loadBundle_def appliedLag_def noteObserved_def noteDrift_def
    freezeApplied_def setApplied_def eventOnReasonChange_def unbindTarget_def unbindObserved_def finishBindingDeletion_def
    binding_now_def Let_def
  by (intro only_intro; simp)+

lemma patches_patchBindingStatus:
  "verdict mt (rd_b rd) = v \<Longrightarrow> rd_orig rd = base \<Longrightarrow> only (patches mt base v) (patchBindingStatus r rd)"
  unfolding patchBindingStatus_def by (intro only_intro) (simp add: patches_def)

lemma patches_patchBinding:
  "verdict mt (rd_b rd) = v \<Longrightarrow> rd_orig rd = base \<Longrightarrow> only (patches mt base v) (patchBinding r rd)"
  unfolding patchBinding_def by (intro only_intro no_patch_patches only_no_patch patches_patchBindingStatus)

lemma patches_patch_round:
  "verdict mt (rd_b rd) = v \<Longrightarrow> rd_orig rd = base \<Longrightarrow> only (patches mt base v) (patch_round r rd d)"
  unfolding patch_round_def by (intro only_intro patches_patchBinding)

section \<open>What sets the verdict\<close>

lemma verdict_simps [simp]:
  assumes "meta_laws mt"
  shows "verdict mt (setBindingReadyFalse mt rs msg b) = verdict mt b"
    and "verdict mt (aggregateBindingReady mt b) = verdict mt b"
    and "verdict mt (setBindingCondition mt ConditionConflict st rs msg b) = verdict mt b"
    and "verdict mt (setBindingCondition mt ConditionApplied st rs msg b) \<longleftrightarrow> st = ConditionTrue"
  using verdict_ready [OF assms] bindingCond_set [OF assms] bindingCond_other [OF assms, of ConditionApplied ConditionConflict]
  by (simp_all add: verdict_def)

lemma verdict_fence:
  assumes "meta_laws mt"
  shows "verdict mt (rd_b (snd (fenceAccount mt rd obs))) = verdict mt (rd_b rd)"
  using assms
  by (simp add: fenceAccount_def setFencedConflict_def verdict_def bindingCondTrue_def meta_laws_def Let_def
      split: option.split)

lemma noteObserved_verdict:
  "emits (\<lambda>es rd'. keeps rd rd' \<and> verdict mt (rd_b rd') = verdict mt (rd_b rd)) (noteObserved r rd)"
  unfolding noteObserved_def binding_now_def
  by (intro emits_intro) (simp_all add: keeps_def core_def ledger_def verdict_def bindingCondTrue_def)

lemma noteDrift_verdict:
  "emits (\<lambda>es rd'. keeps rd rd' \<and> verdict mt (rd_b rd') = verdict mt (rd_b rd)) (noteDrift r rd obs m)"
  unfolding noteDrift_def Let_def
  by (intro emits_intro) (simp_all add: keeps_def core_def ledger_def verdict_def bindingCondTrue_def)

lemma freezeApplied_verdict:
  assumes "meta_laws (br_meta r)"
  shows "emits (\<lambda>es rd'. verdict (br_meta r) (rd_b rd') \<and> rd_orig rd' = rd_orig rd) (freezeApplied r rd obs m wrote)"
  unfolding freezeApplied_def setApplied_def binding_now_def Let_def
  by (intro emits_intro) (simp_all add: assms)

text \<open>A round that says of the target what was read.\<close>

definition sure :: "meta_api \<Rightarrow> bindingRound \<Rightarrow> bool" where
  "sure mt rd \<longleftrightarrow> steady rd \<and> verdict mt (rd_b rd) = verdict mt (rd_orig rd)"

lemma sure_keeps: "sure mt rd \<Longrightarrow> keeps rd rd' \<Longrightarrow> verdict mt (rd_b rd') = verdict mt (rd_b rd) \<Longrightarrow> sure mt rd'"
  using steady_keeps by (auto simp: sure_def keeps_def)

lemma sure_patch_round:
  assumes "verdict (br_meta r) (rd_b rd) = verdict (br_meta r) (rd_orig rd)"
  shows "emits (\<lambda>es x. guarded (verdict_guard r ns n) pre es) (patch_round r rd d)"
  by (rule patches_guarded [OF patches_patch_round [OF assms refl]]) simp

lemma lowered_patch_round:
  assumes "\<not> verdict (br_meta r) (rd_b rd)" "lowered r pre (rd_orig rd)"
  shows "emits (\<lambda>es x. guarded (verdict_guard r ns n) pre es) (patch_round r rd d)"
  by (rule patches_guarded [OF patches_patch_round [where v = False]]) (use assms in auto)

section \<open>The handlers\<close>

lemma handleFactoryError_verdict:
  assumes "meta_laws (br_meta r)" "sure (br_meta r) rd"
  shows "emits (\<lambda>es x. guarded (verdict_guard r ns n) pre es) (handleFactoryError r rd err)"
  unfolding handleFactoryError_def
  by (intro emits_case_option emits_case_prod sure_patch_round) (use assms in \<open>simp_all add: sure_def\<close>)

text \<open>A failed observation keeps the verdict, whatever its class, unless the target is missing.\<close>

lemma observe_failed_verdict:
  assumes "meta_laws (br_meta r)" "finds_first (br_meta r)" "sure (br_meta r) rd"
  shows "emits (\<lambda>es x. guarded (verdict_guard r ns n) pre es) (observe_failed_round r rd err b)"
proof -
  obtain noted b' where n: "noteObserveFailed (rd_b rd) = (noted, b')" by fastforce
  have b': "verdict (br_meta r) b' = verdict (br_meta r) (rd_orig rd)"
    using noteObserveFailed_cond [OF assms(1,2), of "rd_b rd"] n assms(3) by (simp add: sure_def verdict_def)
  have "only (patches (br_meta r) (rd_orig rd) (verdict (br_meta r) (rd_orig rd))) (observe_failed_round r rd err b)"
    unfolding observe_failed_round_def Let_def n prod.case
    by (intro only_intro no_patch_patches only_no_patch patches_patchBinding) (simp_all add: assms(1) b')
  then show ?thesis by (rule patches_guarded) simp
qed

lemma handleObserveError_verdict:
  assumes "meta_laws (br_meta r)" "finds_first (br_meta r)" "sure (br_meta r) rd"
    and "targetOf (br_registry r) (rd_orig rd) = Inr tg" "TargetObserve tg (Inl err) \<in> set pre"
  shows "emits (\<lambda>es x. guarded (verdict_guard r ns n) pre es) (handleObserveError r rd err)"
proof -
  have missing: "lowered r pre (rd_orig rd)" if "ErrorOf err = Some (CodeTargetNotFound, rt, rs)" for rt rs
    unfolding lowered_def target_missing_def using assms(4,5) that by blast
  have auth: "emits (\<lambda>es x. guarded (verdict_guard r ns n) pre es)
      (patch_round r (upd_b (setBindingReadyFalse (br_meta r) rs msg) rd) d)" for rs msg d
    by (rule sure_patch_round) (use assms(1,3) in \<open>simp add: sure_def\<close>)
  show ?thesis
    unfolding handleObserveError_def
    by (intro emits_case_option emits_case_prod emits_if auth observe_failed_verdict lowered_patch_round)
      (use assms missing in auto)
qed

lemma handleApplyError_verdict:
  assumes "meta_laws (br_meta r)" "lowered r pre (rd_orig rd)"
  shows "emits (\<lambda>es x. guarded (verdict_guard r ns n) pre es) (handleApplyError r rd err)"
proof -
  have "only (patches (br_meta r) (rd_orig rd) False) (handleApplyError r rd err)"
    unfolding handleApplyError_def Let_def
    by (intro only_intro no_patch_patches only_no_patch patches_patchBinding) (simp_all add: assms(1))
  then show ?thesis by (rule patches_guarded) (simp add: assms(2))
qed

section \<open>The live round\<close>

lemma record_verdict:
  assumes "meta_laws (br_meta r)" "raised r ns n pre (rd_orig rd)"
  shows "emits (\<lambda>es x. guarded (verdict_guard r ns n) pre es) (do {
     rd \<leftarrow> freezeApplied r rd obs m wrote;
     patch_round r (upd_b (aggregateBindingReady (br_meta r)) rd) d
   })"
proof (rule no_patch_bind [OF only_no_patch(10) freezeApplied_verdict [OF assms(1)]], goal_cases)
  case (1 es rd')
  then show ?case
    using raised_mono [OF assms(2), of es]
    by (intro patches_guarded [OF patches_patch_round [where v = True and base = "rd_orig rd"]]) (simp_all add: assms(1))
qed

lemma applyTarget_verdict:
  assumes "meta_laws (br_meta r)" "permitted r ns n pre (rd_orig rd) tg m obs"
  shows "emits (\<lambda>es x. guarded (verdict_guard r ns n) pre es) (applyTarget r rd p cl tg obs m)"
  unfolding applyTarget_def Let_def
proof (rule no_patch_bind_perform, simp, rule no_patch_bind [where Q = "\<lambda>es x. True"], goal_cases)
  case (3 aerr es u)
  let ?ao = "\<lparr> ao_EnsureHTTPSProtocol = ensureHTTPSOf (rd_b rd), ao_PreviousFingerprint = bx_AppliedFingerprint (b_Status (rd_b rd)) \<rparr>"
  let ?pre = "(pre @ [TargetApply tg m ?ao aerr]) @ es"
  show ?case
  proof (rule emits_case_option, goal_cases)
    case 1
    have "raised r ns n ?pre (rd_orig rd)"
      unfolding raised_def append_assoc using permitted_mono [OF assms(2)] 1 by fastforce
    then show ?case by (rule record_verdict [OF assms(1)])
  next
    case (2 err)
    have "lowered r ?pre (rd_orig rd)"
      unfolding lowered_def write_failed_def using assms(2) 2 by (auto simp: permitted_def)
    then show ?case by (rule handleApplyError_verdict [OF assms(1)])
  qed
qed (simp_all add: only_emit)

lemma observedTarget_verdict:
  assumes "meta_laws (br_meta r)" "read_live ns n pre (rd_orig rd)" "elected pre (rd_orig rd)" "gated r pre (rd_orig rd) m"
    and "targetOf (br_registry r) (rd_orig rd) = Inr tg" "TargetObserve tg (Inr obs) \<in> set pre" "sure (br_meta r) rd"
  shows "emits (\<lambda>es x. guarded (verdict_guard r ns n) pre es) (observedTarget r rd p cl tg obs m)"
  unfolding observedTarget_def
proof (rule no_patch_bind [OF only_no_patch(8) noteObserved_verdict [where mt = "br_meta r"]], goal_cases)
  case (1 es rd')
  then have rd': "sure (br_meta r) rd'" "rd_orig rd' = rd_orig rd"
    using sure_keeps [OF assms(7)] by (auto simp: keeps_def)
  then have cl: "core (rd_b rd') = core (rd_orig rd)" "ledger (rd_b rd') = ledger (rd_orig rd)"
    by (simp_all add: sure_def steady_def)
  show ?case
  proof (cases "fst (fenceAccount (br_meta r) rd' obs)")
    case True
    then obtain rd'' where f: "fenceAccount (br_meta r) rd' obs = (True, rd'')" by (cases "fenceAccount (br_meta r) rd' obs") auto
    then have "keeps rd' rd''" "verdict (br_meta r) (rd_b rd'') = verdict (br_meta r) (rd_b rd')"
      using keeps_fence [of rd' "br_meta r" obs] verdict_fence [OF assms(1), of rd' obs] by simp_all
    then have "sure (br_meta r) rd''" using sure_keeps [OF rd'(1)] by blast
    then show ?thesis using f by (auto intro!: sure_patch_round simp: assms(1) sure_def)
  next
    case False
    then have f: "fenceAccount (br_meta r) rd' obs = (False, rd')"
      and acc: "bx_BoundAccountID (b_Status (rd_b rd')) = [] \<or> bx_BoundAccountID (b_Status (rd_b rd')) = o_AccountID obs"
      by (auto simp: fenceAccount_def Let_def split: if_splits)
    have perm: "permitted r ns n (pre @ es) (rd_orig rd') tg m obs"
      by (rule permitted_mono) (use assms acc ledgerD [OF cl(2)] rd'(2) in \<open>simp add: permitted_def\<close>)
    have utd: "up_to_date (br_registry r) (rd_b rd') obs m = up_to_date (br_registry r) (rd_orig rd') obs m"
      using coreD(10) [OF cl(1)] rd'(2) by simp
    show ?thesis
      unfolding f prod.case bool.case
    proof (rule emits_if, goal_cases)
      case 1
      then have "raised r ns n (pre @ es) (rd_orig rd')" unfolding raised_def using perm utd by blast
      then show ?case by (rule record_verdict [OF assms(1)])
    next
      case 2
      show ?case
      proof (rule no_patch_bind [OF only_no_patch(9) noteDrift_verdict [where mt = "br_meta r"]], goal_cases)
        case (1 es2 rd2)
        then have "rd_orig rd2 = rd_orig rd'" by (simp add: keeps_def)
        then show ?case using applyTarget_verdict [OF assms(1)] permitted_mono [OF perm, of es2] by simp
      qed
    qed
  qed
qed

lemma reachTarget_verdict:
  assumes "meta_laws (br_meta r)" "finds_first (br_meta r)" "read_live ns n pre (rd_orig rd)" "elected pre (rd_orig rd)"
    and "gated r pre (rd_orig rd) m" "sure (br_meta r) rd"
  shows "emits (\<lambda>es x. guarded (verdict_guard r ns n) pre es) (reachTarget r rd ac m)"
proof -
  have tg: "targetOf (br_registry r) (rd_b rd) = targetOf (br_registry r) (rd_orig rd)"
    using coreD(6) assms(6) by (auto simp: sure_def steady_def)
  have pc: "emits (\<lambda>es x. True) (providerClient r (rd_b rd) (Some ac))"
    by (rule emits_mono [OF onlyD [OF only_no_patch(4)]]) simp
  show ?thesis
    unfolding reachTarget_def
    by (rule no_patch_bind [OF only_no_patch(4) pc],
        intro emits_case_sum emits_case_prod handleFactoryError_verdict no_patch_bind_perform handleObserveError_verdict)
      (use assms tg in \<open>auto intro!: observedTarget_verdict guard_mono\<close>)
qed

lemma gateMaterial_verdict:
  assumes "meta_laws (br_meta r)" "finds_first (br_meta r)" "read_live ns n pre (rd_orig rd)" "elected pre (rd_orig rd)"
    and "sure (br_meta r) rd" "issued_as r pre (rd_orig rd) ac" "served r pre ac m" "checkDomainCoverage m (rd_orig rd) = None"
  shows "emits (\<lambda>es x. guarded (verdict_guard r ns n) pre es) (gateMaterial r rd ac m)"
proof -
  have cap: "capabilitiesOf (br_registry r) (rd_b rd) = capabilitiesOf (br_registry r) (rd_orig rd)"
    using coreD(8) assms(5) by (auto simp: sure_def steady_def)
  have closed: "lowered r pre (rd_orig rd)"
    if "\<not> (certificateGate m ac \<and> casUploadGate (capabilitiesOf (br_registry r) (rd_orig rd)) ac m = None)"
    unfolding lowered_def gate_closed_def using assms(6,7) that by blast
  show ?thesis
    unfolding gateMaterial_def
  proof (rule emits_if, goal_cases)
    case 1
    then show ?case by (intro lowered_patch_round) (simp_all add: assms(1) closed)
  next
    case passed: 2
    show ?case
    proof (rule emits_case_option, goal_cases)
      case 1
      then have "gated r pre (rd_orig rd) m" unfolding gated_def using passed assms(6-8) cap by auto
      with assms show ?case by (intro reachTarget_verdict)
    next
      case (2 y)
      then show ?case by (intro emits_case_prod lowered_patch_round) (simp_all add: assms(1) closed cap [symmetric])
    qed
  qed
qed

lemma reconcileBindingReady_verdict:
  assumes "meta_laws (br_meta r)" "finds_first (br_meta r)" "read_live ns n pre (rd_orig rd)" "sure (br_meta r) rd"
    and "issued_as r pre (rd_orig rd) ac"
  shows "emits (\<lambda>es x. guarded (verdict_guard r ns n) pre es) (reconcileBindingReady r rd ac)"
  unfolding reconcileBindingReady_def Let_def
proof (rule no_patch_bind [OF only_no_patch(5) arbitrate_spec], rule emits_case_sum, goal_cases)
  case (2 es win w)
  have cor: "core (rd_b rd) = core (rd_orig rd)" "ledger (rd_b rd) = ledger (rd_orig rd)"
    and v: "verdict (br_meta r) (rd_b rd) = verdict (br_meta r) (rd_orig rd)"
    using assms(4) by (simp_all add: sure_def steady_def)
  note same = coreD [OF cor(1)]
  show ?case
  proof (rule emits_if, goal_cases)
    case 1
    show ?case by (rule sure_patch_round) (simp add: assms(1) v)
  next
    case won: 2
    then have "elected es (rd_orig rd)"
      unfolding elected_def using 2 same(3,5) by (auto split: option.splits)
    then have el: "elected (pre @ es @ es') (rd_orig rd)" for es' by (auto simp: elected_def)
    show ?case
    proof (rule no_patch_bind [OF only_no_patch(6) coveredMaterial_spec], rule emits_case_sum, goal_cases)
      case (1 es2 x me)
      show ?case by (rule sure_patch_round) (simp add: assms(1) v)
    next
      case (2 es2 x m)
      let ?rd = "upd_b (setBindingCondition (br_meta r) ConditionConflict ConditionFalse ReasonNoConflict NoMsg) rd"
      have "checkDomainCoverage m (rd_orig rd) = None" using 2 coreD(7) [of "rd_b ?rd" "rd_orig rd" m] cor(1) by simp
      moreover have "sure (br_meta r) ?rd" by (simp add: sure_def assms(1) cor v)
      moreover have "served r (pre @ es @ es2) ac m" using 2 by (auto simp: served_def)
      ultimately show ?case
        using assms(3,5) el
        by (intro gateMaterial_verdict [OF assms(1,2)]) (auto intro: guard_mono)
    qed
  qed
qed simp

lemma reconcileBound_verdict:
  assumes "meta_laws (br_meta r)" "finds_first (br_meta r)" "read_live ns n pre (rd_orig rd)" "rd_b rd = rd_orig rd"
  shows "emits (\<lambda>es x. guarded (verdict_guard r ns n) pre es) (reconcileBound r rd)"
proof -
  let ?b = "upd_bstatus (\<lambda>x. x\<lparr>bx_ObservedGeneration := b_Generation (rd_b rd)\<rparr>) (rd_b rd)"
  have b: "core ?b = core (rd_orig rd)" "ledger ?b = ledger (rd_orig rd)"
    "verdict (br_meta r) ?b = verdict (br_meta r) (rd_orig rd)"
    by (simp_all add: core_def ledger_def verdict_def bindingCondTrue_def assms(4))
  have lag: "emits (\<lambda>es x. True) (appliedLag r b' ac)" for b' ac
    by (rule emits_mono [OF onlyD [OF only_no_patch(7)]]) simp
  have patch: "emits (\<lambda>es x. guarded (verdict_guard r ns n) pre' es)
      (patch_round r (upd_b (setBindingReadyFalse (br_meta r) rs msg) (rd\<lparr>rd_b := ?b, rd_lag := l\<rparr>)) d)" for pre' rs msg l d
    by (rule sure_patch_round) (simp add: assms(1) b)
  show ?thesis
    unfolding reconcileBound_def Let_def
  proof (rule no_patch_bind_perform, simp, rule emits_case_sum, simp, rule no_patch_bind [OF only_no_patch(7) lag], goal_cases)
    case (1 x y es l)
    show ?case
    proof (rule emits_case_option, goal_cases)
      case 1
      show ?case using patch by simp
    next
      case (2 ac)
      show ?case
      proof (rule emits_if, goal_cases)
        case 1
        show ?case using patch by simp
      next
        case c: 2
        have "x = Inr ac" using \<open>_ = Inr y\<close> 2 by (cases x) (auto split: if_splits)
        then have "issued_as r ((pre @ [GetAC False (b_Namespace (rd_b rd)) (bs_CertificateRef (b_Spec (rd_b rd))) x]) @ es) (rd_orig rd) ac"
          using c assms(4) by (simp add: issued_as_def)
        moreover have "sure (br_meta r) (rd\<lparr>rd_b := ?b, rd_lag := l\<rparr>)" using b by (simp add: sure_def steady_def)
        ultimately show ?case
          using assms(3) by (intro reconcileBindingReady_verdict [OF assms(1,2)]) (auto intro: read_live_mono)
      qed
    qed
  qed
qed

section \<open>The deletion\<close>

text \<open>Effects whose patches, if any, keep the verdict of their base.\<close>

definition verdict_kept :: "meta_api \<Rightarrow> effect \<Rightarrow> bool" where
  "verdict_kept mt e \<longleftrightarrow> (case e of PatchBindingStatus t b a \<Rightarrow> verdict mt t = verdict mt b | _ \<Rightarrow> True)"

lemma kept_guarded:
  "only (verdict_kept (br_meta r)) m \<Longrightarrow> emits (\<lambda>es x. guarded (verdict_guard r ns n) pre es) m"
  by (rule emits_mono [OF onlyD], assumption, rule guarded_all)
    (auto simp: verdict_kept_def verdict_guard_def split: effect.splits)

lemma kept_no_patch: "only no_patch m \<Longrightarrow> only (verdict_kept mt) m"
  by (erule only_mono) (auto simp: no_patch_def verdict_kept_def split: effect.splits)

lemma kept_patchBindingStatus:
  "verdict mt (rd_b rd) = verdict mt (rd_orig rd) \<Longrightarrow> only (verdict_kept mt) (patchBindingStatus r rd)"
  unfolding patchBindingStatus_def by (intro only_intro) (simp add: verdict_kept_def)

lemma kept_unbindAndFinish:
  assumes "meta_laws (br_meta r)" "verdict (br_meta r) (rd_b rd) = verdict (br_meta r) (rd_orig rd)"
  shows "only (verdict_kept (br_meta r)) (unbindAndFinish r rd)"
  unfolding unbindAndFinish_def unbindFailed_def binding_now_def Let_def
  by (intro only_intro kept_patchBindingStatus kept_no_patch [OF only_no_patch(1)] kept_no_patch [OF only_no_patch(12)]
      kept_no_patch [OF only_no_patch(13)])
    (simp_all add: assms, simp_all add: verdict_kept_def)

lemma startBindingCleanup_verdict:
  assumes "rd_b rd = rd_orig rd"
  shows "emits (\<lambda>es res. (\<forall>e \<in> set es. verdict_kept mt e) \<and> (\<forall>rd'. res = Inr rd' \<longrightarrow> rd_b rd' = rd_orig rd')) (startBindingCleanup r rd)"
  unfolding startBindingCleanup_def binding_now_def patchBindingStatus_def
  by (intro emits_intro) (auto simp: assms verdict_kept_def verdict_def bindingCondTrue_def)

lemma reconcileBindingDelete_verdict:
  assumes "meta_laws (br_meta r)" "rd_b rd = rd_orig rd"
  shows "emits (\<lambda>es x. guarded (verdict_guard r ns n) pre es) (reconcileBindingDelete r rd)"
proof -
  have q: "emits (\<lambda>es x. \<forall>e \<in> set es. verdict_kept (br_meta r) e) (unbindAndFinish r rd')" if "rd_b rd' = rd_orig rd'" for rd'
    by (rule onlyD [OF kept_unbindAndFinish [OF assms(1)]]) (simp add: that)
  have "emits (\<lambda>es x. \<forall>e \<in> set es. verdict_kept (br_meta r) e) (do {
      st \<leftarrow> startBindingCleanup r rd;
      (case st of Inl err \<Rightarrow> ret (0, Some err) | Inr rd \<Rightarrow> unbindAndFinish r rd) })"
    by (rule emits_bind_mono [OF startBindingCleanup_verdict [OF assms(2)]], rule emits_case_sum)
      (auto intro!: emits_mono [OF q])
  then have "only (verdict_kept (br_meta r)) (reconcileBindingDelete r rd)"
    unfolding reconcileBindingDelete_def
    by (intro only_if only_return kept_no_patch [OF only_no_patch(13)]) (simp add: only_def)
  then show ?thesis by (rule kept_guarded)
qed

section \<open>Properties\<close>

text \<open>
  C9. The verdict Applied moves only on evidence, over a whole reconcile and whatever the world
  answers. A status patch raises it only if the reconcile observed the target serving the
  permitted certificate of the Binding, or wrote it there without an error; it lowers it only
  if the gates are closed (the AliyunCertificate has not accepted the certificate in service,
  or a target by reference has no identifier of it yet), the observation reported that the
  target does not exist, or the write failed. So every other failure leaves the verdict that
  was read: a missing or rejected certificate, missing or invalid credentials, a provider
  that cannot be made, a throttled or broken observation, a conflict over the target, a
  foreign account, and the whole deletion.
\<close>

theorem verdict_only_on_evidence:
  assumes "meta_laws (br_meta r)" "finds_first (br_meta r)"
  shows "emits (\<lambda>es res. guarded (verdict_guard r ns n) [] es) (Reconcile_binding r ns n)"
  unfolding Reconcile_binding_def Let_def
proof (rule no_patch_bind_perform, simp, rule emits_case_sum, simp, rule emits_if, goal_cases)
  case (1 x b)
  then show ?case by (intro reconcileBindingDelete_verdict assms) (simp add: newBindingRound_def)
next
  case (2 x b)
  have live: "emits (\<lambda>es y. guarded (verdict_guard r ns n) pre es) (reconcileBound r (newBindingRound b'))"
    if "read_live ns n pre b'" for pre b'
    using that by (intro reconcileBound_verdict assms) (simp_all add: newBindingRound_def)
  have ensured: "emits (\<lambda>es f. \<forall>rd. f = Inr rd \<longrightarrow> (\<exists>b'. rd = newBindingRound b' \<and> (b' = b \<or> (\<exists>t. UpdateBinding t (Inr b') \<in> set es))))
      (ensureFinalizer r (newBindingRound b))"
    unfolding ensureFinalizer_def Let_def
    by (intro emits_intro) (auto simp: newBindingRound_def map_sum_def split: sum.splits)
  have no_writes: "only no_patch (ensureFinalizer r (newBindingRound b))"
    unfolding ensureFinalizer_def Let_def by (intro only_intro) simp
  show ?case
  proof (rule no_patch_bind [OF no_writes ensured], rule emits_case_sum, simp, goal_cases)
    case (1 es f rd)
    then obtain b' where "rd = newBindingRound b'" "b' = b \<or> (\<exists>t. UpdateBinding t (Inr b') \<in> set es)" by blast
    moreover from this have "read_live ns n (([] @ [GetBinding ns n x]) @ es) b'" using 2 by (auto simp: read_live_def)
    ultimately show ?case using live by simp
  qed
qed

section \<open>Witnesses\<close>

text \<open>The reconcile of a new Binding ends with the patch that raises its verdict.\<close>

theorem verdict_only_on_evidence_witness:
  "\<exists>t base a. last (effects_of (Reconcile_binding sample_binding_reconciler ''ns'' ''one'') sample_bound_cluster) =
       PatchBindingStatus t base a \<and>
     \<not> verdict sample_meta base \<and> verdict sample_meta t \<and>
     raised sample_binding_reconciler ''ns'' ''one''
       (butlast (effects_of (Reconcile_binding sample_binding_reconciler ''ns'' ''one'') sample_bound_cluster)) base"
proof -
  define es where "es = effects_of (Reconcile_binding sample_binding_reconciler ''ns'' ''one'') sample_bound_cluster"
  have m: "br_meta sample_binding_reconciler = sample_meta" by (simp add: sample_binding_reconciler_def)
  have p: "case last es of PatchBindingStatus t base a \<Rightarrow> \<not> verdict sample_meta base \<and> verdict sample_meta t | _ \<Rightarrow> False"
    unfolding es_def by code_simp
  have "es \<noteq> []" unfolding es_def by code_simp
  moreover have "guarded (verdict_guard sample_binding_reconciler ''ns'' ''one'') [] es"
    unfolding es_def
    by (rule emits_run [OF verdict_only_on_evidence]) (simp_all add: m sample_meta_laws sample_finds_first)
  ultimately have "verdict_guard sample_binding_reconciler ''ns'' ''one'' (butlast es) (last es)"
    using guarded_split [of _ "butlast es" "last es" "[]"] by simp
  with p show ?thesis
    unfolding es_def [symmetric] by (cases "last es") (auto simp: verdict_guard_def m)
qed

end
