(* ===== verification/Spec2Isabelle.thy ===== *)
theory Spec2Isabelle
  imports Cert_Controller Probe Cas_Service Sans Watches Main_Flags Metrics Deep_Copy Startup Crash_Safety
    Binding_Verdict
begin

text \<open>
  A verification of le-to-alicloud, a Kubernetes operator that has cert-manager issue
  certificates, uploads them to Alibaba Cloud's certificate service CAS, and installs them on
  Function Compute (FC3) and OSS custom domains.

  \<^bold>\<open>The program.\<close> Two controllers share the API server. The certificate controller
  (\<open>internal/controller/aliyuncertificate_controller.go\<close>) keeps one cert-manager Certificate per
  AliyunCertificate, checks the Secret it produces, uploads each new generation to CAS and
  deletes old ones. The Binding controller (\<open>aliyuncertificatebinding_controller.go\<close>) brings the
  certificate in service to one target per AliyunCertificateBinding through a provider
  (\<open>pkg/provider/fc3\<close>, \<open>pkg/provider/oss\<close>). They interact only through the objects: the
  Binding controller reads \<open>status.current\<close> and the Secret of the certificate; the certificate
  controller reads \<open>status.appliedFingerprint\<close> and \<open>observedGeneration\<close> of Bindings before it
  deletes anything, and each is woken by changes of the other's objects.

  \<^bold>\<open>How it is modelled.\<close> A reconcile is a computation over an arbitrary world \<open>'w\<close>: the API
  server, the clock and the clouds are operations on it (\<open>kube\<close>, \<open>CASClient\<close>, \<open>Provider\<close>), and
  every call that leaves the process appends itself and its answer to a trace. Properties of
  controllers hold for every behaviour of the world: \<open>emits C m\<close> says that the effects and the
  result of \<open>m\<close> satisfy \<open>C\<close>, \<open>guarded G\<close> that every effect is allowed by \<open>G\<close> given the effects
  before it. Go errors are the datatype \<open>gerror\<close> with its chain of causes, a pair of a value
  and an error is a sum, a nil pointer is \<open>None\<close>, a nil dereference or a duplicate
  registration that panics is an explicit result. Objects are records that are passed and
  returned where the code mutates them. Times and durations are nanoseconds as \<open>int\<close>; they
  come from the clock and from flags far below 2^63. Strings are byte lists. User-facing texts
  are English glosses of the Chinese originals where no property reads them; log lines are
  left out.

  \<^bold>\<open>The theories, in the order they build on each other.\<close>
  \<^item> \<open>Prelude\<close>: Go's string, number and hex functions on byte lists, times; lemmas on them.
  \<^item> \<open>Errors\<close>: \<open>pkg/aliyun/errors.go\<close>, \<open>pkg/provider/errors.go\<close> and
    \<open>pkg/provider/internal/aliyunerr\<close>: classes, classification of SDK errors without their
    text, the translation to provider errors.
  \<^item> \<open>Api_Types\<close>: \<open>api/v1alpha1\<close>: both custom resources with their defaults and the index key of
    a target.
  \<^item> \<open>Naming\<close>, \<open>Pki\<close>, \<open>Sans\<close>: \<open>pkg/naming\<close> (CAS names, tokens), \<open>pkg/pki/bundle.go\<close> (bundles;
    PEM, DER, signatures and SHA-256 are \<open>crypto_env\<close> with the laws \<open>crypto_laws\<close>), \<open>pkg/pki/sans.go\<close>
    (host name matching against RFC 6125).
  \<^item> \<open>Provider_Types\<close>, \<open>Runtime\<close>: the interfaces of \<open>pkg/aliyun\<close> and \<open>pkg/provider\<close> as records of
    operations, effects and the calculus.
  \<^item> \<open>Aliyun_Client\<close>: credentials, the client cache (locale \<open>keyed_cache\<close>), limiters.
  \<^item> \<open>Cas_Sdk\<close>, \<open>Fc3_Sdk\<close>, \<open>Oss_Sdk\<close>: the three SDK clients of \<open>pkg/aliyun\<close>: quota before each call,
    classification, paging with its limit of 200 pages, the redacted view of a domain.
  \<^item> \<open>Fakes\<close>, \<open>Cas_Service\<close>: \<open>pkg/aliyun/fake\<close>, the in-memory clouds, and what a retry with the
    same token means for the CAS one.
  \<^item> \<open>Target_Contract\<close>, \<open>Fc3_Provider\<close>, \<open>Oss_Provider\<close>: the contract of a provider as the locale
    \<open>cert_target\<close> and both providers, each an interpretation of it over its cloud.
  \<^item> \<open>Cert_Model\<close>, \<open>Upload\<close>, \<open>Retention\<close>, \<open>Probe\<close>, \<open>Deletion\<close>, \<open>Cert_Controller\<close>: the certificate
    controller, file by file of \<open>internal/controller\<close>; \<open>Sample_World\<close> is a small cluster on
    which every parameter is instantiated.
  \<^item> \<open>Crash_Plant\<close>, \<open>Crash_Safety\<close>: the upload step of the certificate controller composed with an
    API server that merges patches and the in-memory CAS, under faults of every call: the
    relation \<open>plant_step\<close>, its invariant, and a triple calculus that establishes it.
  \<^item> \<open>Binding_Model\<close>, \<open>Binding_Conflict\<close>, \<open>Binding_Steps\<close>, \<open>Binding_Controller\<close>, \<open>Binding_Deletion\<close>:
    the Binding controller (\<open>binding_*.go\<close>), with the locale \<open>arbitration\<close> for the election;
    \<open>Binding_Guard\<close>, \<open>Binding_Outcome\<close> and \<open>Binding_Verdict\<close> hold what is proved of it.
  \<^item> \<open>Watches\<close>: \<open>SetupWithManager\<close> of both controllers and \<open>indexes.go\<close>: who wakes whom.
  \<^item> \<open>Factories\<close>, \<open>Main_Flags\<close>, \<open>Startup\<close>: \<open>cas_factory.go\<close>, \<open>provider_factory.go\<close>, the flags and wiring of
    \<open>cmd/main.go\<close>, and \<open>main\<close> itself from the flags to the start of the manager, with the two
    TLS option slices that grow from one.
  \<^item> \<open>Metrics\<close>: the vectors of \<open>metrics.go\<close>, their labels and registration, against every use of
    them in the controllers.
  \<^item> \<open>Go_Heap\<close>, \<open>Deep_Copy\<close>: Go's pointers and slices over a heap of cells, and on it the
    functions of \<open>zz_generated.deepcopy.go\<close>; the locale \<open>deep_copier\<close> is the contract of a copy,
    interpreted on the status of a certificate and on both parts of a Binding. Everywhere else
    an object is a value: this theory is what justifies it.

  \<^bold>\<open>What the groups of lemmas show.\<close>
  \<^item> Order and evidence: no upload before its write-ahead record is persisted; every write and
    cloud call of a certificate reconcile is allowed where it stands; deletion of a
    certificate only without users and in order; a target is written, unbound or recorded
    as applied only with the evidence on the trace that it may; a finalizer goes only when
    what it protects is settled or given up.
  \<^item> Retries: the token and the name survive a crash, a retry with them makes no second
    certificate, a claim by name finds the certificate of a lost answer. In every
    state that faulty rounds can reach the status names only certificates that exist, there
    is at most one per fingerprint, and one good round ends the upload.
  \<^item> Progress: a live Binding always comes back, a deletion ends with the grace period, retention
    reaches its bound, listings end, changes wake exactly whom they concern, and what was
    applied is recognised when it is observed, so rounds converge.
  \<^item> Verdicts: over a whole reconcile of a Binding, Applied is raised only by a target observed or
    written with the right certificate and lowered only by a closed gate, a missing target or
    a failed write; probes, reclaims, missing credentials and failed observations lower nothing.
  \<^item> Readiness, arbitration, issuer resolution, names, references, matching, paging, caches:
    functional descriptions of each, on every branch.
  \<^item> Secrets: no private key in printed forms, in the view of a domain, in an error text.
  \<^item> Process: a start ends at its first failure, serves only when everything is in place, and
    presents each server's own certificate unless the two option slices came to share room; no metric is used with the wrong number of labels; a deep copy has the value
    of its original and shares no memory with it.

  \<^bold>\<open>Bounds.\<close> Loops are structural recursions except four. The paging of CAS has as its measure
  the number of pages left up to the limit of 200 the code has. The loop over PEM blocks
  (\<open>parse_certs_loop\<close>) has the length of the input as its measure: it goes on only while
  decoding consumes input, which is what the law \<open>pem_consumes\<close> says of it, so under that law
  it is the loop of the source. Decoding runes consumes at least one byte each; the digits
  of a number recurse on its quotient by ten.

  \<^bold>\<open>Assumptions.\<close> \<open>meta_laws\<close> and \<open>finds_first\<close> (condition and finalizer helpers of apimachinery and
  controller-runtime), \<open>crypto_laws\<close>, \<open>predicate_laws\<close> and the answers of a field index
  (\<open>target_cache\<close>) state documented behaviour of libraries; \<open>lib_ok\<close> says that the deep copies of
  apimachinery and cert-manager types are deep copies; \<open>apart\<close>, that the first digits of the
  fingerprints of one object differ. Each has an instance in the examples. The in-memory
  clouds are the ones the program's own tests use.

  \<^bold>\<open>Not modelled.\<close> The registration of schemes; logging; what the manager does once it runs beyond
  the watches; contexts and timeouts (a call that times out is a call with an error); the
  informer caches beyond the fact that a cached and an uncached read may answer differently;
  owner references between objects; the setters of clock and interval that only tests use;
  the X.509 generator of \<open>pkg/pki/testutil\<close>; the per-domain counters of the fakes, which only
  tests read.
\<close>

end
